(* ===== verification/Prelude.thy ===== *)
theory Prelude
  imports Main
begin

text \<open>
  What every component of the agent shares: Go's error values and their wrapping, the outcome of a
  call (a value, a panic, or no return at all), and the world the agent acts on.

  \<^item> An error that comes out of a library or of the API server is a value of an arbitrary type
    \<open>'e\<close>; \<open>External\<close> embeds it. \<open>ErrorNew\<close> is \<^verbatim>\<open>errors.New\<close>,
    and \<open>Errorf p e\<close> is \<^verbatim>\<open>fmt.Errorf("p: %w", e)\<close>, the only form of
    wrapping the agent uses.
  \<^item> A call of code that is not part of the repository is an argument of the definitions that make it,
    a function from the external state \<open>'x\<close> to its result and the next external state. The world
    pairs that state with the list of the calls the agent has made so far, so that statements about
    the order of effects are statements about a list.
\<close>

named_theorems go_simps \<open>unfolding rules for the error, outcome and world primitives\<close>

subsection \<open>Errors\<close>

datatype 'e err =
    External 'e
  | ErrorNew string
  | Errorf string "'e err"

text \<open>\<^verbatim>\<open>errors.Is\<close>: walk the chain of wrapped errors; the test \<open>p\<close> says
  whether an external error (with whatever it wraps itself) is the target.\<close>

primrec errors_Is :: "('e \<Rightarrow> bool) \<Rightarrow> 'e err \<Rightarrow> bool" where
  "errors_Is p (External e) = p e"
| "errors_Is p (ErrorNew s) = False"
| "errors_Is p (Errorf s e) = errors_Is p e"

primrec root_cause :: "'e err \<Rightarrow> 'e err" where
  "root_cause (External e) = External e"
| "root_cause (ErrorNew s) = ErrorNew s"
| "root_cause (Errorf s e) = root_cause e"

lemma errors_Is_root_cause: "errors_Is p (root_cause e) = errors_Is p e"
  by (induction e) auto

text \<open>A message in front of an error, as all of the agent's callers add one.\<close>

type_synonym ('e, 'a) result = "'e err + 'a"

subsection \<open>Outcomes of a call\<close>

datatype 'a outcome = Ret 'a | Panic string | Diverges

primrec returns :: "'a outcome \<Rightarrow> bool" where
  "returns (Ret a) = True"
| "returns (Panic m) = False"
| "returns Diverges = False"

primrec outcome_of_option :: "'a option \<Rightarrow> 'a outcome" where
  "outcome_of_option None = Diverges"
| "outcome_of_option (Some a) = Ret a"

lemma returns_iff: "returns r \<longleftrightarrow> (\<exists>a. r = Ret a)"
  by (cases r) auto

lemma outcome_of_option_Ret [simp]: "outcome_of_option x = Ret a \<longleftrightarrow> x = Some a"
  by (cases x) auto

lemma outcome_of_option_not_Panic [simp]: "outcome_of_option x \<noteq> Panic m"
  by (cases x) auto

subsection \<open>The world: external state and the calls made so far\<close>

record ('x, 'ev) world =
  ext :: 'x
  calls :: "'ev list"

text \<open>One external call: run it on the external state and record it with its result.\<close>

definition ext_call ::
  "('x \<Rightarrow> 'r \<times> 'x) \<Rightarrow> ('r \<Rightarrow> 'ev) \<Rightarrow> ('x, 'ev) world \<Rightarrow> 'r \<times> ('x, 'ev) world" where
  "ext_call f ev w =
     (case f (ext w) of (r, x') \<Rightarrow> (r, \<lparr>ext = x', calls = calls w @ [ev r]\<rparr>))"

lemma ext_call_calls:
  "ext_call f ev w = (r, w') \<Longrightarrow> calls w' = calls w @ [ev r]"
  by (auto simp: ext_call_def split: prod.splits)

lemma ext_call_ext:
  "ext_call f ev w = (r, w') \<Longrightarrow> f (ext w) = (r, ext w')"
  by (auto simp: ext_call_def split: prod.splits)

lemmas ext_callD = ext_call_calls ext_call_ext

text \<open>The calls an operation adds between two worlds.\<close>

definition new_calls :: "('x, 'ev) world \<Rightarrow> ('x, 'ev) world \<Rightarrow> 'ev list" where
  "new_calls w w' = drop (length (calls w)) (calls w')"

definition extends :: "('x, 'ev) world \<Rightarrow> ('x, 'ev) world \<Rightarrow> bool" where
  "extends w w' \<longleftrightarrow> take (length (calls w)) (calls w') = calls w"

lemma extends_new_calls: "extends w w' \<Longrightarrow> calls w' = calls w @ new_calls w w'"
  unfolding extends_def new_calls_def by (metis append_take_drop_id)

lemma extendsI: "calls w' = calls w @ tr \<Longrightarrow> extends w w'"
  by (simp add: extends_def)

lemma new_callsI: "calls w' = calls w @ tr \<Longrightarrow> new_calls w w' = tr"
  by (simp add: new_calls_def)

lemma extends_iff: "extends w w' \<longleftrightarrow> (\<exists>tr. calls w' = calls w @ tr)"
  using extends_new_calls extendsI by blast

lemma extends_refl [simp, intro]: "extends w w"
  by (simp add: extends_def)

lemma new_calls_refl [simp]: "new_calls w w = []"
  by (simp add: new_calls_def)

lemma extends_trans: "extends w w' \<Longrightarrow> extends w' w'' \<Longrightarrow> extends w w''"
  by (auto simp: extends_iff)

lemma new_calls_trans:
  "extends w w' \<Longrightarrow> extends w' w'' \<Longrightarrow> new_calls w w'' = new_calls w w' @ new_calls w' w''"
  by (auto simp: extends_iff new_calls_def)

lemma ext_call_extends:
  "ext_call f ev w = (r, w') \<Longrightarrow> extends w w' \<and> new_calls w w' = [ev r]"
  using ext_call_calls [of f ev w r w'] by (auto intro: extendsI new_callsI)

declare ext_call_def [go_simps]

end
