(* ===== verification/Go_Strings.thy ===== *)
theory Go_Strings
  imports Prelude
begin

text \<open>
  The parts of Go's \<^verbatim>\<open>strings\<close>, \<^verbatim>\<open>slices\<close> and
  \<^verbatim>\<open>fmt\<close> packages the agent uses. A Go string is a list of bytes, as
  \<open>string\<close> is here; case conversion is given on ASCII letters, the only letters that occur
  in Kubernetes kinds, groups and log format names.
\<close>

subsection \<open>Case\<close>

definition lower_char :: "char \<Rightarrow> char" where
  "lower_char c = (if 65 \<le> (of_char c :: nat) \<and> (of_char c :: nat) \<le> 90
                   then char_of ((of_char c :: nat) + 32) else c)"

definition ToLower :: "string \<Rightarrow> string" where
  "ToLower s = map lower_char s"

lemma lower_char_idem: "lower_char (lower_char c) = lower_char c"
proof (cases "65 \<le> (of_char c :: nat) \<and> (of_char c :: nat) \<le> 90")
  case True
  then have "(of_char (char_of ((of_char c :: nat) + 32) :: char) :: nat) = of_char c + 32"
    by simp
  with True show ?thesis by (auto simp: lower_char_def)
next
  case False
  then show ?thesis by (auto simp: lower_char_def)
qed

lemma ToLower_idem: "ToLower (ToLower s) = ToLower s"
  by (simp add: ToLower_def lower_char_idem)

lemma length_ToLower [simp]: "length (ToLower s) = length s"
  by (simp add: ToLower_def)

subsection \<open>Trimming\<close>

text \<open>\<^verbatim>\<open>strings.TrimLeft(s, "c")\<close>, \<^verbatim>\<open>strings.TrimRight(s, "c")\<close>
  for a one-character cutset, and \<^verbatim>\<open>strings.TrimPrefix(s, p)\<close>.\<close>

definition TrimLeft :: "char \<Rightarrow> string \<Rightarrow> string" where
  "TrimLeft c s = dropWhile (\<lambda>d. d = c) s"

definition TrimRight :: "char \<Rightarrow> string \<Rightarrow> string" where
  "TrimRight c s = rev (dropWhile (\<lambda>d. d = c) (rev s))"

definition TrimPrefix :: "string \<Rightarrow> string \<Rightarrow> string" where
  "TrimPrefix s p = (if take (length p) s = p then drop (length p) s else s)"

lemma TrimRight_not_last: "TrimRight c s \<noteq> [] \<Longrightarrow> last (TrimRight c s) \<noteq> c"
  unfolding TrimRight_def
  by (metis (mono_tags, lifting) hd_dropWhile last_rev rev_is_Nil_conv)

lemma TrimRight_snoc [simp]: "TrimRight c (s @ [c]) = TrimRight c s"
  by (simp add: TrimRight_def)

lemma TrimRight_id: "s = [] \<or> last s \<noteq> c \<Longrightarrow> TrimRight c s = s"
proof (induction s rule: rev_induct)
  case Nil
  then show ?case by (simp add: TrimRight_def)
next
  case (snoc d s)
  then show ?case by (simp add: TrimRight_def)
qed

lemma TrimRight_idem: "TrimRight c (TrimRight c s) = TrimRight c s"
  using TrimRight_id [of "TrimRight c s" c] TrimRight_not_last [of c s] by blast

lemma TrimLeft_no_head: "TrimLeft c s \<noteq> [] \<Longrightarrow> hd (TrimLeft c s) \<noteq> c"
  unfolding TrimLeft_def by (metis (mono_tags, lifting) hd_dropWhile)

lemma TrimPrefix_append [simp]: "TrimPrefix (p @ s) p = s"
  by (simp add: TrimPrefix_def)

subsection \<open>Decimal numbers\<close>

text \<open>\<^verbatim>\<open>%d\<close> of a non-negative integer.\<close>

fun itoa :: "nat \<Rightarrow> string" where
  "itoa n = (if n < 10 then [char_of (48 + n)] else itoa (n div 10) @ [char_of (48 + n mod 10)])"

declare itoa.simps [simp del]

lemma itoa_not_Nil: "itoa n \<noteq> []"
  by (subst itoa.simps) simp

primrec atoi_rev :: "string \<Rightarrow> nat" where
  "atoi_rev [] = 0"
| "atoi_rev (c # cs) = (of_char c - 48) + 10 * atoi_rev cs"

lemma of_char_digit: "d < 10 \<Longrightarrow> (of_char (char_of (48 + d) :: char) :: nat) = 48 + d"
  by simp

lemma atoi_itoa: "atoi_rev (rev (itoa n)) = n"
proof (induction n rule: itoa.induct)
  case (1 n)
  show ?case
  proof (cases "n < 10")
    case True
    then show ?thesis by (simp add: itoa.simps [of n])
  next
    case False
    then have "atoi_rev (rev (itoa n)) = n mod 10 + 10 * (n div 10)"
      using 1 by (simp add: itoa.simps [of n])
    then show ?thesis by simp
  qed
qed

lemma itoa_inject [simp]: "itoa m = itoa n \<longleftrightarrow> m = n"
  using atoi_itoa by metis

subsection \<open>Slices\<close>

text \<open>\<^verbatim>\<open>slices.Index\<close>: the first position of a value, or \<open>-1\<close>.\<close>

fun slices_Index :: "'a list \<Rightarrow> 'a \<Rightarrow> int" where
  "slices_Index [] x = -1"
| "slices_Index (y # ys) x =
     (if x = y then 0 else (let i = slices_Index ys x in if i = -1 then -1 else i + 1))"

lemma slices_Index_ge: "-1 \<le> slices_Index xs x"
  by (induction xs) (auto simp: Let_def)

lemma slices_Index_absent: "slices_Index xs x = -1 \<longleftrightarrow> x \<notin> set xs"
proof (induction xs)
  case (Cons y ys)
  then show ?case using slices_Index_ge [of ys x] by (auto simp: Let_def)
qed simp

lemma slices_Index_less: "slices_Index xs x < int (length xs)"
  by (induction xs) (auto simp: Let_def)

lemma slices_Index_nth: "x \<in> set xs \<Longrightarrow> xs ! nat (slices_Index xs x) = x"
proof (induction xs)
  case (Cons y ys)
  show ?case
  proof (cases "x = y")
    case False
    with Cons.prems have x: "x \<in> set ys" by simp
    then have "slices_Index ys x \<noteq> -1" by (simp add: slices_Index_absent)
    with slices_Index_ge [of ys x] have "0 \<le> slices_Index ys x" by linarith
    with False Cons.IH [OF x] show ?thesis
      by (simp add: Let_def nat_add_distrib)
  qed simp
qed simp

text \<open>\<^verbatim>\<open>cmp.Compare\<close> on integers.\<close>

definition cmp_Compare :: "int \<Rightarrow> int \<Rightarrow> int" where
  "cmp_Compare a b = (if a < b then -1 else if b < a then 1 else 0)"

lemma cmp_Compare_le [simp]: "cmp_Compare a b \<le> 0 \<longleftrightarrow> a \<le> b"
  by (simp add: cmp_Compare_def)

lemma cmp_Compare_less [simp]: "cmp_Compare a b < 0 \<longleftrightarrow> a < b"
  by (simp add: cmp_Compare_def)

end
