(* ===== verification/Log_Zap.thy ===== *)
theory Log_Zap
  imports Go_Strings
begin

text \<open>
  \<^verbatim>\<open>internal/log/zap.go\<close>: the command line's logging options and the logger they configure.
  A \<^verbatim>\<open>Format\<close> is a string type with two known values, so it is a string here too and its
  validity is something the code has to check. The zap library is represented by the choices the
  code passes to it: level, encoder and encoder settings.
\<close>

type_synonym Format = string

definition FormatJSON :: Format where "FormatJSON = ''JSON''"
definition FormatConsole :: Format where "FormatConsole = ''Console''"

definition AvailableFormats :: "Format list" where
  "AvailableFormats = [FormatJSON, FormatConsole]"

record log_options =
  Debug :: bool
  Format :: Format

definition NewDefaultOptions :: log_options where
  "NewDefaultOptions = \<lparr>Debug = False, Format = FormatJSON\<rparr>"

subsection \<open>Formats\<close>

definition Format_String :: "Format \<Rightarrow> string" where
  "Format_String f = f"

definition Format_Type :: "Format \<Rightarrow> string" where
  "Format_Type f = ''string''"

text \<open>\<open>Set\<close> returns its error together with the format it leaves behind.\<close>

definition Format_Set :: "Format \<Rightarrow> string \<Rightarrow> 'e err option \<times> Format" where
  "Format_Set f s =
     (if ToLower s = ''json'' then (None, FormatJSON)
      else if ToLower s = ''console'' then (None, FormatConsole)
      else (Some (ErrorNew (''invalid format '' @ [CHR 0x27] @ s @ [CHR 0x27])), f))"

definition Formats_String :: "Format list \<Rightarrow> string" where
  "Formats_String fs =
     TrimPrefix (foldl (\<lambda>s format. s @ '', '' @ format) [] fs) '', ''"

fun Formats_Contains :: "Format list \<Rightarrow> Format \<Rightarrow> bool" where
  "Formats_Contains [] s = False"
| "Formats_Contains (format # fs) s = (if s = format then True else Formats_Contains fs s)"

definition Options_Validate :: "log_options \<Rightarrow> 'e err option" where
  "Options_Validate opts =
     (if \<not> Formats_Contains AvailableFormats (Format opts)
      then Some (ErrorNew (''invalid log-format '' @ Format opts @ '' specified; available: ''
                           @ Formats_String AvailableFormats))
      else None)"

lemma Formats_Contains_iff [simp]: "Formats_Contains fs s \<longleftrightarrow> s \<in> set fs"
  by (induction fs) auto

lemma Options_Validate_None_iff:
  "Options_Validate opts = None \<longleftrightarrow> Format opts = FormatJSON \<or> Format opts = FormatConsole"
  by (auto simp: Options_Validate_def AvailableFormats_def)

text \<open>The separator is put in front of every element and cut once: that is joining.\<close>

lemma foldl_sep: "foldl (\<lambda>s f. s @ sep @ f) a fs = a @ concat (map (\<lambda>f. sep @ f) fs)"
  by (induction fs arbitrary: a) auto

lemma Formats_String_Nil: "Formats_String [] = []"
  by (simp add: Formats_String_def TrimPrefix_def)

lemma TrimPrefix_foldl_sep:
  "TrimPrefix (foldl (\<lambda>s f. s @ sep @ f) [] (f # fs)) sep = f @ concat (map (\<lambda>g. sep @ g) fs)"
  by (simp add: foldl_sep)

lemma Formats_String_Cons:
  "Formats_String (f # fs) = f @ concat (map (\<lambda>g. '', '' @ g) fs)"
  unfolding Formats_String_def by (rule TrimPrefix_foldl_sep)

lemma Formats_String_Available: "Formats_String AvailableFormats = ''JSON, Console''"
  by (simp add: AvailableFormats_def FormatJSON_def FormatConsole_def Formats_String_Cons)

lemma Format_Set_ok_iff:
  "fst (Format_Set f s) = None \<longleftrightarrow> ToLower s = ''json'' \<or> ToLower s = ''console''"
  by (auto simp: Format_Set_def)

lemma Format_Set_error_unchanged: "fst (Format_Set f s) \<noteq> None \<Longrightarrow> snd (Format_Set f s) = f"
  by (auto simp: Format_Set_def split: if_splits)

lemma ToLower_formats: "ToLower FormatJSON = ''json''" "ToLower FormatConsole = ''console''"
  by code_simp+

lemma Format_Set_available: "f \<in> set AvailableFormats \<Longrightarrow> Format_Set g f = (None, f)"
  by (auto simp: AvailableFormats_def Format_Set_def ToLower_formats)

lemma Format_Set_formats:
  "Format_Set g FormatJSON = (None, FormatJSON)" "Format_Set g FormatConsole = (None, FormatConsole)"
  by (rule Format_Set_available, simp add: AvailableFormats_def)+

subsection \<open>Levels and the logger\<close>

text \<open>zap's levels are ordered; a logger with level \<open>l\<close> writes the messages of level \<open>l\<close> and
  above.\<close>

datatype Level = DebugLevel | InfoLevel | WarnLevel | ErrorLevel | FatalLevel

primrec level_rank :: "Level \<Rightarrow> int" where
  "level_rank DebugLevel = -1"
| "level_rank InfoLevel = 0"
| "level_rank WarnLevel = 1"
| "level_rank ErrorLevel = 2"
| "level_rank FatalLevel = 5"

instantiation Level :: linorder
begin

definition less_eq_Level :: "Level \<Rightarrow> Level \<Rightarrow> bool" where
  "less_eq_Level a b \<longleftrightarrow> level_rank a \<le> level_rank b"

definition less_Level :: "Level \<Rightarrow> Level \<Rightarrow> bool" where
  "less_Level a b \<longleftrightarrow> level_rank a < level_rank b"

instance
proof
  fix a b c :: Level
  show "a < b \<longleftrightarrow> a \<le> b \<and> \<not> b \<le> a"
    by (auto simp: less_eq_Level_def less_Level_def)
  show "a \<le> a" by (simp add: less_eq_Level_def)
  show "a \<le> b \<Longrightarrow> b \<le> c \<Longrightarrow> a \<le> c" by (simp add: less_eq_Level_def)
  show "a \<le> b \<Longrightarrow> b \<le> a \<Longrightarrow> a = b"
    by (cases a; cases b) (auto simp: less_eq_Level_def)
  show "a \<le> b \<or> b \<le> a" by (auto simp: less_eq_Level_def)
qed

end

datatype encoder = JSONEncoder | ConsoleEncoder

record encoder_config =
  TimeKey :: string
  EncodeTime :: string
  EncodeDuration :: string

record logger =
  log_level :: Level
  log_encoder :: encoder
  log_config :: encoder_config
  log_options_used :: "string list"

text \<open>The production encoder configuration is zap's; the code changes three fields of it.\<close>

definition New_logger :: "encoder_config \<Rightarrow> bool \<Rightarrow> Format \<Rightarrow> logger" where
  "New_logger NewProductionEncoderConfig debug format =
     (let lvl = (if debug then DebugLevel else InfoLevel);
          encCfg = NewProductionEncoderConfig
                     \<lparr>TimeKey := ''time'', EncodeTime := ''ISO8601TimeEncoder'',
                      EncodeDuration := ''StringDurationEncoder''\<rparr>;
          enc = (if format = FormatJSON then JSONEncoder else ConsoleEncoder)
      in \<lparr>log_level = lvl, log_encoder = enc, log_config = encCfg,
          log_options_used = [''AddCaller'', ''ErrorOutput'']\<rparr>)"

definition NewFromOptions :: "encoder_config \<Rightarrow> log_options \<Rightarrow> logger" where
  "NewFromOptions pc o' = New_logger pc (Debug o') (Format o')"

definition NewDefault :: "encoder_config \<Rightarrow> logger" where
  "NewDefault pc = New_logger pc False FormatJSON"

definition enabled :: "logger \<Rightarrow> Level \<Rightarrow> bool" where
  "enabled l lvl \<longleftrightarrow> log_level l \<le> lvl"

lemma enabled_NewFromOptions:
  "enabled (NewFromOptions pc opts) lvl \<longleftrightarrow> Debug opts \<or> InfoLevel \<le> lvl"
  by (cases lvl) (auto simp: enabled_def NewFromOptions_def New_logger_def Let_def less_eq_Level_def)

lemma NewDefault_eq: "NewDefault pc = NewFromOptions pc NewDefaultOptions"
  by (simp add: NewDefault_def NewFromOptions_def NewDefaultOptions_def)

text \<open>Setting the log format from the command line. A string is accepted exactly when it is
  one of the two format names in any capitalisation; an accepted string leaves options that pass
  validation, a rejected one leaves the previous format; and every available format is accepted
  under its own printed name and read back unchanged.\<close>

theorem Format_Set_validates:
  "(fst (Format_Set f s :: 'e err option \<times> Format) = None
      \<longleftrightarrow> ToLower s = ToLower FormatJSON \<or> ToLower s = ToLower FormatConsole)
   \<and> (case (Format_Set f s :: 'e err option \<times> Format) of
         (None, f') \<Rightarrow> (Options_Validate \<lparr>Debug = d, Format = f'\<rparr> :: 'e err option) = None
       | (Some e, f') \<Rightarrow> f' = f)
   \<and> (Format_Set f (Format_String FormatJSON) :: 'e err option \<times> Format) = (None, FormatJSON)
   \<and> (Format_Set f (Format_String FormatConsole) :: 'e err option \<times> Format) = (None, FormatConsole)"
  by (auto simp: Format_Set_def Options_Validate_None_iff Format_String_def ToLower_formats)

end
