(* ===== verification/Cmd_Options.thy ===== *)
theory Cmd_Options
  imports Log_Zap
begin

text \<open>
  \<^verbatim>\<open>cmd/init-agent/options.go\<close>: the command line. A label selector is a value of the library's type
  \<open>'s\<close>, \<^verbatim>\<open>labels.Parse\<close> returns an error and leaves a selector,
  \<^verbatim>\<open>utilerrors.NewAggregate\<close> makes one error of a list. A flag is its name, its
  default and what setting it does to the options.
\<close>

record ('e, 's) options_lib =
  ol_Parse :: "string \<Rightarrow> 'e option \<times> 's"
  ol_Everything :: 's
  ol_NewAggregate :: "'e err list \<Rightarrow> 'e err option"
  ol_ParseBool :: "string \<Rightarrow> 'e + bool"
  ol_FormatBool :: "bool \<Rightarrow> string"

text \<open>\<^verbatim>\<open>NewAggregate\<close> returns nil exactly for the empty list.\<close>

definition aggregate_contract :: "('e, 's) options_lib \<Rightarrow> bool" where
  "aggregate_contract lib \<longleftrightarrow> (\<forall>errs. ol_NewAggregate lib errs = None \<longleftrightarrow> errs = [])"

record 's Options =
  ConfigWorkspace :: string
  EnableLeaderElection :: bool
  InitTargetSelectorString :: string
  InitTargetSelector :: 's
  LogOptions :: log_options
  MetricsAddr :: string
  HealthAddr :: string

definition NewOptions :: "('e, 's) options_lib \<Rightarrow> 's Options" where
  "NewOptions lib =
     \<lparr>ConfigWorkspace = [], EnableLeaderElection = False, InitTargetSelectorString = [],
      InitTargetSelector = ol_Everything lib, LogOptions = NewDefaultOptions,
      MetricsAddr = ''127.0.0.1:8085'', HealthAddr = []\<rparr>"

subsection \<open>Flags\<close>

record ('e, 'o) flag =
  fl_Name :: string
  fl_Default :: string
  fl_Set :: "string \<Rightarrow> 'o \<Rightarrow> 'e err option \<times> 'o"

definition StringVar :: "('o \<Rightarrow> string) \<Rightarrow> (string \<Rightarrow> 'o \<Rightarrow> 'o) \<Rightarrow> string \<Rightarrow> 'o \<Rightarrow> ('e, 'o) flag" where
  "StringVar get put name opts = \<lparr>fl_Name = name, fl_Default = get opts, fl_Set = (\<lambda>v ob. (None, put v ob))\<rparr>"

definition BoolVar ::
  "('e, 's) options_lib \<Rightarrow> ('o \<Rightarrow> bool) \<Rightarrow> (bool \<Rightarrow> 'o \<Rightarrow> 'o) \<Rightarrow> string \<Rightarrow> 'o \<Rightarrow> ('e, 'o) flag" where
  "BoolVar lib get put name opts =
     \<lparr>fl_Name = name, fl_Default = ol_FormatBool lib (get opts),
      fl_Set = (\<lambda>v ob. case ol_ParseBool lib v of Inl e \<Rightarrow> (Some (External e), ob) | Inr b \<Rightarrow> (None, put b ob))\<rparr>"

text \<open>\<^verbatim>\<open>log.Options.AddPFlags\<close>, on options that contain the log options.\<close>

definition AddPFlags ::
  "('e, 's) options_lib \<Rightarrow> ('o \<Rightarrow> log_options) \<Rightarrow> (log_options \<Rightarrow> 'o \<Rightarrow> 'o) \<Rightarrow> 'o \<Rightarrow> ('e, 'o) flag list" where
  "AddPFlags lib get put opts =
     [BoolVar lib (\<lambda>ob. Debug (get ob)) (\<lambda>b ob. put ((get ob)\<lparr>Debug := b\<rparr>) ob) ''log-debug'' opts,
      \<lparr>fl_Name = ''log-format'', fl_Default = Format_String (Format (get opts)),
       fl_Set = (\<lambda>v ob. case Format_Set (Format (get ob)) v of
                   (err, f) \<Rightarrow> (err, put ((get ob)\<lparr>Format := f\<rparr>) ob))\<rparr>]"

definition AddFlags :: "('e, 's) options_lib \<Rightarrow> 's Options \<Rightarrow> ('e, 's Options) flag list" where
  "AddFlags lib opts =
     AddPFlags lib LogOptions (\<lambda>l ob. ob\<lparr>LogOptions := l\<rparr>) opts @
     [StringVar ConfigWorkspace (\<lambda>v ob. ob\<lparr>ConfigWorkspace := v\<rparr>) ''config-workspace'' opts,
      StringVar InitTargetSelectorString (\<lambda>v ob. ob\<lparr>InitTargetSelectorString := v\<rparr>) ''init-target-selector'' opts,
      BoolVar lib EnableLeaderElection (\<lambda>v ob. ob\<lparr>EnableLeaderElection := v\<rparr>) ''enable-leader-election'' opts,
      StringVar MetricsAddr (\<lambda>v ob. ob\<lparr>MetricsAddr := v\<rparr>) ''metrics-address'' opts,
      StringVar HealthAddr (\<lambda>v ob. ob\<lparr>HealthAddr := v\<rparr>) ''health-address'' opts]"

text \<open>The flag library applies the arguments in order; it knows a flag by its name and stops at
  the first error, its own for an unknown name.\<close>

fun set_flags ::
  "'e err \<Rightarrow> ('e, 'o) flag list \<Rightarrow> (string \<times> string) list \<Rightarrow> 'o \<Rightarrow> 'e err option \<times> 'o" where
  "set_flags unknown fs [] opts = (None, opts)"
| "set_flags unknown fs ((name, v) # args) opts =
     (case filter (\<lambda>f. fl_Name f = name) fs of
        [] \<Rightarrow> (Some unknown, opts)
      | f # _ \<Rightarrow>
          (case fl_Set f v opts of
             (Some e, opts') \<Rightarrow> (Some e, opts')
           | (None, opts') \<Rightarrow> set_flags unknown fs args opts'))"

subsection \<open>Validation and completion\<close>

definition selector_error :: "string \<Rightarrow> 'e \<Rightarrow> 'e err" where
  "selector_error s e = Errorf (''invalid --init-target-selector '' @ s) (External e)"

definition Validate :: "('e, 's) options_lib \<Rightarrow> 's Options \<Rightarrow> 'e err option" where
  "Validate lib opts =
     (let errs = [];
          errs = (case Options_Validate (LogOptions opts) of Some err \<Rightarrow> errs @ [err] | None \<Rightarrow> errs);
          errs = (if length (ConfigWorkspace opts) = 0
                  then errs @ [ErrorNew ''--config-workspace is required''] else errs);
          s = InitTargetSelectorString opts;
          errs = (if length s > 0
                  then (case fst (ol_Parse lib s) of
                          Some err \<Rightarrow> errs @ [selector_error s err] | None \<Rightarrow> errs)
                  else errs)
      in ol_NewAggregate lib errs)"

definition Complete_Options :: "('e, 's) options_lib \<Rightarrow> 's Options \<Rightarrow> 'e err option \<times> 's Options" where
  "Complete_Options lib opts =
     (let s = InitTargetSelectorString opts
      in if length s > 0
         then (case ol_Parse lib s of
                 (err, selector) \<Rightarrow>
                   (ol_NewAggregate lib (case err of Some e \<Rightarrow> [selector_error s e] | None \<Rightarrow> []),
                    opts\<lparr>InitTargetSelector := selector\<rparr>))
         else (ol_NewAggregate lib [], opts))"

definition valid_options :: "('e, 's) options_lib \<Rightarrow> 's Options \<Rightarrow> bool" where
  "valid_options lib opts \<longleftrightarrow>
     Format (LogOptions opts) \<in> set AvailableFormats \<and> ConfigWorkspace opts \<noteq> []
     \<and> (InitTargetSelectorString opts \<noteq> [] \<longrightarrow> fst (ol_Parse lib (InitTargetSelectorString opts)) = None)"

lemma aggregate_None_iff: "aggregate_contract lib \<Longrightarrow> ol_NewAggregate lib errs = None \<longleftrightarrow> errs = []"
  by (simp add: aggregate_contract_def)

lemma Options_Validate_None_available:
  "Options_Validate l = None \<longleftrightarrow> Format l \<in> set AvailableFormats"
  by (simp add: Options_Validate_None_iff AvailableFormats_def)

lemma Validate_iff:
  assumes "aggregate_contract lib"
  shows "Validate lib opts = None \<longleftrightarrow> valid_options lib opts"
proof -
  have snoc: "(case x of Some e \<Rightarrow> errs @ [f e] | None \<Rightarrow> errs) = [] \<longleftrightarrow> errs = [] \<and> x = None"
    for x :: "'a option" and errs and f :: "'a \<Rightarrow> 'a err"
    by (cases x) auto
  have snoc': "(case x of Some e \<Rightarrow> errs @ [e] | None \<Rightarrow> errs) = [] \<longleftrightarrow> errs = [] \<and> x = None"
    for x :: "'a err option" and errs
    by (cases x) auto
  have snoc_if: "(if b then errs @ [e] else errs) = [] \<longleftrightarrow> errs = [] \<and> \<not> b"
    for b and e :: "'a err" and errs
    by simp
  show ?thesis
    unfolding Validate_def Let_def aggregate_None_iff [OF assms] valid_options_def
    by (cases "InitTargetSelectorString opts = []")
      (simp_all add: snoc snoc' snoc_if Options_Validate_None_available)
qed

lemma Complete_valid:
  assumes "aggregate_contract lib" "valid_options lib opts"
  shows "Complete_Options lib opts =
     (None, if InitTargetSelectorString opts = [] then opts
            else opts\<lparr>InitTargetSelector := snd (ol_Parse lib (InitTargetSelectorString opts))\<rparr>)"
proof (cases "InitTargetSelectorString opts = []")
  case True
  then show ?thesis using aggregate_None_iff [OF assms(1)] by (simp add: Complete_Options_def)
next
  case False
  then obtain sel where "ol_Parse lib (InitTargetSelectorString opts) = (None, sel)"
    using assms(2) by (metis prod.collapse valid_options_def)
  with False show ?thesis
    using aggregate_None_iff [OF assms(1)] by (simp add: Complete_Options_def Let_def)
qed

text \<open>C29: the command line. Validation accepts exactly the options with a known log format, a config
  workspace, and a selector that is empty or can be parsed; options it accepted are completed
  without an error (the branch that "should never happen" does not), and completing them sets the selector
  to the parsed one, or leaves the selector of everything when none was given, and nothing else.\<close>

theorem Validate_then_Complete:
  assumes "aggregate_contract lib"
  shows "(Validate lib opts = None \<longleftrightarrow> valid_options lib opts)
    \<and> (Validate lib opts = None \<longrightarrow>
        (let s = InitTargetSelectorString opts in
         Complete_Options lib opts =
           (None, if s = [] then opts else opts\<lparr>InitTargetSelector := snd (ol_Parse lib s)\<rparr>)))"
  using Validate_iff [OF assms] Complete_valid [OF assms] by (simp add: Let_def)

definition sample_options_lib :: "(nat, string) options_lib" where
  "sample_options_lib =
     \<lparr>ol_Parse = (\<lambda>s. if s = ''!'' then (Some 1, []) else (None, s)), ol_Everything = ''*'',
      ol_NewAggregate = (\<lambda>es. case es of [] \<Rightarrow> None | e # _ \<Rightarrow> Some e),
      ol_ParseBool = (\<lambda>s. if s = ''true'' then Inr True else if s = ''false'' then Inr False else Inl 2),
      ol_FormatBool = (\<lambda>b. if b then ''true'' else ''false'')\<rparr>"

lemma sample_aggregate: "aggregate_contract sample_options_lib"
  by (auto simp: aggregate_contract_def sample_options_lib_def split: list.splits)

theorem Validate_then_Complete_witness:
  "fst (Complete_Options sample_options_lib
      (NewOptions sample_options_lib\<lparr>ConfigWorkspace := ''root'', InitTargetSelectorString := ''a=b''\<rparr>)) = None
   \<and> Validate sample_options_lib (NewOptions sample_options_lib\<lparr>InitTargetSelectorString := ''!''\<rparr>) \<noteq> None"
proof -
  let ?o = "NewOptions sample_options_lib\<lparr>ConfigWorkspace := ''root'', InitTargetSelectorString := ''a=b''\<rparr>"
  let ?bad = "NewOptions sample_options_lib\<lparr>InitTargetSelectorString := ''!''\<rparr>"
  have "valid_options sample_options_lib ?o" "\<not> valid_options sample_options_lib ?bad"
    by (simp_all add: valid_options_def NewOptions_def NewDefaultOptions_def AvailableFormats_def sample_options_lib_def)
  then show ?thesis
    using Validate_then_Complete [OF sample_aggregate, of ?o] Validate_then_Complete [OF sample_aggregate, of ?bad]
    by (simp add: Let_def split: if_splits)
qed

subsection \<open>Flags and options\<close>

definition flag_names :: "('e, 'o) flag list \<Rightarrow> string list" where
  "flag_names fs = map fl_Name fs"

text \<open>The flags of the agent. Their names are distinct; every flag's default is the value the options
  already have; and starting from the defaults, the arguments
  \<^verbatim>\<open>--config-workspace w --init-target-selector s --log-format f\<close> with a known format give options
  that hold exactly these values.\<close>

theorem AddFlags_set:
  "distinct (flag_names (AddFlags lib opts))
   \<and> map fl_Default (AddFlags lib opts) =
       [ol_FormatBool lib (Debug (LogOptions opts)), Format (LogOptions opts), ConfigWorkspace opts,
        InitTargetSelectorString opts, ol_FormatBool lib (EnableLeaderElection opts),
        MetricsAddr opts, HealthAddr opts]
   \<and> set_flags unknown (AddFlags lib (NewOptions lib))
         [(''config-workspace'', w), (''init-target-selector'', s), (''log-format'', FormatJSON)] (NewOptions lib)
       = (None, NewOptions lib\<lparr>ConfigWorkspace := w, InitTargetSelectorString := s,
                  LogOptions := \<lparr>Debug = False, Format = FormatJSON\<rparr>\<rparr>)
   \<and> set_flags unknown (AddFlags lib (NewOptions lib))
         [(''config-workspace'', w), (''init-target-selector'', s), (''log-format'', FormatConsole)] (NewOptions lib)
       = (None, NewOptions lib\<lparr>ConfigWorkspace := w, InitTargetSelectorString := s,
                  LogOptions := \<lparr>Debug = False, Format = FormatConsole\<rparr>\<rparr>)"
  by (simp add: AddFlags_def AddPFlags_def StringVar_def BoolVar_def flag_names_def Format_String_def
      NewOptions_def NewDefaultOptions_def
      Format_Set_formats)

end
