(* ===== verification/Api_Types.thy ===== *)
theory Api_Types
  imports Prelude
begin

text \<open>
  The agent's own API types (\<^verbatim>\<open>sdk/apis/initialization/v1alpha1\<close>) and the fields it
  reads of the Kubernetes and kcp objects it handles. A struct is a record. The two structs that hold
  a pointer or a slice are parametrised by it: with the pointed-to value itself they are the objects
  as the controllers see them, with an address they are the structs that the generated deep copy
  functions walk.
\<close>

subsection \<open>Object metadata\<close>

text \<open>The fields of \<^verbatim>\<open>metav1.TypeMeta\<close> and \<^verbatim>\<open>metav1.ObjectMeta\<close> that the
  agent reads. A \<^verbatim>\<open>map[string]string\<close> is an association list, read with
  \<open>map_of\<close>; a nil map is the empty list.\<close>

record type_meta =
  tm_Kind :: string
  tm_APIVersion :: string

record object_meta =
  meta_Name :: string
  meta_UID :: string
  meta_DeletionTimestamp :: "nat option"
  meta_Labels :: "(string \<times> string) list"
  meta_Annotations :: "(string \<times> string) list"

definition empty_meta :: object_meta where
  "empty_meta = \<lparr>meta_Name = [], meta_UID = [], meta_DeletionTimestamp = None,
                 meta_Labels = [], meta_Annotations = []\<rparr>"

subsection \<open>InitTarget\<close>

record WorkspaceTypeReference =
  wtr_Path :: string
  wtr_Name :: string

record TemplateInitSource =
  tis_Name :: string

record 'p InitSource =
  src_Template :: "'p option"

record 's InitTargetSpec =
  its_WorkspaceTypeReference :: WorkspaceTypeReference
  its_Sources :: 's

record 's InitTarget =
  it_TypeMeta :: type_meta
  it_ObjectMeta :: object_meta
  it_Spec :: "'s InitTargetSpec"

record 'i InitTargetList =
  itl_TypeMeta :: type_meta
  itl_ListMeta :: string
  itl_Items :: 'i

type_synonym init_source = "TemplateInitSource InitSource"
type_synonym init_target = "init_source list InitTarget"

subsection \<open>InitTemplate\<close>

record InitTemplateSpec =
  tpl_Template :: string

record InitTemplate =
  itp_TypeMeta :: type_meta
  itp_ObjectMeta :: object_meta
  itp_Spec :: InitTemplateSpec

record 'i InitTemplateList =
  itpl_TypeMeta :: type_meta
  itpl_ListMeta :: string
  itpl_Items :: 'i

subsection \<open>Objects of other APIs\<close>

text \<open>What the agent reads of a \<^verbatim>\<open>LogicalCluster\<close> (an initializer is a string) and of a
  \<^verbatim>\<open>WorkspaceType\<close>.\<close>

record logical_cluster =
  lc_ObjectMeta :: object_meta
  lc_Initializers :: "string list"

record workspace_type =
  wst_ObjectMeta :: object_meta

definition empty_logical_cluster :: logical_cluster where
  "empty_logical_cluster = \<lparr>lc_ObjectMeta = empty_meta, lc_Initializers = []\<rparr>"

subsection \<open>Manifests\<close>

text \<open>A decoded YAML document (\<^verbatim>\<open>map[string]any\<close>) as an association list, and the
  \<^verbatim>\<open>unstructured.Unstructured\<close> around it.\<close>

datatype json =
    JNull
  | JBool bool
  | JNum int
  | JStr string
  | JArr "json list"
  | JObj "(string \<times> json) list"

record unstructured =
  Object :: "(string \<times> json) list"

subsection \<open>Group, version and the registered types\<close>

record group_version =
  gv_Group :: string
  gv_Version :: string

record group_resource =
  gr_Group :: string
  gr_Resource :: string

record group_version_resource =
  gvr_Group :: string
  gvr_Version :: string
  gvr_Resource :: string

definition GroupName :: string where
  "GroupName = ''initialization.kcp.io''"

definition GroupVersion :: string where
  "GroupVersion = ''v1alpha1''"

definition SchemeGroupVersion :: group_version where
  "SchemeGroupVersion = \<lparr>gv_Group = GroupName, gv_Version = GroupVersion\<rparr>"

definition WithResource :: "group_version \<Rightarrow> string \<Rightarrow> group_version_resource" where
  "WithResource gv r = \<lparr>gvr_Group = gv_Group gv, gvr_Version = gv_Version gv, gvr_Resource = r\<rparr>"

definition GroupResource :: "group_version_resource \<Rightarrow> group_resource" where
  "GroupResource g = \<lparr>gr_Group = gvr_Group g, gr_Resource = gvr_Resource g\<rparr>"

definition Resource :: "string \<Rightarrow> group_resource" where
  "Resource r = GroupResource (WithResource SchemeGroupVersion r)"

text \<open>A scheme is the list of the kinds registered in it; \<^verbatim>\<open>AddKnownTypes\<close> and
  \<^verbatim>\<open>metav1.AddToGroupVersion\<close> are library calls, here functions on schemes.\<close>

datatype known_type = KInitTarget | KInitTargetList | KInitTemplate | KInitTemplateList

definition addKnownTypes ::
  "(group_version \<Rightarrow> known_type list \<Rightarrow> 'sch \<Rightarrow> 'sch) \<Rightarrow> (group_version \<Rightarrow> 'sch \<Rightarrow> 'sch) \<Rightarrow>
   'sch \<Rightarrow> 'e err option \<times> 'sch" where
  "addKnownTypes AddKnownTypes AddToGroupVersion scheme =
     (let s1 = AddKnownTypes SchemeGroupVersion
                 [KInitTarget, KInitTargetList, KInitTemplate, KInitTemplateList] scheme;
          s2 = AddToGroupVersion SchemeGroupVersion s1
      in (None, s2))"

lemma addKnownTypes_no_error: "fst (addKnownTypes akt agv s) = None"
  by (simp add: addKnownTypes_def Let_def)

lemma Resource_simps [simp]:
  "gr_Group (Resource r) = ''initialization.kcp.io''" "gr_Resource (Resource r) = r"
  by (simp_all add: Resource_def GroupResource_def WithResource_def SchemeGroupVersion_def GroupName_def)

lemma Resource_inject [simp]: "Resource r = Resource r' \<longleftrightarrow> r = r'"
  by (metis Resource_simps(2))

end
