(* ===== verification/Kcp_Client.thy ===== *)
theory Kcp_Client
  imports Go_Strings Api_Types
begin

text \<open>
  \<^verbatim>\<open>internal/kcp\<close>: how the agent addresses one logical cluster of a kcp installation. A
  cluster is addressed by the suffix \<^verbatim>\<open>/clusters/<name>\<close> of the server URL;
  \<^verbatim>\<open>rest.go\<close> strips and replaces that suffix, \<^verbatim>\<open>clusterclient.go\<close> builds a
  client per cluster, \<^verbatim>\<open>annotations.go\<close> reads name and path of an object's cluster. The
  kcp library functions these use are the fields of \<open>kcp_lib\<close>; a \<^verbatim>\<open>Path\<close> of that
  library is represented by a string.
\<close>

record kcp_lib =
  lib_From :: "object_meta \<Rightarrow> string"
  lib_NewPath :: "string \<Rightarrow> string"
  lib_PathString :: "string \<Rightarrow> string"
  lib_PathAnnotationKey :: string
  lib_InitializerForType :: "workspace_type \<Rightarrow> string"

record 'c rest_config =
  Host :: string
  Settings :: 'c

subsection \<open>The cluster suffix of a URL\<close>

text \<open>\<open>clusterFinder\<close> is the regular expression \<^verbatim>\<open>/clusters/([^/]+)$\<close>:
  \<open>clusterFinder_at s\<close> says that it matches at the beginning of \<open>s\<close>, and then all of
  \<open>s\<close> is matched. \<^verbatim>\<open>ReplaceAllString(s, "")\<close> cuts the leftmost match, after which
  nothing is left to search.\<close>

definition clusters_prefix :: string where
  "clusters_prefix = ''/clusters/''"

definition clusterFinder_at :: "string \<Rightarrow> bool" where
  "clusterFinder_at s \<longleftrightarrow>
     take 10 s = clusters_prefix \<and> drop 10 s \<noteq> [] \<and> list_all (\<lambda>c. c \<noteq> CHR ''/'') (drop 10 s)"

fun clusterFinder_ReplaceAll :: "string \<Rightarrow> string" where
  "clusterFinder_ReplaceAll [] = []"
| "clusterFinder_ReplaceAll (c # cs) =
     (if clusterFinder_at (c # cs) then [] else c # clusterFinder_ReplaceAll cs)"

definition strip_host :: "string \<Rightarrow> string" where
  "strip_host h = TrimRight (CHR ''/'') (clusterFinder_ReplaceAll h)"

text \<open>\<^verbatim>\<open>rest.CopyConfig\<close> copies the configuration: on values, the same record.\<close>

definition StripCluster :: "'c rest_config \<Rightarrow> 'c rest_config" where
  "StripCluster cfg =
     (let clone = cfg
      in clone\<lparr>Host := TrimRight (CHR ''/'') (clusterFinder_ReplaceAll (Host cfg))\<rparr>)"

definition RetargetRestConfig :: "'c rest_config \<Rightarrow> string \<Rightarrow> 'c rest_config" where
  "RetargetRestConfig cfg cluster =
     (let stripped = StripCluster cfg
      in stripped\<lparr>Host := Host stripped @ ''/clusters/'' @ cluster\<rparr>)"

lemma StripCluster_Host [simp]: "Host (StripCluster cfg) = strip_host (Host cfg)"
  by (simp add: StripCluster_def strip_host_def Let_def)

lemma StripCluster_Settings [simp]: "Settings (StripCluster cfg) = Settings cfg"
  by (simp add: StripCluster_def Let_def)

lemma RetargetRestConfig_simps [simp]:
  "Host (RetargetRestConfig cfg c) = strip_host (Host cfg) @ clusters_prefix @ c"
  "Settings (RetargetRestConfig cfg c) = Settings cfg"
  by (simp_all add: RetargetRestConfig_def Let_def clusters_prefix_def)

subsection \<open>The client of one cluster\<close>

record 'c clusterClient =
  cc_cfg :: "'c rest_config"

definition NewClusterClient :: "'c rest_config \<Rightarrow> 'c clusterClient" where
  "NewClusterClient cfg = \<lparr>cc_cfg = cfg\<rparr>"

definition ClusterConfig :: "'c clusterClient \<Rightarrow> string \<Rightarrow> 'c rest_config" where
  "ClusterConfig cc cluster =
     (let cfg = cc_cfg cc in cfg\<lparr>Host := Host cfg @ ''/clusters/'' @ cluster\<rparr>)"

text \<open>\<^verbatim>\<open>ctrlruntimeclient.New\<close> is a library call, an argument here.\<close>

definition Cluster ::
  "('c rest_config \<Rightarrow> 'sch \<Rightarrow> 'e + 'cl) \<Rightarrow> 'c clusterClient \<Rightarrow> string \<Rightarrow> 'sch \<Rightarrow> 'e + 'cl" where
  "Cluster New cc cluster scheme = New (ClusterConfig cc cluster) scheme"

subsection \<open>Name and path of an object's cluster\<close>

definition ClusterNameFromObject :: "kcp_lib \<Rightarrow> object_meta \<Rightarrow> string" where
  "ClusterNameFromObject lib obj = lib_From lib obj"

definition ClusterPathFromObject :: "kcp_lib \<Rightarrow> string \<Rightarrow> object_meta \<Rightarrow> string outcome" where
  "ClusterPathFromObject lib gvk obj =
     (case map_of (meta_Annotations obj) (lib_PathAnnotationKey lib) of
        None \<Rightarrow> Panic (''Cannot get cluster path from a '' @ gvk @ '' object.'')
      | Some path \<Rightarrow> Ret (lib_NewPath lib path))"

lemma ClusterPathFromObject_Ret_iff:
  "returns (ClusterPathFromObject lib gvk obj) \<longleftrightarrow>
   lib_PathAnnotationKey lib \<in> fst ` set (meta_Annotations obj)"
  using map_of_eq_None_iff [of "meta_Annotations obj" "lib_PathAnnotationKey lib"]
  by (auto simp: ClusterPathFromObject_def split: option.splits)

subsection \<open>What stripping does\<close>

abbreviation slash_free :: "string \<Rightarrow> bool" where
  "slash_free s \<equiv> CHR ''/'' \<notin> set s"

lemma length_clusters_prefix [simp]: "length clusters_prefix = 10"
  by (simp add: clusters_prefix_def)

lemma clusters_prefix_nonempty [simp]: "clusters_prefix \<noteq> []"
  by (simp add: clusters_prefix_def)

lemma clusters_prefix_last: "\<exists>p. clusters_prefix = p @ [CHR ''/'']"
  by (rule exI [of _ "''/clusters''"]) (simp add: clusters_prefix_def)

lemma clusterFinder_at_iff:
  "clusterFinder_at s \<longleftrightarrow> (\<exists>c. s = clusters_prefix @ c \<and> c \<noteq> [] \<and> slash_free c)"
proof
  assume m: "clusterFinder_at s"
  then have "s = clusters_prefix @ drop 10 s"
    unfolding clusterFinder_at_def by (metis append_take_drop_id)
  moreover from m have "drop 10 s \<noteq> []" "slash_free (drop 10 s)"
    by (auto simp: clusterFinder_at_def list_all_iff)
  ultimately show "\<exists>c. s = clusters_prefix @ c \<and> c \<noteq> [] \<and> slash_free c" by blast
next
  assume "\<exists>c. s = clusters_prefix @ c \<and> c \<noteq> [] \<and> slash_free c"
  then obtain c where "s = clusters_prefix @ c" "c \<noteq> []" "slash_free c" by blast
  then show "clusterFinder_at s" by (auto simp: clusterFinder_at_def list_all_iff)
qed

text \<open>A match cannot begin before the last \<^verbatim>\<open>/clusters/\<close> of the string.\<close>

lemma clusterFinder_at_before:
  "\<not> clusterFinder_at (x # h @ clusters_prefix @ c)"
proof
  assume "clusterFinder_at (x # h @ clusters_prefix @ c)"
  then obtain d where d: "x # h @ clusters_prefix @ c = clusters_prefix @ d" "slash_free d"
    by (auto simp: clusterFinder_at_iff)
  obtain p where p: "clusters_prefix = p @ [CHR ''/'']" using clusters_prefix_last by blast
  then have "length (p @ [CHR ''/'']) = 10" using length_clusters_prefix by simp
  then have "length p = 9" by simp
  have "d = drop 10 (x # h @ p @ [CHR ''/''] @ c)"
    using d(1) p by (metis append.assoc append_eq_conv_conj length_clusters_prefix)
  also have "\<dots> = drop 10 (x # h @ p) @ CHR ''/'' # c"
    using \<open>length p = 9\<close> by simp
  finally show False using d(2) by simp
qed

lemma clusterFinder_ReplaceAll_suffix:
  assumes "c \<noteq> []" "slash_free c"
  shows "clusterFinder_ReplaceAll (h @ clusters_prefix @ c) = h"
proof (induction h)
  case Nil
  from assms have "clusterFinder_at (clusters_prefix @ c)" by (auto simp: clusterFinder_at_iff)
  then show ?case by (cases "clusters_prefix @ c") auto
next
  case (Cons x h)
  then show ?case using clusterFinder_at_before by simp
qed

lemma clusterFinder_ReplaceAll_trailing:
  "clusterFinder_ReplaceAll (s @ ''/'') = s @ ''/''"
proof (induction s)
  case Nil
  then show ?case by (simp add: clusterFinder_at_def)
next
  case (Cons x s)
  have "\<not> clusterFinder_at ((x # s) @ ''/'')"
  proof
    assume "clusterFinder_at ((x # s) @ ''/'')"
    then obtain d where d: "(x # s) @ ''/'' = clusters_prefix @ d" "d \<noteq> []" "slash_free d"
      by (auto simp: clusterFinder_at_iff)
    then have "last d = CHR ''/''" by (metis last_appendR last_snoc)
    with d(2,3) last_in_set [of d] show False by simp
  qed
  with Cons show ?case by simp
qed

lemma strip_host_no_trailing_slash: "strip_host h = [] \<or> last (strip_host h) \<noteq> CHR ''/''"
  unfolding strip_host_def using TrimRight_not_last by blast

lemma strip_host_suffix:
  assumes "c \<noteq> []" "slash_free c"
  shows "strip_host (h @ clusters_prefix @ c) = TrimRight (CHR ''/'') h"
  using assms by (simp add: strip_host_def clusterFinder_ReplaceAll_suffix)

lemma strip_host_trailing:
  assumes "c \<noteq> []" "slash_free c"
  shows "strip_host (h @ clusters_prefix @ c @ ''/'') = h @ clusters_prefix @ c"
proof -
  have "last c \<noteq> CHR ''/''" using assms last_in_set by metis
  then have "TrimRight (CHR ''/'') (h @ clusters_prefix @ c) = h @ clusters_prefix @ c"
    using assms(1) by (intro TrimRight_id) simp
  then show ?thesis
    using clusterFinder_ReplaceAll_trailing [of "h @ clusters_prefix @ c"]
      TrimRight_snoc [of "CHR ''/''" "h @ clusters_prefix @ c"]
    by (simp add: strip_host_def)
qed

subsection \<open>The contract of a cluster configuration\<close>

text \<open>Both \<open>ClusterConfig\<close> and \<open>RetargetRestConfig\<close> promise a configuration whose host is
  a base followed by the cluster suffix and whose other settings are the original's. What the agent
  needs follows from that alone.\<close>

locale cluster_config =
  fixes config :: "string \<Rightarrow> 'c rest_config"
    and base :: string
    and settings :: 'c
  assumes config_Host: "Host (config c) = base @ clusters_prefix @ c"
    and config_Settings: "Settings (config c) = settings"
begin

lemma config_inject: "config c = config d \<Longrightarrow> c = d"
  using config_Host by (metis append_eq_append_conv)

lemma strip_config:
  "c \<noteq> [] \<Longrightarrow> slash_free c \<Longrightarrow> strip_host (Host (config c)) = TrimRight (CHR ''/'') base"
  by (simp add: config_Host strip_host_suffix)

lemma retarget_config:
  assumes "c \<noteq> []" "slash_free c" "base = [] \<or> last base \<noteq> CHR ''/''"
  shows "RetargetRestConfig (config c) d = config d"
  using assms config_Host config_Settings
  by (intro rest_config.equality) (simp_all add: strip_host_suffix TrimRight_id)

end

interpretation cc: cluster_config "ClusterConfig cc" "Host (cc_cfg cc)" "Settings (cc_cfg cc)"
  for cc :: "'c clusterClient"
  by unfold_locales (simp_all add: ClusterConfig_def Let_def clusters_prefix_def)

interpretation retarget: cluster_config "RetargetRestConfig cfg" "strip_host (Host cfg)" "Settings cfg"
  for cfg :: "'c rest_config"
  by unfold_locales simp_all

text \<open>C26: addressing clusters. Whatever cluster the URL of the kubeconfig names (a non-empty name
  without a slash, after any base), stripping gives the base without trailing slashes; the configuration
  of the agent's cluster client for a cluster \<open>d\<close> is then the base followed by
  \<^verbatim>\<open>/clusters/d\<close> with all other settings kept, the same as retargeting the original;
  retargeting a retargeted configuration only depends on the last target; and different clusters get different
  configurations.\<close>

theorem cluster_addressing:
  assumes "Host cfg = base @ ''/clusters/'' @ c" and "c \<noteq> []" and "slash_free c"
  shows "Host (StripCluster cfg) = TrimRight (CHR ''/'') base
    \<and> ClusterConfig (NewClusterClient (StripCluster cfg)) d = RetargetRestConfig cfg d
    \<and> Host (RetargetRestConfig cfg d) = TrimRight (CHR ''/'') base @ ''/clusters/'' @ d
    \<and> Settings (RetargetRestConfig cfg d) = Settings cfg
    \<and> RetargetRestConfig (RetargetRestConfig cfg c) d = RetargetRestConfig cfg d
    \<and> (RetargetRestConfig cfg d = RetargetRestConfig cfg d' \<longrightarrow> d = d')"
proof -
  have strip: "strip_host (Host cfg) = TrimRight (CHR ''/'') base"
    using strip_host_suffix [OF assms(2,3), of base] assms(1) by (simp add: clusters_prefix_def)
  have "ClusterConfig (NewClusterClient (StripCluster cfg)) d = RetargetRestConfig cfg d"
    by (simp add: ClusterConfig_def NewClusterClient_def RetargetRestConfig_def Let_def)
  moreover have "RetargetRestConfig (RetargetRestConfig cfg c) d = RetargetRestConfig cfg d"
    by (rule retarget.retarget_config [OF assms(2,3) strip_host_no_trailing_slash])
  ultimately show ?thesis
    using strip retarget.config_inject [of cfg d d'] by (simp add: clusters_prefix_def)
qed

theorem cluster_addressing_witness:
  "Host (ClusterConfig (NewClusterClient (StripCluster \<lparr>Host = ''https://k/clusters/root:a'', Settings = ()\<rparr>)) ''root'')
     = TrimRight (CHR ''/'') ''https://k'' @ ''/clusters/root''"
  using cluster_addressing [of "\<lparr>Host = ''https://k/clusters/root:a'', Settings = ()\<rparr>" "''https://k''" "''root:a''" "''root''"]
  by simp

text \<open>C27: a URL of the same form with a slash at its end. The cluster is not recognised, stripping only
  takes the slash off, and every configuration made from it has two cluster suffixes.\<close>

theorem trailing_slash_keeps_cluster:
  assumes "Host cfg = base @ ''/clusters/'' @ c @ ''/''" and "c \<noteq> []" and "slash_free c"
  shows "Host (StripCluster cfg) = base @ ''/clusters/'' @ c
    \<and> Host (ClusterConfig (NewClusterClient (StripCluster cfg)) d) = base @ ''/clusters/'' @ c @ ''/clusters/'' @ d"
  using strip_host_trailing [OF assms(2,3), of base] assms(1)
  by (simp add: clusters_prefix_def ClusterConfig_def NewClusterClient_def Let_def)

theorem trailing_slash_keeps_cluster_witness:
  "Host (StripCluster \<lparr>Host = ''https://k/clusters/root/'', Settings = ()\<rparr>) = ''https://k/clusters/root''"
  using trailing_slash_keeps_cluster [of "\<lparr>Host = ''https://k/clusters/root/'', Settings = ()\<rparr>" "''https://k''" "''root''"]
  by simp

end
