(* ===== verification/Agent_World.thy ===== *)
theory Agent_World
  imports Api_Types
begin

text \<open>
  The calls the controllers make to the outside, in the order they make them. Every constructor
  carries the arguments that matter and the result. \<open>'c\<close> is the type of the clients (one per
  logical cluster), \<open>'e\<close> that of library and server errors.

  \<^item> \<open>CallGetCluster\<close>: \<^verbatim>\<open>remoteManager.GetCluster\<close>;
  \<^item> \<open>CallGet\<close>: a client's \<^verbatim>\<open>Get\<close> of one object, by the kind it is read into;
  \<^item> \<open>CallExecute\<close>: a template execution (with sprig's functions it may consume randomness);
  \<^item> \<open>CallCreate\<close>: a client's \<^verbatim>\<open>Create\<close> of one manifest;
  \<^item> \<open>CallPatch\<close>: \<^verbatim>\<open>Status().Patch(lc, MergeFrom(old))\<close> of a logical cluster;
  \<^item> \<open>CallEvent\<close>: an event recorded on a logical cluster.
\<close>

datatype kind_read = ReadLogicalCluster | ReadInitTarget | ReadInitTemplate | ReadWorkspaceType

datatype ('e, 'c) call =
    CallGetCluster string "'e option"
  | CallGet 'c kind_read string "'e option"
  | CallExecute string "'e option"
  | CallCreate 'c unstructured "'e option"
  | CallPatch 'c logical_cluster logical_cluster "'e option"
  | CallEvent logical_cluster string "'e err"

type_synonym ('x, 'e, 'c) agent_world = "('x, ('e, 'c) call) world"

text \<open>The tests on errors that the libraries offer (\<^verbatim>\<open>apierrors\<close>,
  \<^verbatim>\<open>errors.Is(err, &meta.NoKindMatchError{})\<close> on the error itself,
  \<^verbatim>\<open>errors.Is(err, io.EOF)\<close>, \<^verbatim>\<open>errors.Is(err, context.Canceled)\<close>).\<close>

record 'e err_tests =
  IsNotFound :: "'e \<Rightarrow> bool"
  IsAlreadyExists :: "'e \<Rightarrow> bool"
  IsNoKindMatch :: "'e \<Rightarrow> bool"
  IsEOF :: "'e \<Rightarrow> bool"
  IsCanceled :: "'e \<Rightarrow> bool"

definition IgnoreNotFound :: "'e err_tests \<Rightarrow> 'e option \<Rightarrow> 'e option" where
  "IgnoreNotFound tests err =
     (case err of None \<Rightarrow> None | Some e \<Rightarrow> if IsNotFound tests e then None else Some e)"

lemma IgnoreNotFound_None_iff:
  "IgnoreNotFound tests err = None \<longleftrightarrow> (\<forall>e. err = Some e \<longrightarrow> IsNotFound tests e)"
  by (auto simp: IgnoreNotFound_def split: option.splits)

text \<open>The error of a call that returns an error or a value.\<close>

definition err_of :: "'e + 'a \<Rightarrow> 'e option" where
  "err_of r = (case r of Inl e \<Rightarrow> Some e | Inr a \<Rightarrow> None)"

lemma err_of_simps [simp]: "err_of (Inl e) = Some e" "err_of (Inr a) = None"
  by (simp_all add: err_of_def)

subsection \<open>Kinds of calls\<close>

fun is_read :: "('e, 'c) call \<Rightarrow> bool" where
  "is_read (CallGetCluster n r) = True"
| "is_read (CallGet c k n r) = True"
| "is_read (CallExecute s r) = True"
| "is_read _ = False"

fun is_patch :: "('e, 'c) call \<Rightarrow> bool" where
  "is_patch (CallPatch c old new r) = True"
| "is_patch _ = False"

text \<open>A \<^verbatim>\<open>Create\<close> that leaves the object in the cluster: it succeeded, or the object was
  there already.\<close>

definition create_ok :: "'e err_tests \<Rightarrow> 'e option \<Rightarrow> bool" where
  "create_ok tests r = (case r of None \<Rightarrow> True | Some e \<Rightarrow> IsAlreadyExists tests e)"

lemma create_ok_simps [simp]:
  "create_ok tests None" "create_ok tests (Some e) = IsAlreadyExists tests e"
  by (simp_all add: create_ok_def)

fun creates_ok :: "'e err_tests \<Rightarrow> 'c \<Rightarrow> unstructured \<Rightarrow> ('e, 'c) call \<Rightarrow> bool" where
  "creates_ok tests c obj (CallCreate c' obj' r) \<longleftrightarrow> c' = c \<and> obj' = obj \<and> create_ok tests r"
| "creates_ok tests c obj _ \<longleftrightarrow> False"

definition applied :: "'e err_tests \<Rightarrow> 'c \<Rightarrow> ('e, 'c) call list \<Rightarrow> unstructured \<Rightarrow> bool" where
  "applied tests c tr obj \<longleftrightarrow> list_ex (creates_ok tests c obj) tr"

lemma creates_ok_iff:
  "creates_ok tests c obj ev \<longleftrightarrow> (\<exists>r. ev = CallCreate c obj r \<and> create_ok tests r)"
  by (cases ev) auto

lemma applied_iff:
  "applied tests c tr obj \<longleftrightarrow> (\<exists>r. CallCreate c obj r \<in> set tr \<and> create_ok tests r)"
  by (auto simp: applied_def list_ex_iff creates_ok_iff)

lemma applied_append [simp]:
  "applied tests c (tr @ tr') obj \<longleftrightarrow> applied tests c tr obj \<or> applied tests c tr' obj"
  by (auto simp: applied_iff)

lemma applied_Cons [simp]:
  "applied tests c (ev # tr) obj \<longleftrightarrow> creates_ok tests c obj ev \<or> applied tests c tr obj"
  by (simp add: applied_def)

lemma applied_Nil [simp]: "\<not> applied tests c [] obj"
  by (simp add: applied_iff)

text \<open>The objects a list of calls tried to create, in order.\<close>

fun created_by :: "('e, 'c) call \<Rightarrow> unstructured list" where
  "created_by (CallCreate c obj r) = [obj]"
| "created_by _ = []"

definition created :: "('e, 'c) call list \<Rightarrow> unstructured list" where
  "created tr = concat (map created_by tr)"

lemma created_simps [simp]:
  "created [] = []" "created (ev # tr) = created_by ev @ created tr" "created (tr @ tr') = created tr @ created tr'"
  by (simp_all add: created_def)

text \<open>What the documentation of the API server promises of \<^verbatim>\<open>Create\<close>: an object is there
  after a creation that succeeded or found it, objects do not disappear by it, and creating an object
  that is there changes nothing and says so.\<close>

definition create_contract ::
  "('c \<Rightarrow> unstructured \<Rightarrow> 'x \<Rightarrow> 'e option \<times> 'x) \<Rightarrow> 'e err_tests \<Rightarrow> ('c \<Rightarrow> unstructured \<Rightarrow> 'x \<Rightarrow> bool) \<Rightarrow> bool" where
  "create_contract Create tests present \<longleftrightarrow>
     (\<forall>c obj x r x'. Create c obj x = (r, x') \<longrightarrow> create_ok tests r \<longrightarrow> present c obj x')
   \<and> (\<forall>c obj x r x' c' obj'. Create c obj x = (r, x') \<longrightarrow> present c' obj' x \<longrightarrow> present c' obj' x')
   \<and> (\<forall>c obj x. present c obj x \<longrightarrow> (\<exists>e. Create c obj x = (Some e, x) \<and> IsAlreadyExists tests e))"

lemma create_contract_ok:
  "create_contract Create tests present \<Longrightarrow> Create c obj x = (r, x') \<Longrightarrow> create_ok tests r \<Longrightarrow>
   present c obj x'"
  unfolding create_contract_def by blast

lemma create_contract_keeps:
  "create_contract Create tests present \<Longrightarrow> Create c obj x = (r, x') \<Longrightarrow> present c' obj' x \<Longrightarrow>
   present c' obj' x'"
  unfolding create_contract_def by blast

lemma create_contract_there:
  "create_contract Create tests present \<Longrightarrow> present c obj x \<Longrightarrow>
   \<exists>e. Create c obj x = (Some e, x) \<and> IsAlreadyExists tests e"
  unfolding create_contract_def by blast

text \<open>A server that keeps the created objects in a list, for closed instances: it knows the kinds
  that \<open>kinds\<close> accepts; error 1 is \<^verbatim>\<open>AlreadyExists\<close>, 2 is
  \<^verbatim>\<open>NoKindMatch\<close>, 3 is \<^verbatim>\<open>NotFound\<close>, 4 is EOF.\<close>

definition store_tests :: "nat err_tests" where
  "store_tests = \<lparr>IsNotFound = (\<lambda>e. e = 3), IsAlreadyExists = (\<lambda>e. e = 1), IsNoKindMatch = (\<lambda>e. e = 2),
                  IsEOF = (\<lambda>e. e = 4), IsCanceled = (\<lambda>e. e = 5)\<rparr>"

definition store_Create ::
  "(unstructured \<Rightarrow> bool) \<Rightarrow> 'c \<Rightarrow> unstructured \<Rightarrow> ('c \<times> unstructured) list \<Rightarrow>
   nat option \<times> ('c \<times> unstructured) list" where
  "store_Create kinds c obj x =
     (if List.member x (c, obj) then (Some 1, x)
      else if \<not> kinds obj then (Some 2, x) else (None, x @ [(c, obj)]))"

lemma store_Create_contract:
  "create_contract (store_Create kinds) store_tests (\<lambda>c obj x. (c, obj) \<in> set x)"
  by (auto simp: create_contract_def store_Create_def store_tests_def split: if_splits)

lemma is_read_not [simp]:
  "is_read ev \<Longrightarrow> \<not> is_patch ev"
  by (cases ev) auto

end
