(* ===== verification/Manifest_Yaml.thy ===== *)
theory Manifest_Yaml
  imports Agent_World
begin

text \<open>
  \<^verbatim>\<open>internal/manifest/yaml.go\<close>: the documents of a rendered template. The decoder of
  \<^verbatim>\<open>k8s.io/apimachinery/pkg/util/yaml\<close> is a state machine \<open>Decode\<close>; nothing bounds
  the number of documents it may deliver, so the loop is a partial function, whose \<open>None\<close> means that
  it does not return.
\<close>

type_synonym document = "(string \<times> json) list"

partial_function (option) ParseYAML_loop ::
  "('d \<Rightarrow> ('e + document) \<times> 'd) \<Rightarrow> ('e \<Rightarrow> bool) \<Rightarrow> unstructured list \<Rightarrow> 'd \<Rightarrow>
   ('e, unstructured list) result option" where
  "ParseYAML_loop Decode isEOF results decoder =
     (case Decode decoder of (r, decoder') \<Rightarrow>
        (case r of
           Inl e \<Rightarrow>
             if isEOF e then Some (Inr results)
             else Some (Inl (Errorf ''failed to decode YAML'' (External e)))
         | Inr obj \<Rightarrow>
             if length obj = 0 then ParseYAML_loop Decode isEOF results decoder'
             else ParseYAML_loop Decode isEOF (results @ [\<lparr>Object = obj\<rparr>]) decoder'))"

declare ParseYAML_loop.simps [code]

definition ParseYAML ::
  "(string \<Rightarrow> 'd) \<Rightarrow> ('d \<Rightarrow> ('e + document) \<times> 'd) \<Rightarrow> ('e \<Rightarrow> bool) \<Rightarrow> string \<Rightarrow>
   ('e, unstructured list) result outcome" where
  "ParseYAML NewDecoder Decode isEOF data =
     outcome_of_option (ParseYAML_loop Decode isEOF [] (NewDecoder data))"

subsection \<open>What the decoder delivers\<close>

text \<open>\<open>yields Decode d docs e\<close>: from state \<open>d\<close> the decoder delivers \<open>docs\<close> and then the
  error \<open>e\<close>.\<close>

inductive yields :: "('d \<Rightarrow> ('e + document) \<times> 'd) \<Rightarrow> 'd \<Rightarrow> document list \<Rightarrow> 'e \<Rightarrow> bool"
  for Decode where
  yields_end: "Decode d = (Inl e, d') \<Longrightarrow> yields Decode d [] e"
| yields_doc: "Decode d = (Inr obj, d') \<Longrightarrow> yields Decode d' docs e \<Longrightarrow> yields Decode d (obj # docs) e"

inductive_cases yields_NilE: "yields Decode d [] e"
inductive_cases yields_ConsE: "yields Decode d (obj # docs) e"
inductive_simps yields_simps: "yields Decode d docs e"

lemma yields_functional:
  "yields Decode d docs e \<Longrightarrow> yields Decode d docs' e' \<Longrightarrow> docs' = docs \<and> e' = e"
proof (induction arbitrary: docs' e' rule: yields.induct)
  case (yields_end d e d')
  then show ?case by (auto elim: yields.cases)
next
  case (yields_doc d obj d' docs e)
  from yields_doc.prems yields_doc.hyps(1) obtain docs'' where
    "docs' = obj # docs''" "yields Decode d' docs'' e'"
    by (auto elim: yields.cases)
  with yields_doc.IH show ?case by blast
qed

text \<open>The reference: keep the documents that are not empty, in order.\<close>

definition documents_of :: "document list \<Rightarrow> unstructured list" where
  "documents_of docs = map (\<lambda>obj. \<lparr>Object = obj\<rparr>) (filter (\<lambda>obj. obj \<noteq> []) docs)"

lemma documents_of_simps [simp]:
  "documents_of [] = []"
  "documents_of (obj # docs) = (if obj = [] then documents_of docs else \<lparr>Object = obj\<rparr> # documents_of docs)"
  by (simp_all add: documents_of_def)

definition parsed :: "('e \<Rightarrow> bool) \<Rightarrow> document list \<Rightarrow> 'e \<Rightarrow> ('e, unstructured list) result" where
  "parsed isEOF docs e =
     (if isEOF e then Inr (documents_of docs)
      else Inl (Errorf ''failed to decode YAML'' (External e)))"

lemma ParseYAML_loop_yields:
  "yields Decode d docs e \<Longrightarrow>
   ParseYAML_loop Decode isEOF results d
   = Some (if isEOF e then Inr (results @ documents_of docs)
           else Inl (Errorf ''failed to decode YAML'' (External e)))"
proof (induction arbitrary: results rule: yields.induct)
  case (yields_end d e d')
  then show ?case by (simp add: ParseYAML_loop.simps)
next
  case (yields_doc d obj d' docs e)
  then show ?case by (simp add: ParseYAML_loop.simps [of Decode isEOF results d])
qed

text \<open>The loop returns only by running into an error of the decoder.\<close>

lemma ParseYAML_loop_returns:
  fixes Decode :: "'d \<Rightarrow> ('e + document) \<times> 'd"
  assumes ret: "ParseYAML_loop Decode isEOF results d = Some r"
  shows "\<exists>docs e. yields Decode d docs e"
proof (rule ParseYAML_loop.raw_induct
    [where P = "\<lambda>Decode isEOF results d r. \<exists>docs e. yields Decode d docs e", OF _ ret])
  fix f :: "('d \<Rightarrow> ('e + document) \<times> 'd) \<Rightarrow> ('e \<Rightarrow> bool) \<Rightarrow> unstructured list \<Rightarrow> 'd \<Rightarrow>
      ('e, unstructured list) result option"
    and Decode :: "'d \<Rightarrow> ('e + document) \<times> 'd" and isEOF results d r
  assume IH: "\<And>Decode isEOF results d r. f Decode isEOF results d = Some r \<Longrightarrow> \<exists>docs e. yields Decode d docs e"
    and eq: "(case Decode d of (r, decoder') \<Rightarrow>
        (case r of
           Inl e \<Rightarrow>
             if isEOF e then Some (Inr results)
             else Some (Inl (Errorf ''failed to decode YAML'' (External e)))
         | Inr obj \<Rightarrow>
             if length obj = 0 then f Decode isEOF results decoder'
             else f Decode isEOF (results @ [\<lparr>Object = obj\<rparr>]) decoder')) = Some r"
  obtain o' d' where dec: "Decode d = (o', d')" by (cases "Decode d")
  show "\<exists>docs e. yields Decode d docs e"
  proof (cases o')
    case (Inl e)
    with dec show ?thesis by (auto intro: yields.intros)
  next
    case (Inr obj)
    with dec eq have "\<exists>results'. f Decode isEOF results' d' = Some r"
      by (auto split: if_splits)
    with IH obtain docs e where "yields Decode d' docs e" by blast
    with dec Inr show ?thesis by (blast intro: yields.intros)
  qed
qed

lemma ParseYAML_Ret_iff:
  "ParseYAML NewDecoder Decode isEOF data = Ret r
   \<longleftrightarrow> (\<exists>docs e. yields Decode (NewDecoder data) docs e \<and> r = parsed isEOF docs e)"
proof
  assume "ParseYAML NewDecoder Decode isEOF data = Ret r"
  then have loop: "ParseYAML_loop Decode isEOF [] (NewDecoder data) = Some r"
    by (simp add: ParseYAML_def)
  then obtain docs e where y: "yields Decode (NewDecoder data) docs e"
    using ParseYAML_loop_returns [OF loop] by blast
  from loop ParseYAML_loop_yields [OF y, of isEOF "[]"] have "r = parsed isEOF docs e"
    by (simp add: parsed_def split: if_splits)
  with y show "\<exists>docs e. yields Decode (NewDecoder data) docs e \<and> r = parsed isEOF docs e" by blast
next
  assume "\<exists>docs e. yields Decode (NewDecoder data) docs e \<and> r = parsed isEOF docs e"
  then obtain docs e where y: "yields Decode (NewDecoder data) docs e" "r = parsed isEOF docs e" by blast
  with ParseYAML_loop_yields [OF y(1), of isEOF "[]"]
  show "ParseYAML NewDecoder Decode isEOF data = Ret r"
    by (simp add: ParseYAML_def parsed_def)
qed

lemma ParseYAML_no_panic: "ParseYAML NewDecoder Decode isEOF data \<noteq> Panic m"
  by (simp add: ParseYAML_def)

text \<open>A decoder that consumes its input delivers finitely many documents.\<close>

lemma consuming_yields:
  assumes consumes: "\<And>d obj d'. Decode d = (Inr obj, d') \<Longrightarrow> remaining d' < (remaining d :: nat)"
  shows "\<exists>docs e. yields Decode d docs e"
proof (induction "remaining d" arbitrary: d rule: less_induct)
  case less
  obtain o' d' where dec: "Decode d = (o', d')" by (cases "Decode d")
  show ?case
  proof (cases o')
    case (Inl e)
    with dec show ?thesis by (auto intro: yields.intros)
  next
    case (Inr obj)
    with dec consumes have "remaining d' < remaining d" by blast
    then obtain docs e where "yields Decode d' docs e" using less by blast
    with dec Inr show ?thesis by (blast intro: yields.intros)
  qed
qed

text \<open>A decoder over a list of documents that are already split, used for closed instances.\<close>

fun list_Decode :: "document list \<Rightarrow> (nat + document) \<times> document list" where
  "list_Decode [] = (Inl 0, [])"
| "list_Decode (obj # docs) = (Inr obj, docs)"

lemma yields_list_Decode: "yields list_Decode docs docs 0"
proof (induction docs)
  case Nil
  show ?case by (rule yields.intros) simp
next
  case (Cons obj docs)
  then show ?case by (auto intro: yields.intros)
qed

text \<open>C22: with a decoder that consumes its input, parsing returns: the non-empty documents in the order
  of the text if the decoder ends with EOF, the decoder's error otherwise; no document is dropped,
  duplicated or reordered, and an error discards what was parsed before it.\<close>

theorem ParseYAML_total:
  assumes "\<And>d obj d'. Decode d = (Inr obj, d') \<Longrightarrow> remaining d' < (remaining d :: nat)"
  shows "\<exists>docs e. yields Decode (NewDecoder data) docs e
     \<and> ParseYAML NewDecoder Decode isEOF data
       = Ret (if isEOF e then Inr (documents_of docs)
              else Inl (Errorf ''failed to decode YAML'' (External e)))"
proof -
  obtain docs e where y: "yields Decode (NewDecoder data) docs e"
    using consuming_yields [of Decode remaining "NewDecoder data"] assms by blast
  then have "ParseYAML NewDecoder Decode isEOF data = Ret (parsed isEOF docs e)"
    by (auto simp: ParseYAML_Ret_iff)
  with y show ?thesis by (auto simp: parsed_def)
qed

theorem ParseYAML_total_witness:
  "ParseYAML (\<lambda>_. [[(''kind'', JStr ''Namespace'')], [], [(''kind'', JStr ''ConfigMap'')]])
      list_Decode (\<lambda>e. e = 0) []
   = Ret (Inr [\<lparr>Object = [(''kind'', JStr ''Namespace'')]\<rparr>, \<lparr>Object = [(''kind'', JStr ''ConfigMap'')]\<rparr>])"
  (is "ParseYAML ?new _ _ _ = Ret (Inr ?objs)")
proof -
  have consumes: "length d' < length d" if "list_Decode d = (Inr obj, d')" for d obj d'
    using that by (cases d) auto
  obtain docs e where y: "yields list_Decode (?new []) docs e"
    and p: "ParseYAML ?new list_Decode (\<lambda>e. e = 0) []
       = Ret (if e = 0 then Inr (documents_of docs)
              else Inl (Errorf ''failed to decode YAML'' (External e)))"
    using ParseYAML_total [where Decode = list_Decode and remaining = length and NewDecoder = ?new
        and data = "[]" and isEOF = "\<lambda>e. e = 0"] consumes by blast
  have "docs = ?new [] \<and> e = 0"
    using yields_functional [OF yields_list_Decode y] by blast
  with p show ?thesis by simp
qed

end
