(* ===== verification/Init_Source.thy ===== *)
theory Init_Source
  imports Kcp_Client Manifest_Yaml
begin

text \<open>
  \<^verbatim>\<open>internal/initialize\<close>: where the manifests come from. An init source is resolved to a
  \<^verbatim>\<open>ManifestsSource\<close>, an interface with one method, so here a function from a logical cluster to
  its objects. The only implementation is the init template: fetch the \<^verbatim>\<open>InitTemplate\<close> from the
  cluster of the \<^verbatim>\<open>InitTarget\<close>, parse it, execute it with name and path of the
  cluster to initialize, and decode the result. Template engine, YAML decoder, schemes and clients are
  library code, the fields of \<open>source_env\<close>; execution may consume randomness (sprig has such functions),
  so it runs on the external state.
\<close>

record render_context =
  rc_ClusterName :: string
  rc_ClusterPath :: string

record ('x, 'e, 'c, 'sch, 'tpl, 'd) source_env =
  se_lib :: kcp_lib
  se_LogicalClusterGVK :: string
  se_tests :: "'e err_tests"
  se_NewScheme :: 'sch
  se_AddToScheme :: "'sch \<Rightarrow> 'e option \<times> 'sch"
  se_GroupVersionString :: "group_version \<Rightarrow> string"
  se_GetTemplate :: "'c \<Rightarrow> string \<Rightarrow> 'x \<Rightarrow> ('e + InitTemplate) \<times> 'x"
  se_Parse :: "string \<Rightarrow> 'e + 'tpl"
  se_Execute :: "'tpl \<Rightarrow> render_context \<Rightarrow> 'x \<Rightarrow> ('e + string) \<times> 'x"
  se_NewDecoder :: "string \<Rightarrow> 'd"
  se_Decode :: "'d \<Rightarrow> ('e + document) \<times> 'd"

type_synonym ('x, 'e, 'c) ManifestsSource =
  "logical_cluster \<Rightarrow> ('x, 'e, 'c) agent_world \<Rightarrow>
   ('e, unstructured list) result outcome \<times> ('x, 'e, 'c) agent_world"

subsection \<open>inittemplate/source.go\<close>

record 'tpl template_source =
  src_tpl :: 'tpl

definition render ::
  "('x, 'e, 'c, 'sch, 'tpl, 'd) source_env \<Rightarrow> 'tpl template_source \<Rightarrow> logical_cluster \<Rightarrow>
   ('x, 'e, 'c) agent_world \<Rightarrow> ('e, string) result outcome \<times> ('x, 'e, 'c) agent_world" where
  "render env b cluster w =
     (let clusterName = ClusterNameFromObject (se_lib env) (lc_ObjectMeta cluster)
      in case ClusterPathFromObject (se_lib env) (se_LogicalClusterGVK env) (lc_ObjectMeta cluster) of
           Panic m \<Rightarrow> (Panic m, w)
         | Diverges \<Rightarrow> (Diverges, w)
         | Ret path \<Rightarrow>
             (let ctx = \<lparr>rc_ClusterName = clusterName, rc_ClusterPath = lib_PathString (se_lib env) path\<rparr>
              in case ext_call (se_Execute env (src_tpl b) ctx) (\<lambda>r. CallExecute clusterName (err_of r)) w of
                   (Inl e, w') \<Rightarrow> (Ret (Inl (Errorf ''failed to execute template'' (External e))), w')
                 | (Inr buf, w') \<Rightarrow> (Ret (Inr buf), w')))"

definition Manifests ::
  "('x, 'e, 'c, 'sch, 'tpl, 'd) source_env \<Rightarrow> 'tpl template_source \<Rightarrow> ('x, 'e, 'c) ManifestsSource" where
  "Manifests env b cluster w =
     (case render env b cluster w of
        (Panic m, w') \<Rightarrow> (Panic m, w')
      | (Diverges, w') \<Rightarrow> (Diverges, w')
      | (Ret (Inl e), w') \<Rightarrow> (Ret (Inl e), w')
      | (Ret (Inr rendered), w') \<Rightarrow>
          (ParseYAML (se_NewDecoder env) (se_Decode env) (IsEOF (se_tests env)) rendered, w'))"

definition New_source ::
  "('x, 'e, 'c, 'sch, 'tpl, 'd) source_env \<Rightarrow> string \<Rightarrow> ('e, ('x, 'e, 'c) ManifestsSource) result" where
  "New_source env tplString =
     (case se_Parse env tplString of
        Inl e \<Rightarrow> Inl (Errorf ''failed to parse template'' (External e))
      | Inr tpl \<Rightarrow> Inr (Manifests env \<lparr>src_tpl = tpl\<rparr>))"

definition NewFromInitTemplate ::
  "('x, 'e, 'c, 'sch, 'tpl, 'd) source_env \<Rightarrow> InitTemplate \<Rightarrow> ('e, ('x, 'e, 'c) ManifestsSource) result" where
  "NewFromInitTemplate env initTemplate = New_source env (tpl_Template (itp_Spec initTemplate))"

subsection \<open>inittemplate/factory.go\<close>

text \<open>The dependencies hold a \<^verbatim>\<open>kcp.ClusterClient\<close>, of which its method
  \<^verbatim>\<open>Cluster\<close> is used.\<close>

record ('e, 'c, 'sch) template_Dependencies =
  dep_ClusterClient :: "string \<Rightarrow> 'sch \<Rightarrow> 'e + 'c"

definition template_Factory ::
  "('x, 'e, 'c, 'sch, 'tpl, 'd) source_env \<Rightarrow> ('e, 'c, 'sch) template_Dependencies \<Rightarrow> string \<Rightarrow>
   TemplateInitSource \<Rightarrow> ('x, 'e, 'c) agent_world \<Rightarrow>
   ('e, ('x, 'e, 'c) ManifestsSource) result \<times> ('x, 'e, 'c) agent_world" where
  "template_Factory env deps cluster src w =
     (case se_AddToScheme env (se_NewScheme env) of
        (Some e, scheme) \<Rightarrow>
          (Inl (Errorf (''failed to register local scheme ''
                        @ se_GroupVersionString env SchemeGroupVersion) (External e)), w)
      | (None, scheme) \<Rightarrow>
          (case dep_ClusterClient deps cluster scheme of
             Inl e \<Rightarrow> (Inl (External e), w)
           | Inr client \<Rightarrow>
               (case ext_call (se_GetTemplate env client (tis_Name src))
                       (\<lambda>r. CallGet client ReadInitTemplate (tis_Name src) (err_of r)) w of
                  (Inl e, w') \<Rightarrow> (Inl (External e), w')
                | (Inr tpl, w') \<Rightarrow> (NewFromInitTemplate env tpl, w'))))"

subsection \<open>source/factory.go\<close>

record ('e, 'c, 'sch) source_Dependencies =
  dep_Template :: "('e, 'c, 'sch) template_Dependencies"

record ('e, 'c, 'sch) source_Factory =
  fac_deps :: "('e, 'c, 'sch) source_Dependencies"

definition NewFactory :: "('e, 'c, 'sch) source_Dependencies \<Rightarrow> ('e, 'c, 'sch) source_Factory" where
  "NewFactory deps = \<lparr>fac_deps = deps\<rparr>"

definition NewInitTemplate ::
  "('x, 'e, 'c, 'sch, 'tpl, 'd) source_env \<Rightarrow> ('e, 'c, 'sch) source_Factory \<Rightarrow> string \<Rightarrow>
   TemplateInitSource \<Rightarrow> ('x, 'e, 'c) agent_world \<Rightarrow>
   ('e, ('x, 'e, 'c) ManifestsSource) result \<times> ('x, 'e, 'c) agent_world" where
  "NewInitTemplate env f cluster src w = template_Factory env (dep_Template (fac_deps f)) cluster src w"

definition NewForInitSource ::
  "('x, 'e, 'c, 'sch, 'tpl, 'd) source_env \<Rightarrow> ('e, 'c, 'sch) source_Factory \<Rightarrow> string \<Rightarrow>
   init_source \<Rightarrow> ('x, 'e, 'c) agent_world \<Rightarrow>
   ('e, ('x, 'e, 'c) ManifestsSource) result \<times> ('x, 'e, 'c) agent_world" where
  "NewForInitSource env f cluster src w =
     (case src_Template src of
        Some t \<Rightarrow> NewInitTemplate env f cluster t w
      | None \<Rightarrow> (Inl (ErrorNew ''no known source configured''), w))"

subsection \<open>The interfaces: a factory of manifests sources\<close>

text \<open>What the init controller relies on: resolving and rendering only read, and rendering does not
  panic for a cluster whose path is known.\<close>

locale source_factory =
  fixes new_source :: "string \<Rightarrow> init_source \<Rightarrow> ('x, 'e, 'c) agent_world \<Rightarrow>
      ('e, ('x, 'e, 'c) ManifestsSource) result \<times> ('x, 'e, 'c) agent_world"
    and path_known :: "logical_cluster \<Rightarrow> bool"
  assumes new_source_reads: "new_source cl src w = (r, w') \<Longrightarrow>
      \<exists>tr. calls w' = calls w @ tr \<and> list_all is_read tr"
    and manifests_reads: "new_source cl src w = (Inr ms, w') \<Longrightarrow> ms lc w1 = (out, w2) \<Longrightarrow>
      \<exists>tr. calls w2 = calls w1 @ tr \<and> list_all is_read tr"
    and manifests_no_panic: "new_source cl src w = (Inr ms, w') \<Longrightarrow> path_known lc \<Longrightarrow>
      ms lc w1 = (out, w2) \<Longrightarrow> out \<noteq> Panic m"
begin

text \<open>One source, resolved and rendered: the calls of both steps are reads.\<close>

lemma source_steps_read:
  assumes "new_source cl src w = (Inr ms, w1)" "ms lc w1 = (out, w2)"
  shows "\<exists>tr. calls w2 = calls w @ tr \<and> list_all is_read tr"
proof -
  obtain tr where "calls w1 = calls w @ tr" "list_all is_read tr"
    using new_source_reads [OF assms(1)] by blast
  moreover obtain tr' where "calls w2 = calls w1 @ tr'" "list_all is_read tr'"
    using manifests_reads [OF assms] by blast
  ultimately show ?thesis by (intro exI [of _ "tr @ tr'"]) simp
qed

end

definition path_known :: "('x, 'e, 'c, 'sch, 'tpl, 'd) source_env \<Rightarrow> logical_cluster \<Rightarrow> bool" where
  "path_known env lc \<longleftrightarrow>
     returns (ClusterPathFromObject (se_lib env) (se_LogicalClusterGVK env) (lc_ObjectMeta lc))"

lemma ClusterPathFromObject_not_Diverges [simp]: "ClusterPathFromObject lib gvk m \<noteq> Diverges"
  by (simp add: ClusterPathFromObject_def split: option.splits)

lemma render_reads:
  "render env b lc w = (out, w') \<Longrightarrow> \<exists>tr. calls w' = calls w @ tr \<and> list_all is_read tr"
  by (auto simp: render_def Let_def split: outcome.splits prod.splits sum.splits dest!: ext_call_calls)

lemma Manifests_reads:
  assumes "Manifests env b lc w = (out, w')"
  shows "\<exists>tr. calls w' = calls w @ tr \<and> list_all is_read tr"
proof -
  obtain o1 w1 where r: "render env b lc w = (o1, w1)" by force
  with assms have "w' = w1"
    by (auto simp: Manifests_def split: outcome.splits sum.splits)
  with render_reads [OF r] show ?thesis by simp
qed

lemma Manifests_no_panic:
  "path_known env lc \<Longrightarrow> Manifests env b lc w = (out, w') \<Longrightarrow> out \<noteq> Panic m"
  by (auto simp: Manifests_def render_def path_known_def Let_def ParseYAML_no_panic
      split: outcome.splits prod.splits sum.splits)

lemma New_source_Inr:
  "New_source env s = Inr ms \<Longrightarrow> \<exists>tpl. se_Parse env s = Inr tpl \<and> ms = Manifests env \<lparr>src_tpl = tpl\<rparr>"
  by (auto simp: New_source_def split: sum.splits)

lemma NewForInitSource_reads:
  "NewForInitSource env f cl src w = (r, w') \<Longrightarrow> \<exists>tr. calls w' = calls w @ tr \<and> list_all is_read tr"
  by (auto simp: NewForInitSource_def NewInitTemplate_def template_Factory_def dest!: ext_call_calls
      split: option.splits prod.splits sum.splits)

lemma NewForInitSource_Inr:
  assumes "NewForInitSource env f cl src w = (Inr ms, w')"
  shows "\<exists>b. ms = Manifests env b"
  using assms New_source_Inr
  by (fastforce simp: NewForInitSource_def NewInitTemplate_def template_Factory_def
      NewFromInitTemplate_def split: option.splits prod.splits sum.splits)

interpretation template_sources: source_factory "NewForInitSource env f" "path_known env"
  for env :: "('x, 'e, 'c, 'sch, 'tpl, 'd) source_env" and f :: "('e, 'c, 'sch) source_Factory"
proof
  fix cl src w r w'
  assume "NewForInitSource env f cl src w = (r, w')"
  then show "\<exists>tr. calls w' = calls w @ tr \<and> list_all is_read tr" by (rule NewForInitSource_reads)
next
  fix cl src w ms w' lc w1 out w2
  assume a: "NewForInitSource env f cl src w = (Inr ms, w')" and m: "ms lc w1 = (out, w2)"
  then obtain b where "ms = Manifests env b" using NewForInitSource_Inr [OF a] by blast
  with m show "\<exists>tr. calls w2 = calls w1 @ tr \<and> list_all is_read tr" by (auto dest: Manifests_reads)
next
  fix cl src w ms w' lc w1 out w2 m
  assume a: "NewForInitSource env f cl src w = (Inr ms, w')" and p: "path_known env lc"
    and m: "ms lc w1 = (out, w2)"
  then obtain b where "ms = Manifests env b" using NewForInitSource_Inr [OF a] by blast
  with p m show "out \<noteq> Panic m" by (auto dest: Manifests_no_panic)
qed

text \<open>C21: a template source. Resolving a source that names an init template yields a manifests source only if
  the template object was read, under that name and in the cluster of the target, and its text could be
  parsed; the manifests for a cluster whose path is known are then the documents of the text that executing
  this template with name and path of that cluster gives, and a failed execution is an error. A source
  without a template is an error.\<close>

theorem template_source_renders:
  assumes "NewForInitSource env f cl src w = (Inr ms, w1)"
  shows "\<exists>t scheme client tpl parsed.
      src_Template src = Some t
    \<and> dep_ClusterClient (dep_Template (fac_deps f)) cl scheme = Inr client
    \<and> se_GetTemplate env client (tis_Name t) (ext w) = (Inr tpl, ext w1)
    \<and> new_calls w w1 = [CallGet client ReadInitTemplate (tis_Name t) None]
    \<and> se_Parse env (tpl_Template (itp_Spec tpl)) = Inr parsed
    \<and> (\<forall>lc w2. case map_of (meta_Annotations (lc_ObjectMeta lc)) (lib_PathAnnotationKey (se_lib env)) of
          None \<Rightarrow> (\<exists>m. fst (ms lc w2) = Panic m)
        | Some path \<Rightarrow>
            fst (ms lc w2) =
              (case fst (se_Execute env parsed
                      \<lparr>rc_ClusterName = lib_From (se_lib env) (lc_ObjectMeta lc),
                       rc_ClusterPath = lib_PathString (se_lib env) (lib_NewPath (se_lib env) path)\<rparr> (ext w2)) of
                 Inl e \<Rightarrow> Ret (Inl (Errorf ''failed to execute template'' (External e)))
               | Inr text \<Rightarrow> ParseYAML (se_NewDecoder env) (se_Decode env) (IsEOF (se_tests env)) text))"
proof -
  obtain t where t: "src_Template src = Some t"
    using assms by (cases "src_Template src") (auto simp: NewForInitSource_def)
  obtain scheme client tpl where read:
    "dep_ClusterClient (dep_Template (fac_deps f)) cl scheme = Inr client"
    "ext_call (se_GetTemplate env client (tis_Name t)) (\<lambda>r. CallGet client ReadInitTemplate (tis_Name t) (err_of r)) w
       = (Inr tpl, w1)"
    "New_source env (tpl_Template (itp_Spec tpl)) = Inr ms"
    using assms t by (auto simp: NewForInitSource_def NewInitTemplate_def template_Factory_def NewFromInitTemplate_def
        split: option.splits prod.splits sum.splits)
  from New_source_Inr [OF read(3)] obtain parsed where
    parsed: "se_Parse env (tpl_Template (itp_Spec tpl)) = Inr parsed" "ms = Manifests env \<lparr>src_tpl = parsed\<rparr>"
    by blast
  have "case map_of (meta_Annotations (lc_ObjectMeta lc)) (lib_PathAnnotationKey (se_lib env)) of
          None \<Rightarrow> (\<exists>m. fst (ms lc w2) = Panic m)
        | Some path \<Rightarrow>
            fst (ms lc w2) =
              (case fst (se_Execute env parsed
                      \<lparr>rc_ClusterName = lib_From (se_lib env) (lc_ObjectMeta lc),
                       rc_ClusterPath = lib_PathString (se_lib env) (lib_NewPath (se_lib env) path)\<rparr> (ext w2)) of
                 Inl e \<Rightarrow> Ret (Inl (Errorf ''failed to execute template'' (External e)))
               | Inr text \<Rightarrow> ParseYAML (se_NewDecoder env) (se_Decode env) (IsEOF (se_tests env)) text)" for lc w2
    by (auto simp: parsed(2) Manifests_def render_def Let_def ClusterPathFromObject_def ClusterNameFromObject_def
        ext_call_def split: option.split prod.split sum.split)
  moreover have "new_calls w w1 = [CallGet client ReadInitTemplate (tis_Name t) None]"
    using ext_call_calls [OF read(2)] by (simp add: new_callsI)
  ultimately show ?thesis using t read(1) ext_call_ext [OF read(2)] parsed(1) by blast
qed

end
