(* ===== verification/Manifest_Sort.thy ===== *)
theory Manifest_Sort
  imports Go_Strings Api_Types "HOL-Library.Multiset"
begin

text \<open>
  \<^verbatim>\<open>internal/manifest/sort.go\<close>: the order in which the objects of one source are applied.
  \<^verbatim>\<open>slices.SortFunc\<close> sorts slices of up to twelve elements by insertion and larger ones by
  partitioning; its documentation promises a sorted permutation and no stability. The model has the
  insertion sort as a definition and takes the sort of the larger slices as the argument \<open>big\<close>,
  of which theorems assume that promise, the locale \<open>sort_func\<close>. The lower-case name
  \<^verbatim>\<open>obj.GroupVersionKind().GroupKind().String()\<close> is read by the library function
  \<open>groupKind\<close>.
\<close>

subsection \<open>slices.SortFunc\<close>

text \<open>The comparators in use compare integer keys.\<close>

abbreviation by_key :: "('a \<Rightarrow> int) \<Rightarrow> 'a \<Rightarrow> 'a \<Rightarrow> int" where
  "by_key key \<equiv> (\<lambda>a b. cmp_Compare (key a) (key b))"

locale sort_func =
  fixes sortf :: "('a \<Rightarrow> 'a \<Rightarrow> int) \<Rightarrow> 'a list \<Rightarrow> 'a list"
  assumes sort_mset: "mset (sortf (by_key key) xs) = mset xs"
    and sort_sorted: "sorted (map key (sortf (by_key key) xs))"
begin

lemma sort_set: "set (sortf (by_key key) xs) = set xs"
  using sort_mset by (metis set_mset_mset)

lemma sort_length: "length (sortf (by_key key) xs) = length xs"
  using sort_mset by (metis size_mset)

lemma sort_before:
  "i < j \<Longrightarrow> j < length xs \<Longrightarrow> key (sortf (by_key key) xs ! i) \<le> key (sortf (by_key key) xs ! j)"
  using sort_sorted [of key xs] sort_length [of key xs]
  by (metis (no_types, lifting) length_map less_imp_le less_trans nth_map sorted_nth_mono)

text \<open>The sequence of keys does not depend on the algorithm.\<close>

lemma sort_keys: "map key (sortf (by_key key) xs) = sort (map key xs)"
  by (rule sym, rule properties_for_sort) (simp_all add: sort_sorted mset_map sort_mset)

end

text \<open>Insertion sort: \<open>slide\<close> moves one element down the sorted prefix, which is kept reversed
  (its last element first), past every element it is smaller than.\<close>

fun slide :: "('a \<Rightarrow> 'a \<Rightarrow> int) \<Rightarrow> 'a \<Rightarrow> 'a list \<Rightarrow> 'a list" where
  "slide cmp x [] = [x]"
| "slide cmp x (y # ys) = (if cmp x y < 0 then y # slide cmp x ys else x # y # ys)"

definition insertionSortCmpFunc :: "('a \<Rightarrow> 'a \<Rightarrow> int) \<Rightarrow> 'a list \<Rightarrow> 'a list" where
  "insertionSortCmpFunc cmp xs = rev (foldl (\<lambda>acc x. slide cmp x acc) [] xs)"

definition slices_SortFunc ::
  "(('a \<Rightarrow> 'a \<Rightarrow> int) \<Rightarrow> 'a list \<Rightarrow> 'a list) \<Rightarrow> ('a \<Rightarrow> 'a \<Rightarrow> int) \<Rightarrow> 'a list \<Rightarrow> 'a list" where
  "slices_SortFunc big cmp xs =
     (if length xs \<le> 12 then insertionSortCmpFunc cmp xs else big cmp xs)"

lemma mset_slide: "mset (slide cmp x ys) = add_mset x (mset ys)"
  by (induction ys) auto

lemma mset_foldl_slide:
  "mset (foldl (\<lambda>acc x. slide cmp x acc) acc xs) = mset acc + mset xs"
  by (induction xs arbitrary: acc) (auto simp: mset_slide)

lemma set_slide: "set (slide cmp x ys) = insert x (set ys)"
  by (induction ys) auto

lemma slide_desc:
  "sorted_wrt (\<lambda>a b. key b \<le> key a) ys \<Longrightarrow> sorted_wrt (\<lambda>a b. key b \<le> key a) (slide (by_key key) x ys)"
  by (induction ys) (force simp: set_slide)+

lemma foldl_slide_desc:
  "sorted_wrt (\<lambda>a b. key b \<le> key a) acc \<Longrightarrow>
   sorted_wrt (\<lambda>a b. key b \<le> key a) (foldl (\<lambda>acc x. slide (by_key key) x acc) acc xs)"
  by (induction xs arbitrary: acc) (auto intro: slide_desc)

lemma sorted_map_rev: "sorted_wrt (\<lambda>a b. key b \<le> key a) ys \<Longrightarrow> sorted (map key (rev ys))"
  by (simp add: sorted_wrt_rev sorted_wrt_map)

interpretation insertion: sort_func insertionSortCmpFunc
  by unfold_locales
    (auto simp: insertionSortCmpFunc_def mset_foldl_slide intro!: sorted_map_rev foldl_slide_desc)

text \<open>What is assumed of the sort of the larger slices, and that it makes \<open>slices_SortFunc\<close> a
  sort.\<close>

locale big_sort =
  fixes big :: "('a \<Rightarrow> 'a \<Rightarrow> int) \<Rightarrow> 'a list \<Rightarrow> 'a list"
  assumes big_mset: "12 < length xs \<Longrightarrow> mset (big (by_key key) xs) = mset xs"
    and big_sorted: "12 < length xs \<Longrightarrow> sorted (map key (big (by_key key) xs))"

sublocale big_sort \<subseteq> slices: sort_func "slices_SortFunc big"
  by unfold_locales
    (auto simp: slices_SortFunc_def big_mset big_sorted insertion.sort_mset insertion.sort_sorted
          simp del: mset_map)

interpretation insertion_big: big_sort insertionSortCmpFunc
  by unfold_locales (simp_all add: insertion.sort_mset insertion.sort_sorted del: mset_map)

text \<open>Insertion is stable: within one key the order is the input's.\<close>

lemma filter_slide:
  "filter (\<lambda>y. key y = k) (slide (by_key key) x ys)
   = (if key x = k then x # filter (\<lambda>y. key y = k) ys else filter (\<lambda>y. key y = k) ys)"
  by (induction ys) auto

lemma filter_foldl_slide:
  "filter (\<lambda>y. key y = k) (foldl (\<lambda>acc x. slide (by_key key) x acc) acc xs)
   = rev (filter (\<lambda>y. key y = k) xs) @ filter (\<lambda>y. key y = k) acc"
  by (induction xs arbitrary: acc) (auto simp: filter_slide)

lemma insertionSort_stable:
  "filter (\<lambda>y. key y = k) (insertionSortCmpFunc (by_key key) xs) = filter (\<lambda>y. key y = k) xs"
  by (simp add: insertionSortCmpFunc_def filter_foldl_slide flip: rev_filter)

subsection \<open>The hierarchy of objects\<close>

definition weights :: "string list" where
  "weights = [''customresourcedefinition.apiextensions.k8s.io'',
              ''apiexport.apis.kcp.io'',
              ''apibinding.apis.kcp.io'',
              ''namespace'']"

definition objectWeight :: "(unstructured \<Rightarrow> string) \<Rightarrow> unstructured \<Rightarrow> int" where
  "objectWeight groupKind obj =
     (let gk = ToLower (groupKind obj);
          weight = slices_Index weights gk
      in if weight = -1 then int (length weights) else weight)"

definition SortObjectsByHierarchy ::
  "((unstructured \<Rightarrow> unstructured \<Rightarrow> int) \<Rightarrow> unstructured list \<Rightarrow> unstructured list) \<Rightarrow>
   (unstructured \<Rightarrow> string) \<Rightarrow> unstructured list \<Rightarrow> unstructured list" where
  "SortObjectsByHierarchy big groupKind objects =
     slices_SortFunc big
       (\<lambda>objA objB. let weightA = objectWeight groupKind objA;
                        weightB = objectWeight groupKind objB
                    in cmp_Compare weightA weightB)
       objects"

lemma SortObjectsByHierarchy_by_key:
  "SortObjectsByHierarchy big gk objs = slices_SortFunc big (by_key (objectWeight gk)) objs"
  by (simp add: SortObjectsByHierarchy_def Let_def)

lemma length_weights [simp]: "length weights = 4"
  by (simp add: weights_def)

lemma objectWeight_bounds: "0 \<le> objectWeight gk obj \<and> objectWeight gk obj \<le> 4"
  using slices_Index_ge [of weights "ToLower (gk obj)"] slices_Index_less [of weights "ToLower (gk obj)"]
  by (auto simp: objectWeight_def Let_def)

lemma objectWeight_cases:
  "objectWeight gk obj \<in> set [0, 1, 2, 3, 4]"
  using objectWeight_bounds [of gk obj] by auto

text \<open>The weight is the position of the lower-case kind in the list, or 4.\<close>

lemma objectWeight_known:
  "ToLower (gk obj) \<in> set weights \<Longrightarrow>
     objectWeight gk obj < 4 \<and> weights ! nat (objectWeight gk obj) = ToLower (gk obj)"
  using slices_Index_less [of weights "ToLower (gk obj)"] slices_Index_nth [of "ToLower (gk obj)" weights]
  by (auto simp: objectWeight_def Let_def slices_Index_absent)

lemma objectWeight_unknown:
  "ToLower (gk obj) \<notin> set weights \<Longrightarrow> objectWeight gk obj = 4"
  by (simp add: objectWeight_def Let_def slices_Index_absent)

subsection \<open>The specification of the order\<close>

text \<open>A sorted list is the concatenation of its classes.\<close>

lemma sorted_concat_filter:
  fixes key :: "'a \<Rightarrow> int"
  assumes "sorted (map key xs)" "sorted ks" "distinct ks" "\<forall>x \<in> set xs. key x \<in> set ks"
  shows "concat (map (\<lambda>k. filter (\<lambda>x. key x = k) xs) ks) = xs"
  using assms
proof (induction ks arbitrary: xs)
  case Nil
  then show ?case by simp
next
  case (Cons k ks)
  define ys where "ys = dropWhile (\<lambda>x. key x = k) xs"
  have sorted_ys: "sorted (map key ys)"
    unfolding ys_def using Cons.prems(1) by (metis dropWhile_eq_drop drop_map sorted_wrt_drop)
  have ge: "k \<le> key x" if "x \<in> set xs" for x
    using that Cons.prems(2,4) by auto
  have not_k: "key x \<noteq> k" if "x \<in> set ys" for x
  proof (cases ys)
    case (Cons y zs)
    then have dw: "dropWhile (\<lambda>x. key x = k) xs = y # zs" by (simp add: ys_def)
    then have "key y \<noteq> k" using hd_dropWhile [of "\<lambda>x. key x = k" xs] by simp
    moreover have "y \<in> set xs" using dw set_dropWhileD [of y "\<lambda>x. key x = k" xs] by simp
    ultimately have "k < key y" using ge by fastforce
    moreover have "key y \<le> key x" using that sorted_ys Cons by auto
    ultimately show ?thesis by simp
  qed (use that in simp)
  have xs: "xs = takeWhile (\<lambda>x. key x = k) xs @ ys" by (simp add: ys_def)
  have head: "filter (\<lambda>x. key x = k) xs = takeWhile (\<lambda>x. key x = k) xs"
    by (subst (1) xs) (use not_k in \<open>auto simp: filter_id_conv filter_empty_conv dest: set_takeWhileD\<close>)
  have tail: "filter (\<lambda>x. key x = k') xs = filter (\<lambda>x. key x = k') ys" if "k' \<in> set ks" for k'
  proof -
    have "k' \<noteq> k" using that Cons.prems(3) by auto
    then have "filter (\<lambda>x. key x = k') (takeWhile (\<lambda>x. key x = k) xs) = []"
      by (auto simp: filter_empty_conv dest: set_takeWhileD)
    then show ?thesis by (subst (1) xs) simp
  qed
  have "set ys \<subseteq> set xs" unfolding ys_def by (auto dest: set_dropWhileD)
  then have "\<forall>x \<in> set ys. key x \<in> set ks" using not_k Cons.prems(4) by fastforce
  then have "concat (map (\<lambda>k. filter (\<lambda>x. key x = k) ys) ks) = ys"
    using Cons.IH [of ys] sorted_ys Cons.prems(2,3) by simp
  then show ?case using head tail xs by (simp cong: map_cong)
qed

definition hierarchy_classes :: "(unstructured \<Rightarrow> string) \<Rightarrow> unstructured list \<Rightarrow> unstructured list" where
  "hierarchy_classes gk objs =
     concat (map (\<lambda>name. filter (\<lambda>o'. ToLower (gk o') = name) objs) weights)
     @ filter (\<lambda>o'. ToLower (gk o') \<notin> set weights) objs"

lemma chain_of_four:
  "distinct [a, b, c, d] \<Longrightarrow>
   n = (if x = a then 0 else if x = b then 1 else if x = c then 2 else if x = d then 3 else (4::int)) \<Longrightarrow>
   (n = 0 \<longleftrightarrow> x = a) \<and> (n = 1 \<longleftrightarrow> x = b) \<and> (n = 2 \<longleftrightarrow> x = c) \<and> (n = 3 \<longleftrightarrow> x = d)
   \<and> (n = 4 \<longleftrightarrow> x \<notin> set [a, b, c, d])"
  by auto

lemma weights_distinct: "distinct [weights ! 0, weights ! 1, weights ! 2, weights ! 3]"
  by (simp add: weights_def)

lemma weights_nths: "weights = [weights ! 0, weights ! 1, weights ! 2, weights ! 3]"
  by (simp add: weights_def)

lemma objectWeight_eq:
  "objectWeight gk o' =
     (if ToLower (gk o') = weights ! 0 then 0 else if ToLower (gk o') = weights ! 1 then 1
      else if ToLower (gk o') = weights ! 2 then 2 else if ToLower (gk o') = weights ! 3 then 3 else 4)"
  by (simp add: objectWeight_def Let_def weights_def)

lemma objectWeight_iff:
  "(objectWeight gk o' = 0 \<longleftrightarrow> ToLower (gk o') = weights ! 0)
   \<and> (objectWeight gk o' = 1 \<longleftrightarrow> ToLower (gk o') = weights ! 1)
   \<and> (objectWeight gk o' = 2 \<longleftrightarrow> ToLower (gk o') = weights ! 2)
   \<and> (objectWeight gk o' = 3 \<longleftrightarrow> ToLower (gk o') = weights ! 3)
   \<and> (objectWeight gk o' = 4 \<longleftrightarrow> ToLower (gk o') \<notin> set weights)"
  using chain_of_four [OF weights_distinct objectWeight_eq] weights_nths by metis

lemma filter_weight_eq:
  "concat (map (\<lambda>k. filter (\<lambda>o'. objectWeight gk o' = k) objs) [0, 1, 2, 3, 4])
   = hierarchy_classes gk objs"
proof -
  have "concat (map (\<lambda>name. filter (\<lambda>o'. ToLower (gk o') = name) objs) weights)
     = concat (map (\<lambda>name. filter (\<lambda>o'. ToLower (gk o') = name) objs)
         [weights ! 0, weights ! 1, weights ! 2, weights ! 3])"
    by (simp only: weights_nths [symmetric])
  then show ?thesis
    by (simp add: hierarchy_classes_def objectWeight_iff)
qed

locale hierarchy_sort = big_sort big
  for big :: "(unstructured \<Rightarrow> unstructured \<Rightarrow> int) \<Rightarrow> unstructured list \<Rightarrow> unstructured list"
begin

lemma sorts_hierarchy:
  "mset (SortObjectsByHierarchy big gk objs) = mset objs
     \<and> (\<forall>j < length objs. \<forall>i < j.
          objectWeight gk (SortObjectsByHierarchy big gk objs ! i)
          \<le> objectWeight gk (SortObjectsByHierarchy big gk objs ! j))
     \<and> map (objectWeight gk) (SortObjectsByHierarchy big gk objs) = sort (map (objectWeight gk) objs)"
  using slices.sort_mset slices.sort_keys slices.sort_before
  by (simp add: SortObjectsByHierarchy_by_key)

lemma set_hierarchy: "set (SortObjectsByHierarchy big gk objs) = set objs"
  using sorts_hierarchy by (metis set_mset_mset)

end

interpretation insertion_hierarchy: hierarchy_sort insertionSortCmpFunc ..

text \<open>C19: the objects of a source are sorted by hierarchy: nothing is lost or duplicated, an object
  never precedes one of a smaller weight, and the sequence of weights is the same whatever sort is
  used for large slices. The weights are those of the documented order: CRDs (0), APIExports (1),
  APIBindings (2), Namespaces (3), everything else (4).\<close>

theorem SortObjectsByHierarchy_sorts:
  assumes "hierarchy_sort big"
  shows "mset (SortObjectsByHierarchy big gk objs) = mset objs
     \<and> (\<forall>j < length objs. \<forall>i < j.
          objectWeight gk (SortObjectsByHierarchy big gk objs ! i)
          \<le> objectWeight gk (SortObjectsByHierarchy big gk objs ! j))
     \<and> map (objectWeight gk) (SortObjectsByHierarchy big gk objs) = sort (map (objectWeight gk) objs)"
  by (rule hierarchy_sort.sorts_hierarchy [OF assms])

theorem SortObjectsByHierarchy_sorts_witness:
  "map (objectWeight (\<lambda>o'. fst (hd (Object o'))))
     (SortObjectsByHierarchy insertionSortCmpFunc (\<lambda>o'. fst (hd (Object o')))
       [\<lparr>Object = [(''ConfigMap'', JNull)]\<rparr>, \<lparr>Object = [(''Namespace'', JNull)]\<rparr>]) = [3, 4]"
  (is "map ?w (SortObjectsByHierarchy _ ?gk ?os) = _")
proof -
  have "map ?w (SortObjectsByHierarchy insertionSortCmpFunc ?gk ?os) = sort (map ?w ?os)"
    using SortObjectsByHierarchy_sorts [OF insertion_hierarchy.hierarchy_sort_axioms] by blast
  also have "\<dots> = [3, 4]" by code_simp
  finally show ?thesis .
qed

text \<open>C20: up to twelve objects, the result is the documented sequence of classes, each in the order
  in which the manifests were written (so the sort is stable there).\<close>

theorem SortObjectsByHierarchy_classes:
  assumes "length objs \<le> 12"
  shows "SortObjectsByHierarchy big gk objs = hierarchy_classes gk objs"
proof -
  let ?s = "insertionSortCmpFunc (by_key (objectWeight gk)) objs"
  have "concat (map (\<lambda>k. filter (\<lambda>x. objectWeight gk x = k) ?s) [0, 1, 2, 3, 4]) = ?s"
    using objectWeight_cases by (intro sorted_concat_filter) (auto simp: insertion.sort_sorted simp del: mset_map)
  then show ?thesis
    using assms filter_weight_eq [of gk objs]
    by (simp add: SortObjectsByHierarchy_by_key slices_SortFunc_def insertionSort_stable)
qed

theorem SortObjectsByHierarchy_classes_witness:
  "SortObjectsByHierarchy (\<lambda>cmp xs. []) (\<lambda>o'. fst (hd (Object o')))
     [\<lparr>Object = [(''ConfigMap'', JNull)]\<rparr>, \<lparr>Object = [(''Namespace'', JNull)]\<rparr>, \<lparr>Object = [(''Secret'', JNull)]\<rparr>]
   = [\<lparr>Object = [(''Namespace'', JNull)]\<rparr>, \<lparr>Object = [(''ConfigMap'', JNull)]\<rparr>, \<lparr>Object = [(''Secret'', JNull)]\<rparr>]"
  (is "SortObjectsByHierarchy ?big ?gk ?os = ?sorted")
proof -
  have "SortObjectsByHierarchy ?big ?gk ?os = hierarchy_classes ?gk ?os"
    by (rule SortObjectsByHierarchy_classes) simp
  also have "\<dots> = ?sorted" by code_simp
  finally show ?thesis .
qed

end
