(* ===== verification/Manifest_Applier.thy ===== *)
theory Manifest_Applier
  imports Manifest_Sort Agent_World
begin

text \<open>
  \<^verbatim>\<open>internal/manifest/applier.go\<close>: create the objects of one source in a cluster. The
  client's \<^verbatim>\<open>Create\<close> is an argument; each call is recorded in the world. The sort works in
  place, so the loop runs over the sorted slice. Log messages are not modelled, but for the key they
  show.
\<close>

subsection \<open>One object\<close>

definition object_log_key :: "string \<Rightarrow> string" where
  "object_log_key key = TrimLeft (CHR ''/'') key"

definition applyObject ::
  "('c \<Rightarrow> unstructured \<Rightarrow> 'x \<Rightarrow> 'e option \<times> 'x) \<Rightarrow> 'e err_tests \<Rightarrow> 'c \<Rightarrow> unstructured \<Rightarrow>
   ('x, 'e, 'c) agent_world \<Rightarrow> 'e err option \<times> ('x, 'e, 'c) agent_world" where
  "applyObject Create tests client obj w =
     (case ext_call (Create client obj) (CallCreate client obj) w of
        (Some e, w') \<Rightarrow> if \<not> IsAlreadyExists tests e then (Some (External e), w') else (None, w')
      | (None, w') \<Rightarrow> (None, w'))"

subsection \<open>All objects of a source\<close>

fun apply_loop ::
  "('c \<Rightarrow> unstructured \<Rightarrow> 'x \<Rightarrow> 'e option \<times> 'x) \<Rightarrow> 'e err_tests \<Rightarrow> 'c \<Rightarrow> unstructured list \<Rightarrow>
   ('x, 'e, 'c) agent_world \<Rightarrow> (bool \<times> 'e err option) \<times> ('x, 'e, 'c) agent_world" where
  "apply_loop Create tests client [] w = ((False, None), w)"
| "apply_loop Create tests client (object # objs) w =
     (case applyObject Create tests client object w of
        (Some err, w') \<Rightarrow>
          if errors_Is (IsNoKindMatch tests) err then ((True, None), w')
          else ((False, Some err), w')
      | (None, w') \<Rightarrow> apply_loop Create tests client objs w')"

definition Apply ::
  "((unstructured \<Rightarrow> unstructured \<Rightarrow> int) \<Rightarrow> unstructured list \<Rightarrow> unstructured list) \<Rightarrow>
   (unstructured \<Rightarrow> string) \<Rightarrow> ('c \<Rightarrow> unstructured \<Rightarrow> 'x \<Rightarrow> 'e option \<times> 'x) \<Rightarrow> 'e err_tests \<Rightarrow>
   'c \<Rightarrow> unstructured list \<Rightarrow>
   ('x, 'e, 'c) agent_world \<Rightarrow> (bool \<times> 'e err option) \<times> ('x, 'e, 'c) agent_world" where
  "Apply big groupKind Create tests client objs w =
     (let sorted_objs = SortObjectsByHierarchy big groupKind objs
      in apply_loop Create tests client sorted_objs w)"

subsection \<open>The calls of an application\<close>

text \<open>\<open>creates c os rs\<close> are the calls that create \<open>os\<close> in order with the results \<open>rs\<close>.\<close>

definition creates :: "'c \<Rightarrow> unstructured list \<Rightarrow> 'e option list \<Rightarrow> ('e, 'c) call list" where
  "creates c objs rs = map2 (\<lambda>obj r. CallCreate c obj r) objs rs"

lemma creates_simps [simp]:
  "creates c [] rs = []"
  "creates c (obj # objs) (r # rs) = CallCreate c obj r # creates c objs rs"
  by (simp_all add: creates_def)

lemma applyObject_cases:
  assumes "applyObject Create tests c obj w = (err, w')"
  obtains (ok) r where "err = None" "create_ok tests r" "calls w' = calls w @ [CallCreate c obj r]"
    "Create c obj (ext w) = (r, ext w')"
  | (failed) e where "err = Some (External e)" "\<not> IsAlreadyExists tests e"
      "calls w' = calls w @ [CallCreate c obj (Some e)]" "Create c obj (ext w) = (Some e, ext w')"
proof -
  obtain r w1 where c: "ext_call (Create c obj) (CallCreate c obj) w = (r, w1)" by force
  note d = ext_callD [OF c]
  show thesis
  proof (cases "create_ok tests r")
    case True
    with assms c have "err = None" "w' = w1"
      by (auto simp: applyObject_def split: option.splits)
    with True d show thesis by (intro ok) auto
  next
    case False
    with assms c obtain e where "r = Some e" "err = Some (External e)" "w' = w1" "\<not> IsAlreadyExists tests e"
      by (auto simp: applyObject_def split: option.splits)
    with d show thesis by (intro failed) auto
  qed
qed

text \<open>How an application ends, by the result of its last call.\<close>

datatype 'e apply_fin = Complete | Blocked 'e | Failed 'e

fun apply_result :: "'e apply_fin \<Rightarrow> bool \<times> 'e err option" where
  "apply_result Complete = (False, None)"
| "apply_result (Blocked e) = (True, None)"
| "apply_result (Failed e) = (False, Some (External e))"

definition all_applied :: "'e err_tests \<Rightarrow> 'c \<Rightarrow> unstructured list \<Rightarrow> ('e, 'c) call list \<Rightarrow> bool" where
  "all_applied tests c objs tr \<longleftrightarrow>
     (\<exists>rs. length rs = length objs \<and> list_all (create_ok tests) rs \<and> tr = creates c objs rs)"

definition stopped_at :: "'e err_tests \<Rightarrow> 'c \<Rightarrow> unstructured list \<Rightarrow> 'e \<Rightarrow> ('e, 'c) call list \<Rightarrow> bool" where
  "stopped_at tests c objs e tr \<longleftrightarrow>
     (\<exists>before obj rest tr0. objs = before @ obj # rest \<and> all_applied tests c before tr0
        \<and> tr = tr0 @ [CallCreate c obj (Some e)] \<and> \<not> IsAlreadyExists tests e)"

fun apply_calls_ok ::
  "'e err_tests \<Rightarrow> 'c \<Rightarrow> unstructured list \<Rightarrow> 'e apply_fin \<Rightarrow> ('e, 'c) call list \<Rightarrow> bool" where
  "apply_calls_ok tests c objs Complete tr = all_applied tests c objs tr"
| "apply_calls_ok tests c objs (Blocked e) tr = (stopped_at tests c objs e tr \<and> IsNoKindMatch tests e)"
| "apply_calls_ok tests c objs (Failed e) tr = (stopped_at tests c objs e tr \<and> \<not> IsNoKindMatch tests e)"

lemma all_applied_Nil [simp]: "all_applied tests c [] tr \<longleftrightarrow> tr = []"
  by (auto simp: all_applied_def)

lemma all_applied_Cons:
  "all_applied tests c objs tr \<Longrightarrow> create_ok tests r \<Longrightarrow> all_applied tests c (obj # objs) (CallCreate c obj r # tr)"
  unfolding all_applied_def by (metis creates_simps(2) length_Cons list.pred_inject(2))

lemma stopped_at_here:
  "\<not> IsAlreadyExists tests e \<Longrightarrow> stopped_at tests c (obj # objs) e [CallCreate c obj (Some e)]"
  unfolding stopped_at_def by (metis all_applied_Nil append_Nil)

lemma stopped_at_Cons:
  assumes "stopped_at tests c objs e tr" "create_ok tests r"
  shows "stopped_at tests c (obj # objs) e (CallCreate c obj r # tr)"
proof -
  from assms obtain before o' rest tr0 where
    "objs = before @ o' # rest" "all_applied tests c before tr0"
    "tr = tr0 @ [CallCreate c o' (Some e)]" "\<not> IsAlreadyExists tests e"
    by (auto simp: stopped_at_def)
  then show ?thesis
    using all_applied_Cons [of tests c before tr0 r obj] assms(2)
    unfolding stopped_at_def by (metis append_Cons)
qed

lemma stopped_at_last:
  "stopped_at tests c objs e tr \<Longrightarrow>
   \<exists>obj. CallCreate c obj (Some e) \<in> set tr \<and> \<not> create_ok tests (Some e)"
  by (auto simp: stopped_at_def)

lemma apply_calls_ok_Cons:
  "apply_calls_ok tests c objs fin tr \<Longrightarrow> create_ok tests r \<Longrightarrow>
   apply_calls_ok tests c (obj # objs) fin (CallCreate c obj r # tr)"
  by (cases fin) (auto intro: all_applied_Cons stopped_at_Cons)

lemma apply_loop_calls:
  "apply_loop Create tests c objs w = (res, w') \<Longrightarrow>
   \<exists>fin tr. res = apply_result fin \<and> calls w' = calls w @ tr \<and> apply_calls_ok tests c objs fin tr"
proof (induction objs arbitrary: w)
  case Nil
  then show ?case by (auto intro!: exI [of _ Complete])
next
  case (Cons obj objs)
  obtain err w1 where a: "applyObject Create tests c obj w = (err, w1)" by force
  then show ?case
  proof (cases rule: applyObject_cases)
    case (ok r)
    with Cons.prems a have "apply_loop Create tests c objs w1 = (res, w')" by simp
    with Cons.IH obtain fin tr where e: "res = apply_result fin" "calls w' = calls w1 @ tr"
      "apply_calls_ok tests c objs fin tr" by blast
    with ok show ?thesis
      using apply_calls_ok_Cons [OF e(3) ok(2), of obj]
      by (intro exI [of _ fin] exI [of _ "CallCreate c obj r # tr"]) simp
  next
    case (failed e)
    then have "apply_calls_ok tests c (obj # objs)
        (if IsNoKindMatch tests e then Blocked e else Failed e) [CallCreate c obj (Some e)]"
      using stopped_at_here by auto
    with failed Cons.prems a show ?thesis
      by (intro exI [of _ "if IsNoKindMatch tests e then Blocked e else Failed e"]
          exI [of _ "[CallCreate c obj (Some e)]"]) (auto split: if_splits)
  qed
qed

lemma all_applied_ConsE:
  assumes "all_applied tests c (o' # objs) tr"
  obtains r tr' where "create_ok tests r" "tr = CallCreate c o' r # tr'" "all_applied tests c objs tr'"
proof -
  from assms obtain rs where "length rs = Suc (length objs)" "list_all (create_ok tests) rs"
    "tr = creates c (o' # objs) rs"
    by (auto simp: all_applied_def)
  then obtain r rs' where "rs = r # rs'" "length rs' = length objs" by (auto simp: length_Suc_conv)
  with \<open>list_all (create_ok tests) rs\<close> \<open>tr = _\<close> show thesis
    by (intro that [of r "creates c objs rs'"]) (auto simp: all_applied_def)
qed

lemma all_applied_applied:
  "all_applied tests c objs tr \<Longrightarrow> obj \<in> set objs \<Longrightarrow> applied tests c tr obj"
proof (induction objs arbitrary: tr)
  case (Cons o' objs)
  from Cons.prems(1) obtain r tr' where tr: "create_ok tests r" "tr = CallCreate c o' r # tr'"
    "all_applied tests c objs tr'"
    by (rule all_applied_ConsE)
  show ?case
  proof (cases "obj = o'")
    case True
    with tr show ?thesis by (auto simp: applied_iff)
  next
    case False
    with Cons tr(3) have "applied tests c tr' obj" by simp
    with tr(2) show ?thesis by simp
  qed
qed simp

lemma all_applied_only_creates:
  "all_applied tests c objs tr \<Longrightarrow> ev \<in> set tr \<Longrightarrow> \<exists>obj r. obj \<in> set objs \<and> ev = CallCreate c obj r"
proof (induction objs arbitrary: tr)
  case (Cons o' objs)
  then show ?case by (fastforce elim!: all_applied_ConsE)
qed simp

lemma stopped_at_only_creates:
  assumes "stopped_at tests c objs e tr" "ev \<in> set tr"
  shows "\<exists>obj r. obj \<in> set objs \<and> ev = CallCreate c obj r"
  using assms all_applied_only_creates [of tests c] unfolding stopped_at_def by fastforce

lemma apply_calls_only_creates:
  "apply_calls_ok tests c objs fin tr \<Longrightarrow> ev \<in> set tr \<Longrightarrow> \<exists>obj r. obj \<in> set objs \<and> ev = CallCreate c obj r"
  by (cases fin) (auto dest: all_applied_only_creates stopped_at_only_creates)

subsection \<open>The interface Applier\<close>

text \<open>What a client of \<^verbatim>\<open>manifest.Applier\<close> relies on: it only creates objects it was
  given, in the cluster it was given; when it asks neither for a requeue nor reports an error, every object is
  in the cluster; it asks for a requeue because a kind is not known yet, and it reports an error
  because the server did.\<close>

locale manifest_applier =
  fixes apply_objs :: "'c \<Rightarrow> unstructured list \<Rightarrow> ('x, 'e, 'c) agent_world \<Rightarrow>
      (bool \<times> 'e err option) \<times> ('x, 'e, 'c) agent_world"
    and tests :: "'e err_tests"
  assumes applier_calls: "apply_objs c objs w = (res, w') \<Longrightarrow>
      \<exists>tr. calls w' = calls w @ tr \<and> (\<forall>ev \<in> set tr. \<exists>obj r. obj \<in> set objs \<and> ev = CallCreate c obj r)"
    and applier_complete: "apply_objs c objs w = ((False, None), w') \<Longrightarrow> obj \<in> set objs \<Longrightarrow>
      applied tests c (new_calls w w') obj"
    and applier_requeue: "apply_objs c objs w = ((True, err), w') \<Longrightarrow>
      err = None \<and> (\<exists>obj e. CallCreate c obj (Some e) \<in> set (new_calls w w')
                     \<and> \<not> create_ok tests (Some e) \<and> IsNoKindMatch tests e)"
    and applier_error: "apply_objs c objs w = ((rq, Some err'), w') \<Longrightarrow>
      \<exists>obj e. CallCreate c obj (Some e) \<in> set (new_calls w w') \<and> \<not> create_ok tests (Some e)"
begin

lemma applier_extends: "apply_objs c objs w = (res, w') \<Longrightarrow> extends w w'"
  using applier_calls extendsI by blast

lemma applier_new_calls:
  "apply_objs c objs w = (res, w') \<Longrightarrow> ev \<in> set (new_calls w w') \<Longrightarrow>
   \<exists>obj r. obj \<in> set objs \<and> ev = CallCreate c obj r"
  using applier_calls new_callsI by metis

lemma applier_no_patch:
  "apply_objs c objs w = (res, w') \<Longrightarrow> ev \<in> set (new_calls w w') \<Longrightarrow> \<not> is_patch ev"
  using applier_new_calls by fastforce

end

lemma Apply_calls:
  assumes "Apply big gk Create tests c objs w = (res, w')"
  shows "\<exists>fin tr. res = apply_result fin \<and> calls w' = calls w @ tr
           \<and> apply_calls_ok tests c (SortObjectsByHierarchy big gk objs) fin tr"
  by (rule apply_loop_calls) (use assms in \<open>simp add: Apply_def Let_def\<close>)

context hierarchy_sort
begin

lemma Apply_manifest_applier: "manifest_applier (Apply big gk Create tests) tests"
proof
  fix c objs w res w'
  assume a: "Apply big gk Create tests c objs w = (res, w')"
  then obtain fin tr where f: "res = apply_result fin" "calls w' = calls w @ tr"
    "apply_calls_ok tests c (SortObjectsByHierarchy big gk objs) fin tr"
    using Apply_calls [OF a] by blast
  then show "\<exists>tr. calls w' = calls w @ tr \<and> (\<forall>ev \<in> set tr. \<exists>obj r. obj \<in> set objs \<and> ev = CallCreate c obj r)"
    using apply_calls_only_creates set_hierarchy by metis
next
  fix c objs w w' obj
  assume a: "Apply big gk Create tests c objs w = ((False, None), w')" and "obj \<in> set objs"
  then obtain fin tr where f: "(False, None) = apply_result fin" "calls w' = calls w @ tr"
    "apply_calls_ok tests c (SortObjectsByHierarchy big gk objs) fin tr"
    using Apply_calls [OF a] by blast
  then show "applied tests c (new_calls w w') obj"
    using \<open>obj \<in> set objs\<close> new_callsI [OF f(2)]
    by (cases fin) (auto intro!: all_applied_applied simp: set_hierarchy)
next
  fix c objs w err w'
  assume a: "Apply big gk Create tests c objs w = ((True, err), w')"
  then obtain fin tr where f: "(True, err) = apply_result fin" "calls w' = calls w @ tr"
    "apply_calls_ok tests c (SortObjectsByHierarchy big gk objs) fin tr"
    using Apply_calls [OF a] by blast
  then show "err = None \<and> (\<exists>obj e. CallCreate c obj (Some e) \<in> set (new_calls w w')
                     \<and> \<not> create_ok tests (Some e) \<and> IsNoKindMatch tests e)"
    using new_callsI [OF f(2)] stopped_at_last [of tests c] by (cases fin) fastforce+
next
  fix c objs w rq err w'
  assume a: "Apply big gk Create tests c objs w = ((rq, Some err), w')"
  then obtain fin tr where f: "(rq, Some err) = apply_result fin" "calls w' = calls w @ tr"
    "apply_calls_ok tests c (SortObjectsByHierarchy big gk objs) fin tr"
    using Apply_calls [OF a] by blast
  then show "\<exists>obj e. CallCreate c obj (Some e) \<in> set (new_calls w w') \<and> \<not> create_ok tests (Some e)"
    using new_callsI [OF f(2)] stopped_at_last [of tests c] by (cases fin) fastforce+
qed

end

interpretation small_applier: manifest_applier "Apply insertionSortCmpFunc gk Create tests" tests
  for gk :: "unstructured \<Rightarrow> string" and Create :: "'c \<Rightarrow> unstructured \<Rightarrow> 'x \<Rightarrow> 'e option \<times> 'x"
    and tests :: "'e err_tests"
  by (rule insertion_hierarchy.Apply_manifest_applier)

subsection \<open>Order and repetition\<close>

lemma created_all_applied: "all_applied tests c objs tr \<Longrightarrow> created tr = objs"
proof (induction objs arbitrary: tr)
  case (Cons o' objs)
  from Cons.prems obtain r tr' where "tr = CallCreate c o' r # tr'" "all_applied tests c objs tr'"
    by (rule all_applied_ConsE)
  with Cons.IH show ?case by simp
qed simp

lemma created_apply_calls:
  "apply_calls_ok tests c objs fin tr \<Longrightarrow> \<exists>rest. objs = created tr @ rest"
  by (cases fin) (auto simp: stopped_at_def created_all_applied)

context hierarchy_sort
begin

lemma Apply_created_sorted:
  assumes "Apply big gk Create tests c objs w = (res, w')"
  shows "sorted (map (objectWeight gk) (created (new_calls w w')))"
proof -
  obtain fin tr where tr: "calls w' = calls w @ tr"
    "apply_calls_ok tests c (SortObjectsByHierarchy big gk objs) fin tr"
    using Apply_calls [OF assms] by blast
  then obtain rest where "SortObjectsByHierarchy big gk objs = created tr @ rest"
    using created_apply_calls [OF tr(2)] by blast
  moreover have "sorted (map (objectWeight gk) (SortObjectsByHierarchy big gk objs))"
    using sorts_hierarchy by (metis sorted_sort)
  ultimately show ?thesis using new_callsI [OF tr(1)] by (simp add: sorted_append)
qed

end

lemma apply_loop_present:
  assumes "create_contract Create tests present"
  shows "apply_loop Create tests c objs w = ((False, None), w') \<Longrightarrow>
    (\<forall>obj \<in> set objs. present c obj (ext w')) \<and> (\<forall>c obj. present c obj (ext w) \<longrightarrow> present c obj (ext w'))"
proof (induction objs arbitrary: w)
  case (Cons obj objs)
  obtain err w1 where a: "applyObject Create tests c obj w = (err, w1)" by force
  then show ?case
  proof (cases rule: applyObject_cases)
    case (ok r)
    with Cons.prems a have "apply_loop Create tests c objs w1 = ((False, None), w')" by simp
    note IH = Cons.IH [OF this]
    have "present c obj (ext w1)" by (rule create_contract_ok [OF assms ok(4,2)])
    moreover have "\<And>c obj. present c obj (ext w) \<Longrightarrow> present c obj (ext w1)"
      by (rule create_contract_keeps [OF assms ok(4)])
    ultimately show ?thesis using IH by simp
  next
    case (failed e)
    with Cons.prems a show ?thesis by (auto split: if_splits)
  qed
qed simp

lemma apply_loop_noop:
  assumes "create_contract Create tests present"
  shows "\<forall>obj \<in> set objs. present c obj (ext w) \<Longrightarrow>
    \<exists>w'. apply_loop Create tests c objs w = ((False, None), w') \<and> ext w' = ext w"
proof (induction objs arbitrary: w)
  case (Cons obj objs)
  then obtain e where "Create c obj (ext w) = (Some e, ext w)" "IsAlreadyExists tests e"
    using create_contract_there [OF assms, of c obj "ext w"] by auto
  then obtain w1 where "applyObject Create tests c obj w = (None, w1)" "ext w1 = ext w"
    by (auto simp: applyObject_def go_simps)
  with Cons.IH [of w1] Cons.prems show ?case by simp
qed simp

text \<open>When every creation succeeds or finds its object, an application completes.\<close>

lemma Apply_completes:
  assumes "\<And>obj x. create_ok tests (fst (Create c obj x))"
  shows "\<exists>w'. Apply big gk Create tests c objs w = ((False, None), w')"
proof -
  have "\<exists>w'. apply_loop Create tests c os w = ((False, None), w')" for os w
  proof (induction os arbitrary: w)
    case (Cons ob os)
    obtain err w1 where a: "applyObject Create tests c ob w = (err, w1)" by force
    then show ?case
    proof (cases rule: applyObject_cases)
      case (ok r)
      with a Cons.IH [of w1] show ?thesis by simp
    next
      case (failed e)
      with assms [of ob "ext w"] show ?thesis by auto
    qed
  qed simp
  then show ?thesis by (simp add: Apply_def)
qed

text \<open>C16: how applying the objects of a source can end. The calls made are the creations of a prefix of the
  sorted objects, one each, in that order. Either all were created or found (no requeue, no error);
  or the last one failed with an unknown kind (requeue, no error); or with another error (which is
  returned, no requeue); in the last two cases nothing after it was tried.\<close>

theorem Apply_outcomes:
  "\<exists>fin tr. Apply big gk Create tests c objs w = (apply_result fin, snd (Apply big gk Create tests c objs w))
     \<and> calls (snd (Apply big gk Create tests c objs w)) = calls w @ tr
     \<and> apply_calls_ok tests c (SortObjectsByHierarchy big gk objs) fin tr"
  using Apply_calls [OF prod.collapse [symmetric], of big gk Create tests c objs w]
  by (metis prod.collapse)

text \<open>C18: objects are created in hierarchy order: in the calls of one application no object is
  created after one of a larger weight, even when the application stops early.\<close>

theorem Apply_order:
  assumes "hierarchy_sort big"
    and "Apply big gk Create tests c objs w = (res, w')"
  shows "sorted (map (objectWeight gk) (created (new_calls w w')))"
  by (rule hierarchy_sort.Apply_created_sorted [OF assms])

definition sample_kind :: "unstructured \<Rightarrow> string" where
  "sample_kind obj = (case Object obj of (_, JStr k) # _ \<Rightarrow> k | _ \<Rightarrow> [])"

definition sample_object :: "string \<Rightarrow> unstructured" where
  "sample_object k = \<lparr>Object = [(''kind'', JStr k)]\<rparr>"

theorem Apply_order_witness:
  "map (objectWeight sample_kind) (created (new_calls \<lparr>ext = [], calls = []\<rparr>
     (snd (Apply insertionSortCmpFunc sample_kind (store_Create (\<lambda>_. True)) store_tests (0::nat)
        [sample_object ''ConfigMap'', sample_object ''Namespace''] \<lparr>ext = [], calls = []\<rparr>)))) = [3, 4]
   \<and> sorted [3, 4 :: int]"
  (is "?ws = _ \<and> _")
proof -
  have "?ws = [3, 4]" by code_simp
  moreover have "sorted ?ws"
    by (rule Apply_order [OF insertion_hierarchy.hierarchy_sort_axioms prod.collapse [symmetric]])
  ultimately show ?thesis by simp
qed



end
