(* ===== verification/Init_Controller.thy ===== *)
theory Init_Controller
  imports Init_Source Manifest_Applier
begin

text \<open>
  \<^verbatim>\<open>internal/controller/initcontroller\<close>: the reconciler of one logical cluster. It fetches the
  cluster, checks that this agent's initializer is still on it, applies every source of the
  \<^verbatim>\<open>InitTarget\<close>, and removes the initializer once all of them are complete. The fields of the Go
  struct are interfaces and functions, so they are functions here; \<^verbatim>\<open>GetCluster\<close>,
  \<^verbatim>\<open>Get\<close>, \<^verbatim>\<open>Status().Patch\<close> and \<^verbatim>\<open>Eventf\<close> are calls of the
  multicluster manager and of its clients. \<^verbatim>\<open>Get\<close> returns an error and leaves something in the
  object it was given, so its result is a pair. Contexts and log messages are not threaded through (their
  values are in \<open>Go_Context\<close>).
\<close>

definition ControllerName :: string where
  "ControllerName = ''initagent-init''"

record mc_request =
  req_ClusterName :: string
  req_Name :: string

text \<open>\<^verbatim>\<open>reconcile.Result\<close>, with the delay in nanoseconds, as \<^verbatim>\<open>time.Duration\<close>.\<close>

record reconcile_result =
  RequeueAfter :: int

definition Second :: int where
  "Second = 1000000000"

definition empty_result :: reconcile_result where
  "empty_result = \<lparr>RequeueAfter = 0\<rparr>"

text \<open>What the reconciler uses of the multicluster manager and of the clusters it hands out, and of the
  libraries it calls.\<close>

record ('x, 'e, 'c) remote_manager =
  rm_GetCluster :: "string \<Rightarrow> 'x \<Rightarrow> ('e + 'c) \<times> 'x"
  rm_Get :: "'c \<Rightarrow> string \<Rightarrow> 'x \<Rightarrow> ('e option \<times> logical_cluster) \<times> 'x"
  rm_PatchStatus :: "'c \<Rightarrow> logical_cluster \<Rightarrow> logical_cluster \<Rightarrow> 'x \<Rightarrow> 'e option \<times> 'x"
  rm_Eventf :: "logical_cluster \<Rightarrow> string \<Rightarrow> 'e err \<Rightarrow> 'x \<Rightarrow> unit \<times> 'x"

record 'e library =
  lb_kcp :: kcp_lib
  lb_tests :: "'e err_tests"
  lb_LogicalClusterGVK :: string

type_synonym ('x, 'e, 'c) InitTargetProvider =
  "('x, 'e, 'c) agent_world \<Rightarrow> ('e, init_target) result \<times> ('x, 'e, 'c) agent_world"

type_synonym ('x, 'e, 'c) SourceFactory =
  "string \<Rightarrow> init_source \<Rightarrow> ('x, 'e, 'c) agent_world \<Rightarrow>
   ('e, ('x, 'e, 'c) ManifestsSource) result \<times> ('x, 'e, 'c) agent_world"

type_synonym ('x, 'e, 'c) Applier =
  "'c \<Rightarrow> unstructured list \<Rightarrow> ('x, 'e, 'c) agent_world \<Rightarrow>
   (bool \<times> 'e err option) \<times> ('x, 'e, 'c) agent_world"

record ('x, 'e, 'c) init_Reconciler =
  r_remoteManager :: "('x, 'e, 'c) remote_manager"
  r_targetProvider :: "('x, 'e, 'c) InitTargetProvider"
  r_sourceFactory :: "('x, 'e, 'c) SourceFactory"
  r_manifestApplier :: "('x, 'e, 'c) Applier"
  r_initializer :: string
  r_library :: "'e library"

abbreviation r_lib :: "('x, 'e, 'c) init_Reconciler \<Rightarrow> kcp_lib" where
  "r_lib r \<equiv> lb_kcp (r_library r)"

abbreviation r_tests :: "('x, 'e, 'c) init_Reconciler \<Rightarrow> 'e err_tests" where
  "r_tests r \<equiv> lb_tests (r_library r)"

subsection \<open>removeInitializer\<close>

text \<open>The result is the error and the cluster object as it is left (the code edits it in place).\<close>

definition removeInitializer ::
  "('x, 'e, 'c) init_Reconciler \<Rightarrow> 'c \<Rightarrow> logical_cluster \<Rightarrow> ('x, 'e, 'c) agent_world \<Rightarrow>
   ('e err option \<times> logical_cluster) \<times> ('x, 'e, 'c) agent_world" where
  "removeInitializer r client lc w =
     (let oldCluster = lc;
          lc' = lc\<lparr>lc_Initializers := filter (\<lambda>i. \<not> (i = r_initializer r)) (lc_Initializers lc)\<rparr>
      in if length (lc_Initializers lc') \<noteq> length (lc_Initializers oldCluster) then
           (case ext_call (rm_PatchStatus (r_remoteManager r) client oldCluster lc') (CallPatch client oldCluster lc') w of
              (Some e, w') \<Rightarrow> ((Some (Errorf ''failed to remove initializer'' (External e)), lc'), w')
            | (None, w') \<Rightarrow> ((None, lc'), w'))
         else ((None, lc'), w))"

subsection \<open>reconcile\<close>

text \<open>The loop over the sources of the target, from index \<open>idx\<close> on, with the flag collected so
  far.\<close>

fun reconcile_sources ::
  "('x, 'e, 'c) init_Reconciler \<Rightarrow> string \<Rightarrow> 'c \<Rightarrow> logical_cluster \<Rightarrow> nat \<Rightarrow> bool \<Rightarrow> init_source list \<Rightarrow>
   ('x, 'e, 'c) agent_world \<Rightarrow> (bool \<times> 'e err option) outcome \<times> ('x, 'e, 'c) agent_world" where
  "reconcile_sources r cluster client lc idx requeue [] w = (Ret (requeue, None), w)"
| "reconcile_sources r cluster client lc idx requeue (ref # refs) w =
     (case r_sourceFactory r cluster ref w of
        (Inl e, w1) \<Rightarrow>
          (Ret (requeue, Some (Errorf (''failed to initialize source #'' @ itoa idx) e)), w1)
      | (Inr src, w1) \<Rightarrow>
          (case src lc w1 of
             (Panic m, w2) \<Rightarrow> (Panic m, w2)
           | (Diverges, w2) \<Rightarrow> (Diverges, w2)
           | (Ret (Inl e), w2) \<Rightarrow>
               (Ret (requeue, Some (Errorf (''failed to render source #'' @ itoa idx) e)), w2)
           | (Ret (Inr objects), w2) \<Rightarrow>
               (case r_manifestApplier r client objects w2 of
                  ((srcNeedRequeue, Some e), w3) \<Rightarrow>
                    (Ret (requeue, Some (Errorf (''failed to apply source #'' @ itoa idx) e)), w3)
                | ((srcNeedRequeue, None), w3) \<Rightarrow>
                    reconcile_sources r cluster client lc (Suc idx)
                      (if srcNeedRequeue then True else requeue) refs w3)))"

definition reconcile ::
  "('x, 'e, 'c) init_Reconciler \<Rightarrow> 'c \<Rightarrow> logical_cluster \<Rightarrow> ('x, 'e, 'c) agent_world \<Rightarrow>
   ((bool \<times> 'e err option) \<times> logical_cluster) outcome \<times> ('x, 'e, 'c) agent_world" where
  "reconcile r client lc w =
     (case r_targetProvider r w of
        (Inl e, w1) \<Rightarrow> (Ret ((False, Some (Errorf ''failed to get InitTarget'' e)), lc), w1)
      | (Inr target, w1) \<Rightarrow>
          (case reconcile_sources r (ClusterNameFromObject (r_lib r) (it_ObjectMeta target)) client lc
                  0 False (its_Sources (it_Spec target)) w1 of
             (Panic m, w2) \<Rightarrow> (Panic m, w2)
           | (Diverges, w2) \<Rightarrow> (Diverges, w2)
           | (Ret (requeue, Some e), w2) \<Rightarrow> (Ret ((requeue, Some e), lc), w2)
           | (Ret (requeue, None), w2) \<Rightarrow>
               if \<not> requeue then
                 (case removeInitializer r client lc w2 of
                    ((err, lc'), w3) \<Rightarrow> (Ret ((False, err), lc'), w3))
               else (Ret ((requeue, None), lc), w2)))"

subsection \<open>Reconcile\<close>

definition Reconcile ::
  "('x, 'e, 'c) init_Reconciler \<Rightarrow> mc_request \<Rightarrow> ('x, 'e, 'c) agent_world \<Rightarrow>
   (reconcile_result \<times> 'e err option) outcome \<times> ('x, 'e, 'c) agent_world" where
  "Reconcile r request w =
     (case ext_call (rm_GetCluster (r_remoteManager r) (req_ClusterName request))
             (\<lambda>res. CallGetCluster (req_ClusterName request) (err_of res)) w of
        (Inl e, w1) \<Rightarrow> (Ret (empty_result, Some (Errorf ''failed to get cluster'' (External e))), w1)
      | (Inr client, w1) \<Rightarrow>
          (case ext_call (rm_Get (r_remoteManager r) client (req_Name request))
                  (\<lambda>res. CallGet client ReadLogicalCluster (req_Name request) (fst res)) w1 of
             ((err, lc), w2) \<Rightarrow>
               (case IgnoreNotFound (r_tests r) err of
                  Some e \<Rightarrow>
                    (Ret (empty_result, Some (Errorf ''failed to retrieve logicalcluster'' (External e))), w2)
                | None \<Rightarrow>
                    if meta_Name (lc_ObjectMeta lc) = [] then (Ret (empty_result, None), w2)
                    else if \<not> List.member (lc_Initializers lc) (r_initializer r)
                    then (Ret (empty_result, None), w2)
                    else
                      (case ClusterPathFromObject (r_lib r) (lb_LogicalClusterGVK (r_library r)) (lc_ObjectMeta lc) of
                         Panic m \<Rightarrow> (Panic m, w2)
                       | Diverges \<Rightarrow> (Diverges, w2)
                       | Ret workspace \<Rightarrow>
                           (case reconcile r client lc w2 of
                              (Panic m, w3) \<Rightarrow> (Panic m, w3)
                            | (Diverges, w3) \<Rightarrow> (Diverges, w3)
                            | (Ret ((requeue, Some e), lc'), w3) \<Rightarrow>
                                (case ext_call (rm_Eventf (r_remoteManager r) lc' ''ReconcilingFailed'' e)
                                        (\<lambda>_. CallEvent lc' ''ReconcilingFailed'' e) w3 of
                                   (_, w4) \<Rightarrow> (Ret (empty_result, Some e), w4))
                            | (Ret ((requeue, None), lc'), w3) \<Rightarrow>
                                (Ret (if requeue then \<lparr>RequeueAfter = 5 * Second\<rparr> else empty_result,
                                      None), w3))))))"

subsection \<open>Create\<close>

text \<open>The controller's registration: its options and the reconciler it runs, put together from the
  arguments. The builder is the controller runtime's, an argument.\<close>

record controller_options =
  co_Name :: string
  co_MaxConcurrentReconciles :: nat
  co_SkipNameValidation :: bool

definition Create_controller ::
  "(('x, 'e, 'c) remote_manager \<Rightarrow> controller_options \<Rightarrow> ('x, 'e, 'c) init_Reconciler \<Rightarrow> 'r) \<Rightarrow>
   'e library \<Rightarrow> ('x, 'e, 'c) remote_manager \<Rightarrow> ('x, 'e, 'c) InitTargetProvider \<Rightarrow>
   ('x, 'e, 'c) SourceFactory \<Rightarrow> ('x, 'e, 'c) Applier \<Rightarrow> string \<Rightarrow> nat \<Rightarrow> 'r" where
  "Create_controller builder lib remoteManager targetProvider sourceFactory manifestApplier initializer
      numWorkers =
     builder remoteManager
       \<lparr>co_Name = ControllerName, co_MaxConcurrentReconciles = numWorkers, co_SkipNameValidation = True\<rparr>
       \<lparr>r_remoteManager = remoteManager, r_targetProvider = targetProvider,
        r_sourceFactory = sourceFactory, r_manifestApplier = manifestApplier,
        r_initializer = initializer, r_library = lib\<rparr>"

subsection \<open>The calls of a reconciliation\<close>

text \<open>Calls that resolve, render and apply sources in one cluster.\<close>

definition source_call :: "'c \<Rightarrow> ('e, 'c) call \<Rightarrow> bool" where
  "source_call client ev \<longleftrightarrow> is_read ev \<or> (\<exists>obj res. ev = CallCreate client obj res)"

lemma source_call_not_patch: "source_call client ev \<Longrightarrow> \<not> is_patch ev"
  by (auto simp: source_call_def)

lemma reads_source_calls: "list_all is_read tr \<Longrightarrow> list_all (source_call client) tr"
  by (auto simp: list_all_iff source_call_def)

lemma reads_trace:
  "\<exists>tr. calls w' = calls w @ tr \<and> list_all is_read tr \<Longrightarrow>
   \<exists>tr. calls w' = calls w @ tr \<and> list_all (source_call client) tr"
  by (auto dest: reads_source_calls)

definition blocked_create :: "'e err_tests \<Rightarrow> 'c \<Rightarrow> ('e, 'c) call \<Rightarrow> bool" where
  "blocked_create tests client ev \<longleftrightarrow>
     (\<exists>obj e. ev = CallCreate client obj (Some e) \<and> \<not> create_ok tests (Some e) \<and> IsNoKindMatch tests e)"

text \<open>From world \<open>w\<close> to world \<open>w'\<close> the sources were resolved, rendered for the cluster \<open>lc\<close> and
  applied one after the other: each one's application asked neither for a requeue nor failed, and every
  object it rendered is among its calls with a creation that succeeded or found the object.\<close>

inductive sources_applied ::
  "('x, 'e, 'c) init_Reconciler \<Rightarrow> string \<Rightarrow> 'c \<Rightarrow> logical_cluster \<Rightarrow> init_source list \<Rightarrow>
   ('x, 'e, 'c) agent_world \<Rightarrow> ('x, 'e, 'c) agent_world \<Rightarrow> bool"
  for r cluster client lc where
  no_sources: "sources_applied r cluster client lc [] w w"
| source_applied: "r_sourceFactory r cluster ref w = (Inr ms, w1) \<Longrightarrow> ms lc w1 = (Ret (Inr objs), w2) \<Longrightarrow>
     r_manifestApplier r client objs w2 = ((False, None), w3) \<Longrightarrow>
     \<forall>obj \<in> set objs. applied (lb_tests (r_library r)) client (new_calls w2 w3) obj \<Longrightarrow>
     sources_applied r cluster client lc refs w3 w' \<Longrightarrow>
     sources_applied r cluster client lc (ref # refs) w w'"

inductive_simps sources_applied_Cons: "sources_applied r cluster client lc (ref # refs) w w'"

text \<open>The target was read in \<open>w\<close>, and from there to \<open>w'\<close> all its sources were applied.\<close>

definition complete_target ::
  "('x, 'e, 'c) init_Reconciler \<Rightarrow> 'c \<Rightarrow> logical_cluster \<Rightarrow> ('x, 'e, 'c) agent_world \<Rightarrow>
   ('x, 'e, 'c) agent_world \<Rightarrow> bool" where
  "complete_target r client lc w w' \<longleftrightarrow>
     (\<exists>target w1. r_targetProvider r w = (Inr target, w1)
        \<and> sources_applied r (ClusterNameFromObject (r_lib r) (it_ObjectMeta target)) client lc
            (its_Sources (it_Spec target)) w1 w')"

text \<open>The first two calls of a reconciliation, and what they read.\<close>

definition fetch ::
  "('x, 'e, 'c) init_Reconciler \<Rightarrow> mc_request \<Rightarrow> ('x, 'e, 'c) agent_world \<Rightarrow>
   ('c \<times> 'e option \<times> logical_cluster) option \<times> ('x, 'e, 'c) agent_world" where
  "fetch r request w =
     (case ext_call (rm_GetCluster (r_remoteManager r) (req_ClusterName request))
             (\<lambda>res. CallGetCluster (req_ClusterName request) (err_of res)) w of
        (Inl e, w1) \<Rightarrow> (None, w1)
      | (Inr client, w1) \<Rightarrow>
          (case ext_call (rm_Get (r_remoteManager r) client (req_Name request))
                  (\<lambda>res. CallGet client ReadLogicalCluster (req_Name request) (fst res)) w1 of
             ((err, lc), w2) \<Rightarrow> (Some (client, err, lc), w2)))"

text \<open>The cluster object without this agent's initializer.\<close>

definition without_initializer :: "string \<Rightarrow> logical_cluster \<Rightarrow> logical_cluster" where
  "without_initializer i lc = lc\<lparr>lc_Initializers := removeAll i (lc_Initializers lc)\<rparr>"

lemma filter_removeAll: "filter (\<lambda>i. \<not> (i = x)) xs = removeAll x xs"
  by (induction xs) auto

lemma removeInitializer_cases:
  assumes "removeInitializer r client lc w = ((err, lc'), w')"
  obtains (absent) "r_initializer r \<notin> set (lc_Initializers lc)" "err = None" "w' = w"
  | (patched) res where "r_initializer r \<in> set (lc_Initializers lc)"
      "lc' = without_initializer (r_initializer r) lc"
      "calls w' = calls w @ [CallPatch client lc lc' res]"
      "err = map_option (\<lambda>e. Errorf ''failed to remove initializer'' (External e)) res"
proof (cases "r_initializer r \<in> set (lc_Initializers lc)")
  case False
  then have "removeAll (r_initializer r) (lc_Initializers lc) = lc_Initializers lc"
    by (simp add: removeAll_id)
  with False assms show thesis by (intro absent) (auto simp: removeInitializer_def filter_removeAll)
next
  case True
  then have "length (removeAll (r_initializer r) (lc_Initializers lc)) \<noteq> length (lc_Initializers lc)"
    using length_removeAll_less by fastforce
  with True assms show thesis
    by (auto simp: removeInitializer_def filter_removeAll Let_def without_initializer_def
        split: prod.splits option.splits dest!: ext_call_calls intro: patched)
qed

text \<open>There is nothing to do: the cluster object that was read has no name (it was not found), or it does
  not carry this agent's initializer.\<close>

definition nothing_to_do ::
  "('x, 'e, 'c) init_Reconciler \<Rightarrow> mc_request \<Rightarrow> ('x, 'e, 'c) agent_world \<Rightarrow> bool" where
  "nothing_to_do r request w \<longleftrightarrow>
     (\<exists>client err lc w2. fetch r request w = (Some (client, err, lc), w2)
        \<and> IgnoreNotFound (r_tests r) err = None
        \<and> (meta_Name (lc_ObjectMeta lc) = [] \<or> r_initializer r \<notin> set (lc_Initializers lc)))"

lemma reconcile_sources_ConsE:
  assumes "reconcile_sources r cluster client lc idx requeue (ref # refs) w = (out, w')"
  obtains (no_source) e where "r_sourceFactory r cluster ref w = (Inl e, w')"
      "out = Ret (requeue, Some (Errorf (''failed to initialize source #'' @ itoa idx) e))"
  | (no_objects) ms w1 o1 where "r_sourceFactory r cluster ref w = (Inr ms, w1)" "ms lc w1 = (o1, w')"
      "case o1 of Ret (Inl e) \<Rightarrow> out = Ret (requeue, Some (Errorf (''failed to render source #'' @ itoa idx) e))
        | Ret (Inr objs) \<Rightarrow> False | Panic m \<Rightarrow> out = Panic m | Diverges \<Rightarrow> out = Diverges"
  | (not_applied) ms w1 objs w2 rq e where "r_sourceFactory r cluster ref w = (Inr ms, w1)"
      "ms lc w1 = (Ret (Inr objs), w2)" "r_manifestApplier r client objs w2 = ((rq, Some e), w')"
      "out = Ret (requeue, Some (Errorf (''failed to apply source #'' @ itoa idx) e))"
  | (next_source) ms w1 objs w2 rq w3 where "r_sourceFactory r cluster ref w = (Inr ms, w1)"
      "ms lc w1 = (Ret (Inr objs), w2)" "r_manifestApplier r client objs w2 = ((rq, None), w3)"
      "reconcile_sources r cluster client lc (Suc idx) (rq \<or> requeue) refs w3 = (out, w')"
proof -
  obtain s w1 where s: "r_sourceFactory r cluster ref w = (s, w1)" by force
  show thesis
  proof (cases s)
    case (Inl e)
    with assms s no_source show ?thesis by simp
  next
    case (Inr ms)
    obtain o1 w2 where o1: "ms lc w1 = (o1, w2)" by force
    show ?thesis
    proof (cases "\<exists>objs. o1 = Ret (Inr objs)")
      case False
      with assms s Inr o1 show ?thesis
        by (intro no_objects [of ms w1 o1]) (auto split: outcome.splits sum.splits)
    next
      case True
      then obtain objs where o1': "o1 = Ret (Inr objs)" by blast
      obtain rq err w3 where ap: "r_manifestApplier r client objs w2 = ((rq, err), w3)"
        by (metis prod.collapse)
      show ?thesis
      proof (cases err)
        case None
        have "(if rq then True else requeue) = (rq \<or> requeue)" by simp
        with assms s Inr o1 o1' ap None show ?thesis
          by (intro next_source [of ms w1 objs w2 rq w3]) simp_all
      next
        case (Some e)
        with assms s Inr o1 o1' ap show ?thesis
          by (intro not_applied [of ms w1 objs w2 rq e]) simp_all
      qed
    qed
  qed
qed

text \<open>The contract of the reconciler's parts: an applier, a source factory, and a target provider
  that only reads.\<close>

locale init_reconciler =
  manifest_applier "r_manifestApplier r" "lb_tests (r_library r)"
  + source_factory "r_sourceFactory r" known
  for r :: "('x, 'e, 'c) init_Reconciler" and known :: "logical_cluster \<Rightarrow> bool" +
  assumes provider_reads: "r_targetProvider r w = (res, w') \<Longrightarrow>
      \<exists>tr. calls w' = calls w @ tr \<and> list_all is_read tr"
    and known_path: "known lc \<longleftrightarrow>
      returns (ClusterPathFromObject (r_lib r) (lb_LogicalClusterGVK (r_library r)) (lc_ObjectMeta lc))"
begin

lemma applied_step_calls:
  assumes "r_sourceFactory r cluster ref w = (Inr ms, w1)" "ms lc w1 = (Ret (Inr objs), w2)"
    "r_manifestApplier r client objs w2 = (res, w3)"
  shows "\<exists>tr. calls w3 = calls w @ tr @ new_calls w2 w3 \<and> list_all (source_call client) (tr @ new_calls w2 w3)"
proof -
  obtain tr where tr: "calls w2 = calls w @ tr" "list_all is_read tr"
    using source_steps_read [OF assms(1,2)] by blast
  have "calls w3 = calls w2 @ new_calls w2 w3"
    by (rule extends_new_calls [OF applier_extends [OF assms(3)]])
  moreover have "list_all (source_call client) (new_calls w2 w3)"
    using applier_new_calls [OF assms(3)] by (auto simp: list_all_iff source_call_def)
  ultimately show ?thesis using tr reads_source_calls [of tr client] by auto
qed

lemma reconcile_sources_calls:
  "reconcile_sources r cluster client lc idx requeue refs w = (out, w') \<Longrightarrow>
   \<exists>tr. calls w' = calls w @ tr \<and> list_all (source_call client) tr"
proof (induction refs arbitrary: idx requeue w)
  case (Cons ref refs)
  from Cons.prems show ?case
  proof (cases rule: reconcile_sources_ConsE)
    case (no_source e)
    show ?thesis by (rule reads_trace [OF new_source_reads [OF no_source(1)]])
  next
    case (no_objects ms w1 o1)
    show ?thesis by (rule reads_trace [OF source_steps_read [OF no_objects(1,2)]])
  next
    case (not_applied ms w1 objs w2 rq e)
    from applied_step_calls [OF this(1-3)] show ?thesis by blast
  next
    case (next_source ms w1 objs w2 rq w3)
    from applied_step_calls [OF this(1-3)] obtain tr where
      "calls w3 = calls w @ tr" "list_all (source_call client) tr" by blast
    moreover from Cons.IH [OF next_source(4)] obtain tr' where
      "calls w' = calls w3 @ tr'" "list_all (source_call client) tr'" by blast
    ultimately show ?thesis by (intro exI [of _ "tr @ tr'"]) simp
  qed
qed simp

lemma reconcile_sources_requeue_mono:
  "reconcile_sources r cluster client lc idx requeue refs w = (Ret (rq, None), w') \<Longrightarrow> requeue \<Longrightarrow> rq"
proof (induction refs arbitrary: idx requeue w)
  case (Cons ref refs)
  from Cons.prems(1) show ?case
  proof (cases rule: reconcile_sources_ConsE)
    case (no_objects ms w1 o1)
    then show ?thesis by (auto split: outcome.splits sum.splits)
  next
    case (next_source ms w1 objs w2 rq' w3)
    from Cons.IH [OF next_source(4)] Cons.prems(2) show ?thesis by simp
  qed auto
qed simp

text \<open>Completion: when the loop ends without error and without a requeue, every source has been rendered
  and all its objects are in the cluster.\<close>

lemma reconcile_sources_complete:
  "reconcile_sources r cluster client lc idx requeue refs w = (Ret (False, None), w') \<Longrightarrow>
   sources_applied r cluster client lc refs w w'"
proof (induction refs arbitrary: idx requeue w)
  case Nil
  then show ?case by (simp add: no_sources)
next
  case (Cons ref refs)
  from Cons.prems show ?case
  proof (cases rule: reconcile_sources_ConsE)
    case (no_objects ms w1 o1)
    then show ?thesis by (auto split: outcome.splits sum.splits)
  next
    case (next_source ms w1 objs w2 rq w3)
    have "\<not> rq" using reconcile_sources_requeue_mono [OF next_source(4)] by auto
    with next_source(3) have ap: "r_manifestApplier r client objs w2 = ((False, None), w3)" by simp
    show ?thesis
      by (rule source_applied [OF next_source(1,2) ap _ Cons.IH [OF next_source(4)]])
        (use applier_complete [OF ap] in blast)
  qed auto
qed

text \<open>A requeue has a cause among the calls.\<close>

lemma reconcile_sources_blocked:
  "reconcile_sources r cluster client lc idx False refs w = (Ret (True, None), w') \<Longrightarrow>
   \<exists>ev \<in> set (new_calls w w'). blocked_create (r_tests r) client ev"
proof (induction refs arbitrary: idx w)
  case (Cons ref refs)
  from Cons.prems show ?case
  proof (cases rule: reconcile_sources_ConsE)
    case (no_objects ms w1 o1)
    then show ?thesis by (auto split: outcome.splits sum.splits)
  next
    case (next_source ms w1 objs w2 rq w3)
    from applied_step_calls [OF next_source(1-3)] obtain tr where
      tr: "calls w3 = calls w @ tr @ new_calls w2 w3" by blast
    have "extends w3 w'"
      using reconcile_sources_calls [OF next_source(4)] extendsI by blast
    then have new: "new_calls w w' = tr @ new_calls w2 w3 @ new_calls w3 w'"
      using tr extends_new_calls [of w3 w'] by (intro new_callsI) simp
    show ?thesis
    proof (cases rq)
      case True
      with next_source(3) have "r_manifestApplier r client objs w2 = ((True, None), w3)" by simp
      from applier_requeue [OF this] new show ?thesis unfolding blocked_create_def by auto
    next
      case False
      with next_source(4) have "reconcile_sources r cluster client lc (Suc idx) False refs w3 = (Ret (True, None), w')"
        by simp
      from Cons.IH [OF this] new show ?thesis by auto
    qed
  qed auto
qed simp

lemma reconcile_sources_no_panic:
  "known lc \<Longrightarrow> reconcile_sources r cluster client lc idx requeue refs w = (out, w') \<Longrightarrow> out \<noteq> Panic m"
proof (induction refs arbitrary: idx requeue w)
  case (Cons ref refs)
  from Cons.prems(2) show ?case
  proof (cases rule: reconcile_sources_ConsE)
    case (no_objects ms w1 o1)
    with manifests_no_panic [OF no_objects(1) Cons.prems(1) no_objects(2)] show ?thesis
      by (auto split: outcome.splits sum.splits)
  next
    case (next_source ms w1 objs w2 rq w3)
    from Cons.IH [OF Cons.prems(1) next_source(4)] show ?thesis .
  qed auto
qed auto

lemma reconcile_cases:
  assumes "reconcile r client lc w = (out, w')"
  obtains (stopped) tr where "calls w' = calls w @ tr" "list_all (source_call client) tr"
      "\<forall>a. out = Ret a \<longrightarrow> (\<exists>rq e. a = ((rq, Some e), lc))" "\<forall>m. known lc \<longrightarrow> out \<noteq> Panic m"
  | (requeue) tr where "out = Ret ((True, None), lc)" "calls w' = calls w @ tr"
      "list_all (source_call client) tr" "\<exists>ev \<in> set tr. blocked_create (r_tests r) client ev"
  | (finished) tr w2 err lc' where "out = Ret ((False, err), lc')" "calls w2 = calls w @ tr"
      "list_all (source_call client) tr" "complete_target r client lc w w2"
      "removeInitializer r client lc w2 = ((err, lc'), w')"
proof -
  obtain t w1 where t: "r_targetProvider r w = (t, w1)" by force
  from provider_reads [OF t] obtain tr1 where tr1: "calls w1 = calls w @ tr1" "list_all is_read tr1" by blast
  show thesis
  proof (cases t)
    case (Inl e)
    with assms t tr1 reads_source_calls [OF tr1(2)] show ?thesis
      by (intro stopped [of tr1]) (auto simp: reconcile_def)
  next
    case (Inr target)
    let ?cluster = "ClusterNameFromObject (r_lib r) (it_ObjectMeta target)"
    obtain o2 w2 where o2: "reconcile_sources r ?cluster client lc 0 False (its_Sources (it_Spec target)) w1 = (o2, w2)"
      by force
    from reconcile_sources_calls [OF o2] obtain tr2 where
      tr2: "calls w2 = calls w1 @ tr2" "list_all (source_call client) tr2" by blast
    then have tr: "calls w2 = calls w @ tr1 @ tr2" "list_all (source_call client) (tr1 @ tr2)"
      and new2: "new_calls w1 w2 = tr2"
      using tr1 reads_source_calls [OF tr1(2), of client] new_callsI [OF tr2(1)] by auto
    consider (p) m where "o2 = Panic m" | (d) "o2 = Diverges" | (e) rq e where "o2 = Ret (rq, Some e)"
      | (rq) "o2 = Ret (True, None)" | (ok) "o2 = Ret (False, None)"
      by (cases o2) (auto, metis not_None_eq)
    then show ?thesis
    proof cases
      case p
      with assms t Inr o2 tr reconcile_sources_no_panic [OF _ o2] show ?thesis
        by (intro stopped [of "tr1 @ tr2"]) (auto simp: reconcile_def)
    next
      case d
      with assms t Inr o2 tr show ?thesis
        by (intro stopped [of "tr1 @ tr2"]) (auto simp: reconcile_def)
    next
      case e
      with assms t Inr o2 tr show ?thesis
        by (intro stopped [of "tr1 @ tr2"]) (auto simp: reconcile_def)
    next
      case rq
      with reconcile_sources_blocked o2 have "\<exists>ev \<in> set (new_calls w1 w2). blocked_create (r_tests r) client ev"
        by blast
      with rq assms t Inr o2 tr new2 show ?thesis
        by (intro requeue [of "tr1 @ tr2"]) (auto simp: reconcile_def)
    next
      case ok
      obtain err lc' w3 where rm: "removeInitializer r client lc w2 = ((err, lc'), w3)"
        by (metis prod.collapse)
      from ok o2 have "reconcile_sources r ?cluster client lc 0 False (its_Sources (it_Spec target)) w1
          = (Ret (False, None), w2)" by simp
      from reconcile_sources_complete [OF this] t Inr have "complete_target r client lc w w2"
        unfolding complete_target_def by blast
      with ok assms t Inr o2 tr rm show ?thesis
        by (intro finished [of err lc' w2 "tr1 @ tr2"]) (auto simp: reconcile_def)
    qed
  qed
qed

text \<open>The whole handler: which guards it stops at, and which calls it has made when it returns.\<close>

lemma Reconcile_cases:
  assumes "Reconcile r req w = (out, w')"
  obtains (early) tr res where "calls w' = calls w @ tr" "list_all is_read tr" "out = Ret (empty_result, res)"
      "res = None \<longrightarrow> nothing_to_do r req w"
  | (no_path) tr m lc client err0 where "out = Panic m" "calls w' = calls w @ tr" "list_all is_read tr"
      "\<not> known lc" "r_initializer r \<in> set (lc_Initializers lc)" "fetch r req w = (Some (client, err0, lc), w')"
  | (ran) client lc tr w2 o2 w3 err0 where "fetch r req w = (Some (client, err0, lc), w2)" "calls w2 = calls w @ tr" "list_all is_read tr" "known lc"
      "r_initializer r \<in> set (lc_Initializers lc)" "reconcile r client lc w2 = (o2, w3)"
      "case o2 of Panic m \<Rightarrow> out = Panic m \<and> w' = w3 | Diverges \<Rightarrow> out = Diverges \<and> w' = w3
        | Ret ((rq, err), lc') \<Rightarrow>
            (case err of
               Some e \<Rightarrow> out = Ret (empty_result, Some e)
                 \<and> calls w' = calls w3 @ [CallEvent lc' ''ReconcilingFailed'' e]
             | None \<Rightarrow> w' = w3
                 \<and> out = Ret (if rq then \<lparr>RequeueAfter = 5 * Second\<rparr> else empty_result, None))"
proof -
  obtain gc w1 where gc: "ext_call (rm_GetCluster (r_remoteManager r) (req_ClusterName req))
      (\<lambda>res. CallGetCluster (req_ClusterName req) (err_of res)) w = (gc, w1)" by force
  from ext_call_calls [OF gc] have c1: "calls w1 = calls w @ [CallGetCluster (req_ClusterName req) (err_of gc)]" .
  show thesis
  proof (cases gc)
    case (Inl e)
    with assms gc c1 show ?thesis
      by (intro early [of "[CallGetCluster (req_ClusterName req) (err_of gc)]"
            "Some (Errorf ''failed to get cluster'' (External e))"]) (auto simp: Reconcile_def)
  next
    case (Inr client)
    obtain err lc w2 where g: "ext_call (rm_Get (r_remoteManager r) client (req_Name req))
        (\<lambda>res. CallGet client ReadLogicalCluster (req_Name req) (fst res)) w1 = ((err, lc), w2)"
      by (metis prod.collapse)
    define tr where "tr = [CallGetCluster (req_ClusterName req) (err_of gc),
      CallGet client ReadLogicalCluster (req_Name req) err]"
    from ext_call_calls [OF g] c1 have c2: "calls w2 = calls w @ tr" by (simp add: tr_def)
    have reads: "list_all is_read tr" by (simp add: tr_def)
    have fetched: "fetch r req w = (Some (client, err, lc), w2)" using gc Inr g by (simp add: fetch_def)
    show ?thesis
    proof (cases "IgnoreNotFound (r_tests r) err = None \<and> meta_Name (lc_ObjectMeta lc) \<noteq> []
        \<and> r_initializer r \<in> set (lc_Initializers lc)")
      case False
      have "w' = w2 \<and> (\<exists>res. out = Ret (empty_result, res) \<and> (res = None \<longrightarrow> IgnoreNotFound (r_tests r) err = None))"
        using assms gc Inr g False by (cases "IgnoreNotFound (r_tests r) err")
          (auto simp: Reconcile_def split: if_split_asm)
      then obtain res where res: "w' = w2" "out = Ret (empty_result, res)"
        "res = None \<longrightarrow> IgnoreNotFound (r_tests r) err = None" by blast
      have "res = None \<longrightarrow> nothing_to_do r req w"
        using res(3) False fetched unfolding nothing_to_do_def by blast
      with res(1,2) c2 reads show ?thesis by (intro early [of tr res]) simp_all
    next
      case guards: True
      show ?thesis
      proof (cases "known lc")
        case False
        with assms gc Inr g guards obtain m where "out = Panic m" "w' = w2"
          by (auto simp: Reconcile_def known_path split: outcome.splits)
        with c2 reads False guards fetched show ?thesis by (intro no_path [of m tr lc client err]) auto
      next
        case True
        then obtain path where path: "ClusterPathFromObject (r_lib r) (lb_LogicalClusterGVK (r_library r))
            (lc_ObjectMeta lc) = Ret path"
          by (auto simp: known_path returns_iff)
        obtain o2 w3 where rec: "reconcile r client lc w2 = (o2, w3)" by force
        from assms gc Inr g guards path rec
        have "case o2 of Panic m \<Rightarrow> out = Panic m \<and> w' = w3 | Diverges \<Rightarrow> out = Diverges \<and> w' = w3
          | Ret ((rq, err), lc') \<Rightarrow>
            (case err of
               Some e \<Rightarrow> out = Ret (empty_result, Some e)
                 \<and> calls w' = calls w3 @ [CallEvent lc' ''ReconcilingFailed'' e]
             | None \<Rightarrow> w' = w3
                 \<and> out = Ret (if rq then \<lparr>RequeueAfter = 5 * Second\<rparr> else empty_result, None))"
          by (auto simp: Reconcile_def dest!: ext_call_calls split: outcome.splits prod.splits option.splits)
        with c2 reads True guards rec fetched show ?thesis by (intro ran [of client err lc w2 tr o2 w3]) auto
      qed
    qed
  qed
qed

text \<open>The calls of a run that passed the guards: reads, then sources, then at most one patch, then at most
  one event.\<close>

definition patches :: "'c \<Rightarrow> logical_cluster \<Rightarrow> logical_cluster \<Rightarrow> 'e option option \<Rightarrow> ('e, 'c) call list" where
  "patches c old new p = (case p of None \<Rightarrow> [] | Some res \<Rightarrow> [CallPatch c old new res])"

definition events :: "logical_cluster \<Rightarrow> 'e err option \<Rightarrow> ('e, 'c) call list" where
  "events lc err = (case err of None \<Rightarrow> [] | Some e \<Rightarrow> [CallEvent lc ''ReconcilingFailed'' e])"

lemma reconcile_calls:
  assumes "reconcile r client lc w = (out, w')" "r_initializer r \<in> set (lc_Initializers lc)"
  obtains tr p where
    "calls w' = calls w @ tr @ patches client lc (without_initializer (r_initializer r) lc) p"
    "list_all (source_call client) tr"
    "p \<noteq> None \<longrightarrow> (\<exists>wp. calls wp = calls w @ tr \<and> complete_target r client lc w wp)"
    "known lc \<longrightarrow> (\<forall>m. out \<noteq> Panic m)"
    "\<forall>rq err lc'. out = Ret ((rq, err), lc') \<longrightarrow>
       (err = None \<and> rq \<and> p = None \<and> (\<exists>ev \<in> set tr. blocked_create (r_tests r) client ev))
       \<or> (err = None \<and> \<not> rq \<and> p = Some None)
       \<or> (err \<noteq> None \<and> p \<noteq> Some None)"
  using assms(1)
proof (cases rule: reconcile_cases)
  case (stopped tr)
  then show ?thesis by (intro that [of tr None]) (auto simp: patches_def)
next
  case (requeue tr)
  then show ?thesis by (intro that [of tr None]) (auto simp: patches_def)
next
  case (finished tr w2 err lc')
  then have compl: "\<exists>wp. calls wp = calls w @ tr \<and> complete_target r client lc w wp" by blast
  from finished(5) show ?thesis
  proof (cases rule: removeInitializer_cases)
    case absent
    with assms(2) show ?thesis by simp
  next
    case (patched res)
    with finished compl show ?thesis by (intro that [of tr "Some res"]) (auto simp: patches_def)
  qed
qed

lemma Reconcile_calls:
  assumes "Reconcile r req w = (out, w')"
  obtains (early) res where "list_all is_read (new_calls w w')" "out = Ret (empty_result, res)"
      "res = None \<longrightarrow> nothing_to_do r req w"
  | (no_path) m lc client err0 where "out = Panic m" "list_all is_read (new_calls w w')" "\<not> known lc"
      "r_initializer r \<in> set (lc_Initializers lc)" "fetch r req w = (Some (client, err0, lc), w')"
  | (ran) client lc tr p lc' err err0 w0 where "fetch r req w = (Some (client, err0, lc), w0)"
      "new_calls w w' = tr @ patches client lc (without_initializer (r_initializer r) lc) p @ events lc' err"
      "list_all (source_call client) tr" "known lc" "r_initializer r \<in> set (lc_Initializers lc)"
      "p \<noteq> None \<longrightarrow> (\<exists>wp. calls wp = calls w @ tr \<and> complete_target r client lc w0 wp)"
      "\<forall>m. out \<noteq> Panic m" "\<forall>result e. out = Ret (result, e) \<longrightarrow> e = err"
      "\<forall>result. out = Ret (result, err) \<longrightarrow>
         (err = None \<and> result = \<lparr>RequeueAfter = 5 * Second\<rparr> \<and> p = None
            \<and> (\<exists>ev \<in> set tr. blocked_create (r_tests r) client ev))
         \<or> (err = None \<and> result = empty_result \<and> p = Some None)
         \<or> (err \<noteq> None \<and> result = empty_result \<and> p \<noteq> Some None)"
      "\<forall>e. err = Some e \<longrightarrow> out = Ret (empty_result, Some e)"
  using assms
proof (cases rule: Reconcile_cases)
  case (early tr res)
  then show ?thesis using new_callsI [OF early(1)] that(1) by auto
next
  case (no_path tr m lc client err0)
  then show ?thesis using new_callsI [OF no_path(2)] that(2) by auto
next
  case (ran client lc tr w2 o2 w3 err0)
  note fetched = ran(1) note ran = ran(2-)
  from ran(5,4) obtain tr' p where rc:
    "calls w3 = calls w2 @ tr' @ patches client lc (without_initializer (r_initializer r) lc) p"
    "list_all (source_call client) tr'" "p \<noteq> None \<longrightarrow> (\<exists>wp. calls wp = calls w2 @ tr' \<and> complete_target r client lc w2 wp)"
    "known lc \<longrightarrow> (\<forall>m. o2 \<noteq> Panic m)"
    "\<forall>rq err lc'. o2 = Ret ((rq, err), lc') \<longrightarrow>
       (err = None \<and> rq \<and> p = None \<and> (\<exists>ev \<in> set tr'. blocked_create (r_tests r) client ev))
       \<or> (err = None \<and> \<not> rq \<and> p = Some None) \<or> (err \<noteq> None \<and> p \<noteq> Some None)"
    by (rule reconcile_calls)
  have src: "list_all (source_call client) (tr @ tr')"
    using rc(2) reads_source_calls [OF ran(2)] by simp
  have c3: "calls w3 = calls w @ (tr @ tr') @ patches client lc (without_initializer (r_initializer r) lc) p"
    using rc(1) ran(1) by simp
  have compl: "p \<noteq> None \<longrightarrow> (\<exists>wp. calls wp = calls w @ (tr @ tr') \<and> complete_target r client lc w2 wp)"
    using rc(3) ran(1) by simp
  show ?thesis
  proof (cases o2)
    case (Ret a)
    then obtain rq err lc' where a: "o2 = Ret ((rq, err), lc')" by (metis prod.collapse)
    show ?thesis
    proof (cases err)
      case None
      with a ran(6) have o: "w' = w3" "out = Ret (if rq then \<lparr>RequeueAfter = 5 * Second\<rparr> else empty_result, None)"
        by simp_all
      with c3 have "calls w' = calls w @ (tr @ tr') @ patches client lc (without_initializer (r_initializer r) lc) p @ events lc' None"
        by (simp add: events_def)
      from new_callsI [OF this] src ran(3,4) compl o a rc(5) None fetched show ?thesis
        by (intro that(3) [of client err0 lc w2 "tr @ tr'" p lc' None]) (auto split: if_splits)
    next
      case (Some e)
      with a ran(6) have o: "calls w' = calls w3 @ [CallEvent lc' ''ReconcilingFailed'' e]"
        "out = Ret (empty_result, Some e)" by simp_all
      with c3 have "calls w' = calls w @ (tr @ tr') @ patches client lc (without_initializer (r_initializer r) lc) p @ events lc' (Some e)"
        by (simp add: events_def)
      from new_callsI [OF this] src ran(3,4) compl o a rc(5) Some fetched show ?thesis
        by (intro that(3) [of client err0 lc w2 "tr @ tr'" p lc' "Some e"]) auto
    qed
  next
    case (Panic m)
    with rc(4) ran(3) show ?thesis by simp
  next
    case Diverges
    with ran(6) have o: "w' = w3" "out = Diverges" by simp_all
    with c3 have "calls w' = calls w @ (tr @ tr') @ patches client lc (without_initializer (r_initializer r) lc) p @ events lc None"
      by (simp add: events_def)
    from new_callsI [OF this] src ran(3,4) compl o fetched show ?thesis
      by (intro that(3) [of client err0 lc w2 "tr @ tr'" p lc None]) auto
  qed
qed

lemma reads_no_patch: "list_all is_read tr \<Longrightarrow> CallPatch c old new res \<notin> set tr"
  by (auto simp: list_all_iff)

lemma source_calls_no_patch: "list_all (source_call client) tr \<Longrightarrow> CallPatch c old new res \<notin> set tr"
  by (auto simp: list_all_iff source_call_def)

lemma source_calls_no_patches: "list_all (source_call client) tr \<Longrightarrow> ev \<in> set tr \<Longrightarrow> \<not> is_patch ev"
  by (auto simp: list_all_iff dest: source_call_not_patch)

lemma events_no_patch [simp]: "CallPatch c old new res \<notin> set (events lc err)"
  by (auto simp: events_def split: option.splits)

text \<open>The gate: the initializer is only taken off a cluster on which everything has been applied.\<close>

lemma Reconcile_gate:
  assumes "Reconcile r req w = (out, w')" "CallPatch c old new res \<in> set (new_calls w w')"
  shows "\<exists>pre post. new_calls w w' = pre @ CallPatch c old new res # post
     \<and> (\<forall>ev \<in> set (pre @ post). \<not> is_patch ev) \<and> created post = []
     \<and> (\<exists>err w0 wp. fetch r req w = (Some (c, err, old), w0) \<and> complete_target r c old w0 wp
          \<and> calls wp = calls w @ pre)
     \<and> r_initializer r \<in> set (lc_Initializers old)
     \<and> new = without_initializer (r_initializer r) old"
  using assms(1)
proof (cases rule: Reconcile_calls)
  case (early res)
  with assms(2) show ?thesis by (auto dest: reads_no_patch)
next
  case (no_path m lc client err0)
  with assms(2) show ?thesis by (auto dest: reads_no_patch)
next
  case (ran client lc tr p lc' err err0 w0)
  note fetched = ran(1) note ran = ran(2-)
  have "CallPatch c old new res \<in> set (patches client lc (without_initializer (r_initializer r) lc) p)"
    using assms(2) ran(1) source_calls_no_patch [OF ran(2)] by auto
  then have p: "p = Some res" "c = client" "old = lc" "new = without_initializer (r_initializer r) lc"
    by (auto simp: patches_def split: option.splits)
  have "\<forall>ev \<in> set (tr @ events lc' err). \<not> is_patch ev"
    using source_calls_no_patches [OF ran(2)] by (auto simp: events_def split: option.splits)
  moreover have "created (events lc' err :: ('e, 'c) call list) = []"
    by (simp add: events_def split: option.splits)
  ultimately show ?thesis
    using ran(1,4,5) p fetched by (intro exI [of _ tr] exI [of _ "events lc' err"]) (auto simp: patches_def)
qed

lemma Reconcile_outcome:
  assumes "Reconcile r req w = (Ret (result, err), w')"
  shows "case err of
       Some e \<Rightarrow> result = empty_result \<and> (\<forall>c old new. CallPatch c old new None \<notin> set (new_calls w w'))
     | None \<Rightarrow>
         (result = empty_result \<and> nothing_to_do r req w \<and> list_all is_read (new_calls w w'))
       \<or> (result = empty_result \<and> (\<exists>c old new. CallPatch c old new None \<in> set (new_calls w w')))
       \<or> (result = \<lparr>RequeueAfter = 5 * Second\<rparr>
            \<and> (\<exists>c. \<exists>ev \<in> set (new_calls w w'). blocked_create (r_tests r) c ev)
            \<and> (\<forall>ev \<in> set (new_calls w w'). \<not> is_patch ev))"
  using assms
proof (cases rule: Reconcile_calls)
  case (early res)
  then show ?thesis using reads_no_patch [OF early(1)] by (auto split: option.splits)
next
  case (no_path m lc client err0)
  then show ?thesis by simp
next
  case (ran client lc tr p lc' err' err0 w0)
  note ran = ran(2-)
  then have err': "err' = err" by auto
  have np: "\<forall>c old new res. CallPatch c old new res \<notin> set tr" "\<forall>ev \<in> set tr. \<not> is_patch ev"
    using source_calls_no_patch [OF ran(2)] source_calls_no_patches [OF ran(2)] by auto
  from ran(8) err' consider
    (rq) "err = None" "result = \<lparr>RequeueAfter = 5 * Second\<rparr>" "p = None"
      "\<exists>ev \<in> set tr. blocked_create (r_tests r) client ev"
    | (ok) "err = None" "result = empty_result" "p = Some None"
    | (failed) e where "err = Some e" "result = empty_result" "p \<noteq> Some None"
    by auto
  then show ?thesis
  proof cases
    case rq
    with ran(1) err' np show ?thesis by (auto simp: patches_def events_def)
  next
    case ok
    with ran(1) err' show ?thesis by (auto simp: patches_def events_def)
  next
    case failed
    with ran(1) err' np show ?thesis by (auto simp: patches_def split: option.splits)
  qed
qed

text \<open>The last thing a successful reconciliation that patched did to the outside is the patch.\<close>

lemma Reconcile_patch_state:
  assumes "Reconcile r req w = (Ret (result, None), w')" "CallPatch c old new None \<in> set (new_calls w w')"
  shows "\<exists>err w0 x. fetch r req w = (Some (c, err, old), w0) \<and> r_initializer r \<in> set (lc_Initializers old)
     \<and> rm_PatchStatus (r_remoteManager r) c old (without_initializer (r_initializer r) old) x = (None, ext w')"
proof -
  from Reconcile_gate [OF assms] obtain err w0 where
    f: "fetch r req w = (Some (c, err, old), w0)" "r_initializer r \<in> set (lc_Initializers old)" by blast
  from assms(1) show ?thesis
  proof (cases rule: Reconcile_cases)
    case (early tr res)
    with assms(2) reads_no_patch [of tr] show ?thesis by (auto simp: new_callsI)
  next
    case (ran client lc tr w2 o2 w3 err0)
    from ran(1) f have eq: "client = c" "lc = old" by auto
    from ran(7) obtain rq lc' where o2: "o2 = Ret ((rq, None), lc')" "w' = w3"
      by (auto split: outcome.splits option.splits prod.splits)
    from ran(6) show ?thesis
    proof (cases rule: reconcile_cases)
      case (requeue tr')
      then have "new_calls w w' = tr @ tr'" using ran(2) o2(2) by (intro new_callsI) simp
      with assms(2) reads_no_patch [OF ran(3)] source_calls_no_patch [OF requeue(3)] show ?thesis by auto
    next
      case (finished tr' w4 err' lc'')
      with o2 eq have "removeInitializer r c old w4 = ((None, lc''), w')" by simp
      moreover have "length (removeAll (r_initializer r) (lc_Initializers old)) < length (lc_Initializers old)"
        by (rule length_removeAll_less [OF f(2)])
      ultimately have "rm_PatchStatus (r_remoteManager r) c old (without_initializer (r_initializer r) old) (ext w4)
          = (None, ext w')"
        by (auto simp: removeInitializer_def ext_call_def filter_removeAll without_initializer_def Let_def
            split: if_splits prod.splits option.splits)
      with f show ?thesis by blast
    qed (use o2 in auto)
  qed simp
qed

lemma Reconcile_panic:
  assumes "Reconcile r req w = (Panic m, w')"
  shows "\<exists>client err lc. fetch r req w = (Some (client, err, lc), w')
     \<and> r_initializer r \<in> set (lc_Initializers lc) \<and> \<not> known lc \<and> list_all is_read (new_calls w w')"
  using assms by (cases rule: Reconcile_calls) auto

lemma Reconcile_panic_iff:
  "(\<exists>m. fst (Reconcile r req w) = Panic m) \<longleftrightarrow>
     (\<exists>client err lc w2. fetch r req w = (Some (client, err, lc), w2) \<and> IgnoreNotFound (r_tests r) err = None
        \<and> meta_Name (lc_ObjectMeta lc) \<noteq> [] \<and> r_initializer r \<in> set (lc_Initializers lc) \<and> \<not> known lc)"
  (is "?panic \<longleftrightarrow> ?fetched")
proof
  assume ?panic
  then obtain m w' where p: "Reconcile r req w = (Panic m, w')" by (metis prod.collapse)
  from Reconcile_panic [OF p] obtain client err lc where
    f: "fetch r req w = (Some (client, err, lc), w')" "r_initializer r \<in> set (lc_Initializers lc)" "\<not> known lc"
    by blast
  from f(1) p have "IgnoreNotFound (r_tests r) err = None \<and> meta_Name (lc_ObjectMeta lc) \<noteq> []"
    by (auto simp: fetch_def Reconcile_def split: prod.splits sum.splits option.splits if_splits)
  with f show ?fetched by blast
next
  assume ?fetched
  then show ?panic
    by (auto simp: fetch_def Reconcile_def known_path split: prod.splits sum.splits outcome.splits)
qed

end

subsection \<open>Progress\<close>

text \<open>A part of the reconciler is ready when it answers in every world.\<close>

definition ready_sources ::
  "('x, 'e, 'c) init_Reconciler \<Rightarrow> string \<Rightarrow> logical_cluster \<Rightarrow> init_source list \<Rightarrow> bool" where
  "ready_sources r cluster lc refs \<longleftrightarrow>
     (\<forall>ref \<in> set refs. \<forall>w. \<exists>ms w1 objs w2. r_sourceFactory r cluster ref w = (Inr ms, w1)
        \<and> ms lc w1 = (Ret (Inr objs), w2))"

definition ready_applier :: "('x, 'e, 'c) init_Reconciler \<Rightarrow> 'c \<Rightarrow> bool" where
  "ready_applier r client \<longleftrightarrow> (\<forall>objs w. \<exists>w'. r_manifestApplier r client objs w = ((False, None), w'))"

lemma reconcile_sources_ready:
  assumes ap: "ready_applier r client"
  shows "ready_sources r cluster lc refs \<Longrightarrow>
    \<exists>w'. reconcile_sources r cluster client lc idx False refs w = (Ret (False, None), w')"
proof (induction refs arbitrary: idx w)
  case (Cons ref refs)
  then obtain ms w1 objs w2 where src: "r_sourceFactory r cluster ref w = (Inr ms, w1)"
    "ms lc w1 = (Ret (Inr objs), w2)"
    unfolding ready_sources_def by (meson list.set_intros(1))
  from ap obtain w3 where "r_manifestApplier r client objs w2 = ((False, None), w3)"
    unfolding ready_applier_def by blast
  moreover have "ready_sources r cluster lc refs" using Cons.prems by (simp add: ready_sources_def)
  ultimately show ?case using src Cons.IH by simp
qed simp

lemma Reconcile_fetched:
  assumes "fetch r req w = (Some (client, None, lc), w0)" "meta_Name (lc_ObjectMeta lc) \<noteq> []"
    and "r_initializer r \<in> set (lc_Initializers lc)"
    and "ClusterPathFromObject (r_lib r) (lb_LogicalClusterGVK (r_library r)) (lc_ObjectMeta lc) = Ret path"
    and "reconcile r client lc w0 = (Ret ((rq, None), lc'), w')"
  shows "Reconcile r req w = (Ret (if rq then \<lparr>RequeueAfter = 5 * Second\<rparr> else empty_result, None), w')"
  using assms by (auto simp: fetch_def Reconcile_def IgnoreNotFound_def split: prod.splits sum.splits)

lemma Reconcile_ready:
  assumes "fetch r req w = (Some (client, None, lc), w0)" "meta_Name (lc_ObjectMeta lc) \<noteq> []"
    and init: "r_initializer r \<in> set (lc_Initializers lc)"
    and "ClusterPathFromObject (r_lib r) (lb_LogicalClusterGVK (r_library r)) (lc_ObjectMeta lc) = Ret path"
    and target: "r_targetProvider r w0 = (Inr target, w1)"
    and "ready_sources r (ClusterNameFromObject (r_lib r) (it_ObjectMeta target)) lc (its_Sources (it_Spec target))"
    and "ready_applier r client"
    and patch: "\<And>old new x. fst (rm_PatchStatus (r_remoteManager r) client old new x) = None"
  shows "\<exists>w' pre. Reconcile r req w = (Ret (empty_result, None), w')
    \<and> calls w' = pre @ [CallPatch client lc (without_initializer (r_initializer r) lc) None]"
proof -
  obtain w2 where src: "reconcile_sources r (ClusterNameFromObject (r_lib r) (it_ObjectMeta target)) client lc 0 False
      (its_Sources (it_Spec target)) w1 = (Ret (False, None), w2)"
    using reconcile_sources_ready [OF assms(7,6)] by blast
  obtain err lc' w3 where rm: "removeInitializer r client lc w2 = ((err, lc'), w3)" by (metis prod.collapse)
  then have "err = None \<and> calls w3 = calls w2 @ [CallPatch client lc (without_initializer (r_initializer r) lc) None]"
  proof (cases rule: removeInitializer_cases)
    case absent
    with init show ?thesis by simp
  next
    case (patched res)
    have "err = None"
    proof (rule ccontr)
      assume "err \<noteq> None"
      with rm patch [of lc lc' "ext w2"] init show False
        by (auto simp: removeInitializer_def ext_call_def Let_def split: if_splits prod.splits option.splits)
    qed
    with patched show ?thesis by auto
  qed
  moreover from target src rm have "reconcile r client lc w0 = (Ret ((False, err), lc'), w3)"
    by (simp add: reconcile_def)
  ultimately show ?thesis using Reconcile_fetched [OF assms(1,2,3,4), of False lc' w3] by auto
qed

text \<open>The second visit of a cluster that the agent is done with, or that does not exist.\<close>

lemma Reconcile_nothing:
  assumes "nothing_to_do r req w"
  shows "Reconcile r req w = (Ret (empty_result, None), snd (fetch r req w))"
  using assms unfolding nothing_to_do_def
  by (auto simp: fetch_def Reconcile_def split: prod.splits sum.splits)

lemma fetch_reads: "\<exists>tr. calls (snd (fetch r req w)) = calls w @ tr \<and> list_all is_read tr"
  by (auto simp: fetch_def dest!: ext_call_calls split: prod.splits sum.splits)

end
