(* ===== verification/Event_Predicate.thy ===== *)
theory Event_Predicate
  imports Api_Types
begin

text \<open>
  \<^verbatim>\<open>internal/controllerutil/predicate\<close>: which watch events reach a controller. The
  library's \<^verbatim>\<open>predicate.Funcs\<close> holds one optional function per kind of event; what an
  unset function answers is the library's choice, the argument \<open>unset\<close> of \<open>admits\<close>.
\<close>

datatype 'o watch_event =
    CreateEvent 'o
  | UpdateEvent 'o 'o
  | DeleteEvent 'o
  | GenericEvent 'o

record 'o Funcs =
  CreateFunc :: "('o \<Rightarrow> bool) option"
  UpdateFunc :: "('o \<Rightarrow> 'o \<Rightarrow> bool) option"
  DeleteFunc :: "('o \<Rightarrow> bool) option"
  GenericFunc :: "('o \<Rightarrow> bool) option"

fun admits :: "bool \<Rightarrow> 'o Funcs \<Rightarrow> 'o watch_event \<Rightarrow> bool" where
  "admits unset p (CreateEvent ob) = (case CreateFunc p of None \<Rightarrow> unset | Some f \<Rightarrow> f ob)"
| "admits unset p (UpdateEvent old new) = (case UpdateFunc p of None \<Rightarrow> unset | Some f \<Rightarrow> f old new)"
| "admits unset p (DeleteEvent ob) = (case DeleteFunc p of None \<Rightarrow> unset | Some f \<Rightarrow> f ob)"
| "admits unset p (GenericEvent ob) = (case GenericFunc p of None \<Rightarrow> unset | Some f \<Rightarrow> f ob)"

text \<open>A nil filter is \<open>None\<close>.\<close>

definition predicate_Factory :: "('o \<Rightarrow> bool) option \<Rightarrow> 'o Funcs" where
  "predicate_Factory filter_opt =
     (case filter_opt of
        None \<Rightarrow> \<lparr>CreateFunc = None, UpdateFunc = None, DeleteFunc = None, GenericFunc = None\<rparr>
      | Some filt \<Rightarrow>
          \<lparr>CreateFunc = Some (\<lambda>e. filt e),
           UpdateFunc = Some (\<lambda>old new. filt old \<or> filt new),
           DeleteFunc = Some (\<lambda>e. filt e),
           GenericFunc = None\<rparr>)"

text \<open>A selector is the library's matching function on label maps.\<close>

definition ByLabels ::
  "((string \<times> string) list \<Rightarrow> bool) \<Rightarrow> ('o \<Rightarrow> object_meta) \<Rightarrow> 'o Funcs" where
  "ByLabels matches meta = predicate_Factory (Some (\<lambda>ob. matches (meta_Labels (meta ob))))"

text \<open>The objects an event carries, one or two.\<close>

fun event_objects :: "'o watch_event \<Rightarrow> 'o list" where
  "event_objects (CreateEvent ob) = [ob]"
| "event_objects (UpdateEvent old new) = [old, new]"
| "event_objects (DeleteEvent ob) = [ob]"
| "event_objects (GenericEvent ob) = [ob]"

fun is_generic :: "'o watch_event \<Rightarrow> bool" where
  "is_generic (GenericEvent ob) = True"
| "is_generic _ = False"

text \<open>The filter is an existential over the objects of the event; nothing of it depends on
  which object of an update matches. In particular the event by which an object stops matching is
  still delivered.\<close>

lemma Factory_admits:
  "\<not> is_generic ev \<Longrightarrow> admits unset (predicate_Factory (Some filt)) ev \<longleftrightarrow> (\<exists>ob \<in> set (event_objects ev). filt ob)"
  by (cases ev) (auto simp: predicate_Factory_def)

lemma Factory_nil_admits: "admits unset (predicate_Factory None) ev \<longleftrightarrow> unset"
  by (cases ev) (auto simp: predicate_Factory_def)

text \<open>The label predicate of the target controller lets an event pass exactly when one of the
  objects it carries has labels that the selector matches: for an update the old or the new state is enough;
  generic events are not filtered; and without a filter function nothing is.\<close>

theorem ByLabels_admits:
  "(admits unset (ByLabels matches meta) ev \<longleftrightarrow>
     (if is_generic ev then unset
      else list_ex (\<lambda>ob. matches (meta_Labels (meta ob))) (event_objects ev)))
   \<and> (admits unset (predicate_Factory None) ev \<longleftrightarrow> unset)"
  (is "(?A \<longleftrightarrow> ?B) \<and> ?C")
proof -
  have "?A \<longleftrightarrow> ?B"
  proof (cases "is_generic ev")
    case True
    then show ?thesis by (cases ev) (simp_all add: ByLabels_def predicate_Factory_def)
  next
    case False
    then show ?thesis
      using Factory_admits [OF False, of unset "\<lambda>ob. matches (meta_Labels (meta ob))"]
      by (simp add: ByLabels_def list_ex_iff)
  qed
  then show ?thesis using Factory_nil_admits [of unset ev] by simp
qed

end
