(* ===== verification/Runs.thy ===== *)
theory Runs
  imports Prelude
begin

text \<open>
  Runs of a labelled step relation, and the interface of an invariant that may depend on the labels
  of the run so far and on a condition on them (a promise of the environment).
\<close>

inductive run :: "('s \<Rightarrow> 'l \<Rightarrow> 's \<Rightarrow> bool) \<Rightarrow> 's \<Rightarrow> 'l list \<Rightarrow> 's \<Rightarrow> bool"
  for step :: "'s \<Rightarrow> 'l \<Rightarrow> 's \<Rightarrow> bool" where
  run_refl: "run step s [] s"
| run_step: "run step s ls s' \<Longrightarrow> step s' l s'' \<Longrightarrow> run step s (ls @ [l]) s''"

inductive_cases run_NilE: "run step s [] s'"
inductive_cases run_snocE: "run step s (ls @ [l]) s'"

lemma run_one: "step s l s' \<Longrightarrow> run step s [l] s'"
  using run_step [OF run_refl] by fastforce

lemma run_trans: "run step s' ls' s'' \<Longrightarrow> run step s ls s' \<Longrightarrow> run step s (ls @ ls') s''"
proof (induction rule: run.induct)
  case (run_step s' ls' s1 l s2)
  then show ?case using run.run_step by (metis append.assoc)
qed simp

lemma run_Cons: "step s l s' \<Longrightarrow> run step s' ls s'' \<Longrightarrow> run step s (l # ls) s''"
  using run_trans [OF _ run_one] by fastforce

locale run_invariant =
  fixes step :: "'s \<Rightarrow> 'l \<Rightarrow> 's \<Rightarrow> bool"
    and start :: "'s \<Rightarrow> bool"
    and promise :: "'l list \<Rightarrow> bool"
    and inv :: "'l list \<Rightarrow> 's \<Rightarrow> bool"
  assumes promise_prefix: "promise (ls @ [l]) \<Longrightarrow> promise ls"
    and inv_start: "start s \<Longrightarrow> inv [] s"
    and inv_step: "inv ls s \<Longrightarrow> promise (ls @ [l]) \<Longrightarrow> step s l s' \<Longrightarrow> inv (ls @ [l]) s'"
begin

lemma inv_run: "run step s ls s' \<Longrightarrow> start s \<Longrightarrow> promise ls \<Longrightarrow> inv ls s'"
proof (induction rule: run.induct)
  case (run_step s ls s' l s'')
  then show ?case using promise_prefix inv_step by blast
qed (rule inv_start)

end

end
