(* ===== verification/Target_Controller.thy ===== *)
theory Target_Controller
  imports Init_Controller Event_Predicate Runs
begin

text \<open>
  \<^verbatim>\<open>internal/controller/targetcontroller\<close>: the reconciler of the \<^verbatim>\<open>InitTarget\<close>s. For
  every target it starts a multicluster manager with one init controller in it, under a context of
  its own, and keeps the cancel function of that context in \<^verbatim>\<open>ctrlCancels\<close>, by the target's UID.

  The mutable part of the Go struct and the goroutines it starts are the state
  \<open>tc_state\<close>: the map from keys to contexts (a cancel function is determined by its context),
  the causes of the cancelled contexts, the goroutines that wait for a context to be done in order to
  delete a key, and the running managers. Contexts are numbered; 0 is the root context that
  \<^verbatim>\<open>Add\<close> was given. One call of \<^verbatim>\<open>Reconcile\<close> is one function on this state: the controller
  runs with one worker. That the goroutines may run between its accesses to the map makes no difference to what the
  specification allows, which is shown in \<open>Target_Interleaving\<close>.
\<close>

subsection \<open>State\<close>

record ('e, 'm) tc_state =
  ctrlCancels :: "string \<rightharpoonup> nat"
  ctx_cause :: "nat \<rightharpoonup> 'e err"
  ctx_next :: nat
  cleanups :: "(nat \<times> string) list"
  managers :: "(nat \<times> 'm) list"

definition tc_init :: "('e, 'm) tc_state" where
  "tc_init = \<lparr>ctrlCancels = Map.empty, ctx_cause = Map.empty, ctx_next = 1, cleanups = [], managers = []\<rparr>"

text \<open>\<^verbatim>\<open>context.WithCancelCause\<close> of the root, and cancelling: the first cause stays, and a
  context is done with its parent's cause when the parent is.\<close>

definition WithCancelCause :: "('e, 'm) tc_state \<Rightarrow> nat \<times> ('e, 'm) tc_state" where
  "WithCancelCause st =
     (let i = ctx_next st
      in (i, st\<lparr>ctx_next := Suc i, ctx_cause := (ctx_cause st)(i := ctx_cause st 0)\<rparr>))"

definition cancel_ctx :: "nat \<Rightarrow> 'e err \<Rightarrow> ('e, 'm) tc_state \<Rightarrow> ('e, 'm) tc_state" where
  "cancel_ctx i cause st =
     (if ctx_cause st i = None then st\<lparr>ctx_cause := (ctx_cause st)(i \<mapsto> cause)\<rparr> else st)"

definition cancel_root :: "'e err \<Rightarrow> ('e, 'm) tc_state \<Rightarrow> ('e, 'm) tc_state" where
  "cancel_root cause st =
     st\<lparr>ctx_cause := (\<lambda>i. if i < ctx_next st \<and> ctx_cause st i = None then Some cause else ctx_cause st i)\<rparr>"

subsection \<open>The reconciler\<close>

text \<open>The immutable fields of the Go struct (\<^verbatim>\<open>localClient\<close>, \<^verbatim>\<open>clusterClient\<close>,
  \<^verbatim>\<open>newInitController\<close>) and the library functions the methods call. A manager is a value of
  type \<open>'m\<close>; \<^verbatim>\<open>newInitController\<close> registers a controller with it and so returns
  the manager it leaves.\<close>

record ('x, 'e, 'c, 'sch, 'cfg, 'prov, 'm) target_Reconciler =
  tr_library :: "'e library"
  tr_localClient :: 'c
  tr_GetInitTarget :: "'c \<Rightarrow> string \<Rightarrow> 'x \<Rightarrow> ('e + init_target) \<times> 'x"
  tr_GetWorkspaceType :: "'c \<Rightarrow> string \<Rightarrow> 'x \<Rightarrow> ('e + workspace_type) \<times> 'x"
  tr_Cluster :: "string \<Rightarrow> 'sch \<Rightarrow> 'e + 'c"
  tr_ClusterConfig :: "string \<Rightarrow> 'cfg"
  tr_NewScheme :: 'sch
  tr_AddTenancy :: "'sch \<Rightarrow> 'e option \<times> 'sch"
  tr_AddCore :: "'sch \<Rightarrow> 'e option \<times> 'sch"
  tr_TenancyGV :: string
  tr_CoreGV :: string
  tr_NewProvider :: "'cfg \<Rightarrow> string \<Rightarrow> 'sch \<Rightarrow> 'x \<Rightarrow> ('e + 'prov) \<times> 'x"
  tr_NewManager :: "'cfg \<Rightarrow> 'prov \<Rightarrow> 'sch \<Rightarrow> 'x \<Rightarrow> ('e + 'm) \<times> 'x"
  tr_newInitController :: "'m \<Rightarrow> ('x, 'e, 'c) InitTargetProvider \<Rightarrow> string \<Rightarrow> 'e err option \<times> 'm"

text \<open>A library call that acts on the outside but is none of the calls that are recorded.\<close>

definition silent_call :: "('x \<Rightarrow> 'r \<times> 'x) \<Rightarrow> ('x, 'ev) world \<Rightarrow> 'r \<times> ('x, 'ev) world" where
  "silent_call f w = (case f (ext w) of (r, x') \<Rightarrow> (r, w\<lparr>ext := x'\<rparr>))"

lemma silent_call_calls: "silent_call f w = (r, w') \<Longrightarrow> calls w' = calls w"
  by (auto simp: silent_call_def split: prod.splits)

definition getInitTargetKey :: "init_target \<Rightarrow> string" where
  "getInitTargetKey target = meta_UID (it_ObjectMeta target)"

definition get_target ::
  "('x, 'e, 'c, 'sch, 'cfg, 'prov, 'm) target_Reconciler \<Rightarrow> string \<Rightarrow> ('x, 'e, 'c) agent_world \<Rightarrow>
   ('e + init_target) \<times> ('x, 'e, 'c) agent_world" where
  "get_target r name =
     ext_call (tr_GetInitTarget r (tr_localClient r) name)
       (\<lambda>res. CallGet (tr_localClient r) ReadInitTarget name (err_of res))"

definition newInitTargetProvider ::
  "('x, 'e, 'c, 'sch, 'cfg, 'prov, 'm) target_Reconciler \<Rightarrow> string \<Rightarrow> ('x, 'e, 'c) InitTargetProvider" where
  "newInitTargetProvider r name w =
     (case get_target r name w of
        (Inl e, w') \<Rightarrow> (Inl (External e), w')
      | (Inr target, w') \<Rightarrow> (Inr target, w'))"

definition getWorkspaceType ::
  "('x, 'e, 'c, 'sch, 'cfg, 'prov, 'm) target_Reconciler \<Rightarrow> init_target \<Rightarrow> ('x, 'e, 'c) agent_world \<Rightarrow>
   ('e, workspace_type) result \<times> ('x, 'e, 'c) agent_world" where
  "getWorkspaceType r target w =
     (let ref = its_WorkspaceTypeReference (it_Spec target);
          wstCluster = (if wtr_Path ref = [] then ClusterNameFromObject (lb_kcp (tr_library r)) (it_ObjectMeta target)
                        else wtr_Path ref)
      in case tr_AddTenancy r (tr_NewScheme r) of
           (Some e, scheme) \<Rightarrow>
             (Inl (Errorf (''failed to register local scheme '' @ tr_TenancyGV r) (External e)), w)
         | (None, scheme) \<Rightarrow>
             (case tr_Cluster r wstCluster scheme of
                Inl e \<Rightarrow> (Inl (Errorf ''failed to create client for WorkspaceType cluster'' (External e)), w)
              | Inr wstClient \<Rightarrow>
                  (case ext_call (tr_GetWorkspaceType r wstClient (wtr_Name ref))
                          (\<lambda>res. CallGet wstClient ReadWorkspaceType (wtr_Name ref) (err_of res)) w of
                     (Inl e, w') \<Rightarrow> (Inl (External e), w')
                   | (Inr wst, w') \<Rightarrow> (Inr wst, w'))))"

definition createMulticlusterManager ::
  "('x, 'e, 'c, 'sch, 'cfg, 'prov, 'm) target_Reconciler \<Rightarrow> workspace_type \<Rightarrow> ('x, 'e, 'c) agent_world \<Rightarrow>
   ('e, 'm) result \<times> ('x, 'e, 'c) agent_world" where
  "createMulticlusterManager r wst w =
     (let wstConfig = tr_ClusterConfig r (ClusterNameFromObject (lb_kcp (tr_library r)) (wst_ObjectMeta wst))
      in case tr_AddTenancy r (tr_NewScheme r) of
           (Some e, s) \<Rightarrow>
             (Inl (Errorf (''failed to register local scheme '' @ tr_TenancyGV r) (External e)), w)
         | (None, s1) \<Rightarrow>
             (case tr_AddCore r s1 of
                (Some e, s) \<Rightarrow>
                  (Inl (Errorf (''failed to register local scheme '' @ tr_CoreGV r) (External e)), w)
              | (None, scheme) \<Rightarrow>
                  (case silent_call (tr_NewProvider r wstConfig (meta_Name (wst_ObjectMeta wst)) scheme) w of
                     (Inl e, w1) \<Rightarrow> (Inl (Errorf ''failed to create provider'' (External e)), w1)
                   | (Inr provider, w1) \<Rightarrow>
                       (case silent_call (tr_NewManager r wstConfig provider scheme) w1 of
                          (Inl e, w2) \<Rightarrow> (Inl (Errorf ''failed to create manager'' (External e)), w2)
                        | (Inr mgr, w2) \<Rightarrow> (Inr mgr, w2)))))"

text \<open>The two goroutines that \<^verbatim>\<open>ensureInitController\<close> starts become entries of
  \<open>cleanups\<close> and \<open>managers\<close>.\<close>

definition ensureInitController ::
  "('x, 'e, 'c, 'sch, 'cfg, 'prov, 'm) target_Reconciler \<Rightarrow> init_target \<Rightarrow> ('e, 'm) tc_state \<Rightarrow>
   ('x, 'e, 'c) agent_world \<Rightarrow>
   (reconcile_result \<times> 'e err option) \<times> ('e, 'm) tc_state \<times> ('x, 'e, 'c) agent_world" where
  "ensureInitController r target st w =
     (let key = getInitTargetKey target
      in if ctrlCancels st key \<noteq> None then ((empty_result, None), st, w)
         else
           (case getWorkspaceType r target w of
              (Inl e, w1) \<Rightarrow> ((empty_result, Some (Errorf ''failed to retrieve WorkspaceType'' e)), st, w1)
            | (Inr wst, w1) \<Rightarrow>
                (let initializer = lib_InitializerForType (lb_kcp (tr_library r)) wst
                 in case createMulticlusterManager r wst w1 of
                      (Inl e, w2) \<Rightarrow>
                        ((empty_result, Some (Errorf ''failed to create multicluster manager'' e)), st, w2)
                    | (Inr mgr, w2) \<Rightarrow>
                        (case tr_newInitController r mgr
                                (newInitTargetProvider r (meta_Name (it_ObjectMeta target))) initializer of
                           (Some e, mgr') \<Rightarrow>
                             ((empty_result, Some (Errorf ''failed to create init controller'' e)), st, w2)
                         | (None, mgr') \<Rightarrow>
                             (case WithCancelCause st of
                                (ctrlCtx, st1) \<Rightarrow>
                                  ((empty_result, None),
                                   st1\<lparr>ctrlCancels := (ctrlCancels st1)(key \<mapsto> ctrlCtx),
                                       cleanups := cleanups st1 @ [(ctrlCtx, key)],
                                       managers := managers st1 @ [(ctrlCtx, mgr')]\<rparr>, w2))))))"

definition cleanupController ::
  "init_target \<Rightarrow> ('e, 'm) tc_state \<Rightarrow> 'e err option \<times> ('e, 'm) tc_state" where
  "cleanupController target st =
     (let key = getInitTargetKey target
      in case ctrlCancels st key of
           Some ctrlCtx \<Rightarrow>
             (let st1 = cancel_ctx ctrlCtx (ErrorNew ''controller is no longer needed'') st
              in (None, st1\<lparr>ctrlCancels := (ctrlCancels st1)(key := None)\<rparr>))
         | None \<Rightarrow> (None, st))"

definition Reconcile_target ::
  "('x, 'e, 'c, 'sch, 'cfg, 'prov, 'm) target_Reconciler \<Rightarrow> string \<Rightarrow> ('e, 'm) tc_state \<Rightarrow>
   ('x, 'e, 'c) agent_world \<Rightarrow>
   (reconcile_result \<times> 'e err option) \<times> ('e, 'm) tc_state \<times> ('x, 'e, 'c) agent_world" where
  "Reconcile_target r name st w =
     (case get_target r name w of
        (Inl e, w1) \<Rightarrow>
          ((empty_result, map_option External (IgnoreNotFound (lb_tests (tr_library r)) (Some e))), st, w1)
      | (Inr target, w1) \<Rightarrow>
          if meta_DeletionTimestamp (it_ObjectMeta target) \<noteq> None then
            (case cleanupController target st of (err, st1) \<Rightarrow> ((empty_result, err), st1, w1))
          else ensureInitController r target st w1)"

text \<open>\<^verbatim>\<open>Add\<close>: the reconciler starts with an empty map; it is built with one worker and
  the label predicate.\<close>

definition TargetControllerName :: string where
  "TargetControllerName = ''initagent-target-controller''"

definition Add ::
  "(controller_options \<Rightarrow> init_target Funcs \<Rightarrow>
     ('x, 'e, 'c, 'sch, 'cfg, 'prov, 'm) target_Reconciler \<times> ('e, 'm) tc_state \<Rightarrow> 'r) \<Rightarrow>
   ((string \<times> string) list \<Rightarrow> bool) \<Rightarrow>
   ('x, 'e, 'c, 'sch, 'cfg, 'prov, 'm) target_Reconciler \<Rightarrow> 'r" where
  "Add finish targetFilter reconciler =
     finish \<lparr>co_Name = TargetControllerName, co_MaxConcurrentReconciles = 1, co_SkipNameValidation = False\<rparr>
       (ByLabels targetFilter it_ObjectMeta) (reconciler, tc_init)"

end
