(* ===== verification/Target_Lifecycle.thy ===== *)
theory Target_Lifecycle
  imports Target_Controller
begin

text \<open>
  The life of the init controllers: the goroutines of the target controller as steps, runs of its
  reconciler and of these goroutines in any order, and what holds in every state such a run reaches.
  The labels of a run record what each reconciliation read, so the API server's promise that a deletion
  is never taken back (\<open>never_revived\<close>) is a condition on them.
\<close>

subsection \<open>The goroutines\<close>

text \<open>The goroutine that waits for a context to be done and then deletes the key, and the one that
  runs the manager and looks at the error \<^verbatim>\<open>Start\<close> returns.\<close>

definition cleanup_goroutine :: "nat \<Rightarrow> string \<Rightarrow> ('e, 'm) tc_state \<Rightarrow> ('e, 'm) tc_state" where
  "cleanup_goroutine i key st =
     st\<lparr>ctrlCancels := (ctrlCancels st)(key := None), cleanups := remove1 (i, key) (cleanups st)\<rparr>"

definition manager_exit :: "'e err_tests \<Rightarrow> nat \<Rightarrow> 'e option \<Rightarrow> ('e, 'm) tc_state \<Rightarrow> ('e, 'm) tc_state" where
  "manager_exit tests i err st =
     (let st1 = st\<lparr>managers := filter (\<lambda>p. fst p \<noteq> i) (managers st)\<rparr>
      in case err of
           None \<Rightarrow> st1
         | Some e \<Rightarrow>
             if \<not> errors_Is (IsCanceled tests) (External e)
             then cancel_ctx i (ErrorNew ''failed to start sync controller'') st1 else st1)"

datatype 'e tc_event =
    EvReconcile "'e + init_target"
  | EvCleanup nat string
  | EvExit nat "'e option"
  | EvRootCancel "'e err"
  | EvOutside

inductive tc_step ::
  "('x, 'e, 'c, 'sch, 'cfg, 'prov, 'm) target_Reconciler \<Rightarrow>
   ('e, 'm) tc_state \<times> ('x, 'e, 'c) agent_world \<Rightarrow> 'e tc_event \<Rightarrow>
   ('e, 'm) tc_state \<times> ('x, 'e, 'c) agent_world \<Rightarrow> bool"
  for r :: "('x, 'e, 'c, 'sch, 'cfg, 'prov, 'm) target_Reconciler" where
  tc_reconcile: "Reconcile_target r name st w = (res, st', w') \<Longrightarrow>
     tc_step r (st, w) (EvReconcile (fst (get_target r name w))) (st', w')"
| tc_cleanup: "(i, key) \<in> set (cleanups st) \<Longrightarrow> ctx_cause st i \<noteq> None \<Longrightarrow>
     tc_step r (st, w) (EvCleanup i key) (cleanup_goroutine i key st, w)"
| tc_exit: "i \<in> fst ` set (managers st) \<Longrightarrow>
     tc_step r (st, w) (EvExit i err) (manager_exit (lb_tests (tr_library r)) i err st, w)"
| tc_root: "tc_step r (st, w) (EvRootCancel cause) (cancel_root cause st, w)"
| tc_outside: "tc_step r (st, w) EvOutside (st, w\<lparr>ext := x\<rparr>)"

inductive_cases tc_stepE: "tc_step r s ev s'"
inductive_simps tc_cleanup_simps: "tc_step r s (EvCleanup i key) s'"

subsection \<open>What one reconciliation does to the state\<close>

definition started :: "string \<Rightarrow> 'm \<Rightarrow> ('e, 'm) tc_state \<Rightarrow> ('e, 'm) tc_state" where
  "started key mgr st =
     st\<lparr>ctrlCancels := (ctrlCancels st)(key \<mapsto> ctx_next st), ctx_next := Suc (ctx_next st),
        ctx_cause := (ctx_cause st)(ctx_next st := ctx_cause st 0),
        cleanups := cleanups st @ [(ctx_next st, key)],
        managers := managers st @ [(ctx_next st, mgr)]\<rparr>"

abbreviation deleting :: "init_target \<Rightarrow> bool" where
  "deleting target \<equiv> meta_DeletionTimestamp (it_ObjectMeta target) \<noteq> None"

text \<open>The manager that \<^verbatim>\<open>ensureInitController\<close> builds for a target: the workspace type is
  read in the cluster the reference names, or in the target's own cluster; the manager is configured for
  the workspace type's cluster; and the controller it gets has the workspace type's
  initializer and a provider that reads this very target again.\<close>

definition wired_manager ::
  "('x, 'e, 'c, 'sch, 'cfg, 'prov, 'm) target_Reconciler \<Rightarrow> init_target \<Rightarrow> 'm \<Rightarrow> bool" where
  "wired_manager r target mgr' \<longleftrightarrow>
     (\<exists>wstClient scheme0 wst x x1 y y1 z z1 provider scheme mgr.
        tr_Cluster r (if wtr_Path (its_WorkspaceTypeReference (it_Spec target)) = []
            then ClusterNameFromObject (lb_kcp (tr_library r)) (it_ObjectMeta target)
            else wtr_Path (its_WorkspaceTypeReference (it_Spec target))) scheme0 = Inr wstClient
      \<and> tr_GetWorkspaceType r wstClient (wtr_Name (its_WorkspaceTypeReference (it_Spec target))) x = (Inr wst, x1)
      \<and> tr_NewProvider r (tr_ClusterConfig r (ClusterNameFromObject (lb_kcp (tr_library r)) (wst_ObjectMeta wst)))
          (meta_Name (wst_ObjectMeta wst)) scheme y = (Inr provider, y1)
      \<and> tr_NewManager r (tr_ClusterConfig r (ClusterNameFromObject (lb_kcp (tr_library r)) (wst_ObjectMeta wst)))
          provider scheme z = (Inr mgr, z1)
      \<and> tr_newInitController r mgr (newInitTargetProvider r (meta_Name (it_ObjectMeta target)))
          (lib_InitializerForType (lb_kcp (tr_library r)) wst) = (None, mgr'))"

lemma createMulticlusterManager_Inr:
  assumes "createMulticlusterManager r wst w = (Inr mgr, w')"
  obtains y y1 z z1 provider scheme where
    "tr_NewProvider r (tr_ClusterConfig r (ClusterNameFromObject (lb_kcp (tr_library r)) (wst_ObjectMeta wst)))
       (meta_Name (wst_ObjectMeta wst)) scheme y = (Inr provider, y1)"
    "tr_NewManager r (tr_ClusterConfig r (ClusterNameFromObject (lb_kcp (tr_library r)) (wst_ObjectMeta wst)))
       provider scheme z = (Inr mgr, z1)"
  using assms
  by (auto simp: createMulticlusterManager_def silent_call_def Let_def
      split: prod.splits option.splits sum.splits)

lemma getWorkspaceType_Inr:
  assumes "getWorkspaceType r target w = (Inr wst, w')"
  obtains scheme wstClient x x1 where
    "tr_Cluster r (if wtr_Path (its_WorkspaceTypeReference (it_Spec target)) = []
            then ClusterNameFromObject (lb_kcp (tr_library r)) (it_ObjectMeta target)
            else wtr_Path (its_WorkspaceTypeReference (it_Spec target))) scheme = Inr wstClient"
    "tr_GetWorkspaceType r wstClient (wtr_Name (its_WorkspaceTypeReference (it_Spec target))) x = (Inr wst, x1)"
  using assms
  by (auto simp: getWorkspaceType_def Let_def split: prod.splits option.splits sum.splits dest!: ext_call_ext)

lemma wired_managerI:
  assumes "getWorkspaceType r target w = (Inr wst, w1)" "createMulticlusterManager r wst w1 = (Inr mgr, w2)"
    and "tr_newInitController r mgr (newInitTargetProvider r (meta_Name (it_ObjectMeta target)))
          (lib_InitializerForType (lb_kcp (tr_library r)) wst) = (None, mgr')"
  shows "wired_manager r target mgr'"
proof (rule getWorkspaceType_Inr [OF assms(1)])
  fix scheme0 c x x1
  assume wst: "tr_Cluster r (if wtr_Path (its_WorkspaceTypeReference (it_Spec target)) = []
      then ClusterNameFromObject (lb_kcp (tr_library r)) (it_ObjectMeta target)
      else wtr_Path (its_WorkspaceTypeReference (it_Spec target))) scheme0 = Inr c"
    "tr_GetWorkspaceType r c (wtr_Name (its_WorkspaceTypeReference (it_Spec target))) x = (Inr wst, x1)"
  show ?thesis
  proof (rule createMulticlusterManager_Inr [OF assms(2)])
    fix y y1 z z1 provider scheme
    assume "tr_NewProvider r (tr_ClusterConfig r (ClusterNameFromObject (lb_kcp (tr_library r)) (wst_ObjectMeta wst)))
       (meta_Name (wst_ObjectMeta wst)) scheme y = (Inr provider, y1)"
      "tr_NewManager r (tr_ClusterConfig r (ClusterNameFromObject (lb_kcp (tr_library r)) (wst_ObjectMeta wst)))
       provider scheme z = (Inr mgr, z1)"
    with wst assms(3) show ?thesis
      unfolding wired_manager_def
      by blast
  qed
qed

lemma ensureInitController_cases:
  assumes "ensureInitController r target st w = (res, st', w')"
  obtains (registered) "ctrlCancels st (getInitTargetKey target) \<noteq> None" "res = (empty_result, None)"
      "st' = st" "w' = w"
  | (failed) e where "ctrlCancels st (getInitTargetKey target) = None" "res = (empty_result, Some e)" "st' = st"
  | (new) mgr where "ctrlCancels st (getInitTargetKey target) = None" "res = (empty_result, None)"
      "st' = started (getInitTargetKey target) mgr st" "wired_manager r target mgr"
proof (cases "ctrlCancels st (getInitTargetKey target)")
  case (Some i)
  with assms show thesis by (intro registered) (auto simp: ensureInitController_def)
next
  case None
  obtain wst w1 where g: "getWorkspaceType r target w = (wst, w1)" by force
  show thesis
  proof (cases wst)
    case (Inl e)
    with assms g None show ?thesis by (intro failed) (auto simp: ensureInitController_def Let_def)
  next
    case (Inr a)
    obtain m w2 where m: "createMulticlusterManager r a w1 = (m, w2)" by force
    show ?thesis
    proof (cases m)
      case (Inl e)
      with assms g None Inr m show ?thesis
        by (intro failed) (auto simp: ensureInitController_def Let_def)
    next
      case (Inr mgr)
      obtain c mgr' where c: "tr_newInitController r mgr
          (newInitTargetProvider r (meta_Name (it_ObjectMeta target)))
          (lib_InitializerForType (lb_kcp (tr_library r)) a) = (c, mgr')" by force
      show ?thesis
      proof (cases c)
        case (Some e)
        with assms g None \<open>wst = Inr a\<close> m Inr c show ?thesis
          by (intro failed) (auto simp: ensureInitController_def Let_def)
      next
        case cNone: None
        have st': "res = (empty_result, None) \<and> st' = started (getInitTargetKey target) mgr' st"
          using assms g None \<open>wst = Inr a\<close> m Inr c cNone
          by (auto simp: ensureInitController_def Let_def WithCancelCause_def started_def)
        have "wired_manager r target mgr'"
          by (rule wired_managerI [OF g [unfolded \<open>wst = Inr a\<close>] m [unfolded Inr] c [unfolded cNone]])
        with None st' show ?thesis by (intro new) auto
      qed
    qed
  qed
qed

definition cleaned :: "string \<Rightarrow> ('e, 'm) tc_state \<Rightarrow> ('e, 'm) tc_state" where
  "cleaned key st =
     (case ctrlCancels st key of
        None \<Rightarrow> st
      | Some i \<Rightarrow> (cancel_ctx i (ErrorNew ''controller is no longer needed'') st)
                    \<lparr>ctrlCancels := (ctrlCancels st)(key := None)\<rparr>)"

lemma cancel_ctx_simps [simp]:
  "ctrlCancels (cancel_ctx i c st) = ctrlCancels st" "ctx_next (cancel_ctx i c st) = ctx_next st"
  "cleanups (cancel_ctx i c st) = cleanups st" "managers (cancel_ctx i c st) = managers st"
  "ctx_cause (cancel_ctx i c st) j = (if j = i \<and> ctx_cause st i = None then Some c else ctx_cause st j)"
  by (auto simp: cancel_ctx_def)

lemma cleaned_simps [simp]:
  "cleanups (cleaned k st) = cleanups st" "managers (cleaned k st) = managers st"
  "ctx_next (cleaned k st) = ctx_next st" "ctrlCancels (cleaned k st) = (ctrlCancels st)(k := None)"
  by (auto simp: cleaned_def fun_eq_iff split: option.splits)

lemma cleanupController_eq: "cleanupController target st = (None, cleaned (getInitTargetKey target) st)"
  by (simp add: cleanupController_def cleaned_def Let_def split: option.splits)

lemma Reconcile_target_cases:
  assumes "Reconcile_target r name st w = (res, st', w')"
  obtains (unread) e where "fst (get_target r name w) = Inl e" "st' = st"
      "res = (empty_result, if IsNotFound (lb_tests (tr_library r)) e then None else Some (External e))"
  | (deleted) target where "fst (get_target r name w) = Inr target" "deleting target"
      "res = (empty_result, None)" "st' = cleaned (getInitTargetKey target) st"
  | (there) target where "fst (get_target r name w) = Inr target" "\<not> deleting target"
      "ctrlCancels st (getInitTargetKey target) \<noteq> None" "res = (empty_result, None)" "st' = st"
  | (failed) target e where "fst (get_target r name w) = Inr target" "\<not> deleting target"
      "ctrlCancels st (getInitTargetKey target) = None" "res = (empty_result, Some e)" "st' = st"
  | (new) target mgr where "fst (get_target r name w) = Inr target" "\<not> deleting target"
      "ctrlCancels st (getInitTargetKey target) = None" "res = (empty_result, None)"
      "st' = started (getInitTargetKey target) mgr st" "wired_manager r target mgr"
proof -
  obtain read w1 where g: "get_target r name w = (read, w1)" by force
  then have read: "fst (get_target r name w) = read" by simp
  show thesis
  proof (cases read)
    case (Inl e)
    with assms g read show ?thesis
      by (intro unread) (auto simp: Reconcile_target_def IgnoreNotFound_def)
  next
    case (Inr target)
    show ?thesis
    proof (cases "deleting target")
      case True
      with assms g Inr read show ?thesis
        by (intro deleted) (auto simp: Reconcile_target_def cleanupController_eq)
    next
      case False
      with assms g Inr have "ensureInitController r target st w1 = (res, st', w')"
        by (simp add: Reconcile_target_def)
      then show ?thesis
      proof (cases rule: ensureInitController_cases)
        case registered
        show ?thesis by (rule there [of target]) (use registered read Inr False in auto)
      next
        case (failed e)
        show ?thesis by (rule that(4) [of target e]) (use failed read Inr False in auto)
      next
        case (new mgr)
        show ?thesis by (rule that(5) [of target mgr]) (use new read Inr False in auto)
      qed
    qed
  qed
qed

subsection \<open>The abstract specification\<close>

text \<open>What the target controller promises, on its state alone: which changes each event may make. How a target is read
  and a manager is built does not show, nor when a started controller is registered relative to other
  steps. The steps above are one implementation of it; \<open>Target_Interleaving\<close> has another.\<close>

inductive lifecycle_step ::
  "'e err_tests \<Rightarrow> ('e, 'm) tc_state \<Rightarrow> 'e tc_event \<Rightarrow> ('e, 'm) tc_state \<Rightarrow> bool" for tests :: "'e err_tests" where
  ls_unread: "lifecycle_step tests st (EvReconcile (Inl e)) st"
| ls_deleted: "deleting target \<Longrightarrow>
     lifecycle_step tests st (EvReconcile (Inr target)) (cleaned (getInitTargetKey target) st)"
| ls_kept: "\<not> deleting target \<Longrightarrow> lifecycle_step tests st (EvReconcile (Inr target)) st"
| ls_started: "\<not> deleting target \<Longrightarrow> ctrlCancels st (getInitTargetKey target) = None \<Longrightarrow>
     lifecycle_step tests st (EvReconcile (Inr target)) (started (getInitTargetKey target) mgr st)"
| ls_cleanup: "(i, key) \<in> set (cleanups st) \<Longrightarrow> ctx_cause st i \<noteq> None \<Longrightarrow>
     lifecycle_step tests st (EvCleanup i key) (cleanup_goroutine i key st)"
| ls_exit: "i \<in> fst ` set (managers st) \<Longrightarrow> lifecycle_step tests st (EvExit i err) (manager_exit tests i err st)"
| ls_root: "lifecycle_step tests st (EvRootCancel cause) (cancel_root cause st)"
| ls_outside: "lifecycle_step tests st EvOutside st"

lemma tc_step_lifecycle:
  assumes "tc_step r s ev s'"
  shows "lifecycle_step (lb_tests (tr_library r)) (fst s) ev (fst s')"
  using assms
proof (cases rule: tc_step.cases)
  case (tc_reconcile name st w res st' w')
  from tc_reconcile(4) show ?thesis
    by (cases rule: Reconcile_target_cases) (simp_all add: tc_reconcile(1-3) lifecycle_step.intros)
qed (simp_all add: lifecycle_step.intros)

lemma tc_run_lifecycle:
  "run (tc_step r) s evs s' \<Longrightarrow> run (lifecycle_step (lb_tests (tr_library r))) (fst s) evs (fst s')"
proof (induction rule: run.induct)
  case (run_step s evs s' ev s'')
  show ?case by (rule run.run_step [OF run_step.IH tc_step_lifecycle [OF run_step.hyps(2)]])
qed (rule run_refl)

subsection \<open>Deletions are not taken back\<close>

fun deleted_by :: "'e tc_event \<Rightarrow> string list" where
  "deleted_by (EvReconcile (Inr target)) = (if deleting target then [getInitTargetKey target] else [])"
| "deleted_by _ = []"

definition deleted_keys :: "'e tc_event list \<Rightarrow> string list" where
  "deleted_keys evs = concat (map deleted_by evs)"

fun revives :: "string list \<Rightarrow> 'e tc_event \<Rightarrow> bool" where
  "revives ds (EvReconcile (Inr target)) \<longleftrightarrow> \<not> deleting target \<and> List.member ds (getInitTargetKey target)"
| "revives ds _ \<longleftrightarrow> False"

fun never_revived_from :: "string list \<Rightarrow> 'e tc_event list \<Rightarrow> bool" where
  "never_revived_from ds [] = True"
| "never_revived_from ds (ev # evs) = (\<not> revives ds ev \<and> never_revived_from (ds @ deleted_by ev) evs)"

definition never_revived :: "'e tc_event list \<Rightarrow> bool" where
  "never_revived evs = never_revived_from [] evs"

lemma deleted_keys_simps [simp]:
  "deleted_keys [] = []" "deleted_keys (evs @ evs') = deleted_keys evs @ deleted_keys evs'"
  "deleted_keys (ev # evs) = deleted_by ev @ deleted_keys evs"
  by (simp_all add: deleted_keys_def)

lemma never_revived_from_snoc:
  "never_revived_from ds (evs @ [ev]) \<longleftrightarrow> never_revived_from ds evs \<and> \<not> revives (ds @ deleted_keys evs) ev"
  by (induction evs arbitrary: ds) auto

lemma never_revived_snoc:
  "never_revived (evs @ [ev]) \<longleftrightarrow> never_revived evs \<and> \<not> revives (deleted_keys evs) ev"
  by (simp add: never_revived_def never_revived_from_snoc)

subsection \<open>The invariant\<close>

text \<open>The context \<open>i\<close> of an init controller started for \<open>key\<close> is still alive: its cleanup goroutine
  waits, and nobody has cancelled it.\<close>

definition alive :: "('e, 'm) tc_state \<Rightarrow> string \<Rightarrow> nat \<Rightarrow> bool" where
  "alive st key i \<longleftrightarrow> (i, key) \<in> set (cleanups st) \<and> ctx_cause st i = None"

definition tc_inv :: "'e tc_event list \<Rightarrow> ('e, 'm) tc_state \<times> 'w \<Rightarrow> bool" where
  "tc_inv evs s \<longleftrightarrow>
     (let st = fst s in
        0 < ctx_next st
      \<and> distinct (map fst (cleanups st))
      \<and> (\<forall>i key. (i, key) \<in> set (cleanups st) \<longrightarrow> 0 < i \<and> i < ctx_next st)
      \<and> (\<forall>i key. ctrlCancels st key = Some i \<longrightarrow> (i, key) \<in> set (cleanups st))
      \<and> (\<forall>i key. (i, key) \<in> set (cleanups st) \<longrightarrow>
            ctrlCancels st key = Some i \<or> key \<in> set (deleted_keys evs) \<and> ctx_cause st i \<noteq> None)
      \<and> (\<forall>key. key \<in> set (deleted_keys evs) \<longrightarrow> ctrlCancels st key = None)
      \<and> (\<forall>i. i \<in> fst ` set (managers st) \<longrightarrow> 0 < i \<and> i < ctx_next st)
      \<and> (\<forall>i. 0 < i \<longrightarrow> i < ctx_next st \<longrightarrow> ctx_cause st i = None \<longrightarrow> (\<exists>key. (i, key) \<in> set (cleanups st))))"

lemma tc_invI:
  assumes "0 < ctx_next st" "distinct (map fst (cleanups st))"
    and "\<And>i key. (i, key) \<in> set (cleanups st) \<Longrightarrow> 0 < i \<and> i < ctx_next st"
    and "\<And>i key. ctrlCancels st key = Some i \<Longrightarrow> (i, key) \<in> set (cleanups st)"
    and "\<And>i key. (i, key) \<in> set (cleanups st) \<Longrightarrow>
      ctrlCancels st key = Some i \<or> key \<in> set (deleted_keys evs) \<and> ctx_cause st i \<noteq> None"
    and "\<And>key. key \<in> set (deleted_keys evs) \<Longrightarrow> ctrlCancels st key = None"
    and "\<And>i. i \<in> fst ` set (managers st) \<Longrightarrow> 0 < i \<and> i < ctx_next st"
    and "\<And>i. 0 < i \<Longrightarrow> i < ctx_next st \<Longrightarrow> ctx_cause st i = None \<Longrightarrow> \<exists>key. (i, key) \<in> set (cleanups st)"
  shows "tc_inv evs (st, w)"
  unfolding tc_inv_def Let_def fst_conv using assms by blast

lemma tc_invD:
  assumes "tc_inv evs (st, w)"
  shows tc_inv_pos: "0 < ctx_next st"
    and tc_inv_distinct: "distinct (map fst (cleanups st))"
    and tc_inv_bound: "\<And>i key. (i, key) \<in> set (cleanups st) \<Longrightarrow> 0 < i \<and> i < ctx_next st"
    and tc_inv_registered: "\<And>i key. ctrlCancels st key = Some i \<Longrightarrow> (i, key) \<in> set (cleanups st)"
    and tc_inv_waiting: "\<And>i key. (i, key) \<in> set (cleanups st) \<Longrightarrow>
      ctrlCancels st key = Some i \<or> key \<in> set (deleted_keys evs) \<and> ctx_cause st i \<noteq> None"
    and tc_inv_deleted: "\<And>key. key \<in> set (deleted_keys evs) \<Longrightarrow> ctrlCancels st key = None"
    and tc_inv_managers: "\<And>i. i \<in> fst ` set (managers st) \<Longrightarrow> 0 < i \<and> i < ctx_next st"
    and tc_inv_uncancelled: "\<And>i. 0 < i \<Longrightarrow> i < ctx_next st \<Longrightarrow> ctx_cause st i = None \<Longrightarrow>
      \<exists>key. (i, key) \<in> set (cleanups st)"
  using assms unfolding tc_inv_def Let_def fst_conv by (elim conjE, iprover)+

text \<open>Two changes that cannot hurt: more causes, and fewer managers.\<close>

lemma tc_inv_more_causes:
  assumes "tc_inv evs (st, w)" "ctrlCancels st' = ctrlCancels st" "ctx_next st' = ctx_next st"
    "cleanups st' = cleanups st" "fst ` set (managers st') \<subseteq> fst ` set (managers st)"
    "\<And>i. ctx_cause st i \<noteq> None \<Longrightarrow> ctx_cause st' i \<noteq> None"
    "set (deleted_keys evs') = set (deleted_keys evs)"
  shows "tc_inv evs' (st', w')"
proof (rule tc_invI)
  fix i assume "0 < i" "i < ctx_next st'" "ctx_cause st' i = None"
  then show "\<exists>key. (i, key) \<in> set (cleanups st')"
    using tc_inv_uncancelled [OF assms(1), of i] assms(3,4,6) by metis
next
  fix i assume "i \<in> fst ` set (managers st')"
  then show "0 < i \<and> i < ctx_next st'" using tc_inv_managers [OF assms(1), of i] assms(3,5) by auto
next
  fix i key
  show "(i, key) \<in> set (cleanups st') \<Longrightarrow>
      ctrlCancels st' key = Some i \<or> key \<in> set (deleted_keys evs') \<and> ctx_cause st' i \<noteq> None"
    using tc_inv_waiting [OF assms(1), of i key] assms(2,4,6,7) by auto
  show "(i, key) \<in> set (cleanups st') \<Longrightarrow> 0 < i \<and> i < ctx_next st'"
    using tc_inv_bound [OF assms(1), of i key] assms(3,4) by simp
  show "ctrlCancels st' key = Some i \<Longrightarrow> (i, key) \<in> set (cleanups st')"
    using tc_inv_registered [OF assms(1), of key i] assms(2,4) by simp
  show "key \<in> set (deleted_keys evs') \<Longrightarrow> ctrlCancels st' key = None"
    using tc_inv_deleted [OF assms(1), of key] assms(2,7) by simp
qed (use tc_inv_pos [OF assms(1)] tc_inv_distinct [OF assms(1)] assms(3,4) in simp_all)

lemma tc_inv_mono:
  "tc_inv evs (st, w) \<Longrightarrow> set (deleted_keys evs') = set (deleted_keys evs) \<Longrightarrow> tc_inv evs' (st, w')"
  by (rule tc_inv_more_causes [of evs st w]) simp_all

lemma manager_exit_simps [simp]:
  "ctrlCancels (manager_exit tests i err st) = ctrlCancels st"
  "ctx_next (manager_exit tests i err st) = ctx_next st"
  "cleanups (manager_exit tests i err st) = cleanups st"
  "managers (manager_exit tests i err st) = filter (\<lambda>p. fst p \<noteq> i) (managers st)"
  "ctx_cause (manager_exit tests i err st) j =
     (if j = i \<and> ctx_cause st i = None \<and> (\<exists>e. err = Some e \<and> \<not> IsCanceled tests e)
      then Some (ErrorNew ''failed to start sync controller'') else ctx_cause st j)"
  by (auto simp: manager_exit_def Let_def split: option.splits)

lemma cancel_root_simps [simp]:
  "ctrlCancels (cancel_root cause st) = ctrlCancels st" "ctx_next (cancel_root cause st) = ctx_next st"
  "cleanups (cancel_root cause st) = cleanups st" "managers (cancel_root cause st) = managers st"
  "ctx_cause (cancel_root cause st) i =
     (if i < ctx_next st \<and> ctx_cause st i = None then Some cause else ctx_cause st i)"
  by (simp_all add: cancel_root_def)

lemma tc_inv_start: "tc_inv [] (tc_init, w)"
  by (simp add: tc_inv_def tc_init_def)

lemma tc_inv_started:
  assumes inv: "tc_inv evs (st, w)" and key: "ctrlCancels st key = None" "key \<notin> set (deleted_keys evs)"
  shows "tc_inv evs (started key mgr st, w')"
proof (rule tc_invI)
  have none: "(i, key) \<notin> set (cleanups st)" for i
    using tc_inv_waiting [OF inv, of i key] key by auto
  have new: "(ctx_next st, k) \<notin> set (cleanups st)" for k
    using tc_inv_bound [OF inv, of "ctx_next st" k] by auto
  then have "ctx_next st \<notin> fst ` set (cleanups st)" by force
  then show "distinct (map fst (cleanups (started key mgr st)))"
    using tc_inv_distinct [OF inv] by (simp add: started_def)
  fix i k
  show "ctrlCancels (started key mgr st) k = Some i \<Longrightarrow> (i, k) \<in> set (cleanups (started key mgr st))"
    using tc_inv_registered [OF inv, of k i] by (auto simp: started_def split: if_splits)
  show "(i, k) \<in> set (cleanups (started key mgr st)) \<Longrightarrow>
      ctrlCancels (started key mgr st) k = Some i
      \<or> k \<in> set (deleted_keys evs) \<and> ctx_cause (started key mgr st) i \<noteq> None"
    using tc_inv_waiting [OF inv, of i k] none new by (auto simp: started_def)
next
  fix i
  show "0 < i \<Longrightarrow> i < ctx_next (started key mgr st) \<Longrightarrow> ctx_cause (started key mgr st) i = None \<Longrightarrow>
      \<exists>k. (i, k) \<in> set (cleanups (started key mgr st))"
    using tc_inv_uncancelled [OF inv, of i] by (cases "i = ctx_next st") (auto simp: started_def)
next
  fix i
  show "i \<in> fst ` set (managers (started key mgr st)) \<Longrightarrow> 0 < i \<and> i < ctx_next (started key mgr st)"
    using tc_inv_managers [OF inv, of i] tc_inv_pos [OF inv] by (cases "i = ctx_next st") (auto simp: started_def image_iff)
  fix k
  show "(i, k) \<in> set (cleanups (started key mgr st)) \<Longrightarrow> 0 < i \<and> i < ctx_next (started key mgr st)"
    using tc_inv_bound [OF inv, of i k] tc_inv_pos [OF inv] by (auto simp: started_def)
  show "k \<in> set (deleted_keys evs) \<Longrightarrow> ctrlCancels (started key mgr st) k = None"
    using tc_inv_deleted [OF inv, of k] key(2) by (auto simp: started_def)
qed (simp add: started_def)

lemma tc_inv_cleaned:
  assumes inv: "tc_inv evs (st, w)" and evs': "deleted_keys evs' = deleted_keys evs @ [key]"
  shows "tc_inv evs' (cleaned key st, w')"
proof (rule tc_invI)
  have cause: "ctx_cause (cleaned key st) i \<noteq> None \<longleftrightarrow> ctx_cause st i \<noteq> None \<or> ctrlCancels st key = Some i" for i
    by (auto simp: cleaned_def split: option.splits)
  show "0 < ctx_next (cleaned key st)" "distinct (map fst (cleanups (cleaned key st)))"
    using tc_invD(1,2) [OF inv] by simp_all
  fix i k
  show "(i, k) \<in> set (cleanups (cleaned key st)) \<Longrightarrow> 0 < i \<and> i < ctx_next (cleaned key st)"
    using tc_inv_bound [OF inv, of i k] by simp
  show "ctrlCancels (cleaned key st) k = Some i \<Longrightarrow> (i, k) \<in> set (cleanups (cleaned key st))"
    using tc_inv_registered [OF inv, of k i] by (simp split: if_split_asm)
  show "(i, k) \<in> set (cleanups (cleaned key st)) \<Longrightarrow>
      ctrlCancels (cleaned key st) k = Some i \<or> k \<in> set (deleted_keys evs') \<and> ctx_cause (cleaned key st) i \<noteq> None"
    using tc_inv_waiting [OF inv, of i k] cause [of i] evs' by auto
  show "k \<in> set (deleted_keys evs') \<Longrightarrow> ctrlCancels (cleaned key st) k = None"
    using tc_inv_deleted [OF inv, of k] evs' by auto
  show "i \<in> fst ` set (managers (cleaned key st)) \<Longrightarrow> 0 < i \<and> i < ctx_next (cleaned key st)"
    using tc_inv_managers [OF inv, of i] by simp
  show "0 < i \<Longrightarrow> i < ctx_next (cleaned key st) \<Longrightarrow> ctx_cause (cleaned key st) i = None \<Longrightarrow>
      \<exists>k. (i, k) \<in> set (cleanups (cleaned key st))"
    using tc_inv_uncancelled [OF inv, of i] cause [of i] by auto
qed

lemma distinct_map_remove1: "distinct (map f xs) \<Longrightarrow> distinct (map f (remove1 x xs))"
proof (induction xs)
  case (Cons a xs)
  then show ?case using set_remove1_subset [of x xs] by auto
qed simp

lemma tc_inv_cleanup_goroutine:
  assumes inv: "tc_inv evs (st, w)" and i: "(i, key) \<in> set (cleanups st)" "ctx_cause st i \<noteq> None"
  shows "tc_inv evs (cleanup_goroutine i key st, w)"
proof (rule tc_invI)
  have d: "distinct (map fst (cleanups st))" by (rule tc_inv_distinct [OF inv])
  then have "distinct (cleanups st)" by (simp add: distinct_map)
  then have rest [simp]: "set (cleanups (cleanup_goroutine i key st)) = set (cleanups st) - {(i, key)}"
    by (simp add: cleanup_goroutine_def)
  have simps [simp]: "ctx_next (cleanup_goroutine i key st) = ctx_next st"
    "managers (cleanup_goroutine i key st) = managers st" "ctx_cause (cleanup_goroutine i key st) = ctx_cause st"
    "ctrlCancels (cleanup_goroutine i key st) = (ctrlCancels st)(key := None)"
    by (simp_all add: cleanup_goroutine_def)
  show "0 < ctx_next (cleanup_goroutine i key st)" using tc_inv_pos [OF inv] by simp
  show "distinct (map fst (cleanups (cleanup_goroutine i key st)))"
    using distinct_map_remove1 [OF d] by (simp add: cleanup_goroutine_def)
  fix j k
  show "(j, k) \<in> set (cleanups (cleanup_goroutine i key st)) \<Longrightarrow> 0 < j \<and> j < ctx_next (cleanup_goroutine i key st)"
    using tc_inv_bound [OF inv, of j k] by simp
  show "ctrlCancels (cleanup_goroutine i key st) k = Some j \<Longrightarrow> (j, k) \<in> set (cleanups (cleanup_goroutine i key st))"
    using tc_inv_registered [OF inv, of k j] by (auto split: if_split_asm)
  show "(j, k) \<in> set (cleanups (cleanup_goroutine i key st)) \<Longrightarrow>
      ctrlCancels (cleanup_goroutine i key st) k = Some j
      \<or> k \<in> set (deleted_keys evs) \<and> ctx_cause (cleanup_goroutine i key st) j \<noteq> None"
    using tc_inv_waiting [OF inv, of j k] tc_inv_waiting [OF inv i(1)] tc_inv_deleted [OF inv, of key] by auto
  show "k \<in> set (deleted_keys evs) \<Longrightarrow> ctrlCancels (cleanup_goroutine i key st) k = None"
    using tc_inv_deleted [OF inv] by simp
  show "j \<in> fst ` set (managers (cleanup_goroutine i key st)) \<Longrightarrow> 0 < j \<and> j < ctx_next (cleanup_goroutine i key st)"
    using tc_inv_managers [OF inv, of j] by simp
  show "0 < j \<Longrightarrow> j < ctx_next (cleanup_goroutine i key st) \<Longrightarrow> ctx_cause (cleanup_goroutine i key st) j = None \<Longrightarrow>
      \<exists>k. (j, k) \<in> set (cleanups (cleanup_goroutine i key st))"
    using tc_inv_uncancelled [OF inv, of j] i(2) by auto
qed

lemma deleted_by_not_deleting [simp]: "\<not> deleting target \<Longrightarrow> deleted_by (EvReconcile (Inr target)) = []"
  by simp

lemma tc_inv_lifecycle:
  assumes inv: "tc_inv evs (st, w)" and ok: "never_revived (evs @ [ev])" and step: "lifecycle_step tests st ev st'"
  shows "tc_inv (evs @ [ev]) (st', w')"
  using step
proof (cases rule: lifecycle_step.cases)
  case (ls_deleted target)
  show ?thesis unfolding ls_deleted(2) by (rule tc_inv_cleaned [OF inv]) (simp add: ls_deleted)
next
  case (ls_started target mgr)
  with ok have "getInitTargetKey target \<notin> set (deleted_keys evs)" by (simp add: never_revived_snoc)
  from tc_inv_started [OF inv ls_started(4) this] show ?thesis
    unfolding ls_started(2) by (rule tc_inv_mono) (use ls_started in simp)
next
  case (ls_cleanup i key)
  from tc_inv_cleanup_goroutine [OF inv ls_cleanup(3,4)] show ?thesis
    unfolding ls_cleanup(2) by (rule tc_inv_mono) (simp add: ls_cleanup)
next
  case (ls_exit i err)
  show ?thesis unfolding ls_exit(2) by (rule tc_inv_more_causes [OF inv]) (use ls_exit in auto)
next
  case (ls_root cause)
  show ?thesis unfolding ls_root(2) by (rule tc_inv_more_causes [OF inv]) (use ls_root in auto)
qed (auto intro!: tc_inv_mono [OF inv])

lemma tc_inv_step:
  assumes "tc_inv evs s" "never_revived (evs @ [ev])" "tc_step r s ev s'"
  shows "tc_inv (evs @ [ev]) s'"
  using tc_inv_lifecycle [of evs "fst s" "snd s" ev _ "fst s'" "snd s'", OF _ assms(2) tc_step_lifecycle [OF assms(3)]]
    assms(1) by simp

lemma tc_inv_one_live:
  assumes "tc_inv evs (st, w)"
  shows "(\<forall>key i. alive st key i \<longrightarrow> ctrlCancels st key = Some i \<and> key \<notin> set (deleted_keys evs))
    \<and> (\<forall>key i j. alive st key i \<and> alive st key j \<longrightarrow> i = j)
    \<and> (\<forall>i \<in> fst ` set (managers st). ctx_cause st i = None \<longrightarrow> (\<exists>key. alive st key i))"
proof -
  note inv = assms
  have reg: "alive st key i \<Longrightarrow> ctrlCancels st key = Some i \<and> key \<notin> set (deleted_keys evs)" for key i
    using tc_inv_waiting [OF inv, of i key] tc_inv_deleted [OF inv, of key] by (auto simp: alive_def)
  have "i \<in> fst ` set (managers st) \<Longrightarrow> ctx_cause st i = None \<Longrightarrow> \<exists>key. alive st key i" for i
    using tc_inv_managers [OF inv, of i] tc_inv_uncancelled [OF inv, of i] by (auto simp: alive_def)
  moreover have "i = j" if "alive st key i" "alive st key j" for key i j
    using reg [OF that(1)] reg [OF that(2)] by simp
  ultimately show ?thesis using reg by blast
qed

definition tc_start :: "('e, 'm) tc_state \<times> 'w \<Rightarrow> bool" where
  "tc_start s \<longleftrightarrow> fst s = tc_init"

text \<open>The invariant holds for every implementation of the specification.\<close>

interpretation lifecycle_spec: run_invariant
  "lifecycle_step tests" "\<lambda>st. st = tc_init" never_revived "\<lambda>evs st. tc_inv evs (st, ())"
  for tests :: "'e err_tests"
  by unfold_locales (auto simp: never_revived_snoc intro: tc_inv_lifecycle tc_inv_start)

interpretation lifecycle: run_invariant "tc_step r" tc_start never_revived tc_inv
  for r :: "('x, 'e, 'c, 'sch, 'cfg, 'prov, 'm) target_Reconciler"
proof
  fix s :: "('e, 'm) tc_state \<times> ('x, 'e, 'c) agent_world"
  assume "tc_start s"
  then show "tc_inv [] s" using tc_inv_start [of "snd s"] by (cases s) (simp add: tc_start_def)
qed (auto simp: never_revived_snoc intro: tc_inv_step)

text \<open>Once the root context is cancelled every context is, also those that are derived from it
  later. Contexts of init controllers are numbered from 1, so nothing but \<^verbatim>\<open>cancel_root\<close>
  touches the root.\<close>

definition root_inv :: "'e tc_event list \<Rightarrow> ('e, 'm) tc_state \<times> 'w \<Rightarrow> bool" where
  "root_inv evs s \<longleftrightarrow>
     (let st = fst s in
        0 < ctx_next st
      \<and> (\<forall>i key. (i, key) \<in> set (cleanups st) \<longrightarrow> i < ctx_next st)
      \<and> (\<forall>i key. ctrlCancels st key = Some i \<longrightarrow> 0 < i)
      \<and> (\<forall>i. i \<in> fst ` set (managers st) \<longrightarrow> 0 < i)
      \<and> (\<forall>cause. EvRootCancel cause \<in> set evs \<longrightarrow> ctx_cause st 0 \<noteq> None)
      \<and> (\<forall>i. ctx_cause st 0 \<noteq> None \<longrightarrow> i < ctx_next st \<longrightarrow> ctx_cause st i \<noteq> None))"

lemma root_invI:
  assumes "0 < ctx_next st"
    and "\<And>i key. (i, key) \<in> set (cleanups st) \<Longrightarrow> i < ctx_next st"
    and "\<And>i key. ctrlCancels st key = Some i \<Longrightarrow> 0 < i"
    and "\<And>i. i \<in> fst ` set (managers st) \<Longrightarrow> 0 < i"
    and "\<And>cause. EvRootCancel cause \<in> set evs \<Longrightarrow> ctx_cause st 0 \<noteq> None"
    and "\<And>i. ctx_cause st 0 \<noteq> None \<Longrightarrow> i < ctx_next st \<Longrightarrow> ctx_cause st i \<noteq> None"
  shows "root_inv evs (st, w)"
  unfolding root_inv_def Let_def fst_conv using assms by blast

lemma root_invD:
  assumes "root_inv evs (st, w)"
  shows "0 < ctx_next st"
    and "\<And>i key. (i, key) \<in> set (cleanups st) \<Longrightarrow> i < ctx_next st"
    and "\<And>i key. ctrlCancels st key = Some i \<Longrightarrow> 0 < i"
    and "\<And>i. i \<in> fst ` set (managers st) \<Longrightarrow> 0 < i"
    and "\<And>cause. EvRootCancel cause \<in> set evs \<Longrightarrow> ctx_cause st 0 \<noteq> None"
    and "\<And>i. ctx_cause st 0 \<noteq> None \<Longrightarrow> i < ctx_next st \<Longrightarrow> ctx_cause st i \<noteq> None"
  using assms unfolding root_inv_def Let_def fst_conv by (elim conjE, iprover)+

text \<open>Every step other than starting a controller leaves the numbering alone and does not cancel
  the root by itself.\<close>

lemma root_inv_keeps:
  assumes inv: "root_inv evs (st, w)"
    and st': "ctx_next st' = ctx_next st" "set (cleanups st') \<subseteq> set (cleanups st)"
      "fst ` set (managers st') \<subseteq> fst ` set (managers st)"
      "\<And>key i. ctrlCancels st' key = Some i \<Longrightarrow> ctrlCancels st key = Some i"
      "\<And>i. ctx_cause st i \<noteq> None \<Longrightarrow> ctx_cause st' i \<noteq> None"
      "ctx_cause st' 0 = ctx_cause st 0"
    and ev: "\<And>cause. ev \<noteq> EvRootCancel cause"
  shows "root_inv (evs @ [ev]) (st', w')"
proof (rule root_invI)
  fix i key cause
  show "(i, key) \<in> set (cleanups st') \<Longrightarrow> i < ctx_next st'"
    using root_invD(2) [OF inv, of i key] st'(1,2) by auto
  show "ctrlCancels st' key = Some i \<Longrightarrow> 0 < i" using root_invD(3) [OF inv, of key i] st'(4) by blast
  show "i \<in> fst ` set (managers st') \<Longrightarrow> 0 < i" using root_invD(4) [OF inv, of i] st'(3) by blast
  show "EvRootCancel cause \<in> set (evs @ [ev]) \<Longrightarrow> ctx_cause st' 0 \<noteq> None"
    using root_invD(5) [OF inv, of cause] st'(6) ev [of cause] by auto
  show "ctx_cause st' 0 \<noteq> None \<Longrightarrow> i < ctx_next st' \<Longrightarrow> ctx_cause st' i \<noteq> None"
    using root_invD(6) [OF inv, of i] st'(1,5,6) by auto
qed (use root_invD(1) [OF inv] st'(1) in simp)

lemma root_inv_started:
  assumes inv: "root_inv evs (st, w)" and ev: "\<And>cause. ev \<noteq> EvRootCancel cause"
  shows "root_inv (evs @ [ev]) (started key mgr st, w')"
proof (rule root_invI)
  have pos: "0 < ctx_next st" by (rule root_invD(1) [OF inv])
  fix i k cause
  show "(i, k) \<in> set (cleanups (started key mgr st)) \<Longrightarrow> i < ctx_next (started key mgr st)"
    using root_invD(2) [OF inv, of i k] by (auto simp: started_def)
  show "ctrlCancels (started key mgr st) k = Some i \<Longrightarrow> 0 < i"
    using root_invD(3) [OF inv, of k i] pos by (auto simp: started_def split: if_split_asm)
  show "i \<in> fst ` set (managers (started key mgr st)) \<Longrightarrow> 0 < i"
    using root_invD(4) [OF inv, of i] pos by (auto simp: started_def)
  show "EvRootCancel cause \<in> set (evs @ [ev]) \<Longrightarrow> ctx_cause (started key mgr st) 0 \<noteq> None"
    using root_invD(5) [OF inv, of cause] ev [of cause] pos by (auto simp: started_def)
  show "ctx_cause (started key mgr st) 0 \<noteq> None \<Longrightarrow> i < ctx_next (started key mgr st) \<Longrightarrow>
      ctx_cause (started key mgr st) i \<noteq> None"
    using root_invD(6) [OF inv, of i] pos by (auto simp: started_def less_Suc_eq)
qed (simp add: started_def)

lemma root_inv_cleaned:
  assumes inv: "root_inv evs (st, w)" and ev: "\<And>cause. ev \<noteq> EvRootCancel cause"
  shows "root_inv (evs @ [ev]) (cleaned k st, w')"
proof (rule root_inv_keeps [OF inv])
  show "ctx_cause (cleaned k st) 0 = ctx_cause st 0"
    using root_invD(3) [OF inv, of k 0] by (auto simp: cleaned_def split: option.splits)
  show "ctx_cause st i \<noteq> None \<Longrightarrow> ctx_cause (cleaned k st) i \<noteq> None" for i
    by (auto simp: cleaned_def split: option.splits)
qed (use ev in \<open>simp_all split: if_split_asm\<close>)

lemma root_inv_lifecycle:
  assumes inv: "root_inv evs (st, w)" and step: "lifecycle_step tests st ev st'"
  shows "root_inv (evs @ [ev]) (st', w')"
  using step
proof (cases rule: lifecycle_step.cases)
  case (ls_deleted target)
  show ?thesis unfolding ls_deleted(2) by (rule root_inv_cleaned [OF inv]) (simp add: ls_deleted)
next
  case (ls_started target mgr)
  show ?thesis unfolding ls_started(2) by (rule root_inv_started [OF inv]) (simp add: ls_started)
next
  case (ls_cleanup i key)
  show ?thesis unfolding ls_cleanup(2)
    by (rule root_inv_keeps [OF inv])
      (use ls_cleanup in \<open>auto simp: cleanup_goroutine_def split: if_split_asm dest: set_remove1_subset [THEN subsetD]\<close>)
next
  case (ls_exit i err)
  then have "0 < i" using root_invD(4) [OF inv, of i] by simp
  then show ?thesis unfolding ls_exit(2) by (intro root_inv_keeps [OF inv]) (use ls_exit in auto)
next
  case (ls_root cause)
  show ?thesis unfolding ls_root(2) by (rule root_invI) (use root_invD [OF inv] in auto)
qed (auto intro!: root_inv_keeps [OF inv])

lemma root_inv_step:
  assumes "root_inv evs s" "tc_step r s ev s'"
  shows "root_inv (evs @ [ev]) s'"
  using root_inv_lifecycle [of evs "fst s" "snd s" _ ev "fst s'" "snd s'", OF _ tc_step_lifecycle [OF assms(2)]]
    assms(1) by simp

interpretation shutdown_spec: run_invariant
  "lifecycle_step tests" "\<lambda>st. st = tc_init" "\<lambda>_. True" "\<lambda>evs st. root_inv evs (st, ())"
  for tests :: "'e err_tests"
  by unfold_locales (auto simp: tc_init_def intro: root_inv_lifecycle root_invI)

interpretation shutdown: run_invariant "tc_step r" tc_start "\<lambda>_. True" root_inv
  for r :: "('x, 'e, 'c, 'sch, 'cfg, 'prov, 'm) target_Reconciler"
proof
  fix s :: "('e, 'm) tc_state \<times> ('x, 'e, 'c) agent_world"
  assume "tc_start s"
  then show "root_inv [] s" by (cases s) (auto simp: tc_start_def tc_init_def intro: root_invI)
qed (auto intro: root_inv_step)

subsection \<open>A closed instance\<close>

text \<open>An API server with at most one target in it, for concrete runs.\<close>

definition sample_library :: "nat library" where
  "sample_library =
     \<lparr>lb_kcp = \<lparr>lib_From = (\<lambda>m. ''root''), lib_NewPath = (\<lambda>s. s), lib_PathString = (\<lambda>s. s),
                lib_PathAnnotationKey = ''kcp.io/path'', lib_InitializerForType = (\<lambda>wst. ''root:base'')\<rparr>,
      lb_tests = store_tests, lb_LogicalClusterGVK = ''LogicalCluster''\<rparr>"

definition sample_target :: "nat option \<Rightarrow> init_target" where
  "sample_target deletion =
     \<lparr>it_TypeMeta = \<lparr>tm_Kind = ''InitTarget'', tm_APIVersion = []\<rparr>,
      it_ObjectMeta = empty_meta\<lparr>meta_Name := ''t'', meta_UID := ''uid'', meta_DeletionTimestamp := deletion\<rparr>,
      it_Spec = \<lparr>its_WorkspaceTypeReference = \<lparr>wtr_Path = ''root'', wtr_Name = ''base''\<rparr>, its_Sources = []\<rparr>\<rparr>"

definition sample_reconciler :: "(init_target option, nat, unit, unit, unit, unit, unit) target_Reconciler" where
  "sample_reconciler =
     \<lparr>tr_library = sample_library, tr_localClient = (),
      tr_GetInitTarget = (\<lambda>c name x. (case x of None \<Rightarrow> Inl 3 | Some t \<Rightarrow> Inr t, x)),
      tr_GetWorkspaceType = (\<lambda>c name x. (Inr \<lparr>wst_ObjectMeta = empty_meta\<rparr>, x)),
      tr_Cluster = (\<lambda>c s. Inr ()), tr_ClusterConfig = (\<lambda>c. ()), tr_NewScheme = (),
      tr_AddTenancy = (\<lambda>s. (None, s)), tr_AddCore = (\<lambda>s. (None, s)), tr_TenancyGV = [], tr_CoreGV = [],
      tr_NewProvider = (\<lambda>cfg n s x. (Inr (), x)), tr_NewManager = (\<lambda>cfg p s x. (Inr (), x)),
      tr_newInitController = (\<lambda>m p i. (None, m))\<rparr>"

definition sample_world :: "init_target option \<Rightarrow> (init_target option, nat, unit) agent_world" where
  "sample_world t = \<lparr>ext = t, calls = []\<rparr>"

lemmas sample_defs = sample_library_def sample_target_def sample_reconciler_def sample_world_def
  tc_init_def store_tests_def empty_meta_def

lemmas reconcile_defs = Reconcile_target_def ensureInitController_def getWorkspaceType_def
  createMulticlusterManager_def get_target_def WithCancelCause_def getInitTargetKey_def
  ClusterNameFromObject_def silent_call_def ext_call_def Let_def

text \<open>The state after the first reconciliation of the sample target.\<close>

definition sample_state :: "(nat, unit) tc_state" where
  "sample_state = started ''uid'' () tc_init"

lemma sample_reconcile:
  "\<exists>w'. Reconcile_target sample_reconciler ''t'' tc_init (sample_world (Some (sample_target None)))
     = ((empty_result, None), sample_state, w')"
  by (simp add: reconcile_defs sample_defs sample_state_def started_def)

lemma sample_run:
  "\<exists>w'. run (tc_step sample_reconciler) (tc_init, sample_world (Some (sample_target None)))
     [EvReconcile (Inr (sample_target None))] (sample_state, w')"
proof -
  obtain w' where
    "Reconcile_target sample_reconciler ''t'' tc_init (sample_world (Some (sample_target None)))
       = ((empty_result, None), sample_state, w')"
    using sample_reconcile by blast
  from tc_reconcile [OF this] have "tc_step sample_reconciler (tc_init, sample_world (Some (sample_target None)))
     (EvReconcile (Inr (sample_target None))) (sample_state, w')"
    by (simp add: get_target_def ext_call_def sample_reconciler_def sample_world_def)
  then show ?thesis using run_one [where step = "tc_step sample_reconciler"] by blast
qed

lemma sample_never_revived: "never_revived [EvReconcile (Inr (sample_target None)) :: nat tc_event]"
  by (simp add: never_revived_def sample_target_def empty_meta_def)

lemma sample_alive: "alive sample_state ''uid'' 1"
  by (simp add: sample_state_def started_def tc_init_def alive_def)

subsection \<open>Properties\<close>

text \<open>C15: what one reconciliation of an InitTarget does, on every branch. A target that cannot be read
  changes nothing, and only \<^verbatim>\<open>NotFound\<close> is no error. For a target that is being deleted the controller
  of its key is cancelled and forgotten. For one whose key is registered nothing happens. Otherwise a
  manager is built and registered, or an error is returned and nothing is left behind, so the next
  attempt starts afresh.\<close>

theorem Reconcile_target_outcomes:
  "case Reconcile_target r name st w of (res, st', w') \<Rightarrow>
     (case fst (get_target r name w) of
        Inl e \<Rightarrow> st' = st \<and> res = (empty_result,
          if IsNotFound (lb_tests (tr_library r)) e then None else Some (External e))
      | Inr target \<Rightarrow>
          if deleting target then res = (empty_result, None) \<and> st' = cleaned (getInitTargetKey target) st
          else if ctrlCancels st (getInitTargetKey target) \<noteq> None then res = (empty_result, None) \<and> st' = st
          else (\<exists>e. res = (empty_result, Some e) \<and> st' = st)
             \<or> (\<exists>mgr. res = (empty_result, None) \<and> st' = started (getInitTargetKey target) mgr st
                    \<and> wired_manager r target mgr))"
proof -
  obtain res st' w' where eq: "Reconcile_target r name st w = (res, st', w')" by (metis prod.collapse)
  show ?thesis unfolding eq prod.case
    using eq by (cases rule: Reconcile_target_cases) (simp_all, blast)
qed

fun unread :: "'e tc_event \<Rightarrow> bool" where
  "unread (EvReconcile (Inl e)) = True"
| "unread EvOutside = True"
| "unread _ = False"

lemma unread_run_keeps: "run (tc_step r) s evs s' \<Longrightarrow> list_all unread evs \<Longrightarrow> fst s' = fst s"
proof (induction rule: run.induct)
  case (run_step s evs s' ev s'')
  from run_step(2) have "unread ev \<Longrightarrow> fst s'' = fst s'"
  proof (cases rule: tc_step.cases)
    case (tc_reconcile name st w res st' w')
    from tc_reconcile(4) show "unread ev \<Longrightarrow> fst s'' = fst s'"
      by (cases rule: Reconcile_target_cases) (use tc_reconcile in auto)
  qed auto
  with run_step show ?case by simp
qed simp



text \<open>C24: a manager that fails. In any reachable state, when the manager of a live controller ends with
  an error that is not \<^verbatim>\<open>context.Canceled\<close>, its context is cancelled with the cause
  "failed to start sync controller"; the key stays registered, so that reconciliations do nothing, until
  the cleanup goroutine has run; after that no controller of the key is alive or registered, and the next
  reconciliation may start one. A manager that ends without an error or with
  \<^verbatim>\<open>Canceled\<close> leaves its dead controller registered.\<close>

theorem failed_manager:
  assumes "run (tc_step r) (tc_init, w0) evs (st, w)" and "never_revived evs" and "alive st key i"
  shows "(let st1 = manager_exit tests i err st; st2 = cleanup_goroutine i key st1
          in ctrlCancels st1 key = Some i
           \<and> (case err of
                Some e \<Rightarrow>
                  if IsCanceled tests e then alive st1 key i
                  else ctx_cause st1 i = Some (ErrorNew ''failed to start sync controller'')
                     \<and> ctrlCancels st2 key = None \<and> (\<forall>j. \<not> alive st2 key j)
                     \<and> (\<forall>key'. key' \<noteq> key \<longrightarrow> ctrlCancels st2 key' = ctrlCancels st key')
              | None \<Rightarrow> alive st1 key i))"
proof -
  have inv: "tc_inv evs (st, w)"
    by (rule lifecycle.inv_run [OF assms(1) _ assms(2)]) (simp add: tc_start_def)
  have i: "ctrlCancels st key = Some i"
    using tc_inv_waiting [OF inv, of i key] assms(3) by (auto simp: alive_def)
  have "j = i" if "(j, key) \<in> set (cleanups st)" for j
    using tc_inv_waiting [OF inv that] tc_inv_deleted [OF inv, of key] i by auto
  then have "\<forall>j. \<not> alive (cleanup_goroutine i key (manager_exit tests i (Some e) st)) key j"
    if "\<not> IsCanceled tests e" for e
    using that assms(3) by (auto simp: alive_def cleanup_goroutine_def dest: set_remove1_subset [THEN subsetD])
  then show ?thesis
    using i assms(3) by (auto simp: Let_def alive_def cleanup_goroutine_def split: option.splits)
qed

theorem failed_manager_witness:
  "let st1 = manager_exit store_tests 1 (Some 7) sample_state; st2 = cleanup_goroutine 1 ''uid'' st1
   in ctx_cause st1 1 = Some (ErrorNew ''failed to start sync controller'') \<and> ctrlCancels st2 ''uid'' = None"
proof -
  obtain w where run: "run (tc_step sample_reconciler) (tc_init, sample_world (Some (sample_target None)))
      [EvReconcile (Inr (sample_target None))] (sample_state, w)"
    using sample_run by blast
  show ?thesis
    using failed_manager [OF run sample_never_revived sample_alive, of store_tests "Some 7"]
    by (simp add: Let_def store_tests_def)
qed

text \<open>C25: shutting down. Once the root context of the agent was cancelled, no init controller is alive,
  whatever happens before and after, also if reconciliations still start new ones.\<close>

theorem root_cancel_stops_all:
  assumes "run (tc_step r) (tc_init, w0) evs (st, w)" and "EvRootCancel cause \<in> set evs"
  shows "\<not> alive st key i"
proof -
  have inv: "root_inv evs (st, w)"
    by (rule shutdown.inv_run [OF assms(1)]) (simp_all add: tc_start_def)
  have "ctx_cause st 0 \<noteq> None" by (rule root_invD(5) [OF inv assms(2)])
  then show ?thesis using root_invD(2,6) [OF inv] by (auto simp: alive_def)
qed

theorem root_cancel_stops_all_witness:
  "\<exists>st :: (nat, unit) tc_state. (1, ''uid'') \<in> set (cleanups st) \<and> \<not> alive st ''uid'' 1"
proof -
  let ?w = "sample_world (Some (sample_target None))"
  obtain w where run: "run (tc_step sample_reconciler) (tc_init, ?w)
      [EvReconcile (Inr (sample_target None))] (sample_state, w)"
    using sample_run by blast
  have "run (tc_step sample_reconciler) (tc_init, ?w)
      ([EvReconcile (Inr (sample_target None))] @ [EvRootCancel (ErrorNew [])])
      (cancel_root (ErrorNew []) sample_state, w)"
    by (rule run_step [where step = "tc_step sample_reconciler", OF run tc_root])
  note not_alive = root_cancel_stops_all [OF this, of "ErrorNew []" "''uid''" 1]
  show ?thesis
    by (rule exI [of _ "cancel_root (ErrorNew []) sample_state"])
      (use not_alive in \<open>simp add: sample_state_def started_def tc_init_def\<close>)
qed

text \<open>An InitTarget whose reference to its WorkspaceType changes while its controller is
  registered. The reconciliation of the changed object only reads it: no workspace type is looked
  up, no manager is built, and the controller of the old workspace type stays.\<close>

theorem changed_spec_ignored:
  assumes "get_target r name w = (Inr (target\<lparr>it_Spec := spec\<rparr>), w1)"
    and "\<not> deleting target" and "ctrlCancels st (getInitTargetKey target) = Some i"
  shows "Reconcile_target r name st w = ((empty_result, None), st, w1)
    \<and> new_calls w w1 = [CallGet (tr_localClient r) ReadInitTarget name None]"
proof -
  have "new_calls w w1 = [CallGet (tr_localClient r) ReadInitTarget name None]"
    using ext_call_calls [OF assms(1) [unfolded get_target_def]] by (simp add: new_callsI)
  then show ?thesis
    using assms by (simp add: Reconcile_target_def ensureInitController_def getInitTargetKey_def)
qed

theorem changed_spec_ignored_witness:
  "\<exists>w1. Reconcile_target sample_reconciler ''t'' sample_state
     (sample_world (Some (sample_target None\<lparr>it_Spec := \<lparr>its_WorkspaceTypeReference =
        \<lparr>wtr_Path = ''root:other'', wtr_Name = ''other''\<rparr>, its_Sources = []\<rparr>\<rparr>)))
     = ((empty_result, None), sample_state, w1)"
proof -
  let ?spec = "\<lparr>its_WorkspaceTypeReference = \<lparr>wtr_Path = ''root:other'', wtr_Name = ''other''\<rparr>, its_Sources = []\<rparr>"
  let ?w = "sample_world (Some (sample_target None\<lparr>it_Spec := ?spec\<rparr>))"
  obtain w1 where w1: "get_target sample_reconciler ''t'' ?w = (Inr (sample_target None\<lparr>it_Spec := ?spec\<rparr>), w1)"
    by (simp add: get_target_def ext_call_def sample_reconciler_def sample_world_def)
  have "\<not> deleting (sample_target None)" "ctrlCancels sample_state (getInitTargetKey (sample_target None)) = Some 1"
    by (simp_all add: sample_defs sample_state_def started_def getInitTargetKey_def)
  from changed_spec_ignored [OF w1 this] show ?thesis by blast
qed

subsection \<open>Without the promise\<close>

text \<open>The condition on deletions is needed: the cleanup goroutine deletes its key, whichever context
  is registered under it by then. If a target was seen as being deleted and then again as not, the goroutine of
  the first controller would remove the registration of the second, and a third one would be started
  beside it.\<close>

lemma revived_target_leaks:
  fixes m :: 'm and key :: string
  defines "st1 \<equiv> started key m (cleaned key (started key m (tc_init :: ('e, 'm) tc_state)))"
  defines "st2 \<equiv> started key m (cleanup_goroutine 1 key st1)"
  shows "alive st2 key 2 \<and> alive st2 key 3 \<and> ctrlCancels st2 key = Some 3"
  unfolding st2_def st1_def
  by (simp add: alive_def started_def cleaned_def cleanup_goroutine_def cancel_ctx_def tc_init_def)

end
