(* ===== verification/Cmd_Main.thy ===== *)
theory Cmd_Main
  imports Cmd_Options Kcp_Client Target_Lifecycle
begin

text \<open>
  \<^verbatim>\<open>cmd/init-agent/main.go\<close>: how the parts are put together. What the libraries provide is
  collected in \<open>main_lib\<close>; the code chooses the clusters and configurations, the options of the
  managers, and which reconciler gets which of the other parts.
\<close>

record manager_options =
  mo_MetricsAddr :: string
  mo_LeaderElection :: bool
  mo_LeaderElectionID :: string
  mo_LeaderElectionNamespace :: string
  mo_HealthAddr :: string

definition numInitWorkers :: nat where
  "numInitWorkers = 4"

subsection \<open>setupManager\<close>

record ('cfg, 'e, 'sch, 'mgr) manager_lib =
  ml_NewScheme :: 'sch
  ml_AddCorev1 :: "'sch \<Rightarrow> 'e option \<times> 'sch"
  ml_AddInitialization :: "'sch \<Rightarrow> 'e option \<times> 'sch"
  ml_Corev1GV :: string
  ml_InitializationGV :: string
  ml_New :: "'cfg rest_config \<Rightarrow> 'sch \<Rightarrow> manager_options \<Rightarrow> 'e + 'mgr"

definition setupManager ::
  "('cfg, 'e, 'sch, 'mgr) manager_lib \<Rightarrow> 'cfg rest_config \<Rightarrow> 's Options \<Rightarrow> ('e, 'mgr) result" where
  "setupManager ml cfg opts =
     (case ml_AddCorev1 ml (ml_NewScheme ml) of
        (Some e, s) \<Rightarrow> Inl (Errorf (''failed to register local scheme '' @ ml_Corev1GV ml) (External e))
      | (None, s1) \<Rightarrow>
          (case ml_AddInitialization ml s1 of
             (Some e, s) \<Rightarrow> Inl (Errorf (''failed to register local scheme '' @ ml_InitializationGV ml) (External e))
           | (None, scheme) \<Rightarrow>
               (let cfg' = RetargetRestConfig cfg (ConfigWorkspace opts)
                in case ml_New ml cfg' scheme
                          \<lparr>mo_MetricsAddr = MetricsAddr opts, mo_LeaderElection = EnableLeaderElection opts,
                           mo_LeaderElectionID = ''TODO'', mo_LeaderElectionNamespace = ''le-ns-todo'',
                           mo_HealthAddr = HealthAddr opts\<rparr> of
                     Inl e \<Rightarrow> Inl (External e)
                   | Inr mgr \<Rightarrow> Inr mgr)))"

subsection \<open>setupSourceFactory\<close>

definition setupSourceFactory ::
  "('cfg rest_config \<Rightarrow> 'sch \<Rightarrow> 'e + 'c) \<Rightarrow> 'cfg clusterClient \<Rightarrow> ('e, ('e, 'c, 'sch) source_Factory) result" where
  "setupSourceFactory New clusterClient =
     (let deps = \<lparr>dep_Template = \<lparr>dep_ClusterClient = Cluster New clusterClient\<rparr>\<rparr>
      in Inr (NewFactory deps))"

subsection \<open>The init controller's closure\<close>

text \<open>What an init controller runs on: the environment of the sources, the applier's parts, the
  multicluster manager's interface, and the builder that registers a controller with a manager.\<close>

record ('x, 'e, 'c, 'sch, 'tpl, 'd, 'm) agent_env =
  ae_source :: "('x, 'e, 'c, 'sch, 'tpl, 'd) source_env"
  ae_sort :: "(unstructured \<Rightarrow> unstructured \<Rightarrow> int) \<Rightarrow> unstructured list \<Rightarrow> unstructured list"
  ae_groupKind :: "unstructured \<Rightarrow> string"
  ae_Create :: "'c \<Rightarrow> unstructured \<Rightarrow> 'x \<Rightarrow> 'e option \<times> 'x"
  ae_remote :: "'m \<Rightarrow> ('x, 'e, 'c) remote_manager"
  ae_builder :: "'m \<Rightarrow> controller_options \<Rightarrow> ('x, 'e, 'c) init_Reconciler \<Rightarrow> 'e err option \<times> 'm"

definition agent_library :: "('x, 'e, 'c, 'sch, 'tpl, 'd, 'm) agent_env \<Rightarrow> 'e library" where
  "agent_library env =
     \<lparr>lb_kcp = se_lib (ae_source env), lb_tests = se_tests (ae_source env),
      lb_LogicalClusterGVK = se_LogicalClusterGVK (ae_source env)\<rparr>"

definition NewApplier :: "('x, 'e, 'c, 'sch, 'tpl, 'd, 'm) agent_env \<Rightarrow> ('x, 'e, 'c) Applier" where
  "NewApplier env = Apply (ae_sort env) (ae_groupKind env) (ae_Create env) (se_tests (ae_source env))"

definition newInitController ::
  "('x, 'e, 'c, 'sch, 'tpl, 'd, 'm) agent_env \<Rightarrow> ('e, 'c, 'sch) source_Factory \<Rightarrow> ('x, 'e, 'c) Applier \<Rightarrow>
   'm \<Rightarrow> ('x, 'e, 'c) InitTargetProvider \<Rightarrow> string \<Rightarrow> 'e err option \<times> 'm" where
  "newInitController env sourceFactory manifestApplier mgr targetProvider initializer =
     Create_controller (\<lambda>_. ae_builder env mgr) (agent_library env) (ae_remote env mgr) targetProvider
       (NewForInitSource (ae_source env) sourceFactory) manifestApplier initializer numInitWorkers"

text \<open>The reconciler that is registered with the manager.\<close>

definition agent_reconciler ::
  "('x, 'e, 'c, 'sch, 'tpl, 'd, 'm) agent_env \<Rightarrow> ('e, 'c, 'sch) source_Factory \<Rightarrow> 'm \<Rightarrow>
   ('x, 'e, 'c) InitTargetProvider \<Rightarrow> string \<Rightarrow> ('x, 'e, 'c) init_Reconciler" where
  "agent_reconciler env sourceFactory mgr targetProvider initializer =
     \<lparr>r_remoteManager = ae_remote env mgr, r_targetProvider = targetProvider,
      r_sourceFactory = NewForInitSource (ae_source env) sourceFactory, r_manifestApplier = NewApplier env,
      r_initializer = initializer, r_library = agent_library env\<rparr>"

lemma newInitController_registers:
  "newInitController env sf (NewApplier env) mgr provider initializer =
     ae_builder env mgr
       \<lparr>co_Name = ControllerName, co_MaxConcurrentReconciles = 4, co_SkipNameValidation = True\<rparr>
       (agent_reconciler env sf mgr provider initializer)"
  by (simp add: newInitController_def Create_controller_def agent_reconciler_def numInitWorkers_def)

subsection \<open>run\<close>

text \<open>The target reconciler gets the cluster client, the local manager's client, and the closure; the
  rest of its record are library functions, taken from \<open>rl_target\<close>.\<close>

record ('x, 'e, 'c, 'sch, 'cfg, 'prov, 'm, 'mgr) run_lib =
  rl_GetConfigOrDie :: "'cfg rest_config outcome"
  rl_ClientNew :: "'cfg rest_config \<Rightarrow> 'sch \<Rightarrow> 'e + 'c"
  rl_manager :: "('cfg, 'e, 'sch, 'mgr) manager_lib"
  rl_GetClient :: "'mgr \<Rightarrow> 'c"
  rl_target :: "('x, 'e, 'c, 'sch, 'cfg rest_config, 'prov, 'm) target_Reconciler"
  rl_Complete :: "'mgr \<Rightarrow> controller_options \<Rightarrow> init_target Funcs \<Rightarrow>
      ('x, 'e, 'c, 'sch, 'cfg rest_config, 'prov, 'm) target_Reconciler \<times> ('e, 'm) tc_state \<Rightarrow> 'e option"
  rl_Start :: "'mgr \<Rightarrow> 'e option"

definition agent_target_reconciler ::
  "('x, 'e, 'c, 'sch, 'tpl, 'd, 'm) agent_env \<Rightarrow> ('x, 'e, 'c, 'sch, 'cfg, 'prov, 'm, 'mgr) run_lib \<Rightarrow>
   'cfg clusterClient \<Rightarrow> ('e, 'c, 'sch) source_Factory \<Rightarrow> 'mgr \<Rightarrow>
   ('x, 'e, 'c, 'sch, 'cfg rest_config, 'prov, 'm) target_Reconciler" where
  "agent_target_reconciler env rl clusterClient sourceFactory mgr =
     (rl_target rl)
       \<lparr>tr_library := agent_library env, tr_localClient := rl_GetClient rl mgr,
        tr_Cluster := Cluster (rl_ClientNew rl) clusterClient, tr_ClusterConfig := ClusterConfig clusterClient,
        tr_newInitController := newInitController env sourceFactory (NewApplier env)\<rparr>"

definition run_agent ::
  "('x, 'e, 'c, 'sch, 'tpl, 'd, 'm) agent_env \<Rightarrow> ('x, 'e, 'c, 'sch, 'cfg, 'prov, 'm, 'mgr) run_lib \<Rightarrow>
   ((string \<times> string) list \<Rightarrow> bool) Options \<Rightarrow> 'e err option outcome" where
  "run_agent env rl opts =
     (case rl_GetConfigOrDie rl of
        Panic m \<Rightarrow> Panic m
      | Diverges \<Rightarrow> Diverges
      | Ret cfg \<Rightarrow>
          (let clusterClient = NewClusterClient (StripCluster cfg)
           in case setupSourceFactory (rl_ClientNew rl) clusterClient of
                Inl e \<Rightarrow> Ret (Some (Errorf ''failed to setup source factory'' e))
              | Inr sourceFactory \<Rightarrow>
                  (case setupManager (rl_manager rl) cfg opts of
                     Inl e \<Rightarrow> Ret (Some (Errorf ''failed to setup local manager'' e))
                   | Inr mgr \<Rightarrow>
                       (case Add (rl_Complete rl mgr) (InitTargetSelector opts)
                               (agent_target_reconciler env rl clusterClient sourceFactory mgr) of
                          Some e \<Rightarrow> Ret (Some (Errorf ''failed to add targetcontroller controller'' (External e)))
                        | None \<Rightarrow> Ret (map_option External (rl_Start rl mgr))))))"

text \<open>\<^verbatim>\<open>main\<close>: flags, validation, completion, run; a fatal log message ends the process.\<close>

definition main_agent ::
  "('e, (string \<times> string) list \<Rightarrow> bool) options_lib \<Rightarrow> 'e err \<Rightarrow> (string \<times> string) list \<Rightarrow>
   ('x, 'e, 'c, 'sch, 'tpl, 'd, 'm) agent_env \<Rightarrow> ('x, 'e, 'c, 'sch, 'cfg, 'prov, 'm, 'mgr) run_lib \<Rightarrow> unit outcome" where
  "main_agent ol unknown args env rl =
     (let opts0 = NewOptions ol
      in case set_flags unknown (AddFlags ol opts0) args opts0 of
           (Some e, opts) \<Rightarrow> Panic ''exit: flag error''
         | (None, opts) \<Rightarrow>
             (case Validate ol opts of
                Some e \<Rightarrow> Panic ''Invalid command line''
              | None \<Rightarrow>
                  (case Complete_Options ol opts of
                     (Some e, opts') \<Rightarrow> Panic ''Invalid command line''
                   | (None, opts') \<Rightarrow>
                       (case run_agent env rl opts' of
                          Panic m \<Rightarrow> Panic m
                        | Diverges \<Rightarrow> Diverges
                        | Ret (Some e) \<Rightarrow> Panic ''Init Agent has encountered an error''
                        | Ret None \<Rightarrow> Ret ()))))"

subsection \<open>The contracts of the parts meet\<close>

lemma newInitTargetProvider_reads:
  "newInitTargetProvider tr name w = (res, w') \<Longrightarrow> \<exists>tr'. calls w' = calls w @ tr' \<and> list_all is_read tr'"
  by (auto simp: newInitTargetProvider_def get_target_def split: prod.splits sum.splits dest!: ext_call_calls)

lemma agent_reconciler_sel [simp]:
  "r_remoteManager (agent_reconciler env sf mgr p i) = ae_remote env mgr"
  "r_targetProvider (agent_reconciler env sf mgr p i) = p"
  "r_sourceFactory (agent_reconciler env sf mgr p i) = NewForInitSource (ae_source env) sf"
  "r_manifestApplier (agent_reconciler env sf mgr p i) = NewApplier env"
  "r_initializer (agent_reconciler env sf mgr p i) = i"
  "r_library (agent_reconciler env sf mgr p i) = agent_library env"
  by (simp_all add: agent_reconciler_def)

lemma agent_library_sel [simp]:
  "lb_kcp (agent_library env) = se_lib (ae_source env)" "lb_tests (agent_library env) = se_tests (ae_source env)"
  "lb_LogicalClusterGVK (agent_library env) = se_LogicalClusterGVK (ae_source env)"
  by (simp_all add: agent_library_def)

lemma agent_init_reconciler:
  assumes "manifest_applier (NewApplier env) (se_tests (ae_source env))"
  shows "init_reconciler (agent_reconciler env sf mgr (newInitTargetProvider tr name) initializer)
           (path_known (ae_source env))"
proof (intro init_reconciler.intro)
  show "manifest_applier (r_manifestApplier (agent_reconciler env sf mgr (newInitTargetProvider tr name) initializer))
      (lb_tests (r_library (agent_reconciler env sf mgr (newInitTargetProvider tr name) initializer)))"
    using assms by simp
  show "source_factory (r_sourceFactory (agent_reconciler env sf mgr (newInitTargetProvider tr name) initializer))
      (path_known (ae_source env))"
    using template_sources.source_factory_axioms by simp
  show "init_reconciler_axioms (agent_reconciler env sf mgr (newInitTargetProvider tr name) initializer)
      (path_known (ae_source env))"
    by unfold_locales (auto simp: path_known_def dest: newInitTargetProvider_reads)
qed

lemma agent_init_reconciler_sorted:
  "hierarchy_sort (ae_sort env) \<Longrightarrow>
   init_reconciler (agent_reconciler env sf mgr (newInitTargetProvider tr name) initializer)
     (path_known (ae_source env))"
  by (rule agent_init_reconciler) (simp add: NewApplier_def hierarchy_sort.Apply_manifest_applier)

text \<open>The reconciler of the agent whose sort is insertion sort for slices of every length.\<close>

definition small_env ::
  "('x, 'e, 'c, 'sch, 'tpl, 'd, 'm) agent_env \<Rightarrow> ('x, 'e, 'c, 'sch, 'tpl, 'd, 'm) agent_env" where
  "small_env env = env\<lparr>ae_sort := insertionSortCmpFunc\<rparr>"

interpretation agent: init_reconciler
  "agent_reconciler (small_env env) sf mgr (newInitTargetProvider tr name) initializer"
  "path_known (ae_source (small_env env))"
  for env :: "('x, 'e, 'c, 'sch, 'tpl, 'd, 'm) agent_env" and sf mgr
    and tr :: "('x, 'e, 'c, 'sch, 'cfg, 'prov, 'm) target_Reconciler" and name initializer
  by (rule agent_init_reconciler_sorted) (simp add: small_env_def insertion_hierarchy.hierarchy_sort_axioms)

lemma agent_ready_applier:
  "(\<And>obj x. create_ok (se_tests (ae_source env)) (fst (ae_Create env c obj x))) \<Longrightarrow>
   ready_applier (agent_reconciler env sf mgr provider initializer) c"
  unfolding ready_applier_def by (simp add: NewApplier_def Apply_completes)

text \<open>The parts of a started agent, and what they were given.\<close>

lemma run_agent_cases:
  assumes "run_agent env rl opts = Ret res"
  obtains (failed) e where "res = Some e"
  | (started) cfg mgr where "rl_GetConfigOrDie rl = Ret cfg" "setupManager (rl_manager rl) cfg opts = Inr mgr"
      "Add (rl_Complete rl mgr) (InitTargetSelector opts)
         (agent_target_reconciler env rl (NewClusterClient (StripCluster cfg))
            (NewFactory \<lparr>dep_Template = \<lparr>dep_ClusterClient =
                Cluster (rl_ClientNew rl) (NewClusterClient (StripCluster cfg))\<rparr>\<rparr>) mgr) = None"
      "res = map_option External (rl_Start rl mgr)"
  using assms that
  by (cases res) (auto simp: run_agent_def setupSourceFactory_def Let_def split: outcome.splits sum.splits option.splits)

text \<open>C28: how the agent is put together. If \<^verbatim>\<open>run\<close> ends without an error, the local manager was
  made for the configured workspace on the kubeconfig's server with the addresses of the options; one
  target controller with one worker was added to it, that gets the events of the selector of the options and
  starts without any init controller; and a controller it starts is registered with four workers, the
  initializer and provider it was given, the manifest applier, and the sources of the template factory.\<close>

theorem run_wires_the_agent:
  assumes "run_agent env rl opts = Ret None"
  shows "\<exists>cfg mgr scheme sf.
     rl_GetConfigOrDie rl = Ret cfg \<and> rl_Start rl mgr = None
   \<and> ml_New (rl_manager rl) (RetargetRestConfig cfg (ConfigWorkspace opts)) scheme
       \<lparr>mo_MetricsAddr = MetricsAddr opts, mo_LeaderElection = EnableLeaderElection opts,
        mo_LeaderElectionID = ''TODO'', mo_LeaderElectionNamespace = ''le-ns-todo'',
        mo_HealthAddr = HealthAddr opts\<rparr> = Inr mgr
   \<and> (let tr = agent_target_reconciler env rl (NewClusterClient (StripCluster cfg)) sf mgr in
        rl_Complete rl mgr
          \<lparr>co_Name = ''initagent-target-controller'', co_MaxConcurrentReconciles = 1, co_SkipNameValidation = False\<rparr>
          (ByLabels (InitTargetSelector opts) it_ObjectMeta) (tr, tc_init) = None
      \<and> tr_ClusterConfig tr = RetargetRestConfig cfg
      \<and> (\<forall>c s. dep_ClusterClient (dep_Template (fac_deps sf)) c s = rl_ClientNew rl (RetargetRestConfig cfg c) s)
      \<and> (\<forall>m provider initializer. tr_newInitController tr m provider initializer =
           ae_builder env m
             \<lparr>co_Name = ''initagent-init'', co_MaxConcurrentReconciles = 4, co_SkipNameValidation = True\<rparr>
             (agent_reconciler env sf m provider initializer)))"
proof -
  from assms obtain cfg mgr where run: "rl_GetConfigOrDie rl = Ret cfg" "setupManager (rl_manager rl) cfg opts = Inr mgr"
    "Add (rl_Complete rl mgr) (InitTargetSelector opts)
       (agent_target_reconciler env rl (NewClusterClient (StripCluster cfg))
          (NewFactory \<lparr>dep_Template = \<lparr>dep_ClusterClient =
              Cluster (rl_ClientNew rl) (NewClusterClient (StripCluster cfg))\<rparr>\<rparr>) mgr) = None"
    "rl_Start rl mgr = None"
    by (rule run_agent_cases) auto
  obtain scheme where new: "ml_New (rl_manager rl) (RetargetRestConfig cfg (ConfigWorkspace opts)) scheme
       \<lparr>mo_MetricsAddr = MetricsAddr opts, mo_LeaderElection = EnableLeaderElection opts,
        mo_LeaderElectionID = ''TODO'', mo_LeaderElectionNamespace = ''le-ns-todo'',
        mo_HealthAddr = HealthAddr opts\<rparr> = Inr mgr"
    using run(2) by (auto simp: setupManager_def Let_def split: prod.splits option.splits sum.splits)
  have config: "ClusterConfig (NewClusterClient (StripCluster cfg)) = RetargetRestConfig cfg"
    by (simp add: fun_eq_iff ClusterConfig_def NewClusterClient_def RetargetRestConfig_def Let_def)
  show ?thesis
    using run new
    by (intro exI [of _ cfg] exI [of _ mgr] exI [of _ scheme]
        exI [of _ "NewFactory \<lparr>dep_Template = \<lparr>dep_ClusterClient =
          Cluster (rl_ClientNew rl) (NewClusterClient (StripCluster cfg))\<rparr>\<rparr>"])
      (simp add: Add_def TargetControllerName_def ControllerName_def config agent_target_reconciler_def
        newInitController_registers NewFactory_def Cluster_def)
qed

end
