(* ===== verification/Agent_Sample.thy ===== *)
theory Agent_Sample
  imports Cmd_Main
begin

text \<open>
  A closed instance of the whole agent, for concrete runs: an API server that keeps created objects and
  one logical cluster, a template that is one manifest of the kind it names, and an
  \<^verbatim>\<open>InitTarget\<close> with one source. Error numbers are those of \<open>store_tests\<close>.
\<close>

record sample_server =
  srv_objects :: "(nat \<times> unstructured) list"
  srv_cluster :: logical_cluster
  srv_kinds :: "string list"

fun sample_Decode :: "document list \<Rightarrow> (nat + document) \<times> document list" where
  "sample_Decode [] = (Inl 4, [])"
| "sample_Decode (doc # docs) = (Inr doc, docs)"

definition sample_source_env ::
  "(sample_server, nat, nat, unit, string, document list) source_env" where
  "sample_source_env =
     \<lparr>se_lib = lb_kcp sample_library, se_LogicalClusterGVK = ''LogicalCluster'', se_tests = store_tests,
      se_NewScheme = (), se_AddToScheme = (\<lambda>s. (None, s)), se_GroupVersionString = (\<lambda>g. gv_Group g),
      se_GetTemplate = (\<lambda>c name x.
         (Inr \<lparr>itp_TypeMeta = \<lparr>tm_Kind = ''InitTemplate'', tm_APIVersion = []\<rparr>,
               itp_ObjectMeta = empty_meta\<lparr>meta_Name := name\<rparr>,
               itp_Spec = \<lparr>tpl_Template = ''ConfigMap''\<rparr>\<rparr>, x)),
      se_Parse = (\<lambda>s. Inr s), se_Execute = (\<lambda>tpl ctx x. (Inr tpl, x)),
      se_NewDecoder = (\<lambda>s. [[(''kind'', JStr s)], []]), se_Decode = sample_Decode\<rparr>"

definition sample_remote :: "(sample_server, nat, nat) remote_manager" where
  "sample_remote =
     \<lparr>rm_GetCluster = (\<lambda>name x. if name = ''c1'' then (Inr 7, x) else (Inl 3, x)),
      rm_Get = (\<lambda>c name x. ((None, srv_cluster x), x)),
      rm_PatchStatus = (\<lambda>c old new x. (None, x\<lparr>srv_cluster := new\<rparr>)),
      rm_Eventf = (\<lambda>lc reason e x. ((), x))\<rparr>"

definition sample_env :: "(sample_server, nat, nat, unit, string, document list, unit) agent_env" where
  "sample_env =
     \<lparr>ae_source = sample_source_env, ae_sort = insertionSortCmpFunc, ae_groupKind = sample_kind,
      ae_Create = (\<lambda>c obj x.
         case store_Create (\<lambda>obj. List.member (srv_kinds x) (sample_kind obj)) c obj (srv_objects x) of
           (r, objs) \<Rightarrow> (r, x\<lparr>srv_objects := objs\<rparr>)),
      ae_remote = (\<lambda>m. sample_remote), ae_builder = (\<lambda>m opts r. (None, m))\<rparr>"

definition sample_factory :: "(nat, nat, unit) source_Factory" where
  "sample_factory = NewFactory \<lparr>dep_Template = \<lparr>dep_ClusterClient = (\<lambda>c s. Inr 1)\<rparr>\<rparr>"

definition sample_init_target :: init_target where
  "sample_init_target =
     sample_target None\<lparr>it_Spec := \<lparr>its_WorkspaceTypeReference = \<lparr>wtr_Path = ''root'', wtr_Name = ''base''\<rparr>,
        its_Sources = [\<lparr>src_Template = Some \<lparr>tis_Name = ''tpl''\<rparr>\<rparr>]\<rparr>\<rparr>"

definition sample_tr :: "(string \<Rightarrow> 'cfg) \<Rightarrow> (sample_server, nat, nat, unit, 'cfg, unit, unit) target_Reconciler" where
  "sample_tr config =
     \<lparr>tr_library = sample_library, tr_localClient = 1,
      tr_GetInitTarget = (\<lambda>c name x. (Inr sample_init_target, x)),
      tr_GetWorkspaceType = (\<lambda>c name x. (Inr \<lparr>wst_ObjectMeta = empty_meta\<rparr>, x)),
      tr_Cluster = (\<lambda>c s. Inr 1), tr_ClusterConfig = config, tr_NewScheme = (),
      tr_AddTenancy = (\<lambda>s. (None, s)), tr_AddCore = (\<lambda>s. (None, s)), tr_TenancyGV = [], tr_CoreGV = [],
      tr_NewProvider = (\<lambda>cfg n s x. (Inr (), x)), tr_NewManager = (\<lambda>cfg p s x. (Inr (), x)),
      tr_newInitController = (\<lambda>m p i. (None, m))\<rparr>"

definition sample_init_reconciler :: "(sample_server, nat, nat) init_Reconciler" where
  "sample_init_reconciler =
     agent_reconciler sample_env sample_factory () (newInitTargetProvider (sample_tr (\<lambda>c. ())) ''t'') ''root:base''"

text \<open>A cluster with the agent's and a foreign initializer; \<open>path\<close> is its path annotation.\<close>

definition sample_cluster :: "(string \<times> string) list \<Rightarrow> string list \<Rightarrow> logical_cluster" where
  "sample_cluster annotations inits =
     \<lparr>lc_ObjectMeta = empty_meta\<lparr>meta_Name := ''cluster'', meta_Annotations := annotations\<rparr>,
      lc_Initializers = inits\<rparr>"

definition sample_server_with :: "logical_cluster \<Rightarrow> string list \<Rightarrow> (sample_server, nat, nat) agent_world" where
  "sample_server_with lc kinds =
     \<lparr>ext = \<lparr>srv_objects = [], srv_cluster = lc, srv_kinds = kinds\<rparr>, calls = []\<rparr>"

definition sample_request :: mc_request where
  "sample_request = \<lparr>req_ClusterName = ''c1'', req_Name = ''cluster''\<rparr>"

lemma ParseYAML_sample:
  "ParseYAML (se_NewDecoder sample_source_env) (se_Decode sample_source_env) (IsEOF store_tests) s
     = Ret (Inr [\<lparr>Object = [(''kind'', JStr s)]\<rparr>])"
  by (simp add: ParseYAML_def ParseYAML_loop.simps sample_source_env_def store_tests_def)

abbreviation (input) sample_run_on :: "logical_cluster \<Rightarrow> string list \<Rightarrow>
    (reconcile_result \<times> nat err option) outcome \<times> (sample_server, nat, nat) agent_world" where
  "sample_run_on lc kinds \<equiv> Reconcile sample_init_reconciler sample_request (sample_server_with lc kinds)"

definition sample_lc :: logical_cluster where
  "sample_lc = sample_cluster [(''kcp.io/path'', ''root:team'')] [''other'', ''root:base'']"

lemma sample_completes:
  "fst (sample_run_on sample_lc [''ConfigMap'']) = Ret (empty_result, None)"
  by code_simp

text \<open>Libraries for \<^verbatim>\<open>run\<close> that succeed at everything.\<close>

definition sample_rl :: "(sample_server, nat, nat, unit, unit, unit, unit, string) run_lib" where
  "sample_rl =
     \<lparr>rl_GetConfigOrDie = Ret \<lparr>Host = ''https://k/clusters/root'', Settings = ()\<rparr>,
      rl_ClientNew = (\<lambda>cfg s. Inr 1),
      rl_manager = \<lparr>ml_NewScheme = (), ml_AddCorev1 = (\<lambda>s. (None, s)), ml_AddInitialization = (\<lambda>s. (None, s)),
                    ml_Corev1GV = ''v1'', ml_InitializationGV = ''v1alpha1'', ml_New = (\<lambda>cfg s o'. Inr (Host cfg))\<rparr>,
      rl_GetClient = (\<lambda>m. 1),
      rl_target = sample_tr (\<lambda>c. \<lparr>Host = [], Settings = ()\<rparr>),
      rl_Complete = (\<lambda>m o' p r. None), rl_Start = (\<lambda>m. None)\<rparr>"

definition sample_options :: "((string \<times> string) list \<Rightarrow> bool) Options" where
  "sample_options =
     \<lparr>ConfigWorkspace = ''root:agent'', EnableLeaderElection = False, InitTargetSelectorString = [],
      InitTargetSelector = (\<lambda>ls. True), LogOptions = NewDefaultOptions, MetricsAddr = [], HealthAddr = []\<rparr>"

theorem run_wires_the_agent_witness:
  "\<exists>mgr. ml_New (rl_manager sample_rl)
       (RetargetRestConfig \<lparr>Host = ''https://k/clusters/root'', Settings = ()\<rparr> ''root:agent'') ()
       \<lparr>mo_MetricsAddr = [], mo_LeaderElection = False, mo_LeaderElectionID = ''TODO'',
        mo_LeaderElectionNamespace = ''le-ns-todo'', mo_HealthAddr = []\<rparr> = Inr mgr"
proof -
  have "run_agent sample_env sample_rl sample_options = Ret None"
    by (simp add: run_agent_def sample_rl_def setupSourceFactory_def setupManager_def Add_def)
  from run_wires_the_agent [OF this] show ?thesis
    by (auto simp: sample_options_def sample_rl_def)
qed

theorem template_source_renders_witness:
  "\<exists>ms w1. NewForInitSource sample_source_env sample_factory ''root'' \<lparr>src_Template = Some \<lparr>tis_Name = ''tpl''\<rparr>\<rparr>
        (sample_server_with sample_lc []) = (Inr ms, w1)
     \<and> fst (ms sample_lc w1) = Ret (Inr [\<lparr>Object = [(''kind'', JStr ''ConfigMap'')]\<rparr>])"
proof -
  let ?w = "sample_server_with sample_lc []"
  let ?src = "\<lparr>src_Template = Some \<lparr>tis_Name = ''tpl''\<rparr>\<rparr>"
  obtain ms w1 where ms: "NewForInitSource sample_source_env sample_factory ''root'' ?src ?w = (Inr ms, w1)"
    by (simp add: NewForInitSource_def NewInitTemplate_def template_Factory_def NewFromInitTemplate_def New_source_def
        sample_factory_def NewFactory_def ext_call_def sample_source_env_def)
  have path: "map_of (meta_Annotations (lc_ObjectMeta sample_lc)) (lib_PathAnnotationKey (se_lib sample_source_env))
      = Some ''root:team''"
    by (simp add: sample_lc_def sample_cluster_def sample_source_env_def sample_library_def)
  show ?thesis
  proof (use template_source_renders [OF ms] in \<open>elim exE conjE\<close>)
    fix t scheme client tpl parsed
    assume "se_GetTemplate sample_source_env client (tis_Name t) (ext ?w) = (Inr tpl, ext w1)"
      and "se_Parse sample_source_env (tpl_Template (itp_Spec tpl)) = Inr parsed"
      and r: "\<forall>lc w2. case map_of (meta_Annotations (lc_ObjectMeta lc)) (lib_PathAnnotationKey (se_lib sample_source_env)) of
          None \<Rightarrow> (\<exists>m. fst (ms lc w2) = Panic m)
        | Some path \<Rightarrow>
            fst (ms lc w2) =
              (case fst (se_Execute sample_source_env parsed
                      \<lparr>rc_ClusterName = lib_From (se_lib sample_source_env) (lc_ObjectMeta lc),
                       rc_ClusterPath = lib_PathString (se_lib sample_source_env) (lib_NewPath (se_lib sample_source_env) path)\<rparr>
                      (ext w2)) of
                 Inl e \<Rightarrow> Ret (Inl (Errorf ''failed to execute template'' (External e)))
               | Inr text \<Rightarrow> ParseYAML (se_NewDecoder sample_source_env) (se_Decode sample_source_env)
                   (IsEOF (se_tests sample_source_env)) text)"
    then have "parsed = ''ConfigMap''" by (auto simp: sample_source_env_def)
    with r [rule_format, of sample_lc w1] path ParseYAML_sample [of "''ConfigMap''"]
    have "fst (ms sample_lc w1) = Ret (Inr [\<lparr>Object = [(''kind'', JStr ''ConfigMap'')]\<rparr>])"
      by (simp add: sample_source_env_def)
    with ms show ?thesis by simp
  qed
qed

end
