(* ===== verification/Cluster_Protocol.thy ===== *)
theory Cluster_Protocol
  imports Agent_Sample Runs "HOL-Library.Sublist"
begin

text \<open>
  Several init controllers on one logical cluster. Each of them owns one initializer, and each visits
  the cluster on its own: it reads the cluster object (\<open>fetch\<close>), reads its target, resolves, renders and applies the
  target's sources one after the other, and takes its initializer off the list it \<^emph>\<open>read\<close>
  (\<open>removeInitializer\<close>), with a merge patch that replaces the whole list. Between any two of these calls the other
  controllers make theirs. The protocol is a step relation over the calls of \<open>Init_Controller\<close>'s \<open>reconcile\<close>;
  \<open>Cluster_Progress\<close> shows that \<open>Reconcile\<close> is a run of it.

  Agents are named by their initializers: \<open>rs i\<close> is the reconciler of initializer \<open>i\<close>.
\<close>

subsection \<open>State and steps\<close>

text \<open>A visit in progress: the client and the cluster object that were fetched, and how far the agent's \<open>reconcile\<close>
  has come. \<open>AtTarget\<close>: it is about to read its target. \<open>AtSource target requeue k\<close>: at the head of the loop, before source
  \<open>k\<close>, with the flag collected so far. \<open>AtManifests\<close>: it has resolved that source. \<open>AtApply\<close>: it has rendered it.\<close>

datatype ('x, 'e, 'c) visit_pc =
    AtTarget
  | AtSource init_target bool nat
  | AtManifests init_target bool nat "('x, 'e, 'c) ManifestsSource"
  | AtApply init_target bool nat "unstructured list"

record ('x, 'e, 'c) cluster_state =
  cs_world :: "('x, 'e, 'c) agent_world"
  cs_visits :: "string \<rightharpoonup> 'c \<times> logical_cluster \<times> ('x, 'e, 'c) visit_pc"

datatype ('x, 'e, 'c) cluster_event =
    Fetched string
  | GotTarget string init_target
  | Resolved string
  | Rendered string
  | Applied string 'c "unstructured list" "('x, 'e, 'c) agent_world" "('x, 'e, 'c) agent_world"
  | Patched string bool
  | Left string
  | Outside

text \<open>The guards of \<open>Reconcile\<close> on what it fetched.\<close>

definition to_initialize :: "('x, 'e, 'c) init_Reconciler \<Rightarrow> 'e option \<Rightarrow> logical_cluster \<Rightarrow> bool" where
  "to_initialize r err lc \<longleftrightarrow>
     IgnoreNotFound (r_tests r) err = None \<and> meta_Name (lc_ObjectMeta lc) \<noteq> []
   \<and> List.member (lc_Initializers lc) (r_initializer r)
   \<and> returns (ClusterPathFromObject (r_lib r) (lb_LogicalClusterGVK (r_library r)) (lc_ObjectMeta lc))"

abbreviation sources_of :: "init_target \<Rightarrow> init_source list" where
  "sources_of target \<equiv> its_Sources (it_Spec target)"

abbreviation target_cluster :: "('x, 'e, 'c) init_Reconciler \<Rightarrow> init_target \<Rightarrow> string" where
  "target_cluster r target \<equiv> ClusterNameFromObject (r_lib r) (it_ObjectMeta target)"

text \<open>\<open>readable x\<close> are the initializer lists that a read of the cluster may return in the external state
  \<open>x\<close>. It is the stored list alone where reads go to the server, and holds older ones when the client reads
  from a cache. A visit can be left at every point: a call failed, or the agent was stopped in the middle of it.\<close>

inductive cluster_step ::
  "(string \<Rightarrow> ('x, 'e, 'c) init_Reconciler) \<Rightarrow> mc_request \<Rightarrow> ('x \<Rightarrow> string list set) \<Rightarrow>
   ('x, 'e, 'c) cluster_state \<Rightarrow> ('x, 'e, 'c) cluster_event \<Rightarrow> ('x, 'e, 'c) cluster_state \<Rightarrow> bool"
  for rs req readable where
  cs_fetch: "cs_visits s i = None \<Longrightarrow> fetch (rs i) req (cs_world s) = (Some (client, err, lc), w') \<Longrightarrow>
     to_initialize (rs i) err lc \<Longrightarrow>
     cluster_step rs req readable s (Fetched i)
       (s\<lparr>cs_world := w', cs_visits := (cs_visits s)(i \<mapsto> (client, lc, AtTarget))\<rparr>)"
| cs_target: "cs_visits s i = Some (client, lc, AtTarget) \<Longrightarrow>
     r_targetProvider (rs i) (cs_world s) = (Inr target, w') \<Longrightarrow>
     cluster_step rs req readable s (GotTarget i target)
       (s\<lparr>cs_world := w', cs_visits := (cs_visits s)(i \<mapsto> (client, lc, AtSource target False 0))\<rparr>)"
| cs_resolve: "cs_visits s i = Some (client, lc, AtSource target rq k) \<Longrightarrow> k < length (sources_of target) \<Longrightarrow>
     r_sourceFactory (rs i) (target_cluster (rs i) target) (sources_of target ! k) (cs_world s) = (Inr ms, w') \<Longrightarrow>
     cluster_step rs req readable s (Resolved i)
       (s\<lparr>cs_world := w', cs_visits := (cs_visits s)(i \<mapsto> (client, lc, AtManifests target rq k ms))\<rparr>)"
| cs_render: "cs_visits s i = Some (client, lc, AtManifests target rq k ms) \<Longrightarrow>
     ms lc (cs_world s) = (Ret (Inr objs), w') \<Longrightarrow>
     cluster_step rs req readable s (Rendered i)
       (s\<lparr>cs_world := w', cs_visits := (cs_visits s)(i \<mapsto> (client, lc, AtApply target rq k objs))\<rparr>)"
| cs_apply: "cs_visits s i = Some (client, lc, AtApply target rq k objs) \<Longrightarrow>
     r_manifestApplier (rs i) client objs (cs_world s) = ((again, None), w') \<Longrightarrow>
     cluster_step rs req readable s (Applied i client objs (cs_world s) w')
       (s\<lparr>cs_world := w', cs_visits := (cs_visits s)(i \<mapsto> (client, lc, AtSource target (again \<or> rq) (Suc k)))\<rparr>)"
| cs_patch: "cs_visits s i = Some (client, lc, AtSource target False (length (sources_of target))) \<Longrightarrow>
     removeInitializer (rs i) client lc (cs_world s) = ((err, lc'), w') \<Longrightarrow>
     cluster_step rs req readable s (Patched i (err = None))
       (s\<lparr>cs_world := w', cs_visits := (cs_visits s)(i := None)\<rparr>)"
| cs_leave: "cs_visits s i \<noteq> None \<Longrightarrow> readable (ext w') \<subseteq> readable (ext (cs_world s)) \<Longrightarrow>
     cluster_step rs req readable s (Left i) (s\<lparr>cs_world := w', cs_visits := (cs_visits s)(i := None)\<rparr>)"
| cs_outside: "readable (ext w') \<subseteq> readable (ext (cs_world s)) \<Longrightarrow>
     cluster_step rs req readable s Outside (s\<lparr>cs_world := w'\<rparr>)"

inductive_cases cs_fetchE: "cluster_step rs req readable s (Fetched i) s'"
inductive_cases cs_patchE: "cluster_step rs req readable s (Patched i b) s'"

subsection \<open>What the steps rely on\<close>

definition is_cluster_client ::
  "(string \<Rightarrow> ('x, 'e, 'c) init_Reconciler) \<Rightarrow> mc_request \<Rightarrow> string \<Rightarrow> 'c \<Rightarrow> bool" where
  "is_cluster_client rs req i client \<longleftrightarrow> (\<exists>w err lc w'. fetch (rs i) req w = (Some (client, err, lc), w'))"

definition fetch_law ::
  "(string \<Rightarrow> ('x, 'e, 'c) init_Reconciler) \<Rightarrow> mc_request \<Rightarrow> ('x \<Rightarrow> string list set) \<Rightarrow> bool" where
  "fetch_law rs req readable \<longleftrightarrow> (\<forall>i w res w'. fetch (rs i) req w = (res, w') \<longrightarrow>
     readable (ext w') \<subseteq> readable (ext w)
   \<and> (\<forall>c err lc. res = Some (c, err, lc) \<longrightarrow> meta_Name (lc_ObjectMeta lc) \<noteq> [] \<longrightarrow>
        lc_Initializers lc \<in> readable (ext w)))"

definition keeps :: "('x \<Rightarrow> string list set) \<Rightarrow> (('x, 'e, 'c) agent_world \<Rightarrow> 'r \<times> ('x, 'e, 'c) agent_world) \<Rightarrow> bool" where
  "keeps readable f \<longleftrightarrow> (\<forall>w r w'. f w = (r, w') \<longrightarrow> readable (ext w') \<subseteq> readable (ext w))"

definition work_law ::
  "(string \<Rightarrow> ('x, 'e, 'c) init_Reconciler) \<Rightarrow> mc_request \<Rightarrow> ('x \<Rightarrow> string list set) \<Rightarrow> bool" where
  "work_law rs req readable \<longleftrightarrow> (\<forall>i. keeps readable (r_targetProvider (rs i))
   \<and> (\<forall>cl ref. keeps readable (r_sourceFactory (rs i) cl ref))
   \<and> (\<forall>cl ref w ms w1 lc. r_sourceFactory (rs i) cl ref w = (Inr ms, w1) \<longrightarrow> keeps readable (ms lc))
   \<and> (\<forall>c objs. keeps readable (r_manifestApplier (rs i) c objs))
   \<and> (\<forall>lc reason e x. readable (snd (rm_Eventf (r_remoteManager (rs i)) lc reason e x)) \<subseteq> readable x))"

definition patch_law ::
  "(string \<Rightarrow> ('x, 'e, 'c) init_Reconciler) \<Rightarrow> mc_request \<Rightarrow> ('x \<Rightarrow> string list set) \<Rightarrow> bool" where
  "patch_law rs req readable \<longleftrightarrow> (\<forall>i c lc w err lc' w'. is_cluster_client rs req i c \<longrightarrow>
     i \<in> set (lc_Initializers lc) \<longrightarrow> removeInitializer (rs i) c lc w = ((err, lc'), w') \<longrightarrow>
     readable (ext w') \<subseteq> insert (removeAll i (lc_Initializers lc)) (readable (ext w))
   \<and> (err = None \<longrightarrow> removeAll i (lc_Initializers lc) \<in> readable (ext w')))"

definition shared_cluster ::
  "(string \<Rightarrow> ('x, 'e, 'c) init_Reconciler) \<Rightarrow> mc_request \<Rightarrow> ('x \<Rightarrow> string list set) \<Rightarrow> bool" where
  "shared_cluster rs req readable \<longleftrightarrow>
     (\<forall>i. r_initializer (rs i) = i) \<and> fetch_law rs req readable \<and> work_law rs req readable
   \<and> patch_law rs req readable"

text \<open>One lemma per step: where the lists come from, under the contract.\<close>

lemma shared_own: "shared_cluster rs req readable \<Longrightarrow> r_initializer (rs i) = i"
  by (simp add: shared_cluster_def)

lemma shared_fetch:
  assumes "shared_cluster rs req readable" "fetch (rs i) req w = (Some (client, err, lc), w')"
    "to_initialize (rs i) err lc"
  shows "is_cluster_client rs req i client" "readable (ext w') \<subseteq> readable (ext w)"
    "lc_Initializers lc \<in> readable (ext w)" "i \<in> set (lc_Initializers lc)"
  using assms unfolding shared_cluster_def fetch_law_def to_initialize_def is_cluster_client_def
  by (blast, blast, blast, simp)

lemma keepsD: "keeps readable f \<Longrightarrow> f w = (r, w') \<Longrightarrow> readable (ext w') \<subseteq> readable (ext w)"
  unfolding keeps_def by blast

lemma shared_patch:
  assumes "shared_cluster rs req readable" "is_cluster_client rs req i c" "i \<in> set (lc_Initializers lc)"
    "removeInitializer (rs i) c lc w = ((err, lc'), w')"
  shows "readable (ext w') \<subseteq> insert (removeAll i (lc_Initializers lc)) (readable (ext w))"
    "err = None \<Longrightarrow> removeAll i (lc_Initializers lc) \<in> readable (ext w')"
  using assms unfolding shared_cluster_def patch_law_def by blast+

lemma shared_target:
  "shared_cluster rs req readable \<Longrightarrow> r_targetProvider (rs i) w = (res, w') \<Longrightarrow> readable (ext w') \<subseteq> readable (ext w)"
  unfolding shared_cluster_def work_law_def by (meson keepsD)

lemma shared_resolve:
  "shared_cluster rs req readable \<Longrightarrow> r_sourceFactory (rs i) cl ref w = (res, w') \<Longrightarrow>
   readable (ext w') \<subseteq> readable (ext w)"
  unfolding shared_cluster_def work_law_def by (meson keepsD)

lemma shared_render:
  "shared_cluster rs req readable \<Longrightarrow> r_sourceFactory (rs i) cl ref w0 = (Inr ms, w1) \<Longrightarrow> ms lc w = (res, w') \<Longrightarrow>
   readable (ext w') \<subseteq> readable (ext w)"
  unfolding shared_cluster_def work_law_def by (meson keepsD)

lemma shared_apply:
  "shared_cluster rs req readable \<Longrightarrow> r_manifestApplier (rs i) c objs w = (res, w') \<Longrightarrow>
   readable (ext w') \<subseteq> readable (ext w)"
  unfolding shared_cluster_def work_law_def by (meson keepsD)

subsection \<open>What a visit has done so far\<close>

text \<open>An event that finishes the source \<open>ref\<close> for the cluster object \<open>lc\<close>: the source was resolved in the target's
  cluster, it was rendered for \<open>lc\<close>, and what it rendered was applied without asking for a requeue, each object of it
  with a creation that succeeded or found the object. The three calls are made in worlds of their own, in between
  anything can have happened.\<close>

definition source_done ::
  "('x, 'e, 'c) init_Reconciler \<Rightarrow> string \<Rightarrow> 'c \<Rightarrow> logical_cluster \<Rightarrow> init_target \<Rightarrow> init_source \<Rightarrow>
   ('x, 'e, 'c) cluster_event \<Rightarrow> bool" where
  "source_done r i client lc target ref ev \<longleftrightarrow>
     (\<exists>ms wa wa' objs wb wb' w w'. ev = Applied i client objs w w'
        \<and> r_sourceFactory r (target_cluster r target) ref wa = (Inr ms, wa')
        \<and> ms lc wb = (Ret (Inr objs), wb')
        \<and> r_manifestApplier r client objs w = ((False, None), w')
        \<and> (\<forall>obj \<in> set objs. applied (r_tests r) client (new_calls w w') obj))"

text \<open>The first \<open>k\<close> sources are finished, in the order of the target, after the fetch and the read of the target.\<close>

definition sources_done ::
  "('x, 'e, 'c) init_Reconciler \<Rightarrow> string \<Rightarrow> 'c \<Rightarrow> logical_cluster \<Rightarrow> init_target \<Rightarrow> nat \<Rightarrow>
   ('x, 'e, 'c) cluster_event list \<Rightarrow> bool" where
  "sources_done r i client lc target k ls \<longleftrightarrow>
     (\<exists>w w'. r_targetProvider r w = (Inr target, w'))
   \<and> (\<exists>evs. subseq (Fetched i # GotTarget i target # evs) ls
        \<and> list_all2 (source_done r i client lc target) (take k (sources_of target)) evs)"

lemma sources_done_snoc: "sources_done r i client lc target k ls \<Longrightarrow> sources_done r i client lc target k (ls @ [l])"
  unfolding sources_done_def using subseq_rev_drop_many by blast

lemma sources_done_0:
  assumes "r_targetProvider r w = (Inr target, w')" "Fetched i \<in> set ls"
  shows "sources_done r i client lc target 0 (ls @ [GotTarget i target])"
proof -
  have "subseq ([Fetched i] @ [GotTarget i target]) (ls @ [GotTarget i target])"
    using assms(2) by (intro list_emb_append_mono) (simp_all add: subseq_singleton_left)
  with assms(1) show ?thesis unfolding sources_done_def by auto
qed

lemma sources_done_Suc:
  assumes "sources_done r i client lc target k ls" "k < length (sources_of target)"
    and "source_done r i client lc target (sources_of target ! k) ev"
  shows "sources_done r i client lc target (Suc k) (ls @ [ev])"
proof -
  from assms(1) obtain evs where evs: "subseq (Fetched i # GotTarget i target # evs) ls"
    "list_all2 (source_done r i client lc target) (take k (sources_of target)) evs"
    unfolding sources_done_def by blast
  from evs(1) have "subseq ((Fetched i # GotTarget i target # evs) @ [ev]) (ls @ [ev])"
    by (rule list_emb_append_mono) simp
  moreover have "list_all2 (source_done r i client lc target) (take (Suc k) (sources_of target)) (evs @ [ev])"
    using evs(2) assms(2,3) by (simp add: take_Suc_conv_app_nth list_all2_appendI)
  ultimately show ?thesis using assms(1) unfolding sources_done_def by auto
qed

text \<open>What the program counter of a visit says about the events so far.\<close>

fun pc_sound ::
  "('x, 'e, 'c) init_Reconciler \<Rightarrow> string \<Rightarrow> 'c \<Rightarrow> logical_cluster \<Rightarrow> ('x, 'e, 'c) cluster_event list \<Rightarrow>
   ('x, 'e, 'c) visit_pc \<Rightarrow> bool" where
  "pc_sound r i client lc ls AtTarget \<longleftrightarrow> Fetched i \<in> set ls"
| "pc_sound r i client lc ls (AtSource target rq k) \<longleftrightarrow>
     k \<le> length (sources_of target) \<and> (\<not> rq \<longrightarrow> sources_done r i client lc target k ls)"
| "pc_sound r i client lc ls (AtManifests target rq k ms) \<longleftrightarrow>
     k < length (sources_of target) \<and> (\<not> rq \<longrightarrow> sources_done r i client lc target k ls)
   \<and> (\<exists>w w'. r_sourceFactory r (target_cluster r target) (sources_of target ! k) w = (Inr ms, w'))"
| "pc_sound r i client lc ls (AtApply target rq k objs) \<longleftrightarrow>
     k < length (sources_of target) \<and> (\<not> rq \<longrightarrow> sources_done r i client lc target k ls)
   \<and> (\<exists>ms wa wa' wb wb'. r_sourceFactory r (target_cluster r target) (sources_of target ! k) wa = (Inr ms, wa')
        \<and> ms lc wb = (Ret (Inr objs), wb'))"

lemma pc_sound_snoc: "pc_sound r i client lc ls pc \<Longrightarrow> pc_sound r i client lc (ls @ [l]) pc"
  by (cases pc) (auto intro: sources_done_snoc)

definition visits_sound ::
  "(string \<Rightarrow> ('x, 'e, 'c) init_Reconciler) \<Rightarrow> mc_request \<Rightarrow> ('x, 'e, 'c) cluster_event list \<Rightarrow>
   ('x, 'e, 'c) cluster_state \<Rightarrow> bool" where
  "visits_sound rs req ls s \<longleftrightarrow> (\<forall>j client lc pc. cs_visits s j = Some (client, lc, pc) \<longrightarrow>
     is_cluster_client rs req j client \<and> j \<in> set (lc_Initializers lc) \<and> pc_sound (rs j) j client lc ls pc)"

lemma visits_soundD:
  assumes "visits_sound rs req ls s" "cs_visits s j = Some (client, lc, pc)"
  shows "is_cluster_client rs req j client" "j \<in> set (lc_Initializers lc)" "pc_sound (rs j) j client lc ls pc"
  using assms unfolding visits_sound_def by blast+

lemma visits_sound_goes_on:
  assumes "visits_sound rs req ls s" "cs_visits s i = Some (client, lc, pc)"
    and "pc_sound (rs i) i client lc (ls @ [l]) pc'"
  shows "visits_sound rs req (ls @ [l]) (s\<lparr>cs_world := w', cs_visits := (cs_visits s)(i \<mapsto> (client, lc, pc'))\<rparr>)"
  using assms(1,3) visits_soundD [OF assms(1,2)] unfolding visits_sound_def by (auto intro: pc_sound_snoc)

lemma visits_sound_ends:
  "visits_sound rs req ls s \<Longrightarrow>
   visits_sound rs req (ls @ [l]) (s\<lparr>cs_world := w', cs_visits := (cs_visits s)(i := None)\<rparr>)"
  unfolding visits_sound_def by (auto intro: pc_sound_snoc)

text \<open>The appliers keep their contract: an application without requeue and error has created every object.\<close>

definition appliers :: "(string \<Rightarrow> ('x, 'e, 'c) init_Reconciler) \<Rightarrow> bool" where
  "appliers rs \<longleftrightarrow> (\<forall>i. manifest_applier (r_manifestApplier (rs i)) (r_tests (rs i)))"

lemma visits_sound_step:
  assumes C: "shared_cluster rs req readable" and A: "appliers rs" and V: "visits_sound rs req ls s"
    and S: "cluster_step rs req readable s l s'"
  shows "visits_sound rs req (ls @ [l]) s'"
  using S
proof (cases rule: cluster_step.cases)
  case (cs_fetch i client err lc w')
  from V shared_fetch [OF C cs_fetch(4,5)] show ?thesis
    unfolding visits_sound_def by (auto simp: cs_fetch(1,2) intro: pc_sound_snoc)
next
  case (cs_target i client lc target w')
  with visits_soundD(3) [OF V cs_target(3)] show ?thesis
    unfolding cs_target(2) by (intro visits_sound_goes_on [OF V cs_target(3)]) (auto intro: sources_done_0)
next
  case (cs_resolve i client lc target rq k ms w')
  with visits_soundD(3) [OF V cs_resolve(3)] show ?thesis
    unfolding cs_resolve(2) by (intro visits_sound_goes_on [OF V cs_resolve(3)]) (auto intro: sources_done_snoc)
next
  case (cs_render i client lc target rq k ms objs w')
  with visits_soundD(3) [OF V cs_render(3)] show ?thesis
    unfolding cs_render(2) by (intro visits_sound_goes_on [OF V cs_render(3)]) (auto intro: sources_done_snoc)
next
  case (cs_apply i client lc target rq k objs again w')
  note sound = visits_soundD(3) [OF V cs_apply(3)]
  have "source_done (rs i) i client lc target (sources_of target ! k) l" if "\<not> again"
  proof -
    from A have "manifest_applier (r_manifestApplier (rs i)) (r_tests (rs i))" unfolding appliers_def by blast
    from manifest_applier.applier_complete [OF this] cs_apply(4) that
    have "\<forall>obj \<in> set objs. applied (r_tests (rs i)) client (new_calls (cs_world s) w') obj" by simp
    with sound cs_apply(4) that show ?thesis unfolding source_done_def cs_apply(1) by auto
  qed
  with sound have "pc_sound (rs i) i client lc (ls @ [l]) (AtSource target (again \<or> rq) (Suc k))"
    by (auto intro: sources_done_Suc)
  then show ?thesis unfolding cs_apply(2) by (rule visits_sound_goes_on [OF V cs_apply(3)])
next
  case (cs_patch i client lc target err lc' w')
  from visits_sound_ends [OF V] show ?thesis unfolding cs_patch(2) .
next
  case (cs_leave i w')
  from visits_sound_ends [OF V] show ?thesis unfolding cs_leave(2) .
next
  case (cs_outside w')
  with V show ?thesis unfolding visits_sound_def by (auto intro: pc_sound_snoc)
qed

text \<open>Four kinds of steps: a visit begins, it goes on, it ends with a patch, and the others, which leave the list of
  visits or end one.\<close>

lemma cluster_step_kinds:
  assumes C: "shared_cluster rs req readable" and V: "visits_sound rs req ls s"
    and S: "cluster_step rs req readable s l s'"
  obtains (begins) i client err lc w' where "l = Fetched i" "fetch (rs i) req (cs_world s) = (Some (client, err, lc), w')"
      "to_initialize (rs i) err lc"
      "s' = s\<lparr>cs_world := w', cs_visits := (cs_visits s)(i \<mapsto> (client, lc, AtTarget))\<rparr>"
  | (goes_on) i client lc pc pc' w' where "\<And>j ok. l \<noteq> Patched j ok" "cs_visits s i = Some (client, lc, pc)"
      "s' = s\<lparr>cs_world := w', cs_visits := (cs_visits s)(i \<mapsto> (client, lc, pc'))\<rparr>"
      "readable (ext w') \<subseteq> readable (ext (cs_world s))"
  | (patches) i client lc target err lc' w' where "l = Patched i (err = None)"
      "cs_visits s i = Some (client, lc, AtSource target False (length (sources_of target)))"
      "is_cluster_client rs req i client" "i \<in> set (lc_Initializers lc)"
      "removeInitializer (rs i) client lc (cs_world s) = ((err, lc'), w')"
      "s' = s\<lparr>cs_world := w', cs_visits := (cs_visits s)(i := None)\<rparr>"
  | (others) w' f where "\<And>j ok. l \<noteq> Patched j ok" "s' = s\<lparr>cs_world := w', cs_visits := f\<rparr>"
      "f \<subseteq>\<^sub>m cs_visits s" "readable (ext w') \<subseteq> readable (ext (cs_world s))"
  using S
proof (cases rule: cluster_step.cases)
  case (cs_fetch i client err lc w')
  then show thesis by (intro begins) auto
next
  case (cs_target i client lc target w')
  with shared_target [OF C cs_target(4)] show thesis by (intro goes_on) auto
next
  case (cs_resolve i client lc target rq k ms w')
  with shared_resolve [OF C cs_resolve(5)] show thesis by (intro goes_on) auto
next
  case (cs_render i client lc target rq k ms objs w')
  from visits_soundD(3) [OF V cs_render(3)] obtain wa wa' where
    "r_sourceFactory (rs i) (target_cluster (rs i) target) (sources_of target ! k) wa = (Inr ms, wa')" by auto
  from shared_render [OF C this cs_render(4)] cs_render show thesis by (intro goes_on) auto
next
  case (cs_apply i client lc target rq k objs again w')
  with shared_apply [OF C cs_apply(4)] show thesis by (intro goes_on) auto
next
  case (cs_patch i client lc target err lc' w')
  with visits_soundD(1,2) [OF V cs_patch(3)] show thesis by (intro patches) auto
next
  case (cs_leave i w')
  then show thesis by (intro others [of "(cs_visits s)(i := None)" w']) (auto simp: map_le_def)
next
  case (cs_outside w')
  then show thesis by (intro others [of "cs_visits s" w']) auto
qed

subsection \<open>An initializer goes only after its agent has done its work\<close>

text \<open>\<open>completed rs i ls\<close>: before some patch of \<open>i\<close>'s agent in the run \<open>ls\<close>, this agent fetched the cluster with its
  initializer on it, read its target, and finished all of the target's sources for what it had fetched.\<close>

definition completed ::
  "(string \<Rightarrow> ('x, 'e, 'c) init_Reconciler) \<Rightarrow> string \<Rightarrow> ('x, 'e, 'c) cluster_event list \<Rightarrow> bool" where
  "completed rs i ls \<longleftrightarrow>
     (\<exists>before after ok client lc target. ls = before @ Patched i ok # after \<and> i \<in> set (lc_Initializers lc)
        \<and> sources_done (rs i) i client lc target (length (sources_of target)) before)"

lemma completed_snoc: "completed rs i ls \<Longrightarrow> completed rs i (ls @ [l])"
  unfolding completed_def by (metis append.assoc append_Cons)

definition still_there :: "('x \<Rightarrow> string list set) \<Rightarrow> string \<Rightarrow> ('x, 'e, 'c) cluster_state \<Rightarrow> bool" where
  "still_there readable i s \<longleftrightarrow>
     (\<forall>v \<in> readable (ext (cs_world s)). i \<in> set v)
   \<and> (\<forall>j client lc pc. cs_visits s j = Some (client, lc, pc) \<longrightarrow> i \<in> set (lc_Initializers lc))"

definition gate_inv ::
  "(string \<Rightarrow> ('x, 'e, 'c) init_Reconciler) \<Rightarrow> mc_request \<Rightarrow> ('x \<Rightarrow> string list set) \<Rightarrow> string \<Rightarrow>
   ('x, 'e, 'c) cluster_event list \<Rightarrow> ('x, 'e, 'c) cluster_state \<Rightarrow> bool" where
  "gate_inv rs req readable i ls s \<longleftrightarrow> (shared_cluster rs req readable \<longrightarrow> appliers rs \<longrightarrow>
     visits_sound rs req ls s \<and> (completed rs i ls \<or> still_there readable i s))"

lemma map_le_Some: "f \<subseteq>\<^sub>m g \<Longrightarrow> f x = Some y \<Longrightarrow> g x = Some y"
  unfolding map_le_def by (metis domI)

lemma still_there_step:
  assumes C: "shared_cluster rs req readable" and V: "visits_sound rs req ls s"
    and T: "still_there readable i s" and S: "cluster_step rs req readable s l s'"
  shows "completed rs i (ls @ [l]) \<or> still_there readable i s'"
  using C V S
proof (cases rule: cluster_step_kinds)
  case (begins j client err lc w')
  from T shared_fetch [OF C begins(2,3)] show ?thesis
    unfolding still_there_def by (auto simp: begins(4))
next
  case (goes_on j client lc pc pc' w')
  from T goes_on(2) have "i \<in> set (lc_Initializers lc)" unfolding still_there_def by blast
  with T goes_on(4) show ?thesis unfolding still_there_def by (auto simp: goes_on(3))
next
  case (patches j client lc target err lc' w')
  show ?thesis
  proof (cases "j = i")
    case True
    from visits_soundD(3) [OF V patches(2)] patches(1,4) True have "completed rs i (ls @ [l])"
      unfolding completed_def by auto
    then show ?thesis ..
  next
    case False
    from T patches(2) have "i \<in> set (lc_Initializers lc)" unfolding still_there_def by blast
    with False T shared_patch(1) [OF C patches(3-5)] show ?thesis
      unfolding still_there_def by (auto simp: patches(6) dest!: subsetD)
  qed
next
  case (others w' f)
  have "i \<in> set (lc_Initializers lc)" if "f j = Some (client, lc, pc)" for j client lc pc
    using T map_le_Some [OF others(3) that] unfolding still_there_def by blast
  with T others(4) show ?thesis unfolding still_there_def others(2) by auto
qed

lemma gate_inv_step:
  "gate_inv rs req readable i ls s \<Longrightarrow> cluster_step rs req readable s l s' \<Longrightarrow>
   gate_inv rs req readable i (ls @ [l]) s'"
  unfolding gate_inv_def using visits_sound_step still_there_step completed_snoc by blast

text \<open>No visit is in progress, and every list that can be read has the initializer.\<close>

definition waiting :: "('x \<Rightarrow> string list set) \<Rightarrow> string \<Rightarrow> ('x, 'e, 'c) cluster_state \<Rightarrow> bool" where
  "waiting readable i s \<longleftrightarrow>
     cs_visits s = Map.empty \<and> (\<forall>v \<in> readable (ext (cs_world s)). i \<in> set v)"

interpretation cluster_gate: run_invariant
  "cluster_step rs req readable" "waiting readable i" "\<lambda>_. True" "gate_inv rs req readable i"
  for rs :: "string \<Rightarrow> ('x, 'e, 'c) init_Reconciler" and req readable i
proof unfold_locales
  fix s :: "('x, 'e, 'c) cluster_state"
  assume "waiting readable i s"
  then show "gate_inv rs req readable i [] s"
    by (simp add: waiting_def gate_inv_def visits_sound_def still_there_def)
qed (use gate_inv_step in blast)+

lemma initializer_gone_completed:
  assumes "shared_cluster rs req readable" "appliers rs" "run (cluster_step rs req readable) s ls s'" "waiting readable i s"
    "v \<in> readable (ext (cs_world s'))" "i \<notin> set v"
  shows "completed rs i ls"
  using cluster_gate.inv_run [OF assms(3,4)] assms(1,2,5,6) unfolding gate_inv_def still_there_def by blast

end
