(* ===== verification/Cluster_Progress.thy ===== *)
theory Cluster_Progress
  imports Cluster_Protocol
begin

text \<open>
  How the protocol of \<open>Cluster_Protocol\<close> goes on: the number of accepted patches is bounded, agents that can do their
  work can always empty the list, and a call of \<open>Reconcile\<close>, in every one of its outcomes, is a run of the agent's steps.
\<close>

subsection \<open>How often the list is written\<close>

text \<open>From here on reads are current: what can be read is what is stored. Patches can still put an initializer back
  that another agent took off, since a visit writes the list it fetched. They cannot do so for ever: every
  agent carries a weight that is exponential in the longest list it may still write or read, and a
  patch lowers the sum of the weights.\<close>

definition visit_length :: "('c \<times> logical_cluster \<times> ('x, 'e, 'c) visit_pc) option \<Rightarrow> nat" where
  "visit_length v = (case v of None \<Rightarrow> 0 | Some (client, lc, pc) \<Rightarrow> length (lc_Initializers lc))"

lemma visit_length_simps [simp]:
  "visit_length None = 0" "visit_length (Some (client, lc, pc)) = length (lc_Initializers lc)"
  by (simp_all add: visit_length_def)

definition load :: "('x \<Rightarrow> string list) \<Rightarrow> ('x, 'e, 'c) cluster_state \<Rightarrow> string \<Rightarrow> nat" where
  "load stored s i = max (length (stored (ext (cs_world s)))) (visit_length (cs_visits s i))"

definition energy :: "string set \<Rightarrow> ('x \<Rightarrow> string list) \<Rightarrow> ('x, 'e, 'c) cluster_state \<Rightarrow> nat" where
  "energy A stored s = (\<Sum>i\<in>A. Suc (card A) ^ load stored s i)"

fun taken_off :: "('x, 'e, 'c) cluster_event \<Rightarrow> bool" where
  "taken_off (Patched i ok) = ok"
| "taken_off _ = False"

lemma weight_drop:
  fixes f g :: "'a \<Rightarrow> nat"
  assumes "finite A" "i \<in> A" "g i \<le> K" "Suc (card A) * K \<le> f i" "0 < K"
    and "\<And>j. j \<in> A - {i} \<Longrightarrow> g j \<le> K + f j"
  shows "sum g A < sum f A"
proof -
  have "sum g (A - {i}) \<le> (\<Sum>j\<in>A - {i}. K + f j)" by (rule sum_mono) (rule assms(6))
  also have "\<dots> = (card A - 1) * K + sum f (A - {i})"
    using assms(1,2) by (simp add: sum.distrib)
  finally have "sum g A \<le> K + (card A - 1) * K + sum f (A - {i})"
    using assms(1-3) by (simp add: sum.remove)
  also have "K + (card A - 1) * K = card A * K"
    using assms(1,2) card_gt_0_iff [of A] by (cases "card A") auto
  also have "card A * K < Suc (card A) * K" using assms(5) by simp
  finally show ?thesis using assms(1,2,4) by (simp add: sum.remove)
qed

text \<open>The energy does not rise while the stored list is the same and visits only end, or begin with it.\<close>

lemma energy_mono:
  assumes "stored (ext (cs_world s')) = stored (ext (cs_world s))"
    and "\<And>i. visit_length (cs_visits s' i) \<le> max (length (stored (ext (cs_world s)))) (visit_length (cs_visits s i))"
  shows "energy A stored s' \<le> energy A stored s"
  unfolding energy_def by (rule sum_mono) (use assms in \<open>auto simp: load_def intro!: power_increasing\<close>)

lemma energy_patch:
  assumes "finite A" "i \<in> A" "cs_visits s i = Some (client, lc, pc)" "i \<in> set (lc_Initializers lc)"
    and "stored (ext w') = removeAll i (lc_Initializers lc)"
  shows "energy A stored (s\<lparr>cs_world := w', cs_visits := (cs_visits s)(i := None)\<rparr>) < energy A stored s"
    (is "energy A stored ?s' < _")
proof -
  let ?n = "Suc (card A)" and ?k = "length (removeAll i (lc_Initializers lc))"
  have less: "Suc ?k \<le> load stored s i"
    using length_removeAll_less [OF assms(4)] by (simp add: load_def assms(3))
  show ?thesis
    unfolding energy_def
  proof (rule weight_drop [where i = i and K = "?n ^ ?k"])
    have "?n * ?n ^ ?k = ?n ^ Suc ?k" by simp
    also have "\<dots> \<le> ?n ^ load stored s i" by (rule power_increasing [OF less]) simp
    finally show "?n * ?n ^ ?k \<le> ?n ^ load stored s i" .
  next
    fix j assume j: "j \<in> A - {i}"
    show "?n ^ load stored ?s' j \<le> ?n ^ ?k + ?n ^ load stored s j"
    proof (cases "visit_length (cs_visits s j) \<le> ?k")
      case True
      with j assms(5) have "load stored ?s' j = ?k" by (simp add: load_def)
      then show ?thesis by simp
    next
      case False
      with j assms(5) have "load stored ?s' j \<le> load stored s j" by (simp add: load_def)
      then have "?n ^ load stored ?s' j \<le> ?n ^ load stored s j" by (intro power_increasing) simp_all
      then show ?thesis by simp
    qed
  qed (use assms in \<open>simp_all add: load_def\<close>)
qed

definition members_inv :: "string set \<Rightarrow> ('x \<Rightarrow> string list) \<Rightarrow> ('x, 'e, 'c) cluster_state \<Rightarrow> bool" where
  "members_inv A stored s \<longleftrightarrow> set (stored (ext (cs_world s))) \<subseteq> A
   \<and> (\<forall>j client lc pc. cs_visits s j = Some (client, lc, pc) \<longrightarrow> set (lc_Initializers lc) \<subseteq> A)"

definition bound_inv ::
  "(string \<Rightarrow> ('x, 'e, 'c) init_Reconciler) \<Rightarrow> mc_request \<Rightarrow> ('x \<Rightarrow> string list) \<Rightarrow> string set \<Rightarrow> nat \<Rightarrow>
   ('x, 'e, 'c) cluster_event list \<Rightarrow> ('x, 'e, 'c) cluster_state \<Rightarrow> bool" where
  "bound_inv rs req stored A n ls s \<longleftrightarrow> (shared_cluster rs req (\<lambda>x. {stored x}) \<longrightarrow> appliers rs \<longrightarrow> finite A \<longrightarrow>
     visits_sound rs req ls s \<and> members_inv A stored s \<and> energy A stored s + length (filter taken_off ls) \<le> n)"

lemma bound_step:
  assumes C: "shared_cluster rs req (\<lambda>x. {stored x})" and A: "finite A" and V: "visits_sound rs req ls s"
    and M: "members_inv A stored s" and S: "cluster_step rs req (\<lambda>x. {stored x}) s l s'"
  shows "members_inv A stored s' \<and> energy A stored s' + length (filter taken_off [l]) \<le> energy A stored s"
  using C V S
proof (cases rule: cluster_step_kinds)
  case (begins i client err lc w')
  from shared_fetch [OF C begins(2,3)] have "stored (ext w') = stored (ext (cs_world s))"
    "lc_Initializers lc = stored (ext (cs_world s))" by auto
  with M show ?thesis unfolding members_inv_def begins(1,4)
    by (auto intro: energy_mono)
next
  case (goes_on i client lc pc pc' w')
  then have w': "stored (ext w') = stored (ext (cs_world s))" by simp
  from M goes_on(2) have "set (lc_Initializers lc) \<subseteq> A" unfolding members_inv_def by blast
  with M w' have "members_inv A stored s'" unfolding members_inv_def goes_on(3) by simp
  moreover have "\<not> taken_off l" using goes_on(1) by (cases l) auto
  ultimately show ?thesis using w' goes_on(2) unfolding goes_on(3) by (simp add: energy_mono)
next
  case (patches i client lc target err lc' w')
  from M patches(2) have lc: "set (lc_Initializers lc) \<subseteq> A" unfolding members_inv_def by blast
  from shared_patch [OF C patches(3-5)] consider
    (written) "stored (ext w') = removeAll i (lc_Initializers lc)"
    | (failed) "err \<noteq> None" "stored (ext w') = stored (ext (cs_world s))" by (cases err) auto
  then show ?thesis
  proof cases
    case written
    from patches(4) lc have "i \<in> A" by blast
    from energy_patch [OF A this patches(2,4), of stored w'] written
    have "energy A stored s' < energy A stored s" by (simp add: patches(6))
    moreover have "members_inv A stored s'"
      using M lc written unfolding members_inv_def patches(6) by auto
    ultimately show ?thesis by (simp add: patches(1))
  next
    case failed
    with M show ?thesis unfolding members_inv_def patches(1,6) by (auto intro: energy_mono)
  qed
next
  case (others w' f)
  have len: "visit_length (f i) \<le> visit_length (cs_visits s i)" for i
    using map_le_Some [OF others(3), of i] by (cases "f i") (auto simp: visit_length_def)
  have "\<not> taken_off l" using others(1) by (cases l) auto
  moreover have "members_inv A stored s'"
    using M others(4) map_le_Some [OF others(3)] unfolding members_inv_def others(2) by auto blast
  ultimately show ?thesis using others(4) unfolding others(2)
    by (auto intro!: energy_mono le_trans [OF len])
qed

lemma bound_inv_step:
  assumes "bound_inv rs req stored A n ls s" "cluster_step rs req (\<lambda>x. {stored x}) s l s'"
  shows "bound_inv rs req stored A n (ls @ [l]) s'"
  unfolding bound_inv_def
proof (intro impI)
  assume C: "shared_cluster rs req (\<lambda>x. {stored x})" "appliers rs" "finite A"
  with assms(1) have i: "visits_sound rs req ls s" "members_inv A stored s"
    "energy A stored s + length (filter taken_off ls) \<le> n" unfolding bound_inv_def by blast+
  from bound_step [OF C(1,3) i(1,2) assms(2)] i(3) visits_sound_step [OF C(1,2) i(1) assms(2)]
  show "visits_sound rs req (ls @ [l]) s' \<and> members_inv A stored s'
    \<and> energy A stored s' + length (filter taken_off (ls @ [l])) \<le> n" by simp
qed

definition quiet_start :: "('x \<Rightarrow> string list) \<Rightarrow> string set \<Rightarrow> nat \<Rightarrow> ('x, 'e, 'c) cluster_state \<Rightarrow> bool" where
  "quiet_start stored A n s \<longleftrightarrow> cs_visits s = Map.empty \<and> A = set (stored (ext (cs_world s)))
     \<and> n = card A * Suc (card A) ^ length (stored (ext (cs_world s)))"

interpretation cluster_bound: run_invariant
  "cluster_step rs req (\<lambda>x. {stored x})" "quiet_start stored A n" "\<lambda>_. True" "bound_inv rs req stored A n"
  for rs :: "string \<Rightarrow> ('x, 'e, 'c) init_Reconciler" and req stored A n
proof unfold_locales
  fix s :: "('x, 'e, 'c) cluster_state"
  assume "quiet_start stored A n s"
  then show "bound_inv rs req stored A n [] s"
    by (simp add: quiet_start_def bound_inv_def visits_sound_def members_inv_def energy_def load_def)
qed (use bound_inv_step in blast)+

lemma initializers_taken_off_bounded:
  assumes "shared_cluster rs req (\<lambda>x. {stored x})" "appliers rs"
    and "run (cluster_step rs req (\<lambda>x. {stored x})) s ls s'" "cs_visits s = Map.empty"
  defines "present \<equiv> stored (ext (cs_world s))"
  shows "length (filter taken_off ls) \<le> card (set present) * Suc (card (set present)) ^ length present"
proof -
  have "quiet_start stored (set present) (card (set present) * Suc (card (set present)) ^ length present) s"
    using assms(4) by (simp add: quiet_start_def present_def)
  from cluster_bound.inv_run [OF assms(3) this] assms(1,2) show ?thesis by (simp add: bound_inv_def)
qed

subsection \<open>The loop over the sources in small steps\<close>

fun event_by :: "string \<Rightarrow> ('x, 'e, 'c) cluster_event \<Rightarrow> bool" where
  "event_by i (Fetched j) = (j = i)"
| "event_by i (GotTarget j target) = (j = i)"
| "event_by i (Resolved j) = (j = i)"
| "event_by i (Rendered j) = (j = i)"
| "event_by i (Applied j client objs w w') = (j = i)"
| "event_by i (Patched j ok) = (j = i)"
| "event_by i (Left j) = (j = i)"
| "event_by i Outside = True"

text \<open>Events of \<open>i\<close>'s agent before its patch.\<close>

definition working :: "string \<Rightarrow> ('x, 'e, 'c) cluster_event list \<Rightarrow> bool" where
  "working i ls \<longleftrightarrow> list_all (\<lambda>l. event_by i l \<and> (\<forall>j ok. l \<noteq> Patched j ok)) ls"

lemma working_simps [simp]:
  "working i []" "working i (l # ls) \<longleftrightarrow> event_by i l \<and> (\<forall>j ok. l \<noteq> Patched j ok) \<and> working i ls"
  "working i (ls @ ls') \<longleftrightarrow> working i ls \<and> working i ls'"
  by (simp_all add: working_def)

lemma working_event_by: "working i ls \<Longrightarrow> list_all (event_by i) ls"
  unfolding working_def by (auto simp: list_all_iff)

lemma working_no_patch: "working i ls \<Longrightarrow> Patched j ok \<notin> set ls"
  unfolding working_def by (auto simp: list_all_iff)

abbreviation (input) cstate where "cstate w f \<equiv> \<lparr>cs_world = w, cs_visits = f\<rparr>"

text \<open>The visit of \<open>i\<close>'s agent as it stands at \<open>pc\<close>, with the visits \<open>f\<close> of the others.\<close>

abbreviation (input) visiting where
  "visiting f i client lc w pc \<equiv> \<lparr>cs_world = w, cs_visits = f(i \<mapsto> (client, lc, pc))\<rparr>"

lemma leave_run:
  assumes "f i = None" "readable (ext w') \<subseteq> readable (ext w)"
  shows "run (cluster_step rs req readable) (visiting f i client lc w pc) [Left i] (cstate w' f)"
proof (rule run_one)
  show "cluster_step rs req readable (visiting f i client lc w pc) (Left i) (cstate w' f)"
    using cs_leave [of "visiting f i client lc w pc" i readable w' rs req] assms by (simp add: fun_upd_idem)
qed

lemma stopped_run:
  assumes "run step s ls s2" "working i ls" "\<And>rq'. out \<noteq> Ret (rq', None)"
  shows "\<exists>ls. working i ls \<and> run step s ls (case out of Ret (rq', None) \<Rightarrow> g rq' | _ \<Rightarrow> s2)"
proof -
  have "(case out of Ret (rq', None) \<Rightarrow> g rq' | _ \<Rightarrow> s2) = s2"
    using assms(3) by (auto split: outcome.split option.split)
  with assms(1,2) show ?thesis by metis
qed

text \<open>From the head of the loop before source \<open>k\<close>: a loop that ends normally leads to its head behind the last
  source, with the flag it returns; one that fails or panics ends the visit.\<close>

lemma reconcile_sources_run:
  assumes C: "shared_cluster rs req readable" and f: "f i = None"
  shows "refs = drop k (sources_of target) \<Longrightarrow>
    reconcile_sources (rs i) (target_cluster (rs i) target) client lc k rq refs w = (out, w') \<Longrightarrow>
    \<exists>ls. working i ls \<and> run (cluster_step rs req readable) (visiting f i client lc w (AtSource target rq k)) ls
      (case out of
         Ret (rq', None) \<Rightarrow> visiting f i client lc w' (AtSource target rq' (max k (length (sources_of target))))
       | _ \<Rightarrow> cstate w' f)"
proof (induction refs arbitrary: k rq w)
  case Nil
  then have eq: "out = Ret (rq, None)" "w' = w" "max k (length (sources_of target)) = k" by auto
  show ?case unfolding eq by (intro exI [of _ "[]"]) (simp only: working_simps outcome.case prod.case option.case run_refl simp_thms)
next
  case (Cons ref refs)
  let ?step = "cluster_step rs req readable" and ?v = "visiting f i client lc"
  from Cons.prems(1) have k: "k < length (sources_of target)" "sources_of target ! k = ref"
    "refs = drop (Suc k) (sources_of target)"
    by (metis drop_eq_Nil linorder_not_less list.distinct(1), metis nth_via_drop, metis Cons_nth_drop_Suc
        drop_eq_Nil linorder_not_less list.distinct(1) list.inject)
  have resolve: "?step (?v w (AtSource target rq k)) (Resolved i) (?v w1 (AtManifests target rq k ms))"
    if "r_sourceFactory (rs i) (target_cluster (rs i) target) ref w = (Inr ms, w1)" for ms w1
    using cs_resolve [of "?v w (AtSource target rq k)" i client lc target rq k rs ms w1 req readable] k that by simp
  have render: "?step (?v w1 (AtManifests target rq k ms)) (Rendered i) (?v w2 (AtApply target rq k objs))"
    if "ms lc w1 = (Ret (Inr objs), w2)" for ms w1 objs w2
    using cs_render [of "?v w1 (AtManifests target rq k ms)" i client lc target rq k ms objs w2 rs req readable] that by simp
  from Cons.prems(2) show ?case
  proof (cases rule: reconcile_sources_ConsE)
    case (no_source e)
    show ?thesis
      by (rule stopped_run [OF leave_run [where f = f and i = i and readable = readable, OF f shared_resolve [OF C no_source(1)]]])
        (simp_all add: no_source(2))
  next
    case (no_objects ms w1 o1)
    show ?thesis
      by (rule stopped_run [OF run_Cons [OF resolve [OF no_objects(1)]
            leave_run [where f = f and i = i and readable = readable, OF f shared_render [OF C no_objects(1,2)]]]])
        (use no_objects(3) in \<open>auto split: outcome.splits sum.splits\<close>)
  next
    case (not_applied ms w1 objs w2 rq' e)
    show ?thesis
      by (rule stopped_run [OF run_Cons [OF resolve [OF not_applied(1)] run_Cons [OF render [where ms = ms, OF not_applied(2)]
            leave_run [where f = f and i = i and readable = readable, OF f shared_apply [OF C not_applied(3)]]]]])
        (simp_all add: not_applied(4))
  next
    case (next_source ms w1 objs w2 again w3)
    have app: "?step (?v w2 (AtApply target rq k objs)) (Applied i client objs w2 w3)
        (?v w3 (AtSource target (again \<or> rq) (Suc k)))"
      using cs_apply [of "?v w2 (AtApply target rq k objs)" i client lc target rq k objs rs again w3 req readable] next_source(3)
      by simp
    from Cons.IH [OF k(3) next_source(4)] obtain ls where ls: "working i ls"
      "run ?step (?v w3 (AtSource target (again \<or> rq) (Suc k))) ls
        (case out of
           Ret (rq', None) \<Rightarrow> ?v w' (AtSource target rq' (max (Suc k) (length (sources_of target))))
         | _ \<Rightarrow> cstate w' f)" by blast
    have "max (Suc k) (length (sources_of target)) = max k (length (sources_of target))" using k(1) by simp
    note run = run_Cons [OF resolve [OF next_source(1)] run_Cons [OF render [where ms = ms, OF next_source(2)] run_Cons [OF app ls(2)]],
        unfolded this]
    have "working i (Resolved i # Rendered i # Applied i client objs w2 w3 # ls)" using ls(1) by simp
    with run show ?thesis by blast
  qed
qed

text \<open>The whole of it, from the read of the target on.\<close>

lemma reconcile_target_run:
  assumes C: "shared_cluster rs req readable" and f: "f i = None"
    and "r_targetProvider (rs i) w = (Inr target, w1)"
    and "reconcile_sources (rs i) (target_cluster (rs i) target) client lc 0 False (sources_of target) w1 = (out, w')"
  shows "\<exists>ls. working i ls \<and> run (cluster_step rs req readable) (visiting f i client lc w AtTarget) ls
    (case out of
       Ret (rq, None) \<Rightarrow> visiting f i client lc w' (AtSource target rq (length (sources_of target)))
     | _ \<Rightarrow> cstate w' f)"
proof -
  have "cluster_step rs req readable (visiting f i client lc w AtTarget) (GotTarget i target)
      (visiting f i client lc w1 (AtSource target False 0))"
    using cs_target [of "visiting f i client lc w AtTarget" i client lc rs target w1 req readable] assms(3) by simp
  moreover obtain ls where "working i ls"
    "run (cluster_step rs req readable) (visiting f i client lc w1 (AtSource target False 0)) ls
      (case out of
         Ret (rq, None) \<Rightarrow> visiting f i client lc w' (AtSource target rq (length (sources_of target)))
       | _ \<Rightarrow> cstate w' f)"
    using reconcile_sources_run [where f = f and i = i, OF C f, where k = 0 and rq = False,
        OF drop_0 [symmetric] assms(4), unfolded max_0L] by blast
  ultimately show ?thesis by (intro exI [of _ "GotTarget i target # ls"]) (simp add: run_Cons)
qed

subsection \<open>The list can always be emptied\<close>

text \<open>An agent is willing when its visits can go through: while its initializer is stored, its fetch succeeds
  and passes the guards, its target is read and the loop over the sources ends without a requeue, and patches of what
  was fetched are accepted.\<close>

definition willing ::
  "(string \<Rightarrow> ('x, 'e, 'c) init_Reconciler) \<Rightarrow> mc_request \<Rightarrow> ('x \<Rightarrow> string list) \<Rightarrow> string \<Rightarrow> bool" where
  "willing rs req stored i \<longleftrightarrow> (\<forall>w. i \<in> set (stored (ext w)) \<longrightarrow>
     (\<exists>client err lc w1 target w2 w3. fetch (rs i) req w = (Some (client, err, lc), w1) \<and> to_initialize (rs i) err lc
        \<and> r_targetProvider (rs i) w1 = (Inr target, w2)
        \<and> reconcile_sources (rs i) (target_cluster (rs i) target) client lc 0 False (sources_of target) w2 = (Ret (False, None), w3)
        \<and> (\<exists>lc' w4. removeInitializer (rs i) client lc w3 = ((None, lc'), w4))))"

text \<open>One undisturbed visit of a willing agent; a visit it had in progress is given up first.\<close>

lemma give_up_run:
  "\<exists>ls. run (cluster_step rs req readable) s ls (s\<lparr>cs_visits := (cs_visits s)(i := None)\<rparr>)"
proof (cases "cs_visits s i")
  case None
  then have "s\<lparr>cs_visits := (cs_visits s)(i := None)\<rparr> = s" by (simp add: fun_upd_idem)
  then show ?thesis using run_refl by metis
next
  case (Some v)
  have "cluster_step rs req readable s (Left i) (s\<lparr>cs_world := cs_world s, cs_visits := (cs_visits s)(i := None)\<rparr>)"
    by (rule cs_leave) (simp_all add: Some)
  from run_one [where step = "cluster_step rs req readable", OF this] show ?thesis by auto
qed

lemma patch_run:
  assumes "removeInitializer (rs i) client lc w = ((err, lc'), w')" "f i = None"
  shows "run (cluster_step rs req readable)
     (visiting f i client lc w (AtSource target False (length (sources_of target)))) [Patched i (err = None)] (cstate w' f)"
proof (rule run_one)
  show "cluster_step rs req readable (visiting f i client lc w (AtSource target False (length (sources_of target))))
      (Patched i (err = None)) (cstate w' f)"
    using cs_patch [of "visiting f i client lc w (AtSource target False (length (sources_of target)))" i client lc target rs err
        lc' w' req readable] assms by (simp add: fun_upd_idem)
qed

lemma fetch_run:
  assumes "fetch (rs i) req w = (Some (client, err, lc), w1)" "to_initialize (rs i) err lc" "f i = None"
  shows "cluster_step rs req readable (cstate w f) (Fetched i) (visiting f i client lc w1 AtTarget)"
  using cs_fetch [of "cstate w f" i rs req client err lc w1 readable] assms by simp

lemma willing_visit:
  assumes C: "shared_cluster rs req (\<lambda>x. {stored x})" and W: "willing rs req stored i"
    and i: "i \<in> set (stored (ext (cs_world s)))"
  obtains ls s' where "run (cluster_step rs req (\<lambda>x. {stored x})) s ls s'"
    "stored (ext (cs_world s')) = removeAll i (stored (ext (cs_world s)))"
proof -
  let ?step = "cluster_step rs req (\<lambda>x. {stored x})"
  define f where "f = (cs_visits s)(i := None)"
  have f: "f i = None" by (simp add: f_def)
  have "s\<lparr>cs_visits := (cs_visits s)(i := None)\<rparr> = cstate (cs_world s) f" by (cases s) (simp add: f_def)
  then obtain ls0 where r0: "run ?step s ls0 (cstate (cs_world s) f)" using give_up_run by metis
  from W i obtain client err lc w1 target w2 w3 lc' w4 where
    w: "fetch (rs i) req (cs_world s) = (Some (client, err, lc), w1)" "to_initialize (rs i) err lc"
    "r_targetProvider (rs i) w1 = (Inr target, w2)"
    "reconcile_sources (rs i) (target_cluster (rs i) target) client lc 0 False (sources_of target) w2 = (Ret (False, None), w3)"
    "removeInitializer (rs i) client lc w3 = ((None, lc'), w4)"
    unfolding willing_def by meson
  obtain ls where ls: "run ?step (visiting f i client lc w1 AtTarget) ls
      (visiting f i client lc w3 (AtSource target False (length (sources_of target))))"
    using reconcile_target_run [where f = f and i = i, OF C f w(3,4)] unfolding outcome.case prod.case option.case by blast
  note r1 = run_Cons [OF fetch_run [where rs = rs and f = f and i = i, OF w(1,2) f] ls]
  note r2 = run_trans [OF patch_run [where rs = rs and f = f and i = i, OF w(5) f] r1]
  have lc: "is_cluster_client rs req i client" "i \<in> set (lc_Initializers lc)"
    "lc_Initializers lc = stored (ext (cs_world s))" using shared_fetch [OF C w(1,2)] by auto
  from shared_patch(2) [OF C lc(1,2) w(5)] lc(3)
  have "stored (ext w4) = removeAll i (stored (ext (cs_world s)))" by simp
  then show thesis using that [OF run_trans [OF r2 r0]] by simp
qed

lemma willing_agents_empty_list:
  assumes C: "shared_cluster rs req (\<lambda>x. {stored x})"
  shows "\<forall>i \<in> set (stored (ext (cs_world s))). willing rs req stored i \<Longrightarrow>
    \<exists>ls s'. run (cluster_step rs req (\<lambda>x. {stored x})) s ls s' \<and> stored (ext (cs_world s')) = []"
proof (induction "length (stored (ext (cs_world s)))" arbitrary: s rule: less_induct)
  case less
  show ?case
  proof (cases "stored (ext (cs_world s))")
    case Nil
    then show ?thesis by (intro exI [of _ "[]"] exI [of _ s]) (simp add: run_refl)
  next
    case (Cons i rest)
    then have i: "i \<in> set (stored (ext (cs_world s)))" by simp
    with less(2) have "willing rs req stored i" by blast
    from willing_visit [OF C this i] obtain ls s1 where s1: "run (cluster_step rs req (\<lambda>x. {stored x})) s ls s1"
      "stored (ext (cs_world s1)) = removeAll i (stored (ext (cs_world s)))" by metis
    have "length (stored (ext (cs_world s1))) < length (stored (ext (cs_world s)))"
      unfolding s1(2) by (rule length_removeAll_less [OF i])
    moreover have "\<forall>j \<in> set (stored (ext (cs_world s1))). willing rs req stored j"
      using less(2) by (simp add: s1(2))
    ultimately obtain ls' s' where "run (cluster_step rs req (\<lambda>x. {stored x})) s1 ls' s'"
      "stored (ext (cs_world s')) = []" using less(1) by blast
    with run_trans s1(1) show ?thesis by metis
  qed
qed

subsection \<open>A reconciliation is a run\<close>

lemma reconcile_split:
  assumes "reconcile r c lc w = (out, w')"
  obtains (removed) target w1 w2 err lc' where "r_targetProvider r w = (Inr target, w1)"
      "reconcile_sources r (ClusterNameFromObject (r_lib r) (it_ObjectMeta target)) c lc 0 False
         (its_Sources (it_Spec target)) w1 = (Ret (False, None), w2)"
      "removeInitializer r c lc w2 = ((err, lc'), w')" "out = Ret ((False, err), lc')"
  | (no_target) e where "r_targetProvider r w = (Inl e, w')"
  | (not_yet) target w1 out' where "r_targetProvider r w = (Inr target, w1)"
      "reconcile_sources r (ClusterNameFromObject (r_lib r) (it_ObjectMeta target)) c lc 0 False
         (its_Sources (it_Spec target)) w1 = (out', w')"
  using assms unfolding reconcile_def by (auto split: prod.splits sum.splits outcome.splits option.splits if_splits)

text \<open>Two ways through \<open>Reconcile\<close>: it stops after the fetch, or it runs \<open>reconcile\<close> and at most records an event.\<close>

lemma Reconcile_split:
  assumes "Reconcile r req w = (out, w')"
  obtains (stopped) "w' = snd (fetch r req w)"
  | (ran) client err lc w2 o2 w3 where "fetch r req w = (Some (client, err, lc), w2)" "to_initialize r err lc"
      "reconcile r client lc w2 = (o2, w3)"
      "w' = w3 \<or> (\<exists>lc' e. ext w' = snd (rm_Eventf (r_remoteManager r) lc' ''ReconcilingFailed'' e (ext w3))
         \<and> calls w' = calls w3 @ [CallEvent lc' ''ReconcilingFailed'' e])"
proof (cases "fetch r req w")
  case (Pair res w2)
  show thesis
  proof (cases "\<exists>client err lc. res = Some (client, err, lc) \<and> to_initialize r err lc")
    case False
    with assms Pair show thesis
      by (intro stopped) (auto simp: fetch_def Reconcile_def to_initialize_def
        split: prod.splits sum.splits option.splits if_splits outcome.splits)
  next
    case True
    then obtain client err lc where t: "res = Some (client, err, lc)" "to_initialize r err lc" by blast
    obtain o2 w3 where rec: "reconcile r client lc w2 = (o2, w3)" by (metis surj_pair)
    from assms Pair t rec have
      "w' = w3 \<or> (\<exists>lc' e. ext w' = snd (rm_Eventf (r_remoteManager r) lc' ''ReconcilingFailed'' e (ext w3))
         \<and> calls w' = calls w3 @ [CallEvent lc' ''ReconcilingFailed'' e])"
      by (auto simp: fetch_def Reconcile_def to_initialize_def returns_iff ext_call_def
        split: prod.splits sum.splits option.splits if_splits outcome.splits)
    with Pair t rec show thesis by (intro ran [of client err lc w2 o2 w3]) auto
  qed
qed

text \<open>The same for \<open>reconcile\<close>, as a run, and with the calls it makes. Either it gets to the end of the loop and to
  the patch, or it ends the visit.\<close>

lemma reconcile_run:
  assumes C: "shared_cluster rs req readable" and R: "init_reconciler (rs i) known" and f: "f i = None"
    and "reconcile (rs i) c lc w = (out, w')"
  obtains (removed) w2 err lc' target tr ls where "working i ls" "calls w2 = calls w @ tr" "list_all (source_call c) tr"
      "run (cluster_step rs req readable) (visiting f i c lc w AtTarget) ls
         (visiting f i c lc w2 (AtSource target False (length (sources_of target))))"
      "removeInitializer (rs i) c lc w2 = ((err, lc'), w')"
  | (left) tr ls where "working i ls" "calls w' = calls w @ tr" "list_all (source_call c) tr"
      "run (cluster_step rs req readable) (visiting f i c lc w AtTarget) ls (cstate w' f)"
proof -
  let ?step = "cluster_step rs req readable"
  have calls: "\<exists>tr. calls w2 = calls w @ tr \<and> list_all (source_call c) tr"
    if "r_targetProvider (rs i) w = (Inr target, w1)"
      "reconcile_sources (rs i) (target_cluster (rs i) target) c lc 0 False (sources_of target) w1 = (out', w2)"
    for target w1 out' w2
    using init_reconciler.provider_reads [OF R that(1)] init_reconciler.reconcile_sources_calls [OF R that(2)]
      reads_source_calls [where client = c] by (metis append.assoc list_all_append)
  from assms(4) show thesis
  proof (cases rule: reconcile_split)
    case (removed target w1 w2 err lc')
    from reconcile_target_run [where f = f and i = i, OF C f removed(1,2)] obtain ls where
      "working i ls" "run ?step (visiting f i c lc w AtTarget) ls
        (visiting f i c lc w2 (AtSource target False (length (sources_of target))))"
      unfolding outcome.case prod.case option.case by blast
    with calls [OF removed(1,2)] removed(3) that(1) show ?thesis by metis
  next
    case (no_target e)
    from leave_run [where f = f and i = i and readable = readable, OF f shared_target [OF C no_target]]
    have "run ?step (visiting f i c lc w AtTarget) [Left i] (cstate w' f)" .
    then show ?thesis using that(2) [of "[Left i]"] reads_trace [OF init_reconciler.provider_reads [OF R no_target]] by auto
  next
    case (not_yet target w1 out')
    from reconcile_target_run [where f = f and i = i, OF C f not_yet(1,2)] obtain ls where
      ls: "working i ls" "run ?step (visiting f i c lc w AtTarget) ls
        (case out' of
           Ret (rq, None) \<Rightarrow> visiting f i c lc w' (AtSource target rq (length (sources_of target)))
         | _ \<Rightarrow> cstate w' f)" by blast
    have "\<exists>ls. working i ls \<and> run ?step (visiting f i c lc w AtTarget) ls (cstate w' f)"
    proof (cases "\<exists>rq. out' = Ret (rq, None)")
      case True
      with ls(2) obtain rq where "run ?step (visiting f i c lc w AtTarget) ls
          (visiting f i c lc w' (AtSource target rq (length (sources_of target))))" by auto
      from run_trans [OF leave_run [where f = f and i = i and readable = readable, OF f subset_refl] this]
      have "run ?step (visiting f i c lc w AtTarget) (ls @ [Left i]) (cstate w' f)" .
      moreover have "working i (ls @ [Left i])" using ls(1) by simp
      ultimately show ?thesis by blast
    next
      case False
      then have "(case out' of
           Ret (rq, None) \<Rightarrow> visiting f i c lc w' (AtSource target rq (length (sources_of target)))
         | _ \<Rightarrow> cstate w' f) = cstate w' f" by (auto split: outcome.split option.split)
      with ls show ?thesis by metis
    qed
    with calls [OF not_yet(1,2)] that(2) show ?thesis by metis
  qed
qed

definition patched_in :: "('x, 'e, 'c) agent_world \<Rightarrow> ('x, 'e, 'c) agent_world \<Rightarrow> bool" where
  "patched_in w w' \<longleftrightarrow> (\<exists>c old new. CallPatch c old new None \<in> set (new_calls w w'))"

lemma patched_in_calls: "calls w' = calls w @ tr \<Longrightarrow> patched_in w w' \<longleftrightarrow> (\<exists>c old new. CallPatch c old new None \<in> set tr)"
  by (simp add: patched_in_def new_callsI)

lemma event_run:
  assumes C: "shared_cluster rs req readable"
    and "w' = w \<or> (\<exists>lc e. ext w' = snd (rm_Eventf (r_remoteManager (rs i)) lc ''ReconcilingFailed'' e (ext w))
       \<and> calls w' = calls w @ [CallEvent lc ''ReconcilingFailed'' e])"
  obtains ls tr where "run (cluster_step rs req readable) (cstate w f) ls (cstate w' f)" "set ls \<subseteq> {Outside}"
    "calls w' = calls w @ tr" "list_all (\<lambda>ev. \<not> is_patch ev) tr"
proof (cases "w' = w")
  case True
  then show thesis using that [of "[]" "[]"] run_refl by fastforce
next
  case False
  with assms(2) obtain lc e where e: "ext w' = snd (rm_Eventf (r_remoteManager (rs i)) lc ''ReconcilingFailed'' e (ext w))"
    "calls w' = calls w @ [CallEvent lc ''ReconcilingFailed'' e]" by blast
  have "readable (ext w') \<subseteq> readable (ext w)"
    using C e(1) unfolding shared_cluster_def work_law_def by simp
  then have "cluster_step rs req readable (cstate w f) Outside (cstate w' f)"
    using cs_outside [of readable w' "cstate w f" rs req] by simp
  from run_one [where step = "cluster_step rs req readable", OF this] show thesis
    by (rule that [OF _ _ e(2)]) (simp_all add: list_all_iff)
qed

lemma Reconcile_run:
  assumes C: "shared_cluster rs req readable" and R: "init_reconciler (rs i) known"
    and "Reconcile (rs i) req w = (out, w')" and f: "f i = None"
  shows "\<exists>ls. run (cluster_step rs req readable) (cstate w f) ls (cstate w' f) \<and> list_all (event_by i) ls
    \<and> (Patched i True \<in> set ls \<longleftrightarrow> patched_in w w')"
  using assms(3)
proof (cases rule: Reconcile_split)
  case stopped
  obtain res where "fetch (rs i) req w = (res, w')" using stopped by (metis prod.collapse)
  then have "readable (ext w') \<subseteq> readable (ext w)" using C unfolding shared_cluster_def fetch_law_def by blast
  then have "cluster_step rs req readable (cstate w f) Outside (cstate w' f)"
    using cs_outside [of readable w' "cstate w f" rs req] by simp
  note step = run_one [where step = "cluster_step rs req readable", OF this]
  obtain tr where tr: "calls w' = calls w @ tr" "list_all is_read tr"
    using fetch_reads [of "rs i" req w] stopped by blast
  then have "\<not> patched_in w w'"
    using init_reconciler.reads_no_patch [OF R tr(2)] by (simp add: patched_in_calls)
  with step show ?thesis by (intro exI [of _ "[Outside]"]) simp
next
  case (ran client err lc w2 o2 w3)
  let ?step = "cluster_step rs req readable"
  have fetched: "?step (cstate w f) (Fetched i) (visiting f i client lc w2 AtTarget)"
    by (rule fetch_run [where rs = rs and f = f and i = i, OF ran(1,2) f])
  obtain tr0 where tr0: "calls w2 = calls w @ tr0" "list_all is_read tr0"
    using fetch_reads [of "rs i" req w] ran(1) by auto
  obtain ls2 tr2 where ev: "run ?step (cstate w3 f) ls2 (cstate w' f)" "set ls2 \<subseteq> {Outside}"
    "calls w' = calls w3 @ tr2" "list_all (\<lambda>ev. \<not> is_patch ev) tr2"
    using event_run [OF C ran(4)] by metis
  have ev': "list_all (event_by i) ls2" "Patched i True \<notin> set ls2" "\<And>c old new. CallPatch c old new None \<notin> set tr2"
    using ev(2,4) by (auto simp: list_all_iff subset_iff)
  from C R f ran(3) show ?thesis
  proof (cases rule: reconcile_run)
    case (removed w4 err' lc' target tr ls)
    note visit = run_trans [OF patch_run [where rs = rs and f = f and i = i, OF removed(5) f] run_Cons [OF fetched removed(4)]]
    note run = run_trans [OF ev(1) visit]
    have "i \<in> set (lc_Initializers lc)" using shared_fetch(4) [OF C ran(1,2)] .
    with removed(5) obtain new res where "calls w3 = calls w4 @ [CallPatch client lc new res]" "err' = None \<longleftrightarrow> res = None"
      using shared_own [OF C] by (cases rule: removeInitializer_cases) auto
    with tr0(1) ev(3) removed(2) have "calls w' = calls w @ tr0 @ tr @ CallPatch client lc new res # tr2"
      by simp
    from patched_in_calls [OF this] have "patched_in w w' \<longleftrightarrow> err' = None"
      using init_reconciler.reads_no_patch [OF R tr0(2)] init_reconciler.source_calls_no_patch [OF R removed(3)] ev'(3) \<open>err' = None \<longleftrightarrow> res = None\<close>
      by auto
    with run ev' working_event_by [OF removed(1)] working_no_patch [OF removed(1)] show ?thesis
      by (intro exI [of _ "((Fetched i # ls) @ [Patched i (err' = None)]) @ ls2"]) auto
  next
    case (left tr ls)
    note run = run_trans [OF ev(1) run_Cons [OF fetched left(4)]]
    from tr0(1) ev(3) left(2) have "calls w' = calls w @ tr0 @ tr @ tr2" by simp
    from patched_in_calls [OF this] have "\<not> patched_in w w'"
      using init_reconciler.reads_no_patch [OF R tr0(2)] init_reconciler.source_calls_no_patch [OF R left(3)] ev'(3) by auto
    with run ev' working_event_by [OF left(1)] working_no_patch [OF left(1)] show ?thesis
      by (intro exI [of _ "(Fetched i # ls) @ ls2"]) auto
  qed
qed

end
