(* ===== verification/Cluster_Agents.thy ===== *)
theory Cluster_Agents
  imports Cluster_Progress
begin

text \<open>
  The agents of one cluster, put together as \<open>Cmd_Main\<close> does: one \<open>agent_reconciler\<close> per initializer, each with its
  own manager, source factory and target. What the protocol needs of the reconcilers follows from
  what the API server does with the calls: only a patch of the logical cluster's status changes the
  initializers, as a merge patch does.
\<close>

abbreviation the_reconciler ::
  "('x, 'e, 'c, 'sch, 'tpl, 'd, 'm) agent_env \<Rightarrow> ('e, 'c, 'sch) source_Factory \<Rightarrow> 'm \<Rightarrow>
   ('x, 'e, 'c, 'sch, 'cfg, 'prov, 'm) target_Reconciler \<Rightarrow> string \<Rightarrow> string \<Rightarrow> ('x, 'e, 'c) init_Reconciler" where
  "the_reconciler env sf mgr tr name initializer \<equiv>
     agent_reconciler env sf mgr (newInitTargetProvider tr name) initializer"

definition agents ::
  "('x, 'e, 'c, 'sch, 'tpl, 'd, 'm) agent_env \<Rightarrow> (string \<Rightarrow> ('e, 'c, 'sch) source_Factory) \<Rightarrow> (string \<Rightarrow> 'm) \<Rightarrow>
   (string \<Rightarrow> ('x, 'e, 'c, 'sch, 'cfg, 'prov, 'm) target_Reconciler) \<Rightarrow> (string \<Rightarrow> string) \<Rightarrow>
   string \<Rightarrow> ('x, 'e, 'c) init_Reconciler" where
  "agents env sf mgr tr name i = the_reconciler env (sf i) (mgr i) (tr i) (name i) i"

subsection \<open>The API server\<close>

text \<open>A call that leaves the initializers alone; a cache may catch up meanwhile.\<close>

definition quiet :: "('x \<Rightarrow> string list set) \<Rightarrow> ('x \<Rightarrow> 'r \<times> 'x) \<Rightarrow> bool" where
  "quiet readable f \<longleftrightarrow> (\<forall>x r x'. f x = (r, x') \<longrightarrow> readable x' \<subseteq> readable x)"

definition quiet_calls ::
  "('x, 'e, 'c, 'sch, 'tpl, 'd, 'm) agent_env \<Rightarrow> (string \<Rightarrow> ('x, 'e, 'c, 'sch, 'cfg, 'prov, 'm) target_Reconciler) \<Rightarrow>
   ('x \<Rightarrow> string list set) \<Rightarrow> bool" where
  "quiet_calls env tr readable \<longleftrightarrow>
     (\<forall>c n. quiet readable (se_GetTemplate (ae_source env) c n))
   \<and> (\<forall>tpl ctx. quiet readable (se_Execute (ae_source env) tpl ctx))
   \<and> (\<forall>c obj. quiet readable (ae_Create env c obj))
   \<and> (\<forall>i c n. quiet readable (tr_GetInitTarget (tr i) c n))"

definition quiet_manager :: "('x, 'e, 'c) remote_manager \<Rightarrow> ('x \<Rightarrow> string list set) \<Rightarrow> bool" where
  "quiet_manager rm readable \<longleftrightarrow>
     (\<forall>cl. quiet readable (rm_GetCluster rm cl)) \<and> (\<forall>c n. quiet readable (rm_Get rm c n))
   \<and> (\<forall>lc reason e. quiet readable (rm_Eventf rm lc reason e))"

text \<open>A client of the cluster reads one of the readable lists. A patch that changes the list replaces it; one that failed
  may or may not have been carried out.\<close>

definition reads_cluster :: "('x, 'e, 'c) remote_manager \<Rightarrow> string \<Rightarrow> 'c \<Rightarrow> ('x \<Rightarrow> string list set) \<Rightarrow> bool" where
  "reads_cluster rm n c readable \<longleftrightarrow> (\<forall>x err lc x'. rm_Get rm c n x = ((err, lc), x') \<longrightarrow>
     meta_Name (lc_ObjectMeta lc) \<noteq> [] \<longrightarrow> lc_Initializers lc \<in> readable x)"

definition patches_cluster :: "('x, 'e, 'c) remote_manager \<Rightarrow> 'c \<Rightarrow> ('x \<Rightarrow> string list set) \<Rightarrow> bool" where
  "patches_cluster rm c readable \<longleftrightarrow> (\<forall>old new x err x'. rm_PatchStatus rm c old new x = (err, x') \<longrightarrow>
     lc_Initializers new \<noteq> lc_Initializers old \<longrightarrow>
     readable x' \<subseteq> insert (lc_Initializers new) (readable x)
   \<and> (err = None \<longrightarrow> lc_Initializers new \<in> readable x'))"

definition cluster_server ::
  "('x, 'e, 'c, 'sch, 'tpl, 'd, 'm) agent_env \<Rightarrow> (string \<Rightarrow> 'm) \<Rightarrow>
   (string \<Rightarrow> ('x, 'e, 'c, 'sch, 'cfg, 'prov, 'm) target_Reconciler) \<Rightarrow> mc_request \<Rightarrow> ('x \<Rightarrow> string list set) \<Rightarrow> bool" where
  "cluster_server env mgr tr req readable \<longleftrightarrow> quiet_calls env tr readable
   \<and> (\<forall>i. quiet_manager (ae_remote env (mgr i)) readable)
   \<and> (\<forall>i c x x'. rm_GetCluster (ae_remote env (mgr i)) (req_ClusterName req) x = (Inr c, x') \<longrightarrow>
        reads_cluster (ae_remote env (mgr i)) (req_Name req) c readable
      \<and> patches_cluster (ae_remote env (mgr i)) c readable)"

lemma quiet_ext_call: "quiet readable f \<Longrightarrow> ext_call f ev w = (r, w') \<Longrightarrow> readable (ext w') \<subseteq> readable (ext w)"
  unfolding quiet_def by (blast dest: ext_call_ext)

lemma quiet_extD:
  "quiet readable f \<Longrightarrow> ext_call f ev w = (r, w') \<Longrightarrow> v \<in> readable (ext w') \<Longrightarrow> v \<in> readable (ext w)"
  by (rule subsetD [OF quiet_ext_call])

lemma agents_sel [simp]:
  "r_remoteManager (agents env sf mgr tr name i) = ae_remote env (mgr i)"
  "r_targetProvider (agents env sf mgr tr name i) = newInitTargetProvider (tr i) (name i)"
  "r_sourceFactory (agents env sf mgr tr name i) = NewForInitSource (ae_source env) (sf i)"
  "r_manifestApplier (agents env sf mgr tr name i) = NewApplier env"
  "r_initializer (agents env sf mgr tr name i) = i"
  "r_library (agents env sf mgr tr name i) = agent_library env"
  by (simp_all add: agents_def)

lemma fetch_client:
  "fetch r req w = (Some (c, err, lc), w') \<Longrightarrow>
   \<exists>x1. rm_GetCluster (r_remoteManager r) (req_ClusterName req) (ext w) = (Inr c, x1)
      \<and> rm_Get (r_remoteManager r) c (req_Name req) x1 = ((err, lc), ext w')"
  by (auto simp: fetch_def split: prod.splits sum.splits dest!: ext_call_ext)

subsection \<open>The contract of the protocol, from the server\<close>

lemma agents_fetch_law:
  assumes S: "cluster_server env mgr tr req readable"
  shows "fetch_law (agents env sf mgr tr name) req readable"
  unfolding fetch_law_def
proof (intro allI impI conjI)
  fix i w res w'
  assume f: "fetch (agents env sf mgr tr name i) req w = (res, w')"
  let ?rm = "ae_remote env (mgr i)"
  from S have q: "quiet readable (rm_GetCluster ?rm cl)" "quiet readable (rm_Get ?rm c n)" for cl c n
    unfolding cluster_server_def quiet_manager_def by blast+
  from f show "readable (ext w') \<subseteq> readable (ext w)"
    by (auto simp: fetch_def split: prod.splits sum.splits dest: quiet_extD [OF q(1)] quiet_extD [OF q(2)])
  fix c err lc
  assume "res = Some (c, err, lc)" "meta_Name (lc_ObjectMeta lc) \<noteq> []"
  with fetch_client f obtain x1 where x1: "rm_GetCluster ?rm (req_ClusterName req) (ext w) = (Inr c, x1)"
    "rm_Get ?rm c (req_Name req) x1 = ((err, lc), ext w')" by fastforce
  with S have "reads_cluster ?rm (req_Name req) c readable" unfolding cluster_server_def by blast
  with x1(2) \<open>meta_Name (lc_ObjectMeta lc) \<noteq> []\<close> have "lc_Initializers lc \<in> readable x1"
    unfolding reads_cluster_def by blast
  with q(1) x1(1) show "lc_Initializers lc \<in> readable (ext w)" unfolding quiet_def by blast
qed

lemma keepsI: "(\<And>w r w'. f w = (r, w') \<Longrightarrow> readable (ext w') \<subseteq> readable (ext w)) \<Longrightarrow> keeps readable f"
  unfolding keeps_def by blast

lemma applyObject_keeps:
  "quiet readable (Create c obj) \<Longrightarrow> applyObject Create tests c obj w = (err, w') \<Longrightarrow> readable (ext w') \<subseteq> readable (ext w)"
  unfolding quiet_def by (blast elim: applyObject_cases)

lemma apply_loop_keeps:
  assumes "\<And>obj. quiet readable (Create c obj)"
  shows "apply_loop Create tests c objs w = (res, w') \<Longrightarrow> readable (ext w') \<subseteq> readable (ext w)"
proof (induction objs arbitrary: w)
  case (Cons obj objs)
  obtain err w1 where w1: "applyObject Create tests c obj w = (err, w1)" by fastforce
  note k = applyObject_keeps [OF assms w1]
  show ?case
  proof (cases err)
    case None
    with Cons.prems w1 have "apply_loop Create tests c objs w1 = (res, w')" by simp
    from Cons.IH [OF this] k show ?thesis by blast
  next
    case (Some e)
    with Cons.prems w1 k show ?thesis by (auto split: if_splits)
  qed
qed simp

lemma agents_work_law:
  assumes S: "cluster_server env mgr tr req readable"
  shows "work_law (agents env sf mgr tr name) req readable"
  unfolding work_law_def
proof (intro allI conjI impI)
  fix i
  from S have q: "\<And>c n. quiet readable (se_GetTemplate (ae_source env) c n)"
    "\<And>tpl ctx. quiet readable (se_Execute (ae_source env) tpl ctx)" "\<And>c obj. quiet readable (ae_Create env c obj)"
    "\<And>c n. quiet readable (tr_GetInitTarget (tr i) c n)"
    "\<And>lc reason e. quiet readable (rm_Eventf (ae_remote env (mgr i)) lc reason e)"
    unfolding cluster_server_def quiet_calls_def quiet_manager_def by blast+
  show "keeps readable (r_targetProvider (agents env sf mgr tr name i))"
    by (intro keepsI) (auto simp: newInitTargetProvider_def get_target_def split: prod.splits sum.splits
        dest: quiet_extD [OF q(4)])
  show "keeps readable (r_sourceFactory (agents env sf mgr tr name i) cl ref)" for cl ref
    by (intro keepsI) (auto simp: NewForInitSource_def NewInitTemplate_def template_Factory_def
        split: option.splits prod.splits sum.splits dest: quiet_extD [OF q(1)])
  fix cl ref w ms w1 lc
  assume "r_sourceFactory (agents env sf mgr tr name i) cl ref w = (Inr ms, w1)"
  then obtain tpl where "ms = Manifests (ae_source env) \<lparr>src_tpl = tpl\<rparr>"
    by (auto simp: NewForInitSource_def NewInitTemplate_def template_Factory_def NewFromInitTemplate_def New_source_def
        split: option.splits prod.splits sum.splits)
  then show "keeps readable (ms lc)"
    by (intro keepsI) (auto simp: Manifests_def render_def Let_def split: prod.splits sum.splits outcome.splits
        dest: quiet_extD [OF q(2)])
next
  fix i c objs
  from S have q: "\<And>obj. quiet readable (ae_Create env c obj)"
    unfolding cluster_server_def quiet_calls_def by blast
  then show "keeps readable (r_manifestApplier (agents env sf mgr tr name i) c objs)"
    by (intro keepsI) (simp add: NewApplier_def Apply_def Let_def, rule apply_loop_keeps)
next
  fix i lc reason e x
  from S have "quiet readable (rm_Eventf (ae_remote env (mgr i)) lc reason e)"
    unfolding cluster_server_def quiet_manager_def by blast
  then show "readable (snd (rm_Eventf (r_remoteManager (agents env sf mgr tr name i)) lc reason e x)) \<subseteq> readable x"
    unfolding quiet_def by (metis agents_sel(1) prod.collapse)
qed

lemma removeInitializer_patches:
  assumes "removeInitializer r c lc w = ((err, lc'), w')" "r_initializer r \<in> set (lc_Initializers lc)"
  shows "\<exists>res. rm_PatchStatus (r_remoteManager r) c lc (without_initializer (r_initializer r) lc) (ext w) = (res, ext w')
     \<and> (err = None \<longleftrightarrow> res = None)"
proof -
  have "length (removeAll (r_initializer r) (lc_Initializers lc)) \<noteq> length (lc_Initializers lc)"
    using length_removeAll_less [OF assms(2)] by simp
  with assms(1) show ?thesis
    by (auto simp: removeInitializer_def filter_removeAll without_initializer_def Let_def ext_call_def
        split: prod.splits option.splits)
qed

lemma agents_patch_law:
  assumes S: "cluster_server env mgr tr req readable"
  shows "patch_law (agents env sf mgr tr name) req readable"
  unfolding patch_law_def
proof (intro allI impI)
  fix i c lc w err lc' w'
  assume a: "is_cluster_client (agents env sf mgr tr name) req i c" "i \<in> set (lc_Initializers lc)"
    "removeInitializer (agents env sf mgr tr name i) c lc w = ((err, lc'), w')"
  let ?rm = "ae_remote env (mgr i)"
  from a(1) fetch_client obtain x x1 where "rm_GetCluster ?rm (req_ClusterName req) x = (Inr c, x1)"
    unfolding is_cluster_client_def by fastforce
  with S have p: "patches_cluster ?rm c readable" unfolding cluster_server_def by blast
  from removeInitializer_patches [OF a(3)] a(2) obtain res where
    r: "rm_PatchStatus ?rm c lc (without_initializer i lc) (ext w) = (res, ext w')" "err = None \<longleftrightarrow> res = None" by auto
  have "lc_Initializers (without_initializer i lc) \<noteq> lc_Initializers lc"
    using length_removeAll_less [OF a(2)] by (auto simp: without_initializer_def)
  with p r show "readable (ext w') \<subseteq> insert (removeAll i (lc_Initializers lc)) (readable (ext w))
    \<and> (err = None \<longrightarrow> removeAll i (lc_Initializers lc) \<in> readable (ext w'))"
    unfolding patches_cluster_def without_initializer_def by fastforce
qed

lemma agents_shared_cluster:
  "cluster_server env mgr tr req readable \<Longrightarrow> shared_cluster (agents env sf mgr tr name) req readable"
  unfolding shared_cluster_def by (simp add: agents_fetch_law agents_work_law agents_patch_law)

lemma agents_appliers: "hierarchy_sort (ae_sort env) \<Longrightarrow> appliers (agents env sf mgr tr name)"
  unfolding appliers_def by (simp add: NewApplier_def hierarchy_sort.Apply_manifest_applier)

lemma agents_init_reconciler:
  "hierarchy_sort (ae_sort env) \<Longrightarrow> init_reconciler (agents env sf mgr tr name i) (path_known (ae_source env))"
  unfolding agents_def by (rule agent_init_reconciler_sorted)

subsection \<open>Agents that can work\<close>

text \<open>The cluster can be fetched by this agent and has a name and a path; its target can be read and all sources resolve
  and render; creations succeed or find their object; patches are accepted.\<close>

definition able ::
  "('x, 'e, 'c, 'sch, 'tpl, 'd, 'm) agent_env \<Rightarrow> ('e, 'c, 'sch) source_Factory \<Rightarrow> 'm \<Rightarrow>
   ('x, 'e, 'c, 'sch, 'cfg, 'prov, 'm) target_Reconciler \<Rightarrow> string \<Rightarrow> mc_request \<Rightarrow> string \<Rightarrow> bool" where
  "able env sf mgr tr name req i \<longleftrightarrow>
     (\<forall>w. \<exists>c lc w'. fetch (the_reconciler env sf mgr tr name i) req w = (Some (c, None, lc), w')
        \<and> meta_Name (lc_ObjectMeta lc) \<noteq> [] \<and> path_known (ae_source env) lc)
   \<and> (\<forall>w. \<exists>target w'. newInitTargetProvider tr name w = (Inr target, w')
        \<and> (\<forall>lc. path_known (ae_source env) lc \<longrightarrow> ready_sources (the_reconciler env sf mgr tr name i)
              (ClusterNameFromObject (se_lib (ae_source env)) (it_ObjectMeta target)) lc (its_Sources (it_Spec target))))
   \<and> (\<forall>c obj x. create_ok (se_tests (ae_source env)) (fst (ae_Create env c obj x)))
   \<and> (\<forall>c old new x. fst (rm_PatchStatus (ae_remote env mgr) c old new x) = None)"

lemma able_willing:
  assumes H: "hierarchy_sort (ae_sort env)" and S: "cluster_server env mgr tr req (\<lambda>x. {stored x})"
    and A: "able env (sf i) (mgr i) (tr i) (name i) req i"
  shows "willing (agents env sf mgr tr name) req stored i"
  unfolding willing_def
proof (intro allI impI)
  fix w :: "('a, 'b, 'c) agent_world"
  assume i: "i \<in> set (stored (ext w))"
  let ?r = "agents env sf mgr tr name i"
  note A = A [unfolded able_def, folded agents_def]
  from A obtain c lc w1 where f: "fetch ?r req w = (Some (c, None, lc), w1)" "meta_Name (lc_ObjectMeta lc) \<noteq> []"
    "path_known (ae_source env) lc" by meson
  have "lc_Initializers lc \<in> {stored (ext w)}"
    using agents_fetch_law [OF S, of sf name, unfolded fetch_law_def, rule_format, OF f(1)] f(2) by blast
  with i have mem: "i \<in> set (lc_Initializers lc)" by simp
  have todo: "to_initialize ?r None lc"
    using f(2,3) mem by (simp add: to_initialize_def IgnoreNotFound_def path_known_def)
  from A obtain target w2 where t: "newInitTargetProvider (tr i) (name i) w1 = (Inr target, w2)"
    "ready_sources ?r (ClusterNameFromObject (se_lib (ae_source env)) (it_ObjectMeta target)) lc
       (its_Sources (it_Spec target))" using f(3) by meson
  from A have "ready_applier ?r c"
    unfolding agents_def by (intro agent_ready_applier) blast
  from reconcile_sources_ready [OF this t(2), of 0 w2] obtain w3 where
    w3: "reconcile_sources ?r (ClusterNameFromObject (se_lib (ae_source env)) (it_ObjectMeta target)) c lc 0 False
       (its_Sources (it_Spec target)) w2 = (Ret (False, None), w3)" by blast
  obtain err lc' w4 where rm: "removeInitializer ?r c lc w3 = ((err, lc'), w4)" by (metis prod.collapse)
  have "err = None"
    using removeInitializer_patches [OF rm] mem A by (auto simp: prod_eq_iff)
  have loop: "r_targetProvider ?r w1 = (Inr target, w2)"
    "reconcile_sources ?r (target_cluster ?r target) c lc 0 False (its_Sources (it_Spec target)) w2 = (Ret (False, None), w3)"
    using t(1) w3 by simp_all
  with f(1) todo rm \<open>err = None\<close> show "\<exists>client err lc w1 target w2 w3. fetch ?r req w = (Some (client, err, lc), w1)
     \<and> to_initialize ?r err lc \<and> r_targetProvider ?r w1 = (Inr target, w2)
     \<and> reconcile_sources ?r (target_cluster ?r target) client lc 0 False (its_Sources (it_Spec target)) w2 = (Ret (False, None), w3)
     \<and> (\<exists>lc' w4. removeInitializer ?r client lc w3 = ((None, lc'), w4))"
    by blast
qed

subsection \<open>A closed instance\<close>

text \<open>The sample server with every kind known.\<close>

definition willing_env :: "(sample_server, nat, nat, unit, string, document list, unit) agent_env" where
  "willing_env = sample_env\<lparr>ae_Create := (\<lambda>c obj x. (None, x))\<rparr>"

text \<open>The same server, with only the list of initializers kept in its state, and its agents: for every initializer
  an agent with the sample target.\<close>

definition shared_env :: "(sample_server, nat, nat, unit, string, document list, unit) agent_env" where
  "shared_env = willing_env\<lparr>ae_remote := (\<lambda>m. sample_remote\<lparr>rm_Get :=
     (\<lambda>c n x. ((None, sample_lc\<lparr>lc_Initializers := lc_Initializers (srv_cluster x)\<rparr>), x))\<rparr>)\<rparr>"

definition sample_agents :: "string \<Rightarrow> (sample_server, nat, nat) init_Reconciler" where
  "sample_agents = agents shared_env (\<lambda>i. sample_factory) (\<lambda>i. ()) (\<lambda>i. sample_tr (\<lambda>c. ())) (\<lambda>i. ''t'')"

definition sample_stored :: "sample_server \<Rightarrow> string list" where
  "sample_stored x = lc_Initializers (srv_cluster x)"

lemma shared_env_sel:
  "ae_source shared_env = sample_source_env" "ae_sort shared_env = insertionSortCmpFunc"
  "ae_Create shared_env c obj x = (None, x)"
  "ae_remote shared_env m = sample_remote\<lparr>rm_Get :=
     (\<lambda>c n x. ((None, sample_lc\<lparr>lc_Initializers := lc_Initializers (srv_cluster x)\<rparr>), x))\<rparr>"
  by (simp_all add: shared_env_def willing_env_def sample_env_def)

lemma sample_cluster_server:
  "cluster_server shared_env (\<lambda>i. ()) (\<lambda>i. sample_tr (\<lambda>c. ())) sample_request (\<lambda>x. {sample_stored x})"
  by (auto simp: cluster_server_def quiet_calls_def quiet_manager_def quiet_def reads_cluster_def patches_cluster_def
      shared_env_sel sample_source_env_def sample_tr_def sample_remote_def sample_stored_def split: if_splits)

lemma shared_sorted: "hierarchy_sort (ae_sort shared_env)"
  by (simp add: shared_env_sel insertion_hierarchy.hierarchy_sort_axioms)

lemma sample_target_read:
  "\<exists>w1. newInitTargetProvider (sample_tr cfg) ''t'' w = (Inr sample_init_target, w1)"
  by (simp add: newInitTargetProvider_def get_target_def ext_call_def sample_tr_def)

lemma sample_ready:
  assumes "ae_source env = sample_source_env" "path_known sample_source_env lc"
  shows "ready_sources (the_reconciler env sample_factory () tr ''t'' i) cl lc (its_Sources (it_Spec sample_init_target))"
  unfolding ready_sources_def
proof (intro ballI allI)
  fix ref w
  assume "ref \<in> set (its_Sources (it_Spec sample_init_target))"
  then have ref: "ref = \<lparr>src_Template = Some \<lparr>tis_Name = ''tpl''\<rparr>\<rparr>" by (simp add: sample_init_target_def)
  obtain w1 where "NewForInitSource sample_source_env sample_factory cl ref w
      = (Inr (Manifests sample_source_env \<lparr>src_tpl = ''ConfigMap''\<rparr>), w1)"
    by (simp add: ref NewForInitSource_def NewInitTemplate_def template_Factory_def NewFromInitTemplate_def New_source_def
        sample_factory_def NewFactory_def ext_call_def sample_source_env_def)
  moreover from assms(2) obtain path where
    "ClusterPathFromObject (se_lib sample_source_env) (se_LogicalClusterGVK sample_source_env) (lc_ObjectMeta lc) = Ret path"
    by (auto simp: path_known_def returns_iff)
  then obtain objs w2 where "Manifests sample_source_env \<lparr>src_tpl = ''ConfigMap''\<rparr> lc w1 = (Ret (Inr objs), w2)"
    using ParseYAML_sample [of "''ConfigMap''"]
    by (simp add: Manifests_def render_def sample_source_env_def ext_call_def)
  ultimately show "\<exists>ms w1 objs w2. r_sourceFactory (the_reconciler env sample_factory () tr ''t'' i) cl ref w = (Inr ms, w1)
      \<and> ms lc w1 = (Ret (Inr objs), w2)"
    unfolding agent_reconciler_sel assms(1) by blast
qed

lemma sample_path_known: "path_known sample_source_env (sample_lc\<lparr>lc_Initializers := l\<rparr>)"
  by (simp add: path_known_def ClusterPathFromObject_Ret_iff sample_lc_def sample_cluster_def
        sample_source_env_def sample_library_def)

lemma sample_able: "able shared_env sample_factory () (sample_tr (\<lambda>c. ())) ''t'' sample_request i"
  unfolding able_def
proof (intro conjI allI)
  fix w :: "(sample_server, nat, nat) agent_world"
  let ?lc = "sample_lc\<lparr>lc_Initializers := lc_Initializers (srv_cluster (ext w))\<rparr>"
  have "\<exists>w'. fetch (the_reconciler shared_env sample_factory () (sample_tr (\<lambda>c. ())) ''t'' i) sample_request w
      = (Some (7, None, ?lc), w')"
    by (simp add: fetch_def ext_call_def shared_env_sel sample_remote_def sample_request_def)
  moreover have "meta_Name (lc_ObjectMeta ?lc) \<noteq> []" by (simp add: sample_lc_def sample_cluster_def)
  ultimately show "\<exists>c lc w'. fetch (the_reconciler shared_env sample_factory () (sample_tr (\<lambda>c. ())) ''t'' i) sample_request w
      = (Some (c, None, lc), w') \<and> meta_Name (lc_ObjectMeta lc) \<noteq> [] \<and> path_known (ae_source shared_env) lc"
    using sample_path_known unfolding shared_env_sel by blast
next
  fix w :: "(sample_server, nat, nat) agent_world"
  show "\<exists>target w'. newInitTargetProvider (sample_tr (\<lambda>c. ())) ''t'' w = (Inr target, w')
     \<and> (\<forall>lc. path_known (ae_source shared_env) lc \<longrightarrow>
          ready_sources (the_reconciler shared_env sample_factory () (sample_tr (\<lambda>c. ())) ''t'' i)
            (ClusterNameFromObject (se_lib (ae_source shared_env)) (it_ObjectMeta target)) lc (its_Sources (it_Spec target)))"
    using sample_target_read [of "\<lambda>c. ()" w] sample_ready [OF shared_env_sel(1)] unfolding shared_env_sel(1) by blast
qed (simp_all add: shared_env_sel sample_remote_def)

text \<open>The first visit of the sample cluster, by the agent of one of its two initializers.\<close>

definition sample_cluster_world :: "(sample_server, nat, nat) agent_world" where
  "sample_cluster_world = sample_server_with sample_lc []"

lemma sample_visit:
  obtains w' where "Reconcile (sample_agents ''root:base'') sample_request sample_cluster_world = (Ret (empty_result, None), w')"
    "sample_stored (ext w') = [''other'']"
proof -
  let ?res = "Reconcile (sample_agents ''root:base'') sample_request sample_cluster_world"
  have "fst ?res = Ret (empty_result, None)" "sample_stored (ext (snd ?res)) = [''other'']" by code_simp+
  then show thesis using that by (metis prod.collapse)
qed

lemma sample_cluster_run:
  obtains ls w' where "run (cluster_step sample_agents sample_request (\<lambda>x. {sample_stored x}))
      \<lparr>cs_world = sample_cluster_world, cs_visits = Map.empty\<rparr> ls \<lparr>cs_world = w', cs_visits = Map.empty\<rparr>"
    "sample_stored (ext w') = [''other'']"
proof -
  obtain w' where w': "Reconcile (sample_agents ''root:base'') sample_request sample_cluster_world = (Ret (empty_result, None), w')"
    "sample_stored (ext w') = [''other'']" by (rule sample_visit)
  have "shared_cluster sample_agents sample_request (\<lambda>x. {sample_stored x})"
    unfolding sample_agents_def by (rule agents_shared_cluster [OF sample_cluster_server])
  moreover have "init_reconciler (sample_agents ''root:base'') (path_known (ae_source shared_env))"
    unfolding sample_agents_def by (rule agents_init_reconciler [OF shared_sorted])
  ultimately show thesis
    using Reconcile_run [where rs = sample_agents and f = Map.empty, OF _ _ w'(1)] w'(2) that by blast
qed

subsection \<open>The properties\<close>





text \<open>C9: several agents on one cluster, progress. From every state, also in the middle of visits and after updates
  were lost, the agents of the initializers that are stored can empty the list, if each of them is able to
  do its work.\<close>

theorem list_can_be_emptied:
  assumes "hierarchy_sort (ae_sort env)" and "cluster_server env mgr tr req (\<lambda>x. {stored x})"
    and "\<And>i. i \<in> set (stored (ext (cs_world s))) \<Longrightarrow> able env (sf i) (mgr i) (tr i) (name i) req i"
  shows "\<exists>ls s'. run (cluster_step (agents env sf mgr tr name) req (\<lambda>x. {stored x})) s ls s'
    \<and> stored (ext (cs_world s')) = []"
  by (rule willing_agents_empty_list [OF agents_shared_cluster [OF assms(2)]])
    (use able_willing [OF assms(1,2)] assms(3) in blast)

theorem list_can_be_emptied_witness:
  "\<exists>ls s'. run (cluster_step sample_agents sample_request (\<lambda>x. {sample_stored x}))
       \<lparr>cs_world = sample_cluster_world, cs_visits = [''other'' \<mapsto> (7, sample_lc, AtTarget)]\<rparr> ls s'
     \<and> sample_stored (ext (cs_world s')) = []"
  unfolding sample_agents_def
  by (rule list_can_be_emptied [OF shared_sorted sample_cluster_server]) (rule sample_able)



end
