(* ===== verification/Target_Interleaving.thy ===== *)
theory Target_Interleaving
  imports Target_Lifecycle
begin

text \<open>
  The target controller at the grain of its accesses to \<^verbatim>\<open>ctrlCancels\<close>. \<open>Target_Lifecycle\<close> takes one call of
  \<^verbatim>\<open>Reconcile\<close> as one step. Here the worker reads the target, looks its key up, builds the manager and
  registers it in four steps, \<^verbatim>\<open>cleanupController\<close> and the cleanup goroutines take
  \<^verbatim>\<open>ctrlLock\<close> and release it, and everything else may happen in between. Both implement the
  specification \<open>lifecycle_step\<close>. The grain also shows what the other one cannot: which accesses the lock keeps apart.
\<close>

subsection \<open>The parts of ensureInitController\<close>

text \<open>Between the lookup and the registration: the workspace type, the manager, its controller.\<close>

definition build_manager ::
  "('x, 'e, 'c, 'sch, 'cfg, 'prov, 'm) target_Reconciler \<Rightarrow> init_target \<Rightarrow> ('x, 'e, 'c) agent_world \<Rightarrow>
   ('e, 'm) result \<times> ('x, 'e, 'c) agent_world" where
  "build_manager r target w =
     (case getWorkspaceType r target w of
        (Inl e, w1) \<Rightarrow> (Inl (Errorf ''failed to retrieve WorkspaceType'' e), w1)
      | (Inr wst, w1) \<Rightarrow>
          (let initializer = lib_InitializerForType (lb_kcp (tr_library r)) wst
           in case createMulticlusterManager r wst w1 of
                (Inl e, w2) \<Rightarrow> (Inl (Errorf ''failed to create multicluster manager'' e), w2)
              | (Inr mgr, w2) \<Rightarrow>
                  (case tr_newInitController r mgr
                          (newInitTargetProvider r (meta_Name (it_ObjectMeta target))) initializer of
                     (Some e, mgr') \<Rightarrow> (Inl (Errorf ''failed to create init controller'' e), w2)
                   | (None, mgr') \<Rightarrow> (Inr mgr', w2))))"

text \<open>The registration: a new context, its cancel function under the key, and the two goroutines.\<close>

definition register_manager :: "init_target \<Rightarrow> 'm \<Rightarrow> ('e, 'm) tc_state \<Rightarrow> ('e, 'm) tc_state" where
  "register_manager target mgr st =
     (let key = getInitTargetKey target
      in case WithCancelCause st of
           (ctrlCtx, st1) \<Rightarrow>
             st1\<lparr>ctrlCancels := (ctrlCancels st1)(key \<mapsto> ctrlCtx),
                 cleanups := cleanups st1 @ [(ctrlCtx, key)],
                 managers := managers st1 @ [(ctrlCtx, mgr)]\<rparr>)"

lemma register_manager_eq: "register_manager target mgr st = started (getInitTargetKey target) mgr st"
  by (simp add: register_manager_def started_def WithCancelCause_def Let_def)

lemma ensureInitController_parts:
  "ensureInitController r target st w =
     (if ctrlCancels st (getInitTargetKey target) \<noteq> None then ((empty_result, None), st, w)
      else case build_manager r target w of
             (Inl e, w') \<Rightarrow> ((empty_result, Some e), st, w')
           | (Inr mgr, w') \<Rightarrow> ((empty_result, None), register_manager target mgr st, w'))"
  by (simp add: ensureInitController_def build_manager_def register_manager_def Let_def
      split: prod.split sum.split option.split)

subsection \<open>State and steps\<close>

text \<open>Where the worker is. \<open>ReadTarget\<close>: after the read; \<open>NotRunning\<close>: its lookup found no
  controller; \<open>ManagerBuilt\<close>: about to write the map; \<open>LockedFor\<close>: in \<^verbatim>\<open>cleanupController\<close>,
  with the lock.\<close>

datatype 'm worker_pc =
    Idle
  | ReadTarget init_target
  | NotRunning init_target
  | ManagerBuilt init_target 'm
  | LockedFor init_target

datatype lock_holder = Worker | Goroutine nat string

record ('x, 'e, 'c, 'm) fine_state =
  fs_tc :: "('e, 'm) tc_state"
  fs_world :: "('x, 'e, 'c) agent_world"
  fs_pc :: "'m worker_pc"
  fs_lock :: "lock_holder option"
  fs_returned :: "(reconcile_result \<times> 'e err option) option"

definition fine_start :: "('x, 'e, 'c) agent_world \<Rightarrow> ('x, 'e, 'c, 'm) fine_state" where
  "fine_start w = \<lparr>fs_tc = tc_init, fs_world = w, fs_pc = Idle, fs_lock = None, fs_returned = None\<rparr>"

text \<open>A step is labelled with the events of \<open>Target_Lifecycle\<close> that it completes: none or one.\<close>

inductive fine_step ::
  "('x, 'e, 'c, 'sch, 'cfg, 'prov, 'm) target_Reconciler \<Rightarrow>
   ('x, 'e, 'c, 'm) fine_state \<Rightarrow> 'e tc_event list \<Rightarrow> ('x, 'e, 'c, 'm) fine_state \<Rightarrow> bool"
  for r :: "('x, 'e, 'c, 'sch, 'cfg, 'prov, 'm) target_Reconciler" where
  f_read: "fs_pc s = Idle \<Longrightarrow> get_target r name (fs_world s) = (Inr target, w') \<Longrightarrow>
     fine_step r s [] (s\<lparr>fs_world := w', fs_pc := ReadTarget target\<rparr>)"
| f_unread: "fs_pc s = Idle \<Longrightarrow> get_target r name (fs_world s) = (Inl e, w') \<Longrightarrow>
     fine_step r s [EvReconcile (Inl e)]
       (s\<lparr>fs_world := w',
          fs_returned := Some (empty_result, map_option External (IgnoreNotFound (lb_tests (tr_library r)) (Some e)))\<rparr>)"
| f_found: "fs_pc s = ReadTarget target \<Longrightarrow> \<not> deleting target \<Longrightarrow>
     ctrlCancels (fs_tc s) (getInitTargetKey target) \<noteq> None \<Longrightarrow>
     fine_step r s [EvReconcile (Inr target)] (s\<lparr>fs_pc := Idle, fs_returned := Some (empty_result, None)\<rparr>)"
| f_missing: "fs_pc s = ReadTarget target \<Longrightarrow> \<not> deleting target \<Longrightarrow>
     ctrlCancels (fs_tc s) (getInitTargetKey target) = None \<Longrightarrow>
     fine_step r s [] (s\<lparr>fs_pc := NotRunning target\<rparr>)"
| f_built: "fs_pc s = NotRunning target \<Longrightarrow> build_manager r target (fs_world s) = (Inr mgr, w') \<Longrightarrow>
     fine_step r s [] (s\<lparr>fs_world := w', fs_pc := ManagerBuilt target mgr\<rparr>)"
| f_not_built: "fs_pc s = NotRunning target \<Longrightarrow> build_manager r target (fs_world s) = (Inl e, w') \<Longrightarrow>
     fine_step r s [EvReconcile (Inr target)]
       (s\<lparr>fs_world := w', fs_pc := Idle, fs_returned := Some (empty_result, Some e)\<rparr>)"
| f_register: "fs_pc s = ManagerBuilt target mgr \<Longrightarrow>
     fine_step r s [EvReconcile (Inr target)]
       (s\<lparr>fs_tc := register_manager target mgr (fs_tc s), fs_pc := Idle, fs_returned := Some (empty_result, None)\<rparr>)"
| f_lock: "fs_pc s = ReadTarget target \<Longrightarrow> deleting target \<Longrightarrow> fs_lock s = None \<Longrightarrow>
     fine_step r s [] (s\<lparr>fs_pc := LockedFor target, fs_lock := Some Worker\<rparr>)"
| f_cleaned: "fs_pc s = LockedFor target \<Longrightarrow> cleanupController target (fs_tc s) = (err, st') \<Longrightarrow>
     fine_step r s [EvReconcile (Inr target)]
       (s\<lparr>fs_tc := st', fs_pc := Idle, fs_lock := None, fs_returned := Some (empty_result, err)\<rparr>)"
| g_lock: "(i, key) \<in> set (cleanups (fs_tc s)) \<Longrightarrow> ctx_cause (fs_tc s) i \<noteq> None \<Longrightarrow> fs_lock s = None \<Longrightarrow>
     fine_step r s [] (s\<lparr>fs_lock := Some (Goroutine i key)\<rparr>)"
| g_delete: "fs_lock s = Some (Goroutine i key) \<Longrightarrow>
     fine_step r s [EvCleanup i key] (s\<lparr>fs_tc := cleanup_goroutine i key (fs_tc s), fs_lock := None\<rparr>)"
| m_exit: "i \<in> fst ` set (managers (fs_tc s)) \<Longrightarrow>
     fine_step r s [EvExit i merr] (s\<lparr>fs_tc := manager_exit (lb_tests (tr_library r)) i merr (fs_tc s)\<rparr>)"
| f_root: "fine_step r s [EvRootCancel cause] (s\<lparr>fs_tc := cancel_root cause (fs_tc s)\<rparr>)"
| f_outside: "fine_step r s [EvOutside] (s\<lparr>fs_world := (fs_world s)\<lparr>ext := x\<rparr>\<rparr>)"

subsection \<open>A reconciliation in fine steps\<close>

text \<open>Undisturbed, the steps are \<open>Reconcile_target\<close>.\<close>

abbreviation (input) idle_state where
  "idle_state st w ret \<equiv> \<lparr>fs_tc = st, fs_world = w, fs_pc = Idle, fs_lock = None, fs_returned = ret\<rparr>"

lemma fine_run_Cons:
  "fine_step r s l s1 \<Longrightarrow> run (fine_step r) s1 ls s' \<Longrightarrow> run (fine_step r) s (l # ls) s'"
  by (rule run_Cons)

lemma ensure_fine_run:
  assumes "ensureInitController r target st w = (res, st', w')" "\<not> deleting target"
  shows "\<exists>ls. run (fine_step r) \<lparr>fs_tc = st, fs_world = w, fs_pc = ReadTarget target, fs_lock = None, fs_returned = ret\<rparr>
      ls (idle_state st' w' (Some res)) \<and> concat ls = [EvReconcile (Inr target)]"
    (is "\<exists>ls. run _ ?s0 ls _ \<and> _")
proof (cases "ctrlCancels st (getInitTargetKey target)")
  case (Some i)
  with assms f_found [of ?s0 target r] have "fine_step r ?s0 [EvReconcile (Inr target)] (idle_state st' w' (Some res))"
    by (simp add: ensureInitController_parts)
  from run_one [where step = "fine_step r", OF this] show ?thesis
    by (intro exI [of _ "[[EvReconcile (Inr target)]]"]) simp
next
  case None
  let ?s1 = "?s0\<lparr>fs_pc := NotRunning target\<rparr>"
  have s1: "fine_step r ?s0 [] ?s1" using f_missing [of ?s0 target r] None assms(2) by simp
  obtain b w1 where b: "build_manager r target w = (b, w1)" by fastforce
  show ?thesis
  proof (cases b)
    case (Inl e)
    with assms(1) b None f_not_built [of ?s1 target r e w1]
    have "fine_step r ?s1 [EvReconcile (Inr target)] (idle_state st' w' (Some res))"
      by (simp add: ensureInitController_parts)
    from fine_run_Cons [OF s1 run_one [where step = "fine_step r", OF this]] show ?thesis
      by (intro exI [of _ "[[], [EvReconcile (Inr target)]]"]) simp
  next
    case (Inr mgr)
    let ?s2 = "?s1\<lparr>fs_world := w1, fs_pc := ManagerBuilt target mgr\<rparr>"
    have s2: "fine_step r ?s1 [] ?s2" using f_built [of ?s1 target r mgr w1] b Inr by simp
    from assms(1) b None Inr f_register [of ?s2 target mgr r]
    have "fine_step r ?s2 [EvReconcile (Inr target)] (idle_state st' w' (Some res))"
      by (simp add: ensureInitController_parts)
    from fine_run_Cons [OF s1 fine_run_Cons [OF s2 run_one [where step = "fine_step r", OF this]]] show ?thesis
      by (intro exI [of _ "[[], [], [EvReconcile (Inr target)]]"]) simp
  qed
qed

lemma Reconcile_target_fine_run:
  assumes "Reconcile_target r name st w = (res, st', w')"
  shows "\<exists>ls. run (fine_step r) (idle_state st w ret) ls (idle_state st' w' (Some res))
    \<and> concat ls = [EvReconcile (fst (get_target r name w))]"
proof -
  obtain read w1 where g: "get_target r name w = (read, w1)" by fastforce
  show ?thesis
  proof (cases read)
    case (Inl e)
    with assms g f_unread [of "idle_state st w ret" r name e w1]
    have "fine_step r (idle_state st w ret) [EvReconcile (Inl e)] (idle_state st' w' (Some res))"
      by (auto simp: Reconcile_target_def)
    from run_one [where step = "fine_step r", OF this] show ?thesis
      using g Inl by (intro exI [of _ "[[EvReconcile (Inl e)]]"]) simp
  next
    case (Inr target)
    let ?s1 = "(idle_state st w1 ret)\<lparr>fs_pc := ReadTarget target\<rparr>"
    have s1: "fine_step r (idle_state st w ret) [] ?s1"
      using f_read [of "idle_state st w ret" r name target w1] g Inr by simp
    show ?thesis
    proof (cases "deleting target")
      case True
      let ?s2 = "?s1\<lparr>fs_pc := LockedFor target, fs_lock := Some Worker\<rparr>"
      have s2: "fine_step r ?s1 [] ?s2" using f_lock [of ?s1 target r] True by simp
      obtain err st1 where c: "cleanupController target st = (err, st1)" by fastforce
      with assms g Inr True f_cleaned [of ?s2 target err st1 r]
      have "fine_step r ?s2 [EvReconcile (Inr target)] (idle_state st' w' (Some res))"
        by (simp add: Reconcile_target_def)
      from fine_run_Cons [OF s1 fine_run_Cons [OF s2 run_one [where step = "fine_step r", OF this]]] show ?thesis
        using g Inr by (intro exI [of _ "[[], [], [EvReconcile (Inr target)]]"]) simp
    next
      case False
      with assms g Inr have "ensureInitController r target st w1 = (res, st', w')" by (simp add: Reconcile_target_def)
      from ensure_fine_run [OF this False, of ret] obtain ls where
        "run (fine_step r) ?s1 ls (idle_state st' w' (Some res))" "concat ls = [EvReconcile (Inr target)]" by auto
      with fine_run_Cons [OF s1] show ?thesis using g Inr by (intro exI [of _ "[] # ls"]) simp
    qed
  qed
qed

subsection \<open>What holds between the accesses\<close>

text \<open>The worker is the only one that adds keys, so a key it did not find is still missing. The lock has the
  holder that the program counters say.\<close>

fun worker_ok :: "'m worker_pc \<Rightarrow> lock_holder option \<Rightarrow> ('e, 'm) tc_state \<Rightarrow> bool" where
  "worker_ok (NotRunning target) l st \<longleftrightarrow> l \<noteq> Some Worker \<and> \<not> deleting target \<and> ctrlCancels st (getInitTargetKey target) = None"
| "worker_ok (ManagerBuilt target mgr) l st \<longleftrightarrow>
     l \<noteq> Some Worker \<and> \<not> deleting target \<and> ctrlCancels st (getInitTargetKey target) = None"
| "worker_ok (LockedFor target) l st \<longleftrightarrow> l = Some Worker \<and> deleting target"
| "worker_ok Idle l st \<longleftrightarrow> l \<noteq> Some Worker"
| "worker_ok (ReadTarget target) l st \<longleftrightarrow> l \<noteq> Some Worker"

fun lock_ok :: "lock_holder option \<Rightarrow> ('e, 'm) tc_state \<Rightarrow> bool" where
  "lock_ok (Some (Goroutine i key)) st \<longleftrightarrow> (i, key) \<in> set (cleanups st) \<and> ctx_cause st i \<noteq> None"
| "lock_ok _ st \<longleftrightarrow> True"

definition fine_inv ::
  "'e err_tests \<Rightarrow> 'e tc_event list list \<Rightarrow> ('x, 'e, 'c, 'm) fine_state \<Rightarrow> bool" where
  "fine_inv tests ls s \<longleftrightarrow> worker_ok (fs_pc s) (fs_lock s) (fs_tc s) \<and> lock_ok (fs_lock s) (fs_tc s)
     \<and> run (lifecycle_step tests) tc_init (concat ls) (fs_tc s)"

lemma worker_ok_keeps:
  "worker_ok pc l st \<Longrightarrow> (\<And>k. ctrlCancels st k = None \<Longrightarrow> ctrlCancels st' k = None) \<Longrightarrow> worker_ok pc l st'"
  by (cases pc) auto

lemma lock_ok_keeps:
  "lock_ok l st \<Longrightarrow> set (cleanups st) \<subseteq> set (cleanups st') \<Longrightarrow>
   (\<And>i k. (i, k) \<in> set (cleanups st) \<Longrightarrow> ctx_cause st i \<noteq> None \<Longrightarrow> ctx_cause st' i \<noteq> None) \<Longrightarrow> lock_ok l st'"
  by (cases "(l, st)" rule: lock_ok.cases) auto

lemma fine_inv_step:
  assumes inv: "fine_inv (lb_tests (tr_library r)) ls s" and step: "fine_step r s l s'"
  shows "fine_inv (lb_tests (tr_library r)) (ls @ [l]) s'"
proof -
  let ?spec = "lifecycle_step (lb_tests (tr_library r))"
  from inv have W: "worker_ok (fs_pc s) (fs_lock s) (fs_tc s)" and L: "lock_ok (fs_lock s) (fs_tc s)"
    and R: "run ?spec tc_init (concat ls) (fs_tc s)" unfolding fine_inv_def by blast+
  have one: "?spec (fs_tc s) ev st' \<Longrightarrow> run ?spec tc_init (concat (ls @ [[ev]])) st'" for ev st'
    using run_step [where step = ?spec, OF R] by simp
  have new: "(ctx_next (fs_tc s), k) \<notin> set (cleanups (fs_tc s))" for k
    using root_invD(2) [OF shutdown_spec.inv_run [OF R]] by blast
  from step show ?thesis
  proof (cases rule: fine_step.cases)
    case (f_read name target w')
    with W L R show ?thesis by (simp add: fine_inv_def)
  next
    case (f_unread name e w')
    with W L one [OF ls_unread] show ?thesis by (simp add: fine_inv_def)
  next
    case (f_found target)
    with W L one [OF ls_kept] show ?thesis by (simp add: fine_inv_def)
  next
    case (f_missing target)
    with W L R show ?thesis by (simp add: fine_inv_def)
  next
    case (f_built target mgr w')
    with W L R show ?thesis by (simp add: fine_inv_def)
  next
    case (f_not_built target e w')
    with W L one [OF ls_kept] show ?thesis by (simp add: fine_inv_def)
  next
    case (f_register target mgr)
    have "lock_ok (fs_lock s) (started (getInitTargetKey target) mgr (fs_tc s))"
      by (rule lock_ok_keeps [OF L]) (use new in \<open>auto simp: started_def\<close>)
    with f_register W one [OF ls_started] show ?thesis
      by (simp add: fine_inv_def register_manager_eq)
  next
    case (f_lock target)
    with W L R show ?thesis by (simp add: fine_inv_def)
  next
    case (f_cleaned target err st')
    with W one [OF ls_deleted] show ?thesis by (auto simp: fine_inv_def cleanupController_eq)
  next
    case (g_lock i key)
    with W L R show ?thesis by (cases "fs_pc s") (simp_all add: fine_inv_def)
  next
    case (g_delete i key)
    have "worker_ok (fs_pc s) (fs_lock s) (cleanup_goroutine i key (fs_tc s))"
      by (rule worker_ok_keeps [OF W]) (simp add: cleanup_goroutine_def)
    with g_delete L one [OF ls_cleanup] show ?thesis
      by (cases "fs_pc s") (simp_all add: fine_inv_def)
  next
    case (m_exit i merr)
    let ?st = "manager_exit (lb_tests (tr_library r)) i merr (fs_tc s)"
    have "worker_ok (fs_pc s) (fs_lock s) ?st" "lock_ok (fs_lock s) ?st"
      by (rule worker_ok_keeps [OF W], simp, rule lock_ok_keeps [OF L], simp_all)
    with m_exit one [OF ls_exit] show ?thesis by (simp add: fine_inv_def)
  next
    case (f_root cause)
    have "worker_ok (fs_pc s) (fs_lock s) (cancel_root cause (fs_tc s))"
      "lock_ok (fs_lock s) (cancel_root cause (fs_tc s))"
      by (rule worker_ok_keeps [OF W], simp, rule lock_ok_keeps [OF L], simp_all)
    with f_root one [OF ls_root] show ?thesis by (simp add: fine_inv_def)
  next
    case (f_outside x)
    with W L one [OF ls_outside] show ?thesis by (simp add: fine_inv_def)
  qed
qed

interpretation interleaving: run_invariant
  "fine_step r" "\<lambda>s. \<exists>w. s = fine_start w" "\<lambda>_. True" "fine_inv (lb_tests (tr_library r))"
  for r :: "('x, 'e, 'c, 'sch, 'cfg, 'prov, 'm) target_Reconciler"
proof
  fix s :: "('x, 'e, 'c, 'm) fine_state"
  assume "\<exists>w. s = fine_start w"
  then show "fine_inv (lb_tests (tr_library r)) [] s"
    by (auto simp: fine_start_def fine_inv_def intro: run_refl)
qed (simp_all add: fine_inv_step)

lemma fine_run_inv: "run (fine_step r) (fine_start w) ls s \<Longrightarrow> fine_inv (lb_tests (tr_library r)) ls s"
  by (rule interleaving.inv_run) auto

subsection \<open>A closed instance\<close>

text \<open>The sample target is started, read again under another UID, and built while the goroutine of the first one,
  whose context ended, has the lock.\<close>

definition second_target :: init_target where
  "second_target = sample_target None\<lparr>it_ObjectMeta := (it_ObjectMeta (sample_target None))\<lparr>meta_UID := ''uid2''\<rparr>\<rparr>"

definition first_idle :: "(init_target option, nat, unit) agent_world \<Rightarrow> (init_target option, nat, unit, unit) fine_state" where
  "first_idle w = \<lparr>fs_tc = sample_state, fs_world = w, fs_pc = Idle, fs_lock = None,
     fs_returned = Some (empty_result, None)\<rparr>"

lemma first_idle_run:
  "\<exists>ls w. run (fine_step sample_reconciler) (fine_start (sample_world (Some (sample_target None)))) ls (first_idle w)
     \<and> concat ls = [EvReconcile (Inr (sample_target None))]"
proof -
  let ?w = "sample_world (Some (sample_target None))"
  obtain w' where r: "Reconcile_target sample_reconciler ''t'' tc_init ?w = ((empty_result, None), sample_state, w')"
    using sample_reconcile by blast
  have "fst (get_target sample_reconciler ''t'' ?w) = Inr (sample_target None)"
    by (simp add: get_target_def ext_call_def sample_reconciler_def sample_world_def)
  with Reconcile_target_fine_run [OF r, of None] show ?thesis
    unfolding fine_start_def first_idle_def by auto
qed

definition racing :: "(init_target option, nat, unit) agent_world \<Rightarrow> (init_target option, nat, unit, unit) fine_state" where
  "racing w = \<lparr>fs_tc = cancel_root (ErrorNew []) sample_state, fs_world = w, fs_pc = ManagerBuilt second_target (),
     fs_lock = Some (Goroutine 1 ''uid''), fs_returned = Some (empty_result, None)\<rparr>"

lemma second_target_simps [simp]:
  "meta_DeletionTimestamp (it_ObjectMeta second_target) = None" "getInitTargetKey second_target = ''uid2''"
  by (simp_all add: second_target_def sample_target_def empty_meta_def getInitTargetKey_def)

lemma sample_builds: "\<exists>w'. build_manager sample_reconciler second_target w = (Inr (), w')"
  by (simp add: build_manager_def reconcile_defs sample_defs second_target_def)

lemma racing_run:
  "\<exists>ls w. run (fine_step sample_reconciler) (fine_start (sample_world (Some (sample_target None)))) ls (racing w)"
proof -
  obtain ls0 w0 where r0: "run (fine_step sample_reconciler) (fine_start (sample_world (Some (sample_target None)))) ls0 (first_idle w0)"
    using first_idle_run by blast
  let ?s1 = "first_idle (w0\<lparr>ext := Some second_target\<rparr>)"
  have s1: "fine_step sample_reconciler (first_idle w0) [EvOutside] ?s1"
    using f_outside [of sample_reconciler "first_idle w0" "Some second_target"] by (simp add: first_idle_def)
  obtain w2 where g: "get_target sample_reconciler ''t'' (w0\<lparr>ext := Some second_target\<rparr>) = (Inr second_target, w2)"
    by (simp add: get_target_def ext_call_def sample_reconciler_def)
  let ?s2 = "(first_idle w2)\<lparr>fs_pc := ReadTarget second_target\<rparr>"
  have s2: "fine_step sample_reconciler ?s1 [] ?s2"
    using f_read [of ?s1 sample_reconciler "''t''" second_target w2] g by (simp add: first_idle_def)
  let ?s3 = "(first_idle w2)\<lparr>fs_pc := NotRunning second_target\<rparr>"
  have s3: "fine_step sample_reconciler ?s2 [] ?s3"
    using f_missing [of ?s2 second_target sample_reconciler]
    by (simp add: first_idle_def sample_state_def started_def tc_init_def)
  obtain w4 where b: "build_manager sample_reconciler second_target w2 = (Inr (), w4)" using sample_builds by blast
  let ?s4 = "(first_idle w4)\<lparr>fs_pc := ManagerBuilt second_target ()\<rparr>"
  have s4: "fine_step sample_reconciler ?s3 [] ?s4"
    using f_built [of ?s3 second_target sample_reconciler "()" w4] b by (simp add: first_idle_def)
  let ?s5 = "?s4\<lparr>fs_tc := cancel_root (ErrorNew []) sample_state\<rparr>"
  have s5: "fine_step sample_reconciler ?s4 [EvRootCancel (ErrorNew [])] ?s5"
    using f_root [of sample_reconciler ?s4 "ErrorNew []"] by (simp add: first_idle_def)
  have s6: "fine_step sample_reconciler ?s5 [] (racing w4)"
    using g_lock [of 1 "''uid''" ?s5 sample_reconciler]
    by (simp add: first_idle_def racing_def sample_state_def started_def tc_init_def)
  from run_trans [OF fine_run_Cons [OF s1 fine_run_Cons [OF s2 fine_run_Cons [OF s3 fine_run_Cons [OF s4
      fine_run_Cons [OF s5 run_one [where step = "fine_step sample_reconciler", OF s6]]]]]] r0]
  show ?thesis by blast
qed

subsection \<open>Properties\<close>



text \<open>C12: the init controllers of the targets, in every interleaving of the worker's lookups and registrations with
  cleanup goroutines, exiting managers and a cancelled root, given that the API server never takes a
  deletion back. A key has at most one live controller; a live one is the one registered for
  its key, so it can be stopped; there is none for a key whose deletion was seen; and every manager that runs
  under a context nobody cancelled is one of these.\<close>

theorem one_live_controller:
  assumes "run (fine_step r) (fine_start w0) ls s" and "never_revived (concat ls)"
  shows "(\<forall>key i. alive (fs_tc s) key i \<longrightarrow>
        ctrlCancels (fs_tc s) key = Some i \<and> key \<notin> set (deleted_keys (concat ls)))
    \<and> (\<forall>key i j. alive (fs_tc s) key i \<and> alive (fs_tc s) key j \<longrightarrow> i = j)
    \<and> (\<forall>i \<in> fst ` set (managers (fs_tc s)). ctx_cause (fs_tc s) i = None \<longrightarrow> (\<exists>key. alive (fs_tc s) key i))"
proof -
  have "run (lifecycle_step (lb_tests (tr_library r))) tc_init (concat ls) (fs_tc s)"
    using fine_run_inv [OF assms(1)] unfolding fine_inv_def by blast
  from lifecycle_spec.inv_run [OF this refl assms(2)] show ?thesis by (rule tc_inv_one_live)
qed

theorem one_live_controller_witness:
  "\<exists>ls w. run (fine_step sample_reconciler) (fine_start (sample_world (Some (sample_target None)))) ls (first_idle w)
     \<and> alive (fs_tc (first_idle w)) ''uid'' 1 \<and> ctrlCancels (fs_tc (first_idle w)) ''uid'' = Some 1"
proof -
  obtain ls w where r: "run (fine_step sample_reconciler) (fine_start (sample_world (Some (sample_target None)))) ls (first_idle w)"
    "concat ls = [EvReconcile (Inr (sample_target None))]" using first_idle_run by blast
  have "alive (fs_tc (first_idle w)) ''uid'' 1" using sample_alive by (simp add: first_idle_def)
  with one_live_controller [OF r(1), unfolded r(2), OF sample_never_revived] r(1) show ?thesis by blast
qed

text \<open>A reconciliation taken as one step is one of the interleavings: with the lock free, the fine steps of
  the worker alone give the state, the outside and the result of \<open>Reconcile_target\<close>.\<close>

theorem Reconcile_target_in_steps:
  "case Reconcile_target r name st w of (res, st', w') \<Rightarrow>
     \<exists>ls. run (fine_step r)
         \<lparr>fs_tc = st, fs_world = w, fs_pc = Idle, fs_lock = None, fs_returned = ret\<rparr> ls
         \<lparr>fs_tc = st', fs_world = w', fs_pc = Idle, fs_lock = None, fs_returned = Some res\<rparr>
       \<and> concat ls = [EvReconcile (fst (get_target r name w))]"
proof -
  obtain res st' w' where eq: "Reconcile_target r name st w = (res, st', w')" by (metis prod.collapse)
  show ?thesis unfolding eq prod.case by (rule Reconcile_target_fine_run [OF eq])
qed

text \<open>What the lock keeps apart: while \<^verbatim>\<open>cleanupController\<close> is at the map no goroutine deletes from it.\<close>

lemma cleanupController_excludes_goroutines:
  assumes "run (fine_step r) (fine_start w) ls s" "fs_pc s = LockedFor target"
  shows "fs_lock s = Some Worker \<and> \<not> fine_step r s [EvCleanup i key] s'"
proof -
  from fine_run_inv [OF assms(1)] assms(2) have "fs_lock s = Some Worker" by (simp add: fine_inv_def)
  then show ?thesis by (auto elim: fine_step.cases)
qed

text \<open>C13: what the lock does not keep apart. \<^verbatim>\<open>ensureInitController\<close> takes no lock: a state can be
  reached in which the worker's next step writes \<^verbatim>\<open>ctrlCancels\<close> while a goroutine that has the
  lock deletes from it in its next step. Both are possible in this state, in any order, so in the code the two
  map writes may overlap, which Go does not allow.\<close>

theorem registration_races_with_cleanup:
  "\<exists>ls s target i key s1 s2.
     run (fine_step sample_reconciler) (fine_start (sample_world (Some (sample_target None)))) ls s
   \<and> fs_pc s = ManagerBuilt target () \<and> fs_lock s = Some (Goroutine i key)
   \<and> fine_step sample_reconciler s [EvReconcile (Inr target)] s1
   \<and> ctrlCancels (fs_tc s) (getInitTargetKey target) = None \<and> ctrlCancels (fs_tc s1) (getInitTargetKey target) \<noteq> None
   \<and> fine_step sample_reconciler s [EvCleanup i key] s2
   \<and> ctrlCancels (fs_tc s) key = Some i \<and> ctrlCancels (fs_tc s2) key = None"
proof -
  obtain ls w where r: "run (fine_step sample_reconciler) (fine_start (sample_world (Some (sample_target None)))) ls (racing w)"
    using racing_run by blast
  have map: "ctrlCancels (fs_tc (racing w)) = [''uid'' \<mapsto> 1]"
    by (simp add: racing_def sample_state_def started_def tc_init_def)
  show ?thesis
  proof (intro exI conjI)
    show "fine_step sample_reconciler (racing w) [EvReconcile (Inr second_target)]
        ((racing w)\<lparr>fs_tc := register_manager second_target () (fs_tc (racing w)), fs_pc := Idle,
           fs_returned := Some (empty_result, None)\<rparr>)"
      by (rule f_register) (simp add: racing_def)
    show "fine_step sample_reconciler (racing w) [EvCleanup 1 ''uid'']
        ((racing w)\<lparr>fs_tc := cleanup_goroutine 1 ''uid'' (fs_tc (racing w)), fs_lock := None\<rparr>)"
      by (rule g_delete) (simp add: racing_def)
  qed (use r map in \<open>simp_all add: racing_def register_manager_eq started_def cleanup_goroutine_def\<close>)
qed

end
