(* ===== verification/Whole_Agent.thy ===== *)
theory Whole_Agent
  imports Cluster_Agents Target_Interleaving
begin

text \<open>
  The two controllers together. The target controller of \<open>Target_Interleaving\<close>, with the parts that \<^verbatim>\<open>run\<close> gives
  it, fills the managers it starts; each of them runs the init controller that \<open>Init_Controller\<close> describes. Here the
  running managers are traced back to the targets that were read, and forward to what their init controllers do.
\<close>

subsection \<open>Where a manager comes from\<close>

text \<open>A manager under context \<open>i\<close> was built for this target, and only the target's key is tied to the context.\<close>

definition made_for ::
  "('x, 'e, 'c, 'sch, 'cfg, 'prov, 'm) target_Reconciler \<Rightarrow> ('e, 'm) tc_state \<Rightarrow> nat \<times> 'm \<Rightarrow> init_target \<Rightarrow> bool" where
  "made_for r st im target \<longleftrightarrow> wired_manager r target (snd im) \<and> fst im < ctx_next st
     \<and> (\<forall>key. (fst im, key) \<in> set (cleanups st) \<longrightarrow> key = getInitTargetKey target)"

fun built_ok :: "('x, 'e, 'c, 'sch, 'cfg, 'prov, 'm) target_Reconciler \<Rightarrow> 'm worker_pc \<Rightarrow> bool" where
  "built_ok r (ManagerBuilt target mgr) \<longleftrightarrow> wired_manager r target mgr"
| "built_ok r _ \<longleftrightarrow> True"

definition origin_inv ::
  "('x, 'e, 'c, 'sch, 'cfg, 'prov, 'm) target_Reconciler \<Rightarrow> 'e tc_event list list \<Rightarrow> ('x, 'e, 'c, 'm) fine_state \<Rightarrow> bool" where
  "origin_inv r ls s \<longleftrightarrow> built_ok r (fs_pc s) \<and> (\<forall>im \<in> set (managers (fs_tc s)). \<exists>target.
     EvReconcile (Inr target) \<in> set (concat ls) \<and> made_for r (fs_tc s) im target)"

lemma made_for_keeps:
  "made_for r st im target \<Longrightarrow> ctx_next st \<le> ctx_next st' \<Longrightarrow>
   (\<And>key. fst im < ctx_next st \<Longrightarrow> (fst im, key) \<in> set (cleanups st') \<Longrightarrow> (fst im, key) \<in> set (cleanups st)) \<Longrightarrow>
   made_for r st' im target"
  unfolding made_for_def by auto

lemma build_manager_wired: "build_manager r target w = (Inr mgr, w') \<Longrightarrow> wired_manager r target mgr"
  by (auto simp: build_manager_def Let_def split: prod.splits sum.splits option.splits intro: wired_managerI)

text \<open>A step that starts no manager.\<close>

lemma origin_inv_keeps:
  assumes "origin_inv r ls s" "built_ok r (fs_pc s')" "set (managers (fs_tc s')) \<subseteq> set (managers (fs_tc s))"
    and "ctx_next (fs_tc s') = ctx_next (fs_tc s)" "set (cleanups (fs_tc s')) \<subseteq> set (cleanups (fs_tc s))"
  shows "origin_inv r (ls @ [l]) s'"
  unfolding origin_inv_def
proof (intro conjI ballI)
  fix im
  assume "im \<in> set (managers (fs_tc s'))"
  with assms(1,3) obtain target where "EvReconcile (Inr target) \<in> set (concat ls)" "made_for r (fs_tc s) im target"
    unfolding origin_inv_def by blast
  with assms(4,5) show "\<exists>target. EvReconcile (Inr target) \<in> set (concat (ls @ [l])) \<and> made_for r (fs_tc s') im target"
    by (intro exI [of _ target]) (auto intro: made_for_keeps)
qed (rule assms(2))

lemma origin_inv_step:
  assumes "origin_inv r ls s" "root_inv evs (fs_tc s, w0)" "fine_step r s l s'"
  shows "origin_inv r (ls @ [l]) s'"
proof -
  have built: "built_ok r (fs_pc s)" using assms(1) by (simp add: origin_inv_def)
  from assms(3) show ?thesis
  proof (cases rule: fine_step.cases)
    case (f_register target mgr)
    let ?st = "fs_tc s" and ?st' = "started (getInitTargetKey target) mgr (fs_tc s)"
    note old = root_invD(2) [OF assms(2)]
    have built: "wired_manager r target mgr" using assms(1) f_register by (simp add: origin_inv_def)
    show ?thesis
      unfolding origin_inv_def
    proof (intro conjI ballI)
      fix im
      assume "im \<in> set (managers (fs_tc s'))"
      then consider (new) "im = (ctx_next ?st, mgr)" | (older) "im \<in> set (managers ?st)"
        using f_register by (auto simp: register_manager_eq started_def)
      then show "\<exists>target. EvReconcile (Inr target) \<in> set (concat (ls @ [l])) \<and> made_for r (fs_tc s') im target"
      proof cases
        case new
        with built old have "made_for r ?st' im target" by (fastforce simp: made_for_def started_def)
        with f_register show ?thesis by (intro exI [of _ target]) (simp add: register_manager_eq)
      next
        case older
        with assms(1) obtain t where "EvReconcile (Inr t) \<in> set (concat ls)" "made_for r ?st im t"
          unfolding origin_inv_def by blast
        moreover from this(2) have "made_for r ?st' im t"
          by (rule made_for_keeps) (auto simp: started_def)
        ultimately show ?thesis using f_register by (intro exI [of _ t]) (simp add: register_manager_eq)
      qed
    qed (use f_register in simp)
  next
    case (f_cleaned target err st')
    then have "st' = cleaned (getInitTargetKey target) (fs_tc s)" by (simp add: cleanupController_eq)
    with assms(1) f_cleaned show ?thesis by (auto intro!: origin_inv_keeps)
  next
    case (g_delete i key)
    have "set (remove1 (i, key) (cleanups (fs_tc s))) \<subseteq> set (cleanups (fs_tc s))" by (rule set_remove1_subset)
    with g_delete assms(1) show ?thesis
      by (intro origin_inv_keeps [OF assms(1)]) (auto simp: origin_inv_def cleanup_goroutine_def)
  next
    case (f_built target mgr w')
    then show ?thesis by (auto intro!: origin_inv_keeps [OF assms(1)] simp: build_manager_wired)
  qed (use built in \<open>auto intro!: origin_inv_keeps [OF assms(1)]\<close>)
qed

interpretation origin: run_invariant
  "fine_step r" "\<lambda>s. \<exists>w. s = fine_start w" "\<lambda>_. True"
  "\<lambda>ls s. fine_inv (lb_tests (tr_library r)) ls s \<and> origin_inv r ls s"
  for r :: "('x, 'e, 'c, 'sch, 'cfg, 'prov, 'm) target_Reconciler"
proof
  fix s :: "('x, 'e, 'c, 'm) fine_state"
  assume "\<exists>w. s = fine_start w"
  then show "fine_inv (lb_tests (tr_library r)) [] s \<and> origin_inv r [] s"
    using interleaving.inv_start by (auto simp: fine_start_def origin_inv_def tc_init_def)
next
  fix ls l and s s' :: "('x, 'e, 'c, 'm) fine_state"
  assume inv: "fine_inv (lb_tests (tr_library r)) ls s \<and> origin_inv r ls s" and step: "fine_step r s l s'"
  have R: "run (lifecycle_step (lb_tests (tr_library r))) tc_init (concat ls) (fs_tc s)"
    using inv unfolding fine_inv_def by blast
  show "fine_inv (lb_tests (tr_library r)) (ls @ [l]) s' \<and> origin_inv r (ls @ [l]) s'"
    using fine_inv_step [OF conjunct1 [OF inv] step] origin_inv_step
      [OF conjunct2 [OF inv] shutdown_spec.inv_run [OF R refl TrueI] step] by blast
qed simp

lemma live_manager_origin:
  assumes "run (fine_step r) (fine_start w) ls s" "never_revived (concat ls)"
    and "(i, mgr) \<in> set (managers (fs_tc s))" "ctx_cause (fs_tc s) i = None"
  obtains target where "EvReconcile (Inr target) \<in> set (concat ls)" "wired_manager r target mgr"
    "ctrlCancels (fs_tc s) (getInitTargetKey target) = Some i"
    "getInitTargetKey target \<notin> set (deleted_keys (concat ls))"
proof -
  have inv: "fine_inv (lb_tests (tr_library r)) ls s" "origin_inv r ls s"
    using origin.inv_run [OF assms(1)] by auto
  then have "run (lifecycle_step (lb_tests (tr_library r))) tc_init (concat ls) (fs_tc s)"
    unfolding fine_inv_def by blast
  from tc_inv_one_live [OF lifecycle_spec.inv_run [OF this refl assms(2)]] assms(3,4) obtain key where
    k: "alive (fs_tc s) key i" "ctrlCancels (fs_tc s) key = Some i" "key \<notin> set (deleted_keys (concat ls))"
    by force
  from inv(2) assms(3) obtain target where
    t: "EvReconcile (Inr target) \<in> set (concat ls)" "made_for r (fs_tc s) (i, mgr) target"
    unfolding origin_inv_def by blast
  from t(2) k(1) have "key = getInitTargetKey target" "wired_manager r target mgr"
    unfolding made_for_def alive_def by auto
  with that k t show thesis by blast
qed

subsection \<open>What it does\<close>

text \<open>The reconciler that the code registers with the manager: for this target, and the workspace type's initializer.\<close>

lemma wired_agent:
  assumes "wired_manager (agent_target_reconciler env rl cc sf lm) target mgr"
  obtains wst c x x' m where
    "tr_GetWorkspaceType (rl_target rl) c (wtr_Name (its_WorkspaceTypeReference (it_Spec target))) x = (Inr wst, x')"
    "ae_builder env m \<lparr>co_Name = ''initagent-init'', co_MaxConcurrentReconciles = 4, co_SkipNameValidation = True\<rparr>
       (the_reconciler env sf m (agent_target_reconciler env rl cc sf lm) (meta_Name (it_ObjectMeta target))
          (lib_InitializerForType (se_lib (ae_source env)) wst)) = (None, mgr)"
  using assms unfolding wired_manager_def
  by (auto simp: agent_target_reconciler_def newInitController_registers ControllerName_def)

subsection \<open>A closed instance\<close>

text \<open>The sample agent as \<^verbatim>\<open>run\<close> wires it, after its first reconciliation.\<close>

definition wired_sample :: "(sample_server, nat, nat, unit, unit rest_config, unit, unit) target_Reconciler" where
  "wired_sample = agent_target_reconciler sample_env sample_rl
     (NewClusterClient (StripCluster \<lparr>Host = ''https://k/clusters/root'', Settings = ()\<rparr>)) sample_factory []"

lemma wired_sample_reconcile:
  "\<exists>w'. Reconcile_target wired_sample ''t'' tc_init (sample_server_with sample_lc []) = ((empty_result, None), sample_state, w')
     \<and> fst (get_target wired_sample ''t'' (sample_server_with sample_lc [])) = Inr sample_init_target"
  by (simp add: wired_sample_def agent_target_reconciler_def newInitController_registers reconcile_defs started_def
      sample_rl_def sample_tr_def sample_env_def sample_source_env_def Cluster_def sample_init_target_def sample_defs
      sample_server_with_def sample_state_def)

lemma wired_sample_run:
  "\<exists>ls s. run (fine_step wired_sample) (fine_start (sample_server_with sample_lc [])) ls s
     \<and> concat ls = [EvReconcile (Inr sample_init_target)] \<and> fs_tc s = sample_state"
proof -
  obtain w' where r: "Reconcile_target wired_sample ''t'' tc_init (sample_server_with sample_lc [])
      = ((empty_result, None), sample_state, w')"
    "fst (get_target wired_sample ''t'' (sample_server_with sample_lc [])) = Inr sample_init_target"
    using wired_sample_reconcile by blast
  from Reconcile_target_fine_run [OF r(1), of None] obtain ls where
    "run (fine_step wired_sample) (fine_start (sample_server_with sample_lc [])) ls
       \<lparr>fs_tc = sample_state, fs_world = w', fs_pc = Idle, fs_lock = None, fs_returned = Some (empty_result, None)\<rparr>"
    "concat ls = [EvReconcile (Inr sample_init_target)]"
    unfolding fine_start_def r(2) by blast
  then show ?thesis by fastforce
qed

subsection \<open>The property\<close>

text \<open>C6: the agent as a whole. In every interleaving of the target controller that \<^verbatim>\<open>run\<close> sets up, a manager that
  runs under a context nobody cancelled was built for an InitTarget that was read, that has not been seen deleted, and
  under whose key it can be stopped. What the manager runs is the init controller for the initializer of the
  workspace type which that target names; and whatever this controller patches, in any of its reconciliations at any
  time, is exactly this initializer, taken off a cluster to which it has just applied all sources of the
  target of this name.\<close>

theorem live_managers_initialize:
  assumes "hierarchy_sort (ae_sort env)" and "never_revived (concat ls)"
    and "run (fine_step (agent_target_reconciler env rl cc sf lm)) (fine_start w0) ls s"
    and "(i, mgr) \<in> set (managers (fs_tc s))" and "ctx_cause (fs_tc s) i = None"
  shows "\<exists>target wst m r.
     EvReconcile (Inr target) \<in> set (concat ls)
   \<and> getInitTargetKey target \<notin> set (deleted_keys (concat ls))
   \<and> ctrlCancels (fs_tc s) (getInitTargetKey target) = Some i
   \<and> (\<exists>c x x'. tr_GetWorkspaceType (rl_target rl) c (wtr_Name (its_WorkspaceTypeReference (it_Spec target))) x = (Inr wst, x'))
   \<and> r = the_reconciler env sf m (agent_target_reconciler env rl cc sf lm) (meta_Name (it_ObjectMeta target))
       (lib_InitializerForType (se_lib (ae_source env)) wst)
   \<and> ae_builder env m \<lparr>co_Name = ''initagent-init'', co_MaxConcurrentReconciles = 4, co_SkipNameValidation = True\<rparr> r = (None, mgr)
   \<and> (\<forall>req w out w' c old new res.
        Reconcile r req w = (out, w') \<and> CallPatch c old new res \<in> set (new_calls w w') \<longrightarrow>
        new = without_initializer (lib_InitializerForType (se_lib (ae_source env)) wst) old
      \<and> (\<exists>err w1 w2. fetch r req w = (Some (c, err, old), w1) \<and> complete_target r c old w1 w2))"
proof -
  let ?tr = "agent_target_reconciler env rl cc sf lm"
  obtain target where t: "EvReconcile (Inr target) \<in> set (concat ls)" "wired_manager ?tr target mgr"
    "ctrlCancels (fs_tc s) (getInitTargetKey target) = Some i" "getInitTargetKey target \<notin> set (deleted_keys (concat ls))"
    by (rule live_manager_origin [OF assms(3,2,4,5)])
  obtain wst c x x' m where a:
    "tr_GetWorkspaceType (rl_target rl) c (wtr_Name (its_WorkspaceTypeReference (it_Spec target))) x = (Inr wst, x')"
    "ae_builder env m \<lparr>co_Name = ''initagent-init'', co_MaxConcurrentReconciles = 4, co_SkipNameValidation = True\<rparr>
       (the_reconciler env sf m ?tr (meta_Name (it_ObjectMeta target))
          (lib_InitializerForType (se_lib (ae_source env)) wst)) = (None, mgr)"
    by (rule wired_agent [OF t(2)])
  let ?r = "the_reconciler env sf m ?tr (meta_Name (it_ObjectMeta target)) (lib_InitializerForType (se_lib (ae_source env)) wst)"
  have "init_reconciler ?r (path_known (ae_source env))" by (rule agent_init_reconciler_sorted [OF assms(1)])
  note gate = init_reconciler.Reconcile_gate [OF this]
  have "new = without_initializer (lib_InitializerForType (se_lib (ae_source env)) wst) old
      \<and> (\<exists>err w1 w2. fetch ?r req w = (Some (c, err, old), w1) \<and> complete_target ?r c old w1 w2)"
    if "Reconcile ?r req w = (out, w')" "CallPatch c old new res \<in> set (new_calls w w')" for req w out w' c old new res
    using gate [OF that] by auto
  then have g: "\<forall>req w out w' c old new res.
      Reconcile ?r req w = (out, w') \<and> CallPatch c old new res \<in> set (new_calls w w') \<longrightarrow>
      new = without_initializer (lib_InitializerForType (se_lib (ae_source env)) wst) old
    \<and> (\<exists>err w1 w2. fetch ?r req w = (Some (c, err, old), w1) \<and> complete_target ?r c old w1 w2)" by blast
  from a(1) have wst: "\<exists>c x x'. tr_GetWorkspaceType (rl_target rl) c
      (wtr_Name (its_WorkspaceTypeReference (it_Spec target))) x = (Inr wst, x')" by blast
  show ?thesis
    by (intro exI [of _ target] exI [of _ wst] exI [of _ m] exI [of _ ?r] conjI refl t(1,3,4) wst a(2) g)
qed

theorem live_managers_initialize_witness:
  "\<exists>ls s r. run (fine_step wired_sample) (fine_start (sample_server_with sample_lc [])) ls s
     \<and> (1, ()) \<in> set (managers (fs_tc s))
     \<and> r = the_reconciler sample_env sample_factory () wired_sample ''t'' ''root:base''
     \<and> (\<forall>req w out w' c old new res.
          Reconcile r req w = (out, w') \<and> CallPatch c old new res \<in> set (new_calls w w') \<longrightarrow>
          new = without_initializer ''root:base'' old)"
proof -
  obtain ls s where run: "run (fine_step wired_sample) (fine_start (sample_server_with sample_lc [])) ls s"
    "concat ls = [EvReconcile (Inr sample_init_target)]" "fs_tc s = sample_state"
    using wired_sample_run by blast
  have st: "(1, ()) \<in> set (managers (fs_tc s))" "ctx_cause (fs_tc s) 1 = None"
    by (simp_all add: run(3) sample_state_def started_def tc_init_def)
  have sorted: "hierarchy_sort (ae_sort sample_env)"
    by (simp add: sample_env_def insertion_hierarchy.hierarchy_sort_axioms)
  have revived: "never_revived (concat ls)"
    unfolding run(2) by (simp add: never_revived_def sample_init_target_def sample_target_def empty_meta_def)
  have sel: "meta_Name (it_ObjectMeta sample_init_target) = ''t''"
    "lib_InitializerForType (se_lib (ae_source sample_env)) wst = ''root:base''" for wst
    by (simp_all add: sample_init_target_def sample_target_def sample_env_def sample_source_env_def sample_library_def)
  from live_managers_initialize [OF sorted revived run(1) [unfolded wired_sample_def] st, folded wired_sample_def]
  obtain r where "r = the_reconciler sample_env sample_factory () wired_sample ''t'' ''root:base''"
    "\<forall>req w out w' c old new res.
       Reconcile r req w = (out, w') \<and> CallPatch c old new res \<in> set (new_calls w w') \<longrightarrow>
       new = without_initializer ''root:base'' old"
    unfolding run(2) by (auto simp: sel)
  with run(1) st(1) show ?thesis by blast
qed

end
