(* ===== verification/Target_Selection.thy ===== *)
theory Target_Selection
  imports Whole_Agent
begin

text \<open>
  From the watch events of \<^verbatim>\<open>InitTarget\<close> objects to the controllers. \<open>Add\<close> gives the target controller a label
  predicate; the events it admits put the object's name into the controller's queue, its one worker
  takes names from the queue, and \<open>Target_Interleaving\<close> describes what it does with them. The queue is
  controller-runtime's, with its documented behaviour: a name is in it once, a name whose reconciliation
  returned an error or asked for it is put back, and an event is of one object and never a generic one.
\<close>

subsection \<open>State and steps\<close>

record ('x, 'e, 'c, 'm) queue_state =
  qs_worker :: "('x, 'e, 'c, 'm) fine_state"
  qs_queue :: "string set"
  qs_hand :: "string option"

definition queue_start :: "('x, 'e, 'c) agent_world \<Rightarrow> ('x, 'e, 'c, 'm) queue_state" where
  "queue_start w = \<lparr>qs_worker = fine_start w, qs_queue = {}, qs_hand = None\<rparr>"

datatype 'e queue_event =
    Watched "init_target watch_event"
  | Took string "'e tc_event list"
  | Worked "'e tc_event list"
  | Finished string

abbreviation target_name :: "init_target \<Rightarrow> string" where
  "target_name target \<equiv> meta_Name (it_ObjectMeta target)"

fun event_name :: "init_target watch_event \<Rightarrow> string" where
  "event_name (CreateEvent ob) = target_name ob"
| "event_name (UpdateEvent old new) = target_name new"
| "event_name (DeleteEvent ob) = target_name ob"
| "event_name (GenericEvent ob) = target_name ob"

text \<open>What the watch of a kind delivers.\<close>

definition kind_event :: "init_target watch_event \<Rightarrow> bool" where
  "kind_event ev \<longleftrightarrow> \<not> is_generic ev \<and> list_all (\<lambda>ob. target_name ob = event_name ev) (event_objects ev)"

text \<open>The predicate that \<open>Add\<close> hands to the builder.\<close>

definition added_filter ::
  "((string \<times> string) list \<Rightarrow> bool) \<Rightarrow> ('x, 'e, 'c, 'sch, 'cfg, 'prov, 'm) target_Reconciler \<Rightarrow> init_target Funcs" where
  "added_filter targetFilter r = Add (\<lambda>opts filt reconciler. filt) targetFilter r"

text \<open>The read of the target of a name, the first thing \<open>Reconcile_target\<close> does; and the steps of the worker
  that are such a read.\<close>

definition take_request ::
  "('x, 'e, 'c, 'sch, 'cfg, 'prov, 'm) target_Reconciler \<Rightarrow> string \<Rightarrow> ('x, 'e, 'c, 'm) fine_state \<Rightarrow>
   'e tc_event list \<times> ('x, 'e, 'c, 'm) fine_state" where
  "take_request r name s =
     (case get_target r name (fs_world s) of
        (Inr target, w') \<Rightarrow> ([], s\<lparr>fs_world := w', fs_pc := ReadTarget target\<rparr>)
      | (Inl e, w') \<Rightarrow>
          ([EvReconcile (Inl e)],
           s\<lparr>fs_world := w',
             fs_returned := Some (empty_result, map_option External (IgnoreNotFound (lb_tests (tr_library r)) (Some e)))\<rparr>))"

fun unread :: "'e tc_event \<Rightarrow> bool" where
  "unread (EvReconcile (Inl e)) \<longleftrightarrow> True"
| "unread _ \<longleftrightarrow> False"

definition takes_request ::
  "('x, 'e, 'c, 'm) fine_state \<Rightarrow> 'e tc_event list \<Rightarrow> ('x, 'e, 'c, 'm) fine_state \<Rightarrow> bool" where
  "takes_request s l s' \<longleftrightarrow> fs_pc s = Idle \<and> (fs_pc s' \<noteq> Idle \<or> list_ex unread l)"

inductive queue_step ::
  "('x, 'e, 'c, 'sch, 'cfg, 'prov, 'm) target_Reconciler \<Rightarrow> bool \<Rightarrow> init_target Funcs \<Rightarrow>
   ('x, 'e, 'c, 'm) queue_state \<Rightarrow> 'e queue_event \<Rightarrow> ('x, 'e, 'c, 'm) queue_state \<Rightarrow> bool"
  for r :: "('x, 'e, 'c, 'sch, 'cfg, 'prov, 'm) target_Reconciler" and unset :: bool and filt :: "init_target Funcs" where
  q_admit: "kind_event ev \<Longrightarrow> admits unset filt ev \<Longrightarrow>
     queue_step r unset filt s (Watched ev) (s\<lparr>qs_queue := insert (event_name ev) (qs_queue s)\<rparr>)"
| q_drop: "kind_event ev \<Longrightarrow> \<not> admits unset filt ev \<Longrightarrow> queue_step r unset filt s (Watched ev) s"
| q_take: "fs_pc (qs_worker s) = Idle \<Longrightarrow> qs_hand s = None \<Longrightarrow> name \<in> qs_queue s \<Longrightarrow>
     take_request r name (qs_worker s) = (l, f) \<Longrightarrow>
     queue_step r unset filt s (Took name l) (s\<lparr>qs_worker := f, qs_queue := qs_queue s - {name}, qs_hand := Some name\<rparr>)"
| q_work: "fine_step r (qs_worker s) l f \<Longrightarrow> \<not> takes_request (qs_worker s) l f \<Longrightarrow>
     queue_step r unset filt s (Worked l) (s\<lparr>qs_worker := f\<rparr>)"
| q_finish: "fs_pc (qs_worker s) = Idle \<Longrightarrow> qs_hand s = Some name \<Longrightarrow> fs_returned (qs_worker s) = Some (res, err) \<Longrightarrow>
     queue_step r unset filt s (Finished name)
       (s\<lparr>qs_hand := None,
          qs_queue := (if err \<noteq> None \<or> 0 < RequeueAfter res then insert name (qs_queue s) else qs_queue s)\<rparr>)"

text \<open>What the worker did in a run, and the names that admitted events put into the queue.\<close>

fun worked :: "'e queue_event list \<Rightarrow> 'e tc_event list list" where
  "worked [] = []"
| "worked (Took name l # ls) = l # worked ls"
| "worked (Worked l # ls) = l # worked ls"
| "worked (_ # ls) = worked ls"

definition selected_by :: "bool \<Rightarrow> init_target Funcs \<Rightarrow> 'e queue_event list \<Rightarrow> string \<Rightarrow> bool" where
  "selected_by unset filt ls name \<longleftrightarrow>
     (\<exists>ev. Watched ev \<in> set ls \<and> kind_event ev \<and> admits unset filt ev \<and> event_name ev = name)"

lemma worked_append [simp]: "worked (ls @ ls') = worked ls @ worked ls'"
  by (induction ls rule: worked.induct) simp_all

lemma selected_by_snoc [intro]: "selected_by unset filt ls name \<Longrightarrow> selected_by unset filt (ls @ [l]) name"
  by (auto simp: selected_by_def)

lemma selected_by_new:
  "kind_event ev \<Longrightarrow> admits unset filt ev \<Longrightarrow> selected_by unset filt (ls @ [Watched ev]) (event_name ev)"
  by (auto simp: selected_by_def)

subsection \<open>The worker only takes what was selected\<close>

text \<open>What a read is relied on for: an object of the name that was asked for.\<close>

definition reads_by_name :: "('x, 'e, 'c, 'sch, 'cfg, 'prov, 'm) target_Reconciler \<Rightarrow> bool" where
  "reads_by_name r \<longleftrightarrow>
     (\<forall>name x target x'. tr_GetInitTarget r (tr_localClient r) name x = (Inr target, x') \<longrightarrow> target_name target = name)"

lemma get_target_name: "reads_by_name r \<Longrightarrow> get_target r name w = (Inr target, w') \<Longrightarrow> target_name target = name"
  by (auto simp: get_target_def ext_call_def reads_by_name_def split: prod.splits)

lemma take_request_step:
  "fs_pc s = Idle \<Longrightarrow> take_request r name s = (l, s') \<Longrightarrow> fine_step r s l s'"
  by (auto simp: take_request_def split: prod.splits sum.splits intro: f_read f_unread)

fun pc_target :: "'m worker_pc \<Rightarrow> init_target option" where
  "pc_target Idle = None"
| "pc_target (ReadTarget target) = Some target"
| "pc_target (NotRunning target) = Some target"
| "pc_target (ManagerBuilt target mgr) = Some target"
| "pc_target (LockedFor target) = Some target"

lemma take_request_target:
  assumes "reads_by_name r" "fs_pc s = Idle" "take_request r name s = (l, s')"
  shows "pc_target (fs_pc s') = Some target \<Longrightarrow> target_name target = name" "EvReconcile (Inr target) \<notin> set l"
  using assms by (auto simp: take_request_def split: prod.splits sum.splits dest: get_target_name)

lemma working_target:
  assumes "fine_step r s l s'" "\<not> takes_request s l s'"
  shows "pc_target (fs_pc s') = Some target \<Longrightarrow> pc_target (fs_pc s) = Some target"
    and "EvReconcile (Inr target) \<in> set l \<Longrightarrow> pc_target (fs_pc s) = Some target"
  using assms by (auto elim!: fine_step.cases simp: takes_request_def)

definition selection_inv ::
  "('x, 'e, 'c, 'sch, 'cfg, 'prov, 'm) target_Reconciler \<Rightarrow> bool \<Rightarrow> init_target Funcs \<Rightarrow> ('x, 'e, 'c) agent_world \<Rightarrow>
   'e queue_event list \<Rightarrow> ('x, 'e, 'c, 'm) queue_state \<Rightarrow> bool" where
  "selection_inv r unset filt w ls s \<longleftrightarrow>
     run (fine_step r) (fine_start w) (worked ls) (qs_worker s)
   \<and> (\<forall>name. name \<in> qs_queue s \<or> qs_hand s = Some name \<longrightarrow> selected_by unset filt ls name)
   \<and> (\<forall>target. pc_target (fs_pc (qs_worker s)) = Some target \<or> EvReconcile (Inr target) \<in> set (concat (worked ls)) \<longrightarrow>
        selected_by unset filt ls (target_name target))
   \<and> (\<forall>pre ev post. ls = pre @ Watched ev # post \<and> admits unset filt ev \<longrightarrow>
        event_name ev \<in> qs_queue s \<or> (\<exists>l. Took (event_name ev) l \<in> set post))"

text \<open>No event is lost in a step that leaves the queue as it is, adds to it, or takes a name from it.\<close>

lemma kept_event:
  assumes old: "\<forall>pre ev post. ls = pre @ Watched ev # post \<and> admits unset filt ev \<longrightarrow>
      event_name ev \<in> q \<or> (\<exists>l. Took (event_name ev) l \<in> set post)"
    and keep: "\<And>name. name \<in> q \<Longrightarrow> name \<in> q' \<or> (\<exists>l. e = Took name l)"
    and new: "\<And>ev. e = Watched ev \<Longrightarrow> admits unset filt ev \<Longrightarrow> event_name ev \<in> q'"
  shows "\<forall>pre ev post. ls @ [e] = pre @ Watched ev # post \<and> admits unset filt ev \<longrightarrow>
      event_name ev \<in> q' \<or> (\<exists>l. Took (event_name ev) l \<in> set post)"
proof (intro allI impI)
  fix pre ev post
  assume a: "ls @ [e] = pre @ Watched ev # post \<and> admits unset filt ev"
  show "event_name ev \<in> q' \<or> (\<exists>l. Took (event_name ev) l \<in> set post)"
  proof (cases post rule: rev_cases)
    case Nil
    with a new show ?thesis by simp
  next
    case (snoc post' e')
    with a have "ls = pre @ Watched ev # post'" "e' = e" by simp_all
    with old a keep [of "event_name ev"] snoc show ?thesis by auto
  qed
qed

lemma selection_inv_step:
  assumes reads: "reads_by_name r" and inv: "selection_inv r unset filt w ls s" and step: "queue_step r unset filt s e s'"
  shows "selection_inv r unset filt w (ls @ [e]) s'"
proof -
  from inv have R: "run (fine_step r) (fine_start w) (worked ls) (qs_worker s)"
    and Q: "\<And>name. name \<in> qs_queue s \<or> qs_hand s = Some name \<Longrightarrow> selected_by unset filt ls name"
    and T: "\<And>target. pc_target (fs_pc (qs_worker s)) = Some target \<or> EvReconcile (Inr target) \<in> set (concat (worked ls)) \<Longrightarrow>
        selected_by unset filt ls (target_name target)"
    and K: "\<forall>pre ev post. ls = pre @ Watched ev # post \<and> admits unset filt ev \<longrightarrow>
        event_name ev \<in> qs_queue s \<or> (\<exists>l. Took (event_name ev) l \<in> set post)"
    unfolding selection_inv_def by blast+
  from step show ?thesis
  proof (cases rule: queue_step.cases)
    case (q_admit ev)
    with R Q T show ?thesis
      unfolding selection_inv_def by (intro conjI kept_event [OF K]) (auto simp: selected_by_new)
  next
    case (q_drop ev)
    with R Q T show ?thesis
      unfolding selection_inv_def by (intro conjI kept_event [OF K]) auto
  next
    case (q_take name l f)
    have sel: "selected_by unset filt ls name" using Q q_take by blast
    note f = take_request_step [OF q_take(3,6)] take_request_target [OF reads q_take(3,6)]
    show ?thesis
      unfolding selection_inv_def
    proof (intro conjI kept_event [OF K])
      show "run (fine_step r) (fine_start w) (worked (ls @ [e])) (qs_worker s')"
        using run_step [where step = "fine_step r", OF R f(1)] q_take by simp
    qed (use q_take Q T f(2,3) sel in auto)
  next
    case (q_work l f)
    note f = working_target [OF q_work(3,4)]
    show ?thesis
      unfolding selection_inv_def
    proof (intro conjI kept_event [OF K])
      show "run (fine_step r) (fine_start w) (worked (ls @ [e])) (qs_worker s')"
        using run_step [where step = "fine_step r", OF R q_work(3)] q_work by simp
    qed (use q_work Q T f in auto)
  next
    case (q_finish name res err)
    with R Q T show ?thesis
      unfolding selection_inv_def by (intro conjI kept_event [OF K]) (auto split: if_splits)
  qed
qed

interpretation selection: run_invariant
  "queue_step r unset filt" "\<lambda>s. s = queue_start w" "\<lambda>_. reads_by_name r" "selection_inv r unset filt w"
  for r :: "('x, 'e, 'c, 'sch, 'cfg, 'prov, 'm) target_Reconciler" and unset filt w
proof
  fix s :: "('x, 'e, 'c, 'm) queue_state"
  assume "s = queue_start w"
  then show "selection_inv r unset filt w [] s"
    by (simp add: selection_inv_def queue_start_def fine_start_def run_refl)
qed (auto intro: selection_inv_step)

lemma added_filter_admits:
  "kind_event ev \<Longrightarrow> admits unset (added_filter matches r) ev \<longleftrightarrow>
     list_ex (\<lambda>ob. matches (meta_Labels (it_ObjectMeta ob))) (event_objects ev)"
  by (simp add: added_filter_def Add_def ByLabels_admits kind_event_def)

lemma selected_by_labels:
  assumes "selected_by unset (added_filter matches r) ls name"
  obtains ev ob where "Watched ev \<in> set ls" "ob \<in> set (event_objects ev)" "target_name ob = name"
    "matches (meta_Labels (it_ObjectMeta ob))"
proof -
  from assms obtain ev where ev: "Watched ev \<in> set ls" "kind_event ev" "admits unset (added_filter matches r) ev" "event_name ev = name"
    unfolding selected_by_def by blast
  then obtain ob where "ob \<in> set (event_objects ev)" "matches (meta_Labels (it_ObjectMeta ob))"
    by (auto simp: added_filter_admits list_ex_iff)
  with ev that show thesis by (auto simp: kind_event_def list_all_iff)
qed

subsection \<open>A closed instance\<close>

text \<open>The sample agent on an API server with one target, \<open>t\<close>, without labels; the selector wants one.\<close>

definition selective_sample :: "(sample_server, nat, nat, unit, unit rest_config, unit, unit) target_Reconciler" where
  "selective_sample = wired_sample\<lparr>tr_GetInitTarget := (\<lambda>c name x.
     if name = ''t'' then (Inr sample_init_target, x) else (Inl 3, x))\<rparr>"

definition wants_label :: "(string \<times> string) list \<Rightarrow> bool" where
  "wants_label labels \<longleftrightarrow> map_of labels ''init'' = Some ''yes''"

text \<open>The event by which the target lost its label.\<close>

definition label_removed :: "init_target watch_event" where
  "label_removed = UpdateEvent
     (sample_init_target\<lparr>it_ObjectMeta := (it_ObjectMeta sample_init_target)\<lparr>meta_Labels := [(''init'', ''yes'')]\<rparr>\<rparr>)
     sample_init_target"

lemma label_removed_admitted:
  "kind_event label_removed" "admits unset (added_filter wants_label r) label_removed" "event_name label_removed = ''t''"
  "\<not> wants_label (meta_Labels (it_ObjectMeta sample_init_target))"
proof -
  show k: "kind_event label_removed" "event_name label_removed = ''t''"
    "\<not> wants_label (meta_Labels (it_ObjectMeta sample_init_target))"
    by (simp_all add: kind_event_def label_removed_def sample_init_target_def sample_target_def empty_meta_def wants_label_def)
  show "admits unset (added_filter wants_label r) label_removed"
    by (simp add: added_filter_admits [OF k(1)]) (simp add: label_removed_def wants_label_def)
qed

lemma selective_reads: "reads_by_name selective_sample"
  by (simp add: reads_by_name_def selective_sample_def sample_init_target_def sample_target_def empty_meta_def split: if_split)

lemma selective_build: "\<exists>w'. build_manager selective_sample sample_init_target w = (Inr (), w')"
  by (simp add: build_manager_def selective_sample_def wired_sample_def agent_target_reconciler_def newInitController_registers
      reconcile_defs sample_rl_def sample_tr_def sample_env_def sample_source_env_def Cluster_def sample_init_target_def
      sample_defs)

lemma selective_run:
  "\<exists>ls s. run (queue_step selective_sample unset (added_filter wants_label selective_sample)) (queue_start w)
       (Watched label_removed # ls) s
     \<and> concat (worked ls) = [EvReconcile (Inr sample_init_target)] \<and> fs_tc (qs_worker s) = sample_state"
proof -
  let ?q = "queue_step selective_sample unset (added_filter wants_label selective_sample)"
  let ?s0 = "queue_start w :: (sample_server, nat, nat, unit) queue_state"
  let ?s1 = "?s0\<lparr>qs_queue := {''t''}\<rparr>"
  note named = run_Cons [where step = ?q]
  obtain w1 where get: "get_target selective_sample ''t'' w = (Inr sample_init_target, w1)"
    by (simp add: get_target_def ext_call_def selective_sample_def)
  let ?f2 = "(fine_start w)\<lparr>fs_world := w1, fs_pc := ReadTarget sample_init_target\<rparr>"
  let ?s2 = "\<lparr>qs_worker = ?f2, qs_queue = {}, qs_hand = Some ''t''\<rparr>"
  let ?f3 = "?f2\<lparr>fs_pc := NotRunning sample_init_target\<rparr>"
  obtain w2 where build: "build_manager selective_sample sample_init_target w1 = (Inr (), w2)"
    using selective_build by blast
  let ?f4 = "?f3\<lparr>fs_world := w2, fs_pc := ManagerBuilt sample_init_target ()\<rparr>"
  let ?f5 = "?f4\<lparr>fs_tc := register_manager sample_init_target () tc_init, fs_pc := Idle, fs_returned := Some (empty_result, None)\<rparr>"
  have alive: "\<not> deleting sample_init_target" "getInitTargetKey sample_init_target = ''uid''"
    by (simp_all add: sample_init_target_def sample_target_def empty_meta_def getInitTargetKey_def)
  have 1: "?q ?s0 (Watched label_removed) ?s1"
    using q_admit [OF label_removed_admitted(1,2), of selective_sample unset selective_sample ?s0]
    by (simp add: queue_start_def label_removed_admitted)
  have 2: "?q ?s1 (Took ''t'' []) ?s2"
    using q_take [of ?s1 "''t''" selective_sample "[]" ?f2] get
    by (simp add: queue_start_def fine_start_def take_request_def)
  have 3: "?q ?s2 (Worked []) (?s2\<lparr>qs_worker := ?f3\<rparr>)"
    using q_work [of selective_sample ?s2 "[]" ?f3] f_missing [of ?f2 sample_init_target selective_sample] alive
    by (simp add: takes_request_def fine_start_def tc_init_def)
  have 4: "?q (?s2\<lparr>qs_worker := ?f3\<rparr>) (Worked []) (?s2\<lparr>qs_worker := ?f4\<rparr>)"
    using q_work [of selective_sample "?s2\<lparr>qs_worker := ?f3\<rparr>" "[]" ?f4] f_built [of ?f3 sample_init_target selective_sample "()" w2] build
    by (simp add: takes_request_def fine_start_def)
  have 5: "?q (?s2\<lparr>qs_worker := ?f4\<rparr>) (Worked [EvReconcile (Inr sample_init_target)]) (?s2\<lparr>qs_worker := ?f5\<rparr>)"
    using q_work [of selective_sample "?s2\<lparr>qs_worker := ?f4\<rparr>" "[EvReconcile (Inr sample_init_target)]" ?f5]
      f_register [of ?f4 sample_init_target "()" selective_sample]
    by (simp add: takes_request_def fine_start_def)
  have "fs_tc ?f5 = sample_state" by (simp add: register_manager_eq sample_state_def alive)
  with named [OF 1 named [OF 2 named [OF 3 named [OF 4 run_one [where step = ?q, OF 5]]]]] show ?thesis
    by (intro exI [of _ "[Took ''t'' [], Worked [], Worked [], Worked [EvReconcile (Inr sample_init_target)]]"]
        exI [of _ "?s2\<lparr>qs_worker := ?f5\<rparr>"]) simp
qed

subsection \<open>The property\<close>

text \<open>C14: what the selector of the options promises, in every interleaving of watch events, the queue and the
  controller. A manager runs under a context that nobody cancelled only for a target that was read and has the name of an
  object which matched the selector, in an event that the watch delivered. And no matching event is
  lost: its name waits in the queue until the worker has taken it after the event. It is a promise on names, of one
  event in the past: the labels of the target that was read are not looked at. In the witness
  the event is the one by which the target lost the label, and its manager runs.\<close>

theorem managers_were_selected:
  assumes "run (queue_step r unset (added_filter matches r)) (queue_start w) ls s"
    and "reads_by_name r" and "never_revived (concat (worked ls))"
  shows "(\<forall>i mgr. (i, mgr) \<in> set (managers (fs_tc (qs_worker s))) \<and> ctx_cause (fs_tc (qs_worker s)) i = None \<longrightarrow>
      (\<exists>target ev ob. EvReconcile (Inr target) \<in> set (concat (worked ls)) \<and> wired_manager r target mgr
        \<and> ctrlCancels (fs_tc (qs_worker s)) (getInitTargetKey target) = Some i
        \<and> Watched ev \<in> set ls \<and> ob \<in> set (event_objects ev) \<and> target_name ob = target_name target
        \<and> matches (meta_Labels (it_ObjectMeta ob))))
    \<and> (\<forall>pre ev post. ls = pre @ Watched ev # post \<and> kind_event ev
        \<and> list_ex (\<lambda>ob. matches (meta_Labels (it_ObjectMeta ob))) (event_objects ev) \<longrightarrow>
        event_name ev \<in> qs_queue s \<or> (\<exists>l. Took (event_name ev) l \<in> set post))"
proof -
  have inv: "selection_inv r unset (added_filter matches r) w ls s"
    by (rule selection.inv_run [OF assms(1) refl assms(2)])
  then have R: "run (fine_step r) (fine_start w) (worked ls) (qs_worker s)"
    and T: "\<And>target. EvReconcile (Inr target) \<in> set (concat (worked ls)) \<Longrightarrow>
        selected_by unset (added_filter matches r) ls (target_name target)"
    and K: "\<And>pre ev post. ls = pre @ Watched ev # post \<Longrightarrow> admits unset (added_filter matches r) ev \<Longrightarrow>
        event_name ev \<in> qs_queue s \<or> (\<exists>l. Took (event_name ev) l \<in> set post)"
    unfolding selection_inv_def by blast+
  have "\<exists>target ev ob. EvReconcile (Inr target) \<in> set (concat (worked ls)) \<and> wired_manager r target mgr
        \<and> ctrlCancels (fs_tc (qs_worker s)) (getInitTargetKey target) = Some i
        \<and> Watched ev \<in> set ls \<and> ob \<in> set (event_objects ev) \<and> target_name ob = target_name target
        \<and> matches (meta_Labels (it_ObjectMeta ob))"
    if "(i, mgr) \<in> set (managers (fs_tc (qs_worker s)))" "ctx_cause (fs_tc (qs_worker s)) i = None" for i mgr
    using live_manager_origin [OF R assms(3) that] selected_by_labels [OF T] by metis
  moreover have "event_name ev \<in> qs_queue s \<or> (\<exists>l. Took (event_name ev) l \<in> set post)"
    if "ls = pre @ Watched ev # post" "kind_event ev"
      "list_ex (\<lambda>ob. matches (meta_Labels (it_ObjectMeta ob))) (event_objects ev)" for pre ev post
    using that by (intro K) (simp_all add: added_filter_admits)
  ultimately show ?thesis by blast
qed

theorem managers_were_selected_witness:
  "\<exists>ls s. run (queue_step selective_sample True (added_filter wants_label selective_sample))
        (queue_start (sample_server_with sample_lc [])) (Watched label_removed # ls) s
     \<and> (1, ()) \<in> set (managers (fs_tc (qs_worker s))) \<and> ctx_cause (fs_tc (qs_worker s)) 1 = None
     \<and> \<not> wants_label (meta_Labels (it_ObjectMeta sample_init_target))
     \<and> (\<exists>target. EvReconcile (Inr target) \<in> set (concat (worked (Watched label_removed # ls)))
          \<and> wired_manager selective_sample target () \<and> target = sample_init_target)
     \<and> (\<exists>ev ob. Watched ev \<in> set (Watched label_removed # ls) \<and> ob \<in> set (event_objects ev)
          \<and> target_name ob = ''t'' \<and> wants_label (meta_Labels (it_ObjectMeta ob)))
     \<and> (''t'' \<in> qs_queue s \<or> (\<exists>l. Took ''t'' l \<in> set ls))"
proof -
  obtain ls s where run: "run (queue_step selective_sample True (added_filter wants_label selective_sample))
        (queue_start (sample_server_with sample_lc [])) (Watched label_removed # ls) s"
    "concat (worked ls) = [EvReconcile (Inr sample_init_target)]" "fs_tc (qs_worker s) = sample_state"
    using selective_run by blast
  have st: "(1, ()) \<in> set (managers (fs_tc (qs_worker s)))" "ctx_cause (fs_tc (qs_worker s)) 1 = None"
    by (simp_all add: run(3) sample_state_def started_def tc_init_def)
  have worked: "concat (worked (Watched label_removed # ls)) = [EvReconcile (Inr sample_init_target)]"
    by (simp add: run(2))
  have revived: "never_revived (concat (worked (Watched label_removed # ls)))"
    unfolding worked by (simp add: never_revived_def sample_init_target_def sample_target_def empty_meta_def)
  have name: "target_name sample_init_target = ''t''"
    by (simp add: sample_init_target_def sample_target_def empty_meta_def)
  note P = managers_were_selected [OF run(1) selective_reads revived]
  have "list_ex (\<lambda>ob. wants_label (meta_Labels (it_ObjectMeta ob))) (event_objects label_removed)"
    using label_removed_admitted(2) [of True "selective_sample"]
    by (simp add: added_filter_admits [OF label_removed_admitted(1)])
  with conjunct2 [OF P, rule_format, of "[]" label_removed ls] label_removed_admitted(1)
  have Q: "''t'' \<in> qs_queue s \<or> (\<exists>l. Took ''t'' l \<in> set ls)"
    by (simp add: label_removed_admitted(3))
  from conjunct1 [OF P, rule_format, OF conjI [OF st]] obtain target ev ob where
    t: "EvReconcile (Inr target) \<in> set (concat (worked (Watched label_removed # ls)))" "wired_manager selective_sample target ()"
    "Watched ev \<in> set (Watched label_removed # ls)" "ob \<in> set (event_objects ev)"
    "target_name ob = target_name target" "wants_label (meta_Labels (it_ObjectMeta ob))" by blast
  from t(1) have eq: "target = sample_init_target" unfolding worked by simp
  from t(5) have "target_name ob = ''t''" by (simp add: eq name)
  with run(1) st label_removed_admitted(4) t(1-4,6) eq Q show ?thesis by blast
qed

end
