(* ===== verification/Schemes.thy ===== *)
theory Schemes
  imports Api_Types
begin

text \<open>
  The registration of the API types: \<^verbatim>\<open>init\<close> of \<^verbatim>\<open>sdk/apis/initialization/v1alpha1\<close> and the package variables of
  \<^verbatim>\<open>sdk/clientset/versioned/scheme\<close>, \<^verbatim>\<open>cluster/scheme\<close> and \<^verbatim>\<open>fake\<close>. Schemes are pointers, and codecs keep the
  pointer, so they are of a type \<open>'p\<close> with their contents in a state \<open>'s\<close>. Schemes, builders and codecs are
  apimachinery's, a parameter.
\<close>

text \<open>\<^verbatim>\<open>sl_AddAll\<close> is \<^verbatim>\<open>SchemeBuilder.AddToScheme\<close> of a builder with the given functions, \<^verbatim>\<open>sl_Must\<close> is
  \<^verbatim>\<open>utilruntime.Must\<close>, \<^verbatim>\<open>sl_GlobalScheme\<close> is client-go's \<^verbatim>\<open>scheme.Scheme\<close>.\<close>

record ('s, 'p, 'e, 'codec, 'pcodec) scheme_lib =
  sl_NewScheme :: "'s \<Rightarrow> 'p \<times> 's"
  sl_NewCodecFactory :: "'p \<Rightarrow> 's \<Rightarrow> 'codec \<times> 's"
  sl_NewParameterCodec :: "'p \<Rightarrow> 's \<Rightarrow> 'pcodec \<times> 's"
  sl_AddKnownTypes :: "'p \<Rightarrow> group_version \<Rightarrow> known_type list \<Rightarrow> 's \<Rightarrow> 's"
  sl_AddToGroupVersion :: "'p \<Rightarrow> group_version \<Rightarrow> 's \<Rightarrow> 's"
  sl_AddAll :: "('p \<Rightarrow> 's \<Rightarrow> 'e err option \<times> 's) list \<Rightarrow> 'p \<Rightarrow> 's \<Rightarrow> 'e err option \<times> 's"
  sl_Must :: "'e err option \<Rightarrow> unit outcome"
  sl_GlobalScheme :: 'p

text \<open>\<^verbatim>\<open>v1alpha1.AddToScheme\<close>: a builder with \<^verbatim>\<open>addKnownTypes\<close> alone; and the package's \<^verbatim>\<open>init\<close>.\<close>

definition v1alpha1_AddToScheme ::
  "('s, 'p, 'e, 'codec, 'pcodec) scheme_lib \<Rightarrow> 'p \<Rightarrow> 's \<Rightarrow> 'e err option \<times> 's" where
  "v1alpha1_AddToScheme lib =
     sl_AddAll lib [\<lambda>p. addKnownTypes (sl_AddKnownTypes lib p) (sl_AddToGroupVersion lib p)]"

definition v1alpha1_init :: "('s, 'p, 'e, 'codec, 'pcodec) scheme_lib \<Rightarrow> 's \<Rightarrow> unit outcome \<times> 's" where
  "v1alpha1_init lib s =
     (case v1alpha1_AddToScheme lib (sl_GlobalScheme lib) s of
        (Some err, s') \<Rightarrow> (Panic ''failed to add initialization.kcp.io scheme'', s')
      | (None, s') \<Rightarrow> (Ret (), s'))"

definition versionV1 :: group_version where
  "versionV1 = \<lparr>gv_Group = [], gv_Version = ''v1''\<rparr>"

definition clientset_AddToScheme ::
  "('s, 'p, 'e, 'codec, 'pcodec) scheme_lib \<Rightarrow> 'p \<Rightarrow> 's \<Rightarrow> 'e err option \<times> 's" where
  "clientset_AddToScheme lib = sl_AddAll lib [v1alpha1_AddToScheme lib]"

record ('p, 'codec, 'pcodec) scheme_package =
  sp_Scheme :: 'p
  sp_Codecs :: 'codec
  sp_ParameterCodec :: 'pcodec

text \<open>The package initialization of \<^verbatim>\<open>scheme\<close> and of \<^verbatim>\<open>cluster/scheme\<close>: the variables, then \<^verbatim>\<open>init\<close>.\<close>

definition scheme_init ::
  "('s, 'p, 'e, 'codec, 'pcodec) scheme_lib \<Rightarrow> 's \<Rightarrow> ('p, 'codec, 'pcodec) scheme_package outcome \<times> 's" where
  "scheme_init lib s =
     (case sl_NewScheme lib s of
        (scheme, s1) \<Rightarrow>
          (case sl_NewCodecFactory lib scheme s1 of
             (codecs, s2) \<Rightarrow>
               (case sl_NewParameterCodec lib scheme s2 of
                  (pcodec, s3) \<Rightarrow>
                    (let s4 = sl_AddToGroupVersion lib scheme versionV1 s3
                     in case clientset_AddToScheme lib scheme s4 of
                          (err, s5) \<Rightarrow>
                            (case sl_Must lib err of
                               Ret u \<Rightarrow>
                                 (Ret \<lparr>sp_Scheme = scheme, sp_Codecs = codecs, sp_ParameterCodec = pcodec\<rparr>, s5)
                             | Panic m \<Rightarrow> (Panic m, s5)
                             | Diverges \<Rightarrow> (Diverges, s5))))))"

definition cluster_scheme_init ::
  "('s, 'p, 'e, 'codec, 'pcodec) scheme_lib \<Rightarrow> 's \<Rightarrow> ('p, 'codec, 'pcodec) scheme_package outcome \<times> 's" where
  "cluster_scheme_init lib s =
     (case sl_NewScheme lib s of
        (scheme, s1) \<Rightarrow>
          (case sl_NewCodecFactory lib scheme s1 of
             (codecs, s2) \<Rightarrow>
               (case sl_NewParameterCodec lib scheme s2 of
                  (pcodec, s3) \<Rightarrow>
                    (let s4 = sl_AddToGroupVersion lib scheme versionV1 s3
                     in case clientset_AddToScheme lib scheme s4 of
                          (err, s5) \<Rightarrow>
                            (case sl_Must lib err of
                               Ret u \<Rightarrow>
                                 (Ret \<lparr>sp_Scheme = scheme, sp_Codecs = codecs, sp_ParameterCodec = pcodec\<rparr>, s5)
                             | Panic m \<Rightarrow> (Panic m, s5)
                             | Diverges \<Rightarrow> (Diverges, s5))))))"

text \<open>The same in \<^verbatim>\<open>fake\<close>, which has no parameter codec.\<close>

definition fake_scheme_init ::
  "('s, 'p, 'e, 'codec, 'pcodec) scheme_lib \<Rightarrow> 's \<Rightarrow> ('p \<times> 'codec) outcome \<times> 's" where
  "fake_scheme_init lib s =
     (case sl_NewScheme lib s of
        (scheme, s1) \<Rightarrow>
          (case sl_NewCodecFactory lib scheme s1 of
             (codecs, s2) \<Rightarrow>
               (let s3 = sl_AddToGroupVersion lib scheme versionV1 s2
                in case clientset_AddToScheme lib scheme s3 of
                     (err, s4) \<Rightarrow>
                       (case sl_Must lib err of
                          Ret u \<Rightarrow> (Ret (scheme, codecs), s4)
                        | Panic m \<Rightarrow> (Panic m, s4)
                        | Diverges \<Rightarrow> (Diverges, s4)))))"

subsection \<open>What apimachinery documents\<close>

text \<open>\<open>known s p\<close> are the types registered in the scheme \<open>p\<close>, by group and version.\<close>

fun builder_runs :: "('p \<Rightarrow> 's \<Rightarrow> 'e err option \<times> 's) list \<Rightarrow> 'p \<Rightarrow> 's \<Rightarrow> 'e err option \<times> 's" where
  "builder_runs [] p s = (None, s)"
| "builder_runs (f # fs) p s =
     (case f p s of (Some e, s') \<Rightarrow> (Some e, s') | (None, s') \<Rightarrow> builder_runs fs p s')"

definition scheme_contract ::
  "('s, 'p, 'e, 'codec, 'pcodec) scheme_lib \<Rightarrow> ('s \<Rightarrow> 'p \<Rightarrow> (group_version \<times> known_type) set) \<Rightarrow> bool" where
  "scheme_contract lib known \<longleftrightarrow>
     (\<forall>s. known (snd (sl_NewScheme lib s)) = (known s)(fst (sl_NewScheme lib s) := {}))
   \<and> (\<forall>p s. known (snd (sl_NewCodecFactory lib p s)) = known s)
   \<and> (\<forall>p s. known (snd (sl_NewParameterCodec lib p s)) = known s)
   \<and> (\<forall>p gv ts s. known (sl_AddKnownTypes lib p gv ts s) = (known s)(p := known s p \<union> Pair gv ` set ts))
   \<and> (\<forall>p gv s. known (sl_AddToGroupVersion lib p gv s) = known s)
   \<and> sl_AddAll lib = builder_runs \<and> sl_Must lib None = Ret ()"

definition all_types :: "(group_version \<times> known_type) set" where
  "all_types = Pair SchemeGroupVersion ` {KInitTarget, KInitTargetList, KInitTemplate, KInitTemplateList}"

lemma scheme_contractD:
  assumes "scheme_contract lib known"
  shows "known (snd (sl_NewScheme lib s)) = (known s)(fst (sl_NewScheme lib s) := {})"
    "known (snd (sl_NewCodecFactory lib p s)) = known s" "known (snd (sl_NewParameterCodec lib p s)) = known s"
    "known (sl_AddKnownTypes lib p gv ts s) = (known s)(p := known s p \<union> Pair gv ` set ts)"
    "known (sl_AddToGroupVersion lib p gv s) = known s" "sl_AddAll lib = builder_runs" "sl_Must lib None = Ret ()"
  using assms unfolding scheme_contract_def by blast+

lemma v1alpha1_AddToScheme_known:
  assumes "scheme_contract lib known"
  shows "\<exists>s'. v1alpha1_AddToScheme lib p s = (None, s') \<and> known s' = (known s)(p := known s p \<union> all_types)"
  by (simp add: v1alpha1_AddToScheme_def scheme_contractD [OF assms] addKnownTypes_def Let_def all_types_def)

lemma clientset_AddToScheme_known:
  assumes "scheme_contract lib known"
  shows "\<exists>s'. clientset_AddToScheme lib p s = (None, s') \<and> known s' = (known s)(p := known s p \<union> all_types)"
  using v1alpha1_AddToScheme_known [OF assms, of p s]
  by (auto simp: clientset_AddToScheme_def scheme_contractD [OF assms])

text \<open>The registration of the types: \<^verbatim>\<open>init\<close> of the API package adds them to client-go's scheme, and the three
  packages each make a scheme of their own that knows the four types of the group and version, and nothing else; no
  initialization panics, and no other scheme is touched.\<close>

theorem schemes_know_the_types:
  assumes "scheme_contract lib known"
  shows "(\<exists>s'. v1alpha1_init lib s = (Ret (), s')
        \<and> known s' = (known s)(sl_GlobalScheme lib := known s (sl_GlobalScheme lib) \<union> all_types))
    \<and> (\<exists>pk s'. scheme_init lib s = (Ret pk, s') \<and> known s' = (known s)(sp_Scheme pk := all_types))
    \<and> (\<exists>pk s'. cluster_scheme_init lib s = (Ret pk, s') \<and> known s' = (known s)(sp_Scheme pk := all_types))
    \<and> (\<exists>p codecs s'. fake_scheme_init lib s = (Ret (p, codecs), s') \<and> known s' = (known s)(p := all_types))"
proof (intro conjI)
  note D = scheme_contractD [OF assms]
  show "\<exists>s'. v1alpha1_init lib s = (Ret (), s')
      \<and> known s' = (known s)(sl_GlobalScheme lib := known s (sl_GlobalScheme lib) \<union> all_types)"
    using v1alpha1_AddToScheme_known [OF assms, of "sl_GlobalScheme lib" s] by (auto simp: v1alpha1_init_def)
  obtain p s1 where p: "sl_NewScheme lib s = (p, s1)" by fastforce
  obtain c s2 where c: "sl_NewCodecFactory lib p s1 = (c, s2)" by fastforce
  obtain pc s3 where pc: "sl_NewParameterCodec lib p s2 = (pc, s3)" by fastforce
  have known: "known s1 = (known s)(p := {})" "known s2 = known s1" "known s3 = known s2"
    using D(1) [of s] D(2) [of p s1] D(3) [of p s2] p c pc by simp_all
  obtain s5 where s5: "clientset_AddToScheme lib p (sl_AddToGroupVersion lib p versionV1 s3) = (None, s5)"
    "known s5 = (known s)(p := all_types)"
    using clientset_AddToScheme_known [OF assms, of p "sl_AddToGroupVersion lib p versionV1 s3"] known D(5) by auto
  then show "\<exists>pk s'. scheme_init lib s = (Ret pk, s') \<and> known s' = (known s)(sp_Scheme pk := all_types)"
    "\<exists>pk s'. cluster_scheme_init lib s = (Ret pk, s') \<and> known s' = (known s)(sp_Scheme pk := all_types)"
    by (simp_all add: scheme_init_def cluster_scheme_init_def p c pc D(7))
  obtain s4 where "clientset_AddToScheme lib p (sl_AddToGroupVersion lib p versionV1 s2) = (None, s4)"
    "known s4 = (known s)(p := all_types)"
    using clientset_AddToScheme_known [OF assms, of p "sl_AddToGroupVersion lib p versionV1 s2"] known D(5) by auto
  then show "\<exists>p codecs s'. fake_scheme_init lib s = (Ret (p, codecs), s') \<and> known s' = (known s)(p := all_types)"
    by (simp add: fake_scheme_init_def p c D(7))
qed

text \<open>Schemes as numbers, the types of each in a function.\<close>

definition map_schemes ::
  "((nat \<Rightarrow> (group_version \<times> known_type) set) \<times> nat, nat, unit, nat, nat) scheme_lib" where
  "map_schemes =
     \<lparr>sl_NewScheme = (\<lambda>(f, n). (n, (f(n := {}), Suc n))), sl_NewCodecFactory = Pair, sl_NewParameterCodec = Pair,
      sl_AddKnownTypes = (\<lambda>p gv ts (f, n). (f(p := f p \<union> Pair gv ` set ts), n)),
      sl_AddToGroupVersion = (\<lambda>p gv s. s), sl_AddAll = builder_runs,
      sl_Must = (\<lambda>err. case err of None \<Rightarrow> Ret () | Some e \<Rightarrow> Panic ''must''), sl_GlobalScheme = 0\<rparr>"

theorem schemes_know_the_types_witness:
  "\<exists>pk s'. cluster_scheme_init map_schemes (\<lambda>_. {}, 1) = (Ret pk, s')
     \<and> (SchemeGroupVersion, KInitTemplateList) \<in> fst s' (sp_Scheme pk)"
proof -
  have "scheme_contract map_schemes fst"
    by (simp add: scheme_contract_def map_schemes_def split: prod.split)
  from schemes_know_the_types [OF this, of "(\<lambda>_. {}, 1)"] obtain pk s' where
    "cluster_scheme_init map_schemes (\<lambda>_. {}, 1) = (Ret pk, s')" "fst s' = (\<lambda>_. {})(sp_Scheme pk := all_types)"
    by auto
  then show ?thesis by (auto simp: all_types_def)
qed

end
