(* ===== verification/Go_Context.thy ===== *)
theory Go_Context
  imports Api_Types
begin

text \<open>
  The values the agent stores in a \<^verbatim>\<open>context.Context\<close>: the cluster name and workspace
  path of \<^verbatim>\<open>internal/initialize/context.go\<close> and the logger of
  \<^verbatim>\<open>internal/log/context.go\<close>. Both packages number their keys from 0 with a type
  \<^verbatim>\<open>contextKey\<close> of their own; Go compares keys with their types, so a key is a constructor per
  package around the number. A context is the chain of its \<^verbatim>\<open>WithValue\<close> layers, newest first,
  and \<^verbatim>\<open>Value\<close> finds the newest layer of the key.
\<close>

datatype contextKey = InitializeKey nat | LogKey nat

datatype 'log ctx_value = VName string | VPath string | VLogger 'log

type_synonym 'log go_context = "(contextKey \<times> 'log ctx_value) list"

definition WithValue :: "'log go_context \<Rightarrow> contextKey \<Rightarrow> 'log ctx_value \<Rightarrow> 'log go_context" where
  "WithValue ctx k v = (k, v) # ctx"

definition Value :: "'log go_context \<Rightarrow> contextKey \<Rightarrow> 'log ctx_value option" where
  "Value ctx k = map_of ctx k"

subsection \<open>internal/initialize/context.go\<close>

definition clusterContextKey :: contextKey where
  "clusterContextKey = InitializeKey 0"

definition workspaceContextKey :: contextKey where
  "workspaceContextKey = InitializeKey 1"

definition WithClusterName :: "'log go_context \<Rightarrow> string \<Rightarrow> 'log go_context" where
  "WithClusterName ctx cluster = WithValue ctx clusterContextKey (VName cluster)"

definition ClusterFromContext :: "'log go_context \<Rightarrow> string" where
  "ClusterFromContext ctx =
     (case Value ctx clusterContextKey of Some (VName cluster) \<Rightarrow> cluster | _ \<Rightarrow> [])"

definition WithWorkspacePath :: "'log go_context \<Rightarrow> string \<Rightarrow> 'log go_context" where
  "WithWorkspacePath ctx path = WithValue ctx workspaceContextKey (VPath path)"

text \<open>\<^verbatim>\<open>logicalcluster.None\<close>, the library's empty path, is the first argument.\<close>

definition WorkspacePathFromContext :: "string \<Rightarrow> 'log go_context \<Rightarrow> string" where
  "WorkspacePathFromContext none ctx =
     (case Value ctx workspaceContextKey of Some (VPath path) \<Rightarrow> path | _ \<Rightarrow> none)"

subsection \<open>internal/log/context.go\<close>

definition logContextKey :: contextKey where
  "logContextKey = LogKey 0"

definition WithLog :: "'log go_context \<Rightarrow> 'log \<Rightarrow> 'log go_context" where
  "WithLog ctx log = WithValue ctx logContextKey (VLogger log)"

text \<open>The first argument is \<^verbatim>\<open>zap.NewNop().Sugar()\<close>.\<close>

definition FromContext :: "'log \<Rightarrow> 'log go_context \<Rightarrow> 'log" where
  "FromContext nop ctx =
     (case Value ctx logContextKey of Some (VLogger log) \<Rightarrow> log | _ \<Rightarrow> nop)"

subsection \<open>A typed slot of the context\<close>

text \<open>The three pairs of functions share one contract: a setter and a getter that falls back on a
  default, and setters of other slots that do not disturb it.\<close>

locale context_slot =
  fixes put :: "'log go_context \<Rightarrow> 'v \<Rightarrow> 'log go_context"
    and get :: "'log go_context \<Rightarrow> 'v"
    and key :: contextKey
    and default_value :: 'v
  assumes get_put: "get (put ctx v) = v"
    and get_empty: "get [] = default_value"
    and get_other: "k \<noteq> key \<Longrightarrow> get (WithValue ctx k u) = get ctx"
    and put_layer: "\<exists>u. put ctx v = WithValue ctx key u"
begin

lemma put_put: "get (put (put ctx v) v') = v'"
  by (simp add: get_put)

text \<open>Any number of layers of other keys leaves the slot as it was.\<close>

lemma get_layers: "\<forall>(k, u) \<in> set layers. k \<noteq> key \<Longrightarrow> get (layers @ ctx) = get ctx"
proof (induction layers)
  case (Cons l layers)
  then show ?case
    using get_other [of "fst l" "layers @ ctx" "snd l"] by (cases l) (auto simp: WithValue_def)
qed simp

lemma get_fresh: "\<forall>(k, u) \<in> set layers. k \<noteq> key \<Longrightarrow> get layers = default_value"
  using get_layers [of layers "[]"] get_empty by simp

end

lemmas context_defs = WithValue_def Value_def WithClusterName_def ClusterFromContext_def
  WithWorkspacePath_def WorkspacePathFromContext_def WithLog_def FromContext_def
  clusterContextKey_def workspaceContextKey_def logContextKey_def

interpretation cluster_slot: context_slot WithClusterName ClusterFromContext clusterContextKey "[]"
  by unfold_locales (auto simp: context_defs)

interpretation workspace_slot:
  context_slot WithWorkspacePath "WorkspacePathFromContext none" workspaceContextKey none
  for none
  by unfold_locales (auto simp: context_defs)

interpretation log_slot: context_slot WithLog "FromContext nop" logContextKey nop
  for nop :: 'log
  by unfold_locales (auto simp: context_defs)

text \<open>The context a reconciliation hands down (\<^verbatim>\<open>initcontroller.Reconcile\<close>): cluster, path and
  logger, in that order. All three can be read back.\<close>

definition reconcile_context :: "'log go_context \<Rightarrow> string \<Rightarrow> string \<Rightarrow> 'log \<Rightarrow> 'log go_context" where
  "reconcile_context ctx cluster path log =
     WithLog (WithWorkspacePath (WithClusterName ctx cluster) path) log"

text \<open>The three values a reconciliation puts into its context are read back unchanged by the
  accessors of both packages, although the packages use the same numeric key.\<close>

theorem reconcile_context_roundtrip:
  "ClusterFromContext (reconcile_context ctx cluster path log) = cluster
   \<and> WorkspacePathFromContext none (reconcile_context ctx cluster path log) = path
   \<and> FromContext nop (reconcile_context ctx cluster path log) = log"
  unfolding reconcile_context_def
  by (simp add: context_defs)

end
