(* ===== verification/Go_Heap.thy ===== *)
theory Go_Heap
  imports Prelude
begin

text \<open>
  A heap for code that follows pointers: a list of cells, the address of a cell is its position, and
  allocation appends. Reading a cell at the wrong type cannot happen in Go; here it is \<open>None\<close>. The
  interface of a deep copy function is a locale, and copying a slice of such values is proved
  once for every element type.
\<close>

type_synonym addr = nat

record slice =
  sl_Array :: addr
  sl_Off :: nat
  sl_Len :: nat

definition alloc :: "'c \<Rightarrow> 'c list \<Rightarrow> addr \<times> 'c list" where
  "alloc c h = (length h, h @ [c])"

definition read_cell :: "('c \<Rightarrow> 'a option) \<Rightarrow> 'c list \<Rightarrow> addr \<Rightarrow> 'a option" where
  "read_cell unwrap h a = (if a < length h then unwrap (h ! a) else None)"

definition write_cell :: "'c list \<Rightarrow> addr \<Rightarrow> 'c \<Rightarrow> 'c list" where
  "write_cell h a c = h[a := c]"

text \<open>What a callee may do to a heap: add cells.\<close>

definition heap_extends :: "'c list \<Rightarrow> 'c list \<Rightarrow> bool" where
  "heap_extends h h' \<longleftrightarrow> take (length h) h' = h"

lemma heap_extends_refl [simp, intro]: "heap_extends h h"
  by (simp add: heap_extends_def)

lemma heap_extends_iff: "heap_extends h h' \<longleftrightarrow> (\<exists>d. h' = h @ d)"
  unfolding heap_extends_def by (metis append_take_drop_id append_eq_conv_conj)

lemma heap_extends_trans [trans]: "heap_extends h h' \<Longrightarrow> heap_extends h' h'' \<Longrightarrow> heap_extends h h''"
  by (auto simp: heap_extends_iff)

lemma heap_extends_length: "heap_extends h h' \<Longrightarrow> length h \<le> length h'"
  by (auto simp: heap_extends_iff)

lemma heap_extends_nth: "heap_extends h h' \<Longrightarrow> a < length h \<Longrightarrow> h' ! a = h ! a"
  by (auto simp: heap_extends_iff nth_append)

lemma heap_extends_alloc: "alloc c h = (a, h') \<Longrightarrow> heap_extends h h'"
  by (auto simp: alloc_def heap_extends_iff)

text \<open>Writing above a heap keeps extending it.\<close>

lemma heap_extends_write: "heap_extends h h' \<Longrightarrow> length h \<le> a \<Longrightarrow> heap_extends h (write_cell h' a c)"
  by (simp add: heap_extends_def write_cell_def)

lemma read_cell_extends:
  "read_cell unwrap h a = Some v \<Longrightarrow> heap_extends h h' \<Longrightarrow> read_cell unwrap h' a = Some v"
  using heap_extends_length [of h h'] heap_extends_nth [of h h' a]
  by (auto simp: read_cell_def split: if_splits)

lemma read_cell_bound: "read_cell unwrap h a = Some v \<Longrightarrow> a < length h"
  by (auto simp: read_cell_def split: if_splits)

text \<open>Two heaps agree on some addresses of the first.\<close>

definition agree :: "addr set \<Rightarrow> 'c list \<Rightarrow> 'c list \<Rightarrow> bool" where
  "agree A h h' \<longleftrightarrow> (\<forall>a \<in> A. a < length h' \<and> h' ! a = h ! a)"

lemma agree_extends: "heap_extends h h' \<Longrightarrow> A \<subseteq> {..<length h} \<Longrightarrow> agree A h h'"
  using heap_extends_length [of h h'] heap_extends_nth [of h h'] by (auto simp: agree_def)

lemma agree_read: "agree A h h' \<Longrightarrow> a \<in> A \<Longrightarrow> read_cell unwrap h a = Some v \<Longrightarrow> read_cell unwrap h' a = Some v"
  by (auto simp: agree_def read_cell_def split: if_splits)

lemma agree_subset: "agree A h h' \<Longrightarrow> B \<subseteq> A \<Longrightarrow> agree B h h'"
  by (auto simp: agree_def)

lemma agree_write: "A \<subseteq> {..<length h} \<Longrightarrow> a \<notin> A \<Longrightarrow> agree A h (write_cell h a c)"
  by (auto simp: agree_def write_cell_def) (metis nth_list_update_neq)

subsection \<open>The contract of a deep copy\<close>

text \<open>A value of the struct type \<open>'a\<close> denotes in a heap a value of type \<open>'d\<close>; \<open>ptrs\<close> are the
  addresses it reaches. The denotation depends on these cells only; copying succeeds, only adds cells,
  and gives a value with the same denotation that reaches only new cells.\<close>

locale deep_copyable =
  fixes copy :: "'a \<Rightarrow> 'c list \<Rightarrow> ('a \<times> 'c list) option"
    and den :: "'c list \<Rightarrow> 'a \<Rightarrow> 'd option"
    and ptrs :: "'c list \<Rightarrow> 'a \<Rightarrow> addr set"
  assumes den_bound: "den h v = Some d \<Longrightarrow> ptrs h v \<subseteq> {..<length h}"
    and den_frame: "den h v = Some d \<Longrightarrow> agree (ptrs h v) h h' \<Longrightarrow> den h' v = Some d \<and> ptrs h' v = ptrs h v"
    and copy_spec: "den h v = Some d \<Longrightarrow>
      \<exists>v' h'. copy v h = Some (v', h') \<and> heap_extends h h' \<and> den h' v' = Some d
        \<and> ptrs h' v' \<subseteq> {length h..<length h'}"
begin

lemma den_extends: "den h v = Some d \<Longrightarrow> heap_extends h h' \<Longrightarrow> den h' v = Some d \<and> ptrs h' v = ptrs h v"
  using den_frame agree_extends den_bound by metis

text \<open>The original is what it was, and the copy shares nothing with it.\<close>

lemma copy_disjoint:
  assumes "den h v = Some d" "copy v h = Some (v', h')"
  shows "den h' v = Some d \<and> den h' v' = Some d \<and> ptrs h' v \<inter> ptrs h' v' = {}"
proof -
  from copy_spec [OF assms(1)] assms(2) have c: "heap_extends h h'" "den h' v' = Some d"
    "ptrs h' v' \<subseteq> {length h..<length h'}"
    by auto
  from den_extends [OF assms(1) c(1)] den_bound [OF assms(1)] c show ?thesis
    by (fastforce simp: subset_iff)
qed

end

text \<open>A struct with one field that is copied deeply, the rest by assignment.\<close>

context deep_copyable
begin

lemma field_deep_copyable:
  assumes into: "\<And>v h. into v h = map_option (\<lambda>(f', h'). (put v f', h')) (copy (field v) h)"
    and fden: "\<And>h v. fieldden h v = map_option (build v) (den h (field v))"
    and fptrs: "\<And>h v. fieldptrs h v = ptrs h (field v)"
    and put: "\<And>v f. field (put v f) = f" "\<And>v f d. build (put v f) d = build v d"
  shows "deep_copyable into fieldden fieldptrs"
proof
  fix h v d
  assume "fieldden h v = Some d"
  then obtain e where e: "den h (field v) = Some e" "d = build v e" by (auto simp: fden)
  show "fieldptrs h v \<subseteq> {..<length h}" using den_bound [OF e(1)] by (simp add: fptrs)
  from copy_spec [OF e(1)] obtain f' h' where c: "copy (field v) h = Some (f', h')" "heap_extends h h'"
    "den h' f' = Some e" "ptrs h' f' \<subseteq> {length h..<length h'}" by blast
  then show "\<exists>v' h'. into v h = Some (v', h') \<and> heap_extends h h' \<and> fieldden h' v' = Some d
      \<and> fieldptrs h' v' \<subseteq> {length h..<length h'}"
    by (intro exI [of _ "put v f'"] exI [of _ h']) (simp add: into fden fptrs put e(2))
  fix h2
  assume "agree (fieldptrs h v) h h2"
  with den_frame [OF e(1)] e(2) show "fieldden h2 v = Some d \<and> fieldptrs h2 v = fieldptrs h v"
    by (simp add: fden fptrs)
qed

end

text \<open>A struct without pointers is copied by assignment.\<close>

lemma flat_deep_copyable: "deep_copyable (\<lambda>v h. Some (v, h)) (\<lambda>h v. Some v) (\<lambda>h v. {})"
  by unfold_locales auto

subsection \<open>Pointers: DeepCopy\<close>

text \<open>The generated \<^verbatim>\<open>DeepCopy\<close> of a pointer receiver: nil stays nil, otherwise a new zero
  value is allocated, and \<^verbatim>\<open>DeepCopyInto\<close> fills it.\<close>

definition DeepCopy_ptr ::
  "('a \<Rightarrow> 'c) \<Rightarrow> ('c \<Rightarrow> 'a option) \<Rightarrow> 'a \<Rightarrow> ('a \<Rightarrow> 'c list \<Rightarrow> ('a \<times> 'c list) option) \<Rightarrow>
   addr option \<Rightarrow> 'c list \<Rightarrow> (addr option \<times> 'c list) option" where
  "DeepCopy_ptr wrap unwrap zero DeepCopyInto p h =
     (case p of
        None \<Rightarrow> Some (None, h)
      | Some a \<Rightarrow>
          (case alloc (wrap zero) h of (out, h1) \<Rightarrow>
             (case read_cell unwrap h1 a of
                None \<Rightarrow> None
              | Some v \<Rightarrow>
                  (case DeepCopyInto v h1 of
                     None \<Rightarrow> None
                   | Some (v', h2) \<Rightarrow> Some (Some out, write_cell h2 out (wrap v'))))))"

definition den_ptr :: "('c \<Rightarrow> 'a option) \<Rightarrow> ('c list \<Rightarrow> 'a \<Rightarrow> 'd option) \<Rightarrow> 'c list \<Rightarrow> addr option \<Rightarrow> 'd option option" where
  "den_ptr unwrap den h p =
     (case p of
        None \<Rightarrow> Some None
      | Some a \<Rightarrow> (case read_cell unwrap h a of None \<Rightarrow> None | Some v \<Rightarrow> map_option Some (den h v)))"

definition ptrs_ptr :: "('c \<Rightarrow> 'a option) \<Rightarrow> ('c list \<Rightarrow> 'a \<Rightarrow> addr set) \<Rightarrow> 'c list \<Rightarrow> addr option \<Rightarrow> addr set" where
  "ptrs_ptr unwrap ptrs h p =
     (case p of
        None \<Rightarrow> {}
      | Some a \<Rightarrow> insert a (case read_cell unwrap h a of None \<Rightarrow> {} | Some v \<Rightarrow> ptrs h v))"

text \<open>A cell type: values of type \<open>'a\<close> are stored in cells by \<open>wrap\<close>.\<close>

locale cell_type =
  fixes wrap :: "'a \<Rightarrow> 'c" and unwrap :: "'c \<Rightarrow> 'a option"
  assumes unwrap_wrap [simp]: "unwrap (wrap v) = Some v"

locale pointer_copy = deep_copyable copy den ptrs + cell_type wrap unwrap
  for copy :: "'a \<Rightarrow> 'c list \<Rightarrow> ('a \<times> 'c list) option" and den :: "'c list \<Rightarrow> 'a \<Rightarrow> 'd option"
    and ptrs and wrap :: "'a \<Rightarrow> 'c" and unwrap
begin

lemma pointer_spec:
  assumes "read_cell unwrap h a = Some v" "den h v = Some d"
  shows "\<exists>h'. DeepCopy_ptr wrap unwrap zero copy (Some a) h = Some (Some (length h), h') \<and> heap_extends h h'
    \<and> den_ptr unwrap den h' (Some (length h)) = Some (Some d)
    \<and> ptrs_ptr unwrap ptrs h' (Some (length h)) \<subseteq> {length h..<length h'}"
proof -
  define h1 where "h1 = h @ [wrap zero]"
  have al: "alloc (wrap zero) h = (length h, h1)" by (simp add: alloc_def h1_def)
  have ext1: "heap_extends h h1" by (rule heap_extends_alloc [OF al])
  have rd: "read_cell unwrap h1 a = Some v" by (rule read_cell_extends [OF assms(1) ext1])
  have "den h1 v = Some d" using den_extends [OF assms(2) ext1] by blast
  from copy_spec [OF this] obtain v' h2 where c: "copy v h1 = Some (v', h2)" "heap_extends h1 h2"
    "den h2 v' = Some d" "ptrs h2 v' \<subseteq> {length h1..<length h2}" by blast
  have len: "length h < length h2" using heap_extends_length [OF c(2)] by (simp add: h1_def)
  let ?h3 = "write_cell h2 (length h) (wrap v')"
  have fr: "den ?h3 v' = Some d \<and> ptrs ?h3 v' = ptrs h2 v'"
    by (rule den_frame [OF c(3) agree_write]) (use c(4) in \<open>auto simp: h1_def\<close>)
  have rd3: "read_cell unwrap ?h3 (length h) = Some v'"
    using len by (simp add: read_cell_def write_cell_def)
  have "heap_extends h ?h3"
    using heap_extends_write [OF heap_extends_trans [OF ext1 c(2)]] by simp
  moreover have "DeepCopy_ptr wrap unwrap zero copy (Some a) h = Some (Some (length h), ?h3)"
    by (simp add: DeepCopy_ptr_def al rd c(1))
  ultimately show ?thesis
    using fr rd3 c(4) len by (auto simp: den_ptr_def ptrs_ptr_def h1_def write_cell_def)
qed

text \<open>The pointer version satisfies the same contract.\<close>

lemma pointer_deep_copyable:
  "deep_copyable (DeepCopy_ptr wrap unwrap zero copy) (den_ptr unwrap den) (ptrs_ptr unwrap ptrs)"
proof
  fix h p d
  assume d: "den_ptr unwrap den h p = Some d"
  show "ptrs_ptr unwrap ptrs h p \<subseteq> {..<length h}"
    using d den_bound by (fastforce simp: den_ptr_def ptrs_ptr_def dest: read_cell_bound split: option.splits)
  show "\<exists>v' h'. DeepCopy_ptr wrap unwrap zero copy p h = Some (v', h') \<and> heap_extends h h'
      \<and> den_ptr unwrap den h' v' = Some d \<and> ptrs_ptr unwrap ptrs h' v' \<subseteq> {length h..<length h'}"
  proof (cases p)
    case None
    with d show ?thesis by (simp add: DeepCopy_ptr_def den_ptr_def ptrs_ptr_def)
  next
    case (Some a)
    with d obtain v d' where "read_cell unwrap h a = Some v" "den h v = Some d'" "d = Some d'"
      by (auto simp: den_ptr_def split: option.splits)
    with Some show ?thesis using pointer_spec [of h a v d' zero] by auto
  qed
next
  fix h p d h'
  assume d: "den_ptr unwrap den h p = Some d" and ag: "agree (ptrs_ptr unwrap ptrs h p) h h'"
  show "den_ptr unwrap den h' p = Some d \<and> ptrs_ptr unwrap ptrs h' p = ptrs_ptr unwrap ptrs h p"
  proof (cases p)
    case None
    with d show ?thesis by (simp add: den_ptr_def ptrs_ptr_def)
  next
    case (Some a)
    with d obtain v d' where v: "read_cell unwrap h a = Some v" "den h v = Some d'" "d = Some d'"
      by (auto simp: den_ptr_def split: option.splits)
    have "ptrs_ptr unwrap ptrs h p = insert a (ptrs h v)" using Some v(1) by (simp add: ptrs_ptr_def)
    with ag have "read_cell unwrap h' a = Some v" "agree (ptrs h v) h h'"
      using agree_read [OF _ _ v(1)] by (auto intro: agree_subset)
    with v Some den_frame [OF v(2)] show ?thesis by (simp add: den_ptr_def ptrs_ptr_def)
  qed
qed

end

subsection \<open>Slices\<close>

text \<open>The generated loop: a new array of zero values is made, and every element of the original, read
  again in each round, is copied into its place. A nil slice stays nil.\<close>

definition read_slice :: "('c \<Rightarrow> 'a list option) \<Rightarrow> 'c list \<Rightarrow> slice \<Rightarrow> 'a list option" where
  "read_slice unwrap h s =
     (case read_cell unwrap h (sl_Array s) of
        None \<Rightarrow> None
      | Some xs \<Rightarrow>
          if sl_Off s + sl_Len s \<le> length xs then Some (take (sl_Len s) (drop (sl_Off s) xs)) else None)"

text \<open>Indices \<open>i\<close> to \<open>i + n - 1\<close> of the slice \<open>s\<close> into the array at \<open>out\<close>.\<close>

fun copy_elems ::
  "('a list \<Rightarrow> 'c) \<Rightarrow> ('c \<Rightarrow> 'a list option) \<Rightarrow> ('a \<Rightarrow> 'c list \<Rightarrow> ('a \<times> 'c list) option) \<Rightarrow>
   slice \<Rightarrow> addr \<Rightarrow> nat \<Rightarrow> nat \<Rightarrow> 'c list \<Rightarrow> 'c list option" where
  "copy_elems wrap unwrap copy s out i 0 h = Some h"
| "copy_elems wrap unwrap copy s out i (Suc n) h =
     (case read_slice unwrap h s of
        None \<Rightarrow> None
      | Some xs \<Rightarrow>
          (case copy (xs ! i) h of
             None \<Rightarrow> None
           | Some (v', h1) \<Rightarrow>
               (case read_cell unwrap h1 out of
                  None \<Rightarrow> None
                | Some ys \<Rightarrow>
                    copy_elems wrap unwrap copy s out (Suc i) n (write_cell h1 out (wrap (ys[i := v']))))))"

definition copy_slice ::
  "('a list \<Rightarrow> 'c) \<Rightarrow> ('c \<Rightarrow> 'a list option) \<Rightarrow> 'a \<Rightarrow> ('a \<Rightarrow> 'c list \<Rightarrow> ('a \<times> 'c list) option) \<Rightarrow>
   slice option \<Rightarrow> 'c list \<Rightarrow> (slice option \<times> 'c list) option" where
  "copy_slice wrap unwrap zero copy s h =
     (case s of
        None \<Rightarrow> Some (None, h)
      | Some sl \<Rightarrow>
          (case alloc (wrap (replicate (sl_Len sl) zero)) h of (out, h1) \<Rightarrow>
             (case copy_elems wrap unwrap copy sl out 0 (sl_Len sl) h1 of
                None \<Rightarrow> None
              | Some h2 \<Rightarrow> Some (Some \<lparr>sl_Array = out, sl_Off = 0, sl_Len = sl_Len sl\<rparr>, h2))))"

fun den_list :: "('c list \<Rightarrow> 'a \<Rightarrow> 'd option) \<Rightarrow> 'c list \<Rightarrow> 'a list \<Rightarrow> 'd list option" where
  "den_list den h [] = Some []"
| "den_list den h (v # vs) =
     (case den h v of
        None \<Rightarrow> None
      | Some d \<Rightarrow> map_option (\<lambda>ds. d # ds) (den_list den h vs))"

lemma den_list_iff: "den_list den h vs = Some ds \<longleftrightarrow> list_all2 (\<lambda>v d. den h v = Some d) vs ds"
  by (induction vs arbitrary: ds) (auto simp: list_all2_Cons1 split: option.splits)

definition den_slice ::
  "('c \<Rightarrow> 'a list option) \<Rightarrow> ('c list \<Rightarrow> 'a \<Rightarrow> 'd option) \<Rightarrow> 'c list \<Rightarrow> slice option \<Rightarrow> 'd list option option" where
  "den_slice unwrap den h s =
     (case s of
        None \<Rightarrow> Some None
      | Some sl \<Rightarrow>
          (case read_slice unwrap h sl of
             None \<Rightarrow> None
           | Some xs \<Rightarrow> map_option Some (den_list den h xs)))"

definition ptrs_slice ::
  "('c \<Rightarrow> 'a list option) \<Rightarrow> ('c list \<Rightarrow> 'a \<Rightarrow> addr set) \<Rightarrow> 'c list \<Rightarrow> slice option \<Rightarrow> addr set" where
  "ptrs_slice unwrap ptrs h s =
     (case s of
        None \<Rightarrow> {}
      | Some sl \<Rightarrow> insert (sl_Array sl)
          (case read_slice unwrap h sl of None \<Rightarrow> {} | Some xs \<Rightarrow> (\<Union>v \<in> set xs. ptrs h v)))"

lemma read_slice_agree:
  "agree A h h' \<Longrightarrow> sl_Array s \<in> A \<Longrightarrow> read_slice unwrap h s = Some xs \<Longrightarrow> read_slice unwrap h' s = Some xs"
  unfolding read_slice_def
  by (cases "read_cell unwrap h (sl_Array s)") (auto dest: agree_read)

lemma read_slice_bound: "read_slice unwrap h s = Some xs \<Longrightarrow> sl_Array s < length h \<and> length xs = sl_Len s"
  unfolding read_slice_def
  by (cases "read_cell unwrap h (sl_Array s)") (auto dest: read_cell_bound split: if_splits)

locale slice_copy = deep_copyable copy den ptrs + cell_type wrap unwrap
  for copy :: "'a \<Rightarrow> 'c list \<Rightarrow> ('a \<times> 'c list) option" and den :: "'c list \<Rightarrow> 'a \<Rightarrow> 'd option"
    and ptrs and wrap :: "'a list \<Rightarrow> 'c" and unwrap
begin

lemma den_list_frame:
  assumes "den_list den h vs = Some ds" "agree (\<Union>v \<in> set vs. ptrs h v) h h'"
  shows "den_list den h' vs = Some ds \<and> (\<forall>v \<in> set vs. ptrs h' v = ptrs h v)"
  using assms
proof (induction vs arbitrary: ds)
  case (Cons v vs)
  then obtain d ds' where d: "den h v = Some d" "den_list den h vs = Some ds'" "ds = d # ds'"
    by (auto split: option.splits)
  have "agree (ptrs h v) h h'" "agree (\<Union>v \<in> set vs. ptrs h v) h h'"
    using Cons.prems(2) by (auto intro: agree_subset)
  with den_frame [OF d(1)] Cons.IH [OF d(2)] d show ?case by simp
qed simp

lemma den_list_bound: "den_list den h vs = Some ds \<Longrightarrow> v \<in> set vs \<Longrightarrow> ptrs h v \<subseteq> {..<length h}"
  by (induction vs arbitrary: ds) (auto dest: den_bound split: option.splits)

text \<open>The loop invariant: \<open>h0\<close> is the heap before the array was made, at \<open>out\<close>; the first \<open>i\<close>
  elements of the array denote the first elements of the original and reach only cells above the array.\<close>

definition copied :: "'c list \<Rightarrow> slice \<Rightarrow> 'd list \<Rightarrow> nat \<Rightarrow> 'c list \<Rightarrow> bool" where
  "copied h0 s ds i h \<longleftrightarrow>
     heap_extends h0 h \<and> length h0 < length h
   \<and> (\<exists>ys. read_cell unwrap h (length h0) = Some ys \<and> length ys = sl_Len s
        \<and> den_list den h (take i ys) = Some (take i ds)
        \<and> (\<forall>v \<in> set (take i ys). ptrs h v \<subseteq> {length h0<..<length h}))"

lemma copied_step:
  assumes src: "read_slice unwrap h0 s = Some xs" "den_list den h0 xs = Some ds"
    and cp: "copied h0 s ds i h" and i: "i < sl_Len s"
  shows "\<exists>v' h1 ys. read_slice unwrap h s = Some xs \<and> copy (xs ! i) h = Some (v', h1)
     \<and> read_cell unwrap h1 (length h0) = Some ys
     \<and> copied h0 s ds (Suc i) (write_cell h1 (length h0) (wrap (ys[i := v'])))"
proof -
  from cp obtain ys where ys: "heap_extends h0 h" "length h0 < length h"
    "read_cell unwrap h (length h0) = Some ys" "length ys = sl_Len s"
    "den_list den h (take i ys) = Some (take i ds)"
    "\<forall>v \<in> set (take i ys). ptrs h v \<subseteq> {length h0<..<length h}"
    by (auto simp: copied_def)
  have len: "length xs = sl_Len s" "length ds = sl_Len s"
    using read_slice_bound [OF src(1)] src(2) by (auto simp: den_list_iff dest: list_all2_lengthD)
  have rs: "read_slice unwrap h s = Some xs"
    using read_slice_agree [OF agree_extends [OF ys(1) subset_refl] _ src(1)] read_slice_bound [OF src(1)] by simp
  have "den h0 (xs ! i) = Some (ds ! i)"
    using src(2) i len by (simp add: den_list_iff list_all2_conv_all_nth)
  then have "den h (xs ! i) = Some (ds ! i)" using den_extends [OF _ ys(1)] by blast
  from copy_spec [OF this] obtain v' h1 where c: "copy (xs ! i) h = Some (v', h1)" "heap_extends h h1"
    "den h1 v' = Some (ds ! i)" "ptrs h1 v' \<subseteq> {length h..<length h1}" by blast
  have rd: "read_cell unwrap h1 (length h0) = Some ys" by (rule read_cell_extends [OF ys(3) c(2)])
  let ?h2 = "write_cell h1 (length h0) (wrap (ys[i := v']))"
  have l1: "length h \<le> length h1" by (rule heap_extends_length [OF c(2)])
  have ag1: "agree (\<Union>v \<in> set (take i ys). ptrs h v) h ?h2"
    using ys(6) l1 heap_extends_nth [OF c(2)] by (fastforce simp: agree_def write_cell_def nth_list_update)
  have old: "den_list den ?h2 (take i ys) = Some (take i ds)" "\<forall>v \<in> set (take i ys). ptrs ?h2 v = ptrs h v"
    using den_list_frame [OF ys(5) ag1] by auto
  have new: "den ?h2 v' = Some (ds ! i) \<and> ptrs ?h2 v' = ptrs h1 v'"
    by (rule den_frame [OF c(3) agree_write]) (use c(4) ys(2) in auto)
  have tk: "take (Suc i) (ys[i := v']) = take i ys @ [v']" "take (Suc i) ds = take i ds @ [ds ! i]"
    using i ys(4) len by (simp_all add: take_Suc_conv_app_nth)
  have "den_list den ?h2 (take (Suc i) (ys[i := v'])) = Some (take (Suc i) ds)"
    using old(1) new unfolding tk by (auto simp: den_list_iff intro: list_all2_appendI)
  moreover have "\<forall>v \<in> set (take (Suc i) (ys[i := v'])). ptrs ?h2 v \<subseteq> {length h0<..<length ?h2}"
    using old(2) new ys(2,6) c(4) l1 unfolding tk by (fastforce simp: write_cell_def subset_iff)
  moreover have "read_cell unwrap ?h2 (length h0) = Some (ys[i := v'])"
    using ys(2) l1 by (simp add: read_cell_def write_cell_def)
  moreover have "heap_extends h0 ?h2"
    using heap_extends_write [OF heap_extends_trans [OF ys(1) c(2)]] by simp
  ultimately have "copied h0 s ds (Suc i) ?h2"
    using ys(2,4) l1 by (auto simp: copied_def write_cell_def)
  with rs c(1) rd show ?thesis by blast
qed

lemma copy_elems_spec:
  assumes "read_slice unwrap h0 s = Some xs" "den_list den h0 xs = Some ds"
  shows "copied h0 s ds i h \<Longrightarrow> i + n = sl_Len s \<Longrightarrow>
    \<exists>h'. copy_elems wrap unwrap copy s (length h0) i n h = Some h' \<and> copied h0 s ds (sl_Len s) h'"
proof (induction n arbitrary: i h)
  case (Suc n)
  from copied_step [OF assms Suc.prems(1)] Suc.prems(2) obtain v' h1 ys where
    s: "read_slice unwrap h s = Some xs" "copy (xs ! i) h = Some (v', h1)" "read_cell unwrap h1 (length h0) = Some ys"
    "copied h0 s ds (Suc i) (write_cell h1 (length h0) (wrap (ys[i := v'])))"
    by auto
  from Suc.IH [OF s(4)] Suc.prems(2) s(1-3) show ?case by simp
qed simp

lemma copy_slice_Some:
  assumes "read_slice unwrap h s = Some xs" "den_list den h xs = Some ds"
  shows "\<exists>s' h'. copy_slice wrap unwrap zero copy (Some s) h = Some (Some s', h') \<and> heap_extends h h'
    \<and> den_slice unwrap den h' (Some s') = Some (Some ds)
    \<and> ptrs_slice unwrap ptrs h' (Some s') \<subseteq> {length h..<length h'}"
proof -
  let ?h1 = "h @ [wrap (replicate (sl_Len s) zero)]"
  have "copied h s ds 0 ?h1"
    by (auto simp: copied_def heap_extends_iff read_cell_def)
  from copy_elems_spec [OF assms this, of "sl_Len s"] obtain h' where
    e: "copy_elems wrap unwrap copy s (length h) 0 (sl_Len s) ?h1 = Some h'" "copied h s ds (sl_Len s) h'"
    by auto
  let ?s' = "\<lparr>sl_Array = length h, sl_Off = 0, sl_Len = sl_Len s\<rparr>"
  have "copy_slice wrap unwrap zero copy (Some s) h = Some (Some ?s', h')"
    using e(1) by (simp add: copy_slice_def alloc_def)
  moreover have "length ds = sl_Len s"
    using read_slice_bound [OF assms(1)] assms(2) by (auto simp: den_list_iff dest: list_all2_lengthD)
  ultimately show ?thesis
    using e(2) by (intro exI [of _ ?s'] exI [of _ h'])
      (fastforce simp: copied_def den_slice_def ptrs_slice_def read_slice_def)
qed

lemma slice_deep_copyable:
  "deep_copyable (copy_slice wrap unwrap zero copy) (den_slice unwrap den) (ptrs_slice unwrap ptrs)"
proof
  fix h s d
  assume d: "den_slice unwrap den h s = Some d"
  show "ptrs_slice unwrap ptrs h s \<subseteq> {..<length h}"
  proof (cases s)
    case (Some sl)
    with d obtain xs ds where "read_slice unwrap h sl = Some xs" "den_list den h xs = Some ds"
      by (auto simp: den_slice_def split: option.splits)
    with Some den_list_bound read_slice_bound show ?thesis by (fastforce simp: ptrs_slice_def)
  qed (simp add: ptrs_slice_def)
  show "\<exists>s' h'. copy_slice wrap unwrap zero copy s h = Some (s', h') \<and> heap_extends h h'
      \<and> den_slice unwrap den h' s' = Some d \<and> ptrs_slice unwrap ptrs h' s' \<subseteq> {length h..<length h'}"
  proof (cases s)
    case None
    with d show ?thesis by (simp add: copy_slice_def den_slice_def ptrs_slice_def)
  next
    case (Some sl)
    with d obtain xs ds where "read_slice unwrap h sl = Some xs" "den_list den h xs = Some ds" "d = Some ds"
      by (auto simp: den_slice_def split: option.splits)
    with Some copy_slice_Some [of h sl xs ds zero] show ?thesis by blast
  qed
next
  fix h s d h'
  assume d: "den_slice unwrap den h s = Some d" and ag: "agree (ptrs_slice unwrap ptrs h s) h h'"
  show "den_slice unwrap den h' s = Some d \<and> ptrs_slice unwrap ptrs h' s = ptrs_slice unwrap ptrs h s"
  proof (cases s)
    case None
    with d show ?thesis by (simp add: den_slice_def ptrs_slice_def)
  next
    case (Some sl)
    with d obtain xs ds where xs: "read_slice unwrap h sl = Some xs" "den_list den h xs = Some ds" "d = Some ds"
      by (auto simp: den_slice_def split: option.splits)
    have "ptrs_slice unwrap ptrs h s = insert (sl_Array sl) (\<Union>v \<in> set xs. ptrs h v)"
      using Some xs(1) by (simp add: ptrs_slice_def)
    with ag have "read_slice unwrap h' sl = Some xs" "agree (\<Union>v \<in> set xs. ptrs h v) h h'"
      using read_slice_agree [OF _ _ xs(1)] by (auto intro: agree_subset)
    with xs Some den_list_frame [OF xs(2)] show ?thesis by (simp add: den_slice_def ptrs_slice_def)
  qed
qed

end

end
