(* ===== verification/Deep_Copy.thy ===== *)
theory Deep_Copy
  imports Go_Heap Api_Types
begin

text \<open>
  \<^verbatim>\<open>sdk/apis/initialization/v1alpha1/zz_generated.deepcopy.go\<close>: deep copies of the API types, on
  a heap with one kind of cell for every type that is pointed to and for every array of a slice. The structs
  are those of \<open>Api_Types\<close> with an address for the pointer and a slice for the slice. Object and
  list metadata are copied by the library's own functions, the arguments \<open>meta_copy\<close> and
  \<open>list_copy\<close>; in this model metadata is a value, and that the library copies it is
  the hypothesis that these functions return what they are given.
\<close>

subsection \<open>Cells\<close>

type_synonym h_InitSource = "addr InitSource"
type_synonym h_InitTargetSpec = "slice option InitTargetSpec"
type_synonym h_InitTarget = "slice option InitTarget"
type_synonym h_InitTargetList = "slice option InitTargetList"
type_synonym h_InitTemplateList = "slice option InitTemplateList"

datatype cell =
    CTemplateInitSource TemplateInitSource
  | CWorkspaceTypeReference WorkspaceTypeReference
  | CInitTemplateSpec InitTemplateSpec
  | CInitSource h_InitSource
  | CInitTargetSpec h_InitTargetSpec
  | CInitTarget h_InitTarget
  | CInitTargetList h_InitTargetList
  | CInitTemplate InitTemplate
  | CInitTemplateList h_InitTemplateList
  | CInitSources "h_InitSource list"
  | CInitTargets "h_InitTarget list"
  | CInitTemplates "InitTemplate list"

definition get_TemplateInitSource :: "cell \<Rightarrow> TemplateInitSource option" where
  "get_TemplateInitSource c = (case c of CTemplateInitSource v \<Rightarrow> Some v | _ \<Rightarrow> None)"

definition get_WorkspaceTypeReference :: "cell \<Rightarrow> WorkspaceTypeReference option" where
  "get_WorkspaceTypeReference c = (case c of CWorkspaceTypeReference v \<Rightarrow> Some v | _ \<Rightarrow> None)"

definition get_InitTemplateSpec :: "cell \<Rightarrow> InitTemplateSpec option" where
  "get_InitTemplateSpec c = (case c of CInitTemplateSpec v \<Rightarrow> Some v | _ \<Rightarrow> None)"

definition get_InitSource :: "cell \<Rightarrow> h_InitSource option" where
  "get_InitSource c = (case c of CInitSource v \<Rightarrow> Some v | _ \<Rightarrow> None)"

definition get_InitTargetSpec :: "cell \<Rightarrow> h_InitTargetSpec option" where
  "get_InitTargetSpec c = (case c of CInitTargetSpec v \<Rightarrow> Some v | _ \<Rightarrow> None)"

definition get_InitTarget :: "cell \<Rightarrow> h_InitTarget option" where
  "get_InitTarget c = (case c of CInitTarget v \<Rightarrow> Some v | _ \<Rightarrow> None)"

definition get_InitTargetList :: "cell \<Rightarrow> h_InitTargetList option" where
  "get_InitTargetList c = (case c of CInitTargetList v \<Rightarrow> Some v | _ \<Rightarrow> None)"

definition get_InitTemplate :: "cell \<Rightarrow> InitTemplate option" where
  "get_InitTemplate c = (case c of CInitTemplate v \<Rightarrow> Some v | _ \<Rightarrow> None)"

definition get_InitTemplateList :: "cell \<Rightarrow> h_InitTemplateList option" where
  "get_InitTemplateList c = (case c of CInitTemplateList v \<Rightarrow> Some v | _ \<Rightarrow> None)"

definition get_InitSources :: "cell \<Rightarrow> (h_InitSource list) option" where
  "get_InitSources c = (case c of CInitSources v \<Rightarrow> Some v | _ \<Rightarrow> None)"

definition get_InitTargets :: "cell \<Rightarrow> (h_InitTarget list) option" where
  "get_InitTargets c = (case c of CInitTargets v \<Rightarrow> Some v | _ \<Rightarrow> None)"

definition get_InitTemplates :: "cell \<Rightarrow> (InitTemplate list) option" where
  "get_InitTemplates c = (case c of CInitTemplates v \<Rightarrow> Some v | _ \<Rightarrow> None)"

lemmas get_defs = get_TemplateInitSource_def get_WorkspaceTypeReference_def get_InitTemplateSpec_def get_InitSource_def get_InitTargetSpec_def get_InitTarget_def get_InitTargetList_def get_InitTemplate_def get_InitTemplateList_def get_InitSources_def get_InitTargets_def get_InitTemplates_def

interpretation cell_TemplateInitSource: cell_type CTemplateInitSource get_TemplateInitSource
  by unfold_locales (simp add: get_TemplateInitSource_def)

interpretation cell_WorkspaceTypeReference: cell_type CWorkspaceTypeReference get_WorkspaceTypeReference
  by unfold_locales (simp add: get_WorkspaceTypeReference_def)

interpretation cell_InitTemplateSpec: cell_type CInitTemplateSpec get_InitTemplateSpec
  by unfold_locales (simp add: get_InitTemplateSpec_def)

interpretation cell_InitSource: cell_type CInitSource get_InitSource
  by unfold_locales (simp add: get_InitSource_def)

interpretation cell_InitTargetSpec: cell_type CInitTargetSpec get_InitTargetSpec
  by unfold_locales (simp add: get_InitTargetSpec_def)

interpretation cell_InitTarget: cell_type CInitTarget get_InitTarget
  by unfold_locales (simp add: get_InitTarget_def)

interpretation cell_InitTargetList: cell_type CInitTargetList get_InitTargetList
  by unfold_locales (simp add: get_InitTargetList_def)

interpretation cell_InitTemplate: cell_type CInitTemplate get_InitTemplate
  by unfold_locales (simp add: get_InitTemplate_def)

interpretation cell_InitTemplateList: cell_type CInitTemplateList get_InitTemplateList
  by unfold_locales (simp add: get_InitTemplateList_def)

interpretation cell_InitSources: cell_type CInitSources get_InitSources
  by unfold_locales (simp add: get_InitSources_def)

interpretation cell_InitTargets: cell_type CInitTargets get_InitTargets
  by unfold_locales (simp add: get_InitTargets_def)

interpretation cell_InitTemplates: cell_type CInitTemplates get_InitTemplates
  by unfold_locales (simp add: get_InitTemplates_def)

subsection \<open>Zero values\<close>

definition zero_type_meta :: type_meta where
  "zero_type_meta = \<lparr>tm_Kind = [], tm_APIVersion = []\<rparr>"

definition zero_TemplateInitSource :: TemplateInitSource where
  "zero_TemplateInitSource = \<lparr>tis_Name = []\<rparr>"

definition zero_WorkspaceTypeReference :: WorkspaceTypeReference where
  "zero_WorkspaceTypeReference = \<lparr>wtr_Path = [], wtr_Name = []\<rparr>"

definition zero_InitTemplateSpec :: InitTemplateSpec where
  "zero_InitTemplateSpec = \<lparr>tpl_Template = []\<rparr>"

definition zero_InitSource :: h_InitSource where
  "zero_InitSource = \<lparr>src_Template = None\<rparr>"

definition zero_InitTargetSpec :: h_InitTargetSpec where
  "zero_InitTargetSpec = \<lparr>its_WorkspaceTypeReference = zero_WorkspaceTypeReference, its_Sources = None\<rparr>"

definition zero_InitTarget :: h_InitTarget where
  "zero_InitTarget = \<lparr>it_TypeMeta = zero_type_meta, it_ObjectMeta = empty_meta, it_Spec = zero_InitTargetSpec\<rparr>"

definition zero_InitTargetList :: h_InitTargetList where
  "zero_InitTargetList = \<lparr>itl_TypeMeta = zero_type_meta, itl_ListMeta = [], itl_Items = None\<rparr>"

definition zero_InitTemplate :: InitTemplate where
  "zero_InitTemplate = \<lparr>itp_TypeMeta = zero_type_meta, itp_ObjectMeta = empty_meta, itp_Spec = zero_InitTemplateSpec\<rparr>"

definition zero_InitTemplateList :: h_InitTemplateList where
  "zero_InitTemplateList = \<lparr>itpl_TypeMeta = zero_type_meta, itpl_ListMeta = [], itpl_Items = None\<rparr>"

subsection \<open>DeepCopyInto\<close>

text \<open>The struct that \<^verbatim>\<open>out\<close> points to when the function returns, and the heap; the receiver and
  \<^verbatim>\<open>out\<close> are different variables in every call.\<close>

definition TemplateInitSource_DeepCopyInto ::
  "TemplateInitSource \<Rightarrow> cell list \<Rightarrow> (TemplateInitSource \<times> cell list) option" where
  "TemplateInitSource_DeepCopyInto inp h = Some (inp, h)"

definition WorkspaceTypeReference_DeepCopyInto ::
  "WorkspaceTypeReference \<Rightarrow> cell list \<Rightarrow> (WorkspaceTypeReference \<times> cell list) option" where
  "WorkspaceTypeReference_DeepCopyInto inp h = Some (inp, h)"

definition InitTemplateSpec_DeepCopyInto ::
  "InitTemplateSpec \<Rightarrow> cell list \<Rightarrow> (InitTemplateSpec \<times> cell list) option" where
  "InitTemplateSpec_DeepCopyInto inp h = Some (inp, h)"

definition InitSource_DeepCopyInto :: "h_InitSource \<Rightarrow> cell list \<Rightarrow> (h_InitSource \<times> cell list) option" where
  "InitSource_DeepCopyInto inp h =
     (let out = inp
      in case src_Template inp of
           None \<Rightarrow> Some (out, h)
         | Some a \<Rightarrow>
             (case alloc (CTemplateInitSource zero_TemplateInitSource) h of (p, h1) \<Rightarrow>
                (case read_cell get_TemplateInitSource h1 a of
                   None \<Rightarrow> None
                 | Some t \<Rightarrow> Some (out\<lparr>src_Template := Some p\<rparr>, write_cell h1 p (CTemplateInitSource t)))))"

definition InitTargetSpec_DeepCopyInto ::
  "h_InitTargetSpec \<Rightarrow> cell list \<Rightarrow> (h_InitTargetSpec \<times> cell list) option" where
  "InitTargetSpec_DeepCopyInto inp h =
     (let out = inp;
          out = out\<lparr>its_WorkspaceTypeReference := its_WorkspaceTypeReference inp\<rparr>
      in case copy_slice CInitSources get_InitSources zero_InitSource InitSource_DeepCopyInto (its_Sources inp) h of
           None \<Rightarrow> None
         | Some (sources, h') \<Rightarrow> Some (out\<lparr>its_Sources := sources\<rparr>, h'))"

definition InitTarget_DeepCopyInto ::
  "(object_meta \<Rightarrow> object_meta) \<Rightarrow> h_InitTarget \<Rightarrow> cell list \<Rightarrow> (h_InitTarget \<times> cell list) option" where
  "InitTarget_DeepCopyInto meta_copy inp h =
     (let out = inp;
          out = out\<lparr>it_TypeMeta := it_TypeMeta inp\<rparr>;
          out = out\<lparr>it_ObjectMeta := meta_copy (it_ObjectMeta inp)\<rparr>
      in case InitTargetSpec_DeepCopyInto (it_Spec inp) h of
           None \<Rightarrow> None
         | Some (spec, h') \<Rightarrow> Some (out\<lparr>it_Spec := spec\<rparr>, h'))"

definition InitTargetList_DeepCopyInto ::
  "(object_meta \<Rightarrow> object_meta) \<Rightarrow> (string \<Rightarrow> string) \<Rightarrow> h_InitTargetList \<Rightarrow> cell list \<Rightarrow>
   (h_InitTargetList \<times> cell list) option" where
  "InitTargetList_DeepCopyInto meta_copy list_copy inp h =
     (let out = inp;
          out = out\<lparr>itl_TypeMeta := itl_TypeMeta inp\<rparr>;
          out = out\<lparr>itl_ListMeta := list_copy (itl_ListMeta inp)\<rparr>
      in case copy_slice CInitTargets get_InitTargets zero_InitTarget (InitTarget_DeepCopyInto meta_copy)
                (itl_Items inp) h of
           None \<Rightarrow> None
         | Some (items, h') \<Rightarrow> Some (out\<lparr>itl_Items := items\<rparr>, h'))"

definition InitTemplate_DeepCopyInto ::
  "(object_meta \<Rightarrow> object_meta) \<Rightarrow> InitTemplate \<Rightarrow> cell list \<Rightarrow> (InitTemplate \<times> cell list) option" where
  "InitTemplate_DeepCopyInto meta_copy inp h =
     (let out = inp;
          out = out\<lparr>itp_TypeMeta := itp_TypeMeta inp\<rparr>;
          out = out\<lparr>itp_ObjectMeta := meta_copy (itp_ObjectMeta inp)\<rparr>;
          out = out\<lparr>itp_Spec := itp_Spec inp\<rparr>
      in Some (out, h))"

definition InitTemplateList_DeepCopyInto ::
  "(object_meta \<Rightarrow> object_meta) \<Rightarrow> (string \<Rightarrow> string) \<Rightarrow> h_InitTemplateList \<Rightarrow> cell list \<Rightarrow>
   (h_InitTemplateList \<times> cell list) option" where
  "InitTemplateList_DeepCopyInto meta_copy list_copy inp h =
     (let out = inp;
          out = out\<lparr>itpl_TypeMeta := itpl_TypeMeta inp\<rparr>;
          out = out\<lparr>itpl_ListMeta := list_copy (itpl_ListMeta inp)\<rparr>
      in case copy_slice CInitTemplates get_InitTemplates zero_InitTemplate (InitTemplate_DeepCopyInto meta_copy)
                (itpl_Items inp) h of
           None \<Rightarrow> None
         | Some (items, h') \<Rightarrow> Some (out\<lparr>itpl_Items := items\<rparr>, h'))"

subsection \<open>DeepCopy and DeepCopyObject\<close>

type_synonym deep_copy = "addr option \<Rightarrow> cell list \<Rightarrow> (addr option \<times> cell list) option"

definition TemplateInitSource_DeepCopy :: "deep_copy" where
  "TemplateInitSource_DeepCopy = DeepCopy_ptr CTemplateInitSource get_TemplateInitSource zero_TemplateInitSource TemplateInitSource_DeepCopyInto"

definition WorkspaceTypeReference_DeepCopy :: "deep_copy" where
  "WorkspaceTypeReference_DeepCopy = DeepCopy_ptr CWorkspaceTypeReference get_WorkspaceTypeReference zero_WorkspaceTypeReference WorkspaceTypeReference_DeepCopyInto"

definition InitTemplateSpec_DeepCopy :: "deep_copy" where
  "InitTemplateSpec_DeepCopy = DeepCopy_ptr CInitTemplateSpec get_InitTemplateSpec zero_InitTemplateSpec InitTemplateSpec_DeepCopyInto"

definition InitSource_DeepCopy :: "deep_copy" where
  "InitSource_DeepCopy = DeepCopy_ptr CInitSource get_InitSource zero_InitSource InitSource_DeepCopyInto"

definition InitTargetSpec_DeepCopy :: "deep_copy" where
  "InitTargetSpec_DeepCopy = DeepCopy_ptr CInitTargetSpec get_InitTargetSpec zero_InitTargetSpec InitTargetSpec_DeepCopyInto"

definition InitTarget_DeepCopy :: "(object_meta \<Rightarrow> object_meta) \<Rightarrow> deep_copy" where
  "InitTarget_DeepCopy meta_copy = DeepCopy_ptr CInitTarget get_InitTarget zero_InitTarget (InitTarget_DeepCopyInto meta_copy)"

definition InitTargetList_DeepCopy :: "(object_meta \<Rightarrow> object_meta) \<Rightarrow> (string \<Rightarrow> string) \<Rightarrow> deep_copy" where
  "InitTargetList_DeepCopy meta_copy list_copy = DeepCopy_ptr CInitTargetList get_InitTargetList zero_InitTargetList (InitTargetList_DeepCopyInto meta_copy list_copy)"

definition InitTemplate_DeepCopy :: "(object_meta \<Rightarrow> object_meta) \<Rightarrow> deep_copy" where
  "InitTemplate_DeepCopy meta_copy = DeepCopy_ptr CInitTemplate get_InitTemplate zero_InitTemplate (InitTemplate_DeepCopyInto meta_copy)"

definition InitTemplateList_DeepCopy :: "(object_meta \<Rightarrow> object_meta) \<Rightarrow> (string \<Rightarrow> string) \<Rightarrow> deep_copy" where
  "InitTemplateList_DeepCopy meta_copy list_copy = DeepCopy_ptr CInitTemplateList get_InitTemplateList zero_InitTemplateList (InitTemplateList_DeepCopyInto meta_copy list_copy)"

text \<open>\<^verbatim>\<open>DeepCopyObject\<close> returns the copy as an interface value, and a nil interface (not an
  interface that holds a nil pointer) for a nil receiver; an interface value is again an optional address.\<close>

definition InitTarget_DeepCopyObject :: "(object_meta \<Rightarrow> object_meta) \<Rightarrow> deep_copy" where
  "InitTarget_DeepCopyObject meta_copy inp h =
     (case InitTarget_DeepCopy meta_copy inp h of
        None \<Rightarrow> None
      | Some (c, h') \<Rightarrow> if c \<noteq> None then Some (c, h') else Some (None, h'))"

definition InitTemplate_DeepCopyObject :: "(object_meta \<Rightarrow> object_meta) \<Rightarrow> deep_copy" where
  "InitTemplate_DeepCopyObject meta_copy inp h =
     (case InitTemplate_DeepCopy meta_copy inp h of
        None \<Rightarrow> None
      | Some (c, h') \<Rightarrow> if c \<noteq> None then Some (c, h') else Some (None, h'))"

definition InitTargetList_DeepCopyObject :: "(object_meta \<Rightarrow> object_meta) \<Rightarrow> (string \<Rightarrow> string) \<Rightarrow> deep_copy" where
  "InitTargetList_DeepCopyObject meta_copy list_copy inp h =
     (case InitTargetList_DeepCopy meta_copy list_copy inp h of
        None \<Rightarrow> None
      | Some (c, h') \<Rightarrow> if c \<noteq> None then Some (c, h') else Some (None, h'))"

definition InitTemplateList_DeepCopyObject :: "(object_meta \<Rightarrow> object_meta) \<Rightarrow> (string \<Rightarrow> string) \<Rightarrow> deep_copy" where
  "InitTemplateList_DeepCopyObject meta_copy list_copy inp h =
     (case InitTemplateList_DeepCopy meta_copy list_copy inp h of
        None \<Rightarrow> None
      | Some (c, h') \<Rightarrow> if c \<noteq> None then Some (c, h') else Some (None, h'))"

subsection \<open>What a struct denotes\<close>

text \<open>The value without addresses: pointers and slices replaced by what they refer to. A nil slice
  and an empty one are told apart.\<close>

type_synonym v_InitTargetSpec = "init_source list option InitTargetSpec"
type_synonym v_InitTarget = "init_source list option InitTarget"

definition den_InitSource :: "cell list \<Rightarrow> h_InitSource \<Rightarrow> init_source option" where
  "den_InitSource h v =
     map_option (\<lambda>t. \<lparr>src_Template = t\<rparr>) (den_ptr get_TemplateInitSource (\<lambda>h t. Some t) h (src_Template v))"

definition ptrs_InitSource :: "cell list \<Rightarrow> h_InitSource \<Rightarrow> addr set" where
  "ptrs_InitSource h v = ptrs_ptr get_TemplateInitSource (\<lambda>h t. {}) h (src_Template v)"

definition den_InitTargetSpec :: "cell list \<Rightarrow> h_InitTargetSpec \<Rightarrow> v_InitTargetSpec option" where
  "den_InitTargetSpec h v =
     map_option (\<lambda>ss. \<lparr>its_WorkspaceTypeReference = its_WorkspaceTypeReference v, its_Sources = ss\<rparr>)
       (den_slice get_InitSources den_InitSource h (its_Sources v))"

definition ptrs_InitTargetSpec :: "cell list \<Rightarrow> h_InitTargetSpec \<Rightarrow> addr set" where
  "ptrs_InitTargetSpec h v = ptrs_slice get_InitSources ptrs_InitSource h (its_Sources v)"

definition den_InitTarget :: "cell list \<Rightarrow> h_InitTarget \<Rightarrow> v_InitTarget option" where
  "den_InitTarget h v =
     map_option (\<lambda>sp. \<lparr>it_TypeMeta = it_TypeMeta v, it_ObjectMeta = it_ObjectMeta v, it_Spec = sp\<rparr>)
       (den_InitTargetSpec h (it_Spec v))"

definition ptrs_InitTarget :: "cell list \<Rightarrow> h_InitTarget \<Rightarrow> addr set" where
  "ptrs_InitTarget h v = ptrs_InitTargetSpec h (it_Spec v)"

definition den_InitTargetList :: "cell list \<Rightarrow> h_InitTargetList \<Rightarrow> v_InitTarget list option InitTargetList option" where
  "den_InitTargetList h v =
     map_option (\<lambda>is. \<lparr>itl_TypeMeta = itl_TypeMeta v, itl_ListMeta = itl_ListMeta v, itl_Items = is\<rparr>)
       (den_slice get_InitTargets den_InitTarget h (itl_Items v))"

definition ptrs_InitTargetList :: "cell list \<Rightarrow> h_InitTargetList \<Rightarrow> addr set" where
  "ptrs_InitTargetList h v = ptrs_slice get_InitTargets ptrs_InitTarget h (itl_Items v)"

definition den_InitTemplateList :: "cell list \<Rightarrow> h_InitTemplateList \<Rightarrow> InitTemplate list option InitTemplateList option" where
  "den_InitTemplateList h v =
     map_option (\<lambda>is. \<lparr>itpl_TypeMeta = itpl_TypeMeta v, itpl_ListMeta = itpl_ListMeta v, itpl_Items = is\<rparr>)
       (den_slice get_InitTemplates (\<lambda>h t. Some t) h (itpl_Items v))"

definition ptrs_InitTemplateList :: "cell list \<Rightarrow> h_InitTemplateList \<Rightarrow> addr set" where
  "ptrs_InitTemplateList h v = ptrs_slice get_InitTemplates (\<lambda>h t. {}) h (itpl_Items v)"

subsection \<open>The contract, type by type\<close>

lemma InitSource_into_eq:
  "InitSource_DeepCopyInto v h =
     map_option (\<lambda>(p, h'). (v\<lparr>src_Template := p\<rparr>, h'))
       (DeepCopy_ptr CTemplateInitSource get_TemplateInitSource zero_TemplateInitSource (\<lambda>t h. Some (t, h))
          (src_Template v) h)"
  by (cases "src_Template v")
    (simp_all add: InitSource_DeepCopyInto_def DeepCopy_ptr_def alloc_def split: option.splits)

interpretation flat_TemplateInitSource:
  pointer_copy "\<lambda>t h. Some (t, h)" "\<lambda>h t. Some t" "\<lambda>h t. {}" CTemplateInitSource get_TemplateInitSource
  by (intro pointer_copy.intro flat_deep_copyable cell_TemplateInitSource.cell_type_axioms)

interpretation InitSource: deep_copyable InitSource_DeepCopyInto den_InitSource ptrs_InitSource
  by (rule deep_copyable.field_deep_copyable [OF flat_TemplateInitSource.pointer_deep_copyable,
        where field = src_Template and put = "\<lambda>v p. v\<lparr>src_Template := p\<rparr>" and build = "\<lambda>v t. \<lparr>src_Template = t\<rparr>"])
    (simp_all add: InitSource_into_eq den_InitSource_def ptrs_InitSource_def)

interpretation InitSources: slice_copy InitSource_DeepCopyInto den_InitSource ptrs_InitSource CInitSources get_InitSources
  by (intro slice_copy.intro InitSource.deep_copyable_axioms cell_InitSources.cell_type_axioms)

lemma InitTargetSpec_into_eq:
  "InitTargetSpec_DeepCopyInto v h =
     map_option (\<lambda>(s, h'). (v\<lparr>its_Sources := s\<rparr>, h'))
       (copy_slice CInitSources get_InitSources zero_InitSource InitSource_DeepCopyInto (its_Sources v) h)"
  by (simp add: InitTargetSpec_DeepCopyInto_def split: option.splits prod.splits)

interpretation InitTargetSpec: deep_copyable InitTargetSpec_DeepCopyInto den_InitTargetSpec ptrs_InitTargetSpec
  by (rule deep_copyable.field_deep_copyable [OF InitSources.slice_deep_copyable,
        where field = its_Sources and put = "\<lambda>v s. v\<lparr>its_Sources := s\<rparr>"
          and build = "\<lambda>v ss. \<lparr>its_WorkspaceTypeReference = its_WorkspaceTypeReference v, its_Sources = ss\<rparr>"])
    (simp_all add: InitTargetSpec_into_eq den_InitTargetSpec_def ptrs_InitTargetSpec_def)

text \<open>From here on the library's copies of metadata are assumed to copy.\<close>

lemma InitTarget_deep_copyable:
  assumes "\<And>m. meta_copy m = m"
  shows "deep_copyable (InitTarget_DeepCopyInto meta_copy) den_InitTarget ptrs_InitTarget"
  by (rule deep_copyable.field_deep_copyable [OF InitTargetSpec.deep_copyable_axioms,
        where field = it_Spec and put = "\<lambda>v s. v\<lparr>it_Spec := s\<rparr>"
          and build = "\<lambda>v sp. \<lparr>it_TypeMeta = it_TypeMeta v, it_ObjectMeta = it_ObjectMeta v, it_Spec = sp\<rparr>"])
    (simp_all add: InitTarget_DeepCopyInto_def den_InitTarget_def ptrs_InitTarget_def assms
      split: option.splits prod.splits)

lemma InitTargetList_deep_copyable:
  assumes "\<And>m. meta_copy m = m" "\<And>l. list_copy l = l"
  shows "deep_copyable (InitTargetList_DeepCopyInto meta_copy list_copy) den_InitTargetList ptrs_InitTargetList"
  by (rule deep_copyable.field_deep_copyable
        [OF slice_copy.slice_deep_copyable [where zero = zero_InitTarget, OF slice_copy.intro
              [OF InitTarget_deep_copyable [OF assms(1)] cell_InitTargets.cell_type_axioms]],
        where field = itl_Items and put = "\<lambda>v s. v\<lparr>itl_Items := s\<rparr>"
          and build = "\<lambda>v is. \<lparr>itl_TypeMeta = itl_TypeMeta v, itl_ListMeta = itl_ListMeta v, itl_Items = is\<rparr>"])
    (simp_all add: InitTargetList_DeepCopyInto_def den_InitTargetList_def ptrs_InitTargetList_def assms(2)
      split: option.splits prod.splits)

lemma InitTemplate_deep_copyable:
  assumes "\<And>m. meta_copy m = m"
  shows "deep_copyable (InitTemplate_DeepCopyInto meta_copy) (\<lambda>h t. Some t) (\<lambda>h t. {})"
proof -
  have "InitTemplate_DeepCopyInto meta_copy = (\<lambda>t h. Some (t, h))"
    by (intro ext) (simp add: InitTemplate_DeepCopyInto_def assms)
  then show ?thesis using flat_deep_copyable by simp
qed

lemma InitTemplateList_deep_copyable:
  assumes "\<And>m. meta_copy m = m" "\<And>l. list_copy l = l"
  shows "deep_copyable (InitTemplateList_DeepCopyInto meta_copy list_copy) den_InitTemplateList ptrs_InitTemplateList"
  by (rule deep_copyable.field_deep_copyable
        [OF slice_copy.slice_deep_copyable [where zero = zero_InitTemplate, OF slice_copy.intro
              [OF InitTemplate_deep_copyable [OF assms(1)] cell_InitTemplates.cell_type_axioms]],
        where field = itpl_Items and put = "\<lambda>v s. v\<lparr>itpl_Items := s\<rparr>"
          and build = "\<lambda>v is. \<lparr>itpl_TypeMeta = itpl_TypeMeta v, itpl_ListMeta = itpl_ListMeta v, itpl_Items = is\<rparr>"])
    (simp_all add: InitTemplateList_DeepCopyInto_def den_InitTemplateList_def ptrs_InitTemplateList_def assms(2)
      split: option.splits prod.splits)

subsection \<open>Properties\<close>

text \<open>What a deep copy of a pointer promises: it returns; the cells there were are as they were; the copy
  denotes what the original does, and nil only for nil; and no cell can be reached from both.\<close>

definition independent_copy ::
  "deep_copy \<Rightarrow> (cell list \<Rightarrow> addr option \<Rightarrow> 'd option option) \<Rightarrow> (cell list \<Rightarrow> addr option \<Rightarrow> addr set) \<Rightarrow>
   addr option \<Rightarrow> cell list \<Rightarrow> 'd option \<Rightarrow> bool" where
  "independent_copy f den ptrs p h d \<longleftrightarrow>
     (\<exists>p' h'. f p h = Some (p', h') \<and> take (length h) h' = h \<and> (p' = None \<longleftrightarrow> p = None)
        \<and> den h' p = Some d \<and> den h' p' = Some d \<and> ptrs h' p \<inter> ptrs h' p' = {})"

lemma independent_copyI:
  assumes "deep_copyable f den ptrs" "den h p = Some d"
    and "\<And>p' h'. f p h = Some (p', h') \<Longrightarrow> p' = None \<longleftrightarrow> p = None"
  shows "independent_copy f den ptrs p h d"
proof -
  obtain p' h' where "f p h = Some (p', h')" "heap_extends h h'"
    using deep_copyable.copy_spec [OF assms(1,2)] by blast
  with deep_copyable.copy_disjoint [OF assms(1,2)] assms(3) show ?thesis
    unfolding independent_copy_def heap_extends_def by blast
qed

lemma DeepCopy_ptr_None_iff:
  "DeepCopy_ptr wrap unwrap zero into p h = Some (p', h') \<Longrightarrow> p' = None \<longleftrightarrow> p = None"
  by (auto simp: DeepCopy_ptr_def split: option.splits prod.splits)

lemma DeepCopyObject_eqs:
  "InitTarget_DeepCopyObject meta_copy = InitTarget_DeepCopy meta_copy"
  "InitTemplate_DeepCopyObject meta_copy = InitTemplate_DeepCopy meta_copy"
  "InitTargetList_DeepCopyObject meta_copy list_copy = InitTargetList_DeepCopy meta_copy list_copy"
  "InitTemplateList_DeepCopyObject meta_copy list_copy = InitTemplateList_DeepCopy meta_copy list_copy"
  by (intro ext; simp add: InitTarget_DeepCopyObject_def InitTemplate_DeepCopyObject_def
      InitTargetList_DeepCopyObject_def InitTemplateList_DeepCopyObject_def split: option.splits prod.splits)+

abbreviation den_InitTarget_ptr :: "cell list \<Rightarrow> addr option \<Rightarrow> v_InitTarget option option" where
  "den_InitTarget_ptr \<equiv> den_ptr get_InitTarget den_InitTarget"

abbreviation ptrs_InitTarget_ptr :: "cell list \<Rightarrow> addr option \<Rightarrow> addr set" where
  "ptrs_InitTarget_ptr \<equiv> ptrs_ptr get_InitTarget ptrs_InitTarget"

lemma InitTarget_DeepCopy_copyable:
  assumes "\<And>m. meta_copy m = m"
  shows "deep_copyable (InitTarget_DeepCopy meta_copy) den_InitTarget_ptr ptrs_InitTarget_ptr"
  unfolding InitTarget_DeepCopy_def
  by (rule pointer_copy.pointer_deep_copyable
      [OF pointer_copy.intro [OF InitTarget_deep_copyable [OF assms] cell_InitTarget.cell_type_axioms]])

text \<open>C30: the deep copy of an InitTarget, as a \<^verbatim>\<open>runtime.Object\<close>. For a pointer that is nil
  or refers to a target on the heap, the call returns; no existing cell is changed; the copy is equal to
  the original in every field, through the slice of sources and the pointers in it, a nil slice or pointer
  staying nil; and original and copy share no cell, so that changing one never shows in the other.\<close>

theorem InitTarget_DeepCopyObject_independent:
  assumes "\<And>m. meta_copy m = m" and "den_InitTarget_ptr h p = Some d"
  shows "independent_copy (InitTarget_DeepCopyObject meta_copy) den_InitTarget_ptr ptrs_InitTarget_ptr p h d"
  unfolding DeepCopyObject_eqs
  by (rule independent_copyI [OF InitTarget_DeepCopy_copyable [OF assms(1)] assms(2)])
    (auto simp: InitTarget_DeepCopy_def dest: DeepCopy_ptr_None_iff)

text \<open>A heap with a target that has two sources, one of them without a template.\<close>

definition sample_heap :: "cell list" where
  "sample_heap =
     [CTemplateInitSource \<lparr>tis_Name = ''tpl''\<rparr>,
      CInitSources [\<lparr>src_Template = Some 0\<rparr>, \<lparr>src_Template = None\<rparr>],
      CInitTarget \<lparr>it_TypeMeta = zero_type_meta, it_ObjectMeta = empty_meta,
        it_Spec = \<lparr>its_WorkspaceTypeReference = zero_WorkspaceTypeReference,
                   its_Sources = Some \<lparr>sl_Array = 1, sl_Off = 0, sl_Len = 2\<rparr>\<rparr>\<rparr>]"

definition sample_value :: v_InitTarget where
  "sample_value =
     \<lparr>it_TypeMeta = zero_type_meta, it_ObjectMeta = empty_meta,
      it_Spec = \<lparr>its_WorkspaceTypeReference = zero_WorkspaceTypeReference,
                 its_Sources = Some [\<lparr>src_Template = Some \<lparr>tis_Name = ''tpl''\<rparr>\<rparr>, \<lparr>src_Template = None\<rparr>]\<rparr>\<rparr>"

lemma den_sample: "den_InitTarget_ptr sample_heap (Some 2) = Some (Some sample_value)"
  by code_simp

theorem InitTarget_DeepCopyObject_independent_witness:
  "\<exists>p' h'. InitTarget_DeepCopyObject (\<lambda>m. m) (Some 2) sample_heap = Some (p', h')
     \<and> den_InitTarget_ptr h' p' = Some (Some sample_value) \<and> p' \<noteq> None"
  using InitTarget_DeepCopyObject_independent [OF refl den_sample]
  unfolding independent_copy_def by blast

lemma InitTargetList_DeepCopy_copyable:
  assumes "\<And>m. meta_copy m = m" "\<And>l. list_copy l = l"
  shows "deep_copyable (InitTargetList_DeepCopy meta_copy list_copy)
    (den_ptr get_InitTargetList den_InitTargetList) (ptrs_ptr get_InitTargetList ptrs_InitTargetList)"
  unfolding InitTargetList_DeepCopy_def
  by (rule pointer_copy.pointer_deep_copyable
      [OF pointer_copy.intro [OF InitTargetList_deep_copyable [OF assms] cell_InitTargetList.cell_type_axioms]])

lemma InitTemplateList_DeepCopy_copyable:
  assumes "\<And>m. meta_copy m = m" "\<And>l. list_copy l = l"
  shows "deep_copyable (InitTemplateList_DeepCopy meta_copy list_copy)
    (den_ptr get_InitTemplateList den_InitTemplateList) (ptrs_ptr get_InitTemplateList ptrs_InitTemplateList)"
  unfolding InitTemplateList_DeepCopy_def
  by (rule pointer_copy.pointer_deep_copyable
      [OF pointer_copy.intro [OF InitTemplateList_deep_copyable [OF assms] cell_InitTemplateList.cell_type_axioms]])

text \<open>C31: the deep copies of the two list types, with the same promise: of a list of targets this includes
  the array of the targets, the arrays of their sources, and the templates these point to.\<close>

theorem list_DeepCopyObject_independent:
  assumes "\<And>m. meta_copy m = m" and "\<And>l. list_copy l = l"
  shows "(den_ptr get_InitTargetList den_InitTargetList h p = Some d \<longrightarrow>
       independent_copy (InitTargetList_DeepCopyObject meta_copy list_copy)
         (den_ptr get_InitTargetList den_InitTargetList) (ptrs_ptr get_InitTargetList ptrs_InitTargetList) p h d)
    \<and> (den_ptr get_InitTemplateList den_InitTemplateList h p = Some d' \<longrightarrow>
       independent_copy (InitTemplateList_DeepCopyObject meta_copy list_copy)
         (den_ptr get_InitTemplateList den_InitTemplateList) (ptrs_ptr get_InitTemplateList ptrs_InitTemplateList) p h d')"
  unfolding DeepCopyObject_eqs
  using independent_copyI [OF InitTargetList_DeepCopy_copyable [OF assms]]
    independent_copyI [OF InitTemplateList_DeepCopy_copyable [OF assms]]
  by (metis InitTargetList_DeepCopy_def InitTemplateList_DeepCopy_def DeepCopy_ptr_None_iff)

definition sample_list_heap :: "cell list" where
  "sample_list_heap =
     sample_heap @ [CInitTargets [\<lparr>it_TypeMeta = zero_type_meta, it_ObjectMeta = empty_meta,
        it_Spec = \<lparr>its_WorkspaceTypeReference = zero_WorkspaceTypeReference,
                   its_Sources = Some \<lparr>sl_Array = 1, sl_Off = 0, sl_Len = 2\<rparr>\<rparr>\<rparr>],
       CInitTargetList \<lparr>itl_TypeMeta = zero_type_meta, itl_ListMeta = [],
         itl_Items = Some \<lparr>sl_Array = 3, sl_Off = 0, sl_Len = 1\<rparr>\<rparr>]"

lemma den_sample_list:
  "den_ptr get_InitTargetList den_InitTargetList sample_list_heap (Some 4) =
     Some (Some \<lparr>itl_TypeMeta = zero_type_meta, itl_ListMeta = [], itl_Items = Some [sample_value]\<rparr>)"
  by code_simp

theorem list_DeepCopyObject_independent_witness:
  "\<exists>p' h'. InitTargetList_DeepCopyObject (\<lambda>m. m) (\<lambda>l. l) (Some 4) sample_list_heap = Some (p', h')
     \<and> den_ptr get_InitTargetList den_InitTargetList h' p' =
         Some (Some \<lparr>itl_TypeMeta = zero_type_meta, itl_ListMeta = [], itl_Items = Some [sample_value]\<rparr>)"
  using list_DeepCopyObject_independent [of "\<lambda>m. m" "\<lambda>l. l" sample_list_heap "Some 4"] den_sample_list
  unfolding independent_copy_def by blast

end
