(* ===== verification/Informer_Factory.thy ===== *)
theory Informer_Factory
  imports Runs Api_Types
begin

text \<open>
  \<^verbatim>\<open>sdk/informers/externalversions/factory.go\<close>: the two shared informer factories, one across
  all clusters and one scoped to a workspace. A \<^verbatim>\<open>reflect.Type\<close> is one of the API's types; an
  informer is a value of type \<open>'inf\<close>, made by the function the caller passes. Go iterates over a
  map in an order of its own, so the loops take the entries in some order (\<open>entries_of\<close>). A goroutine
  that runs an informer is an entry of the list of running goroutines; the wait group is its own counter, as
  in the code.
\<close>

subsection \<open>Options\<close>

record ('tw, 'tr) SharedInformerOptions =
  opt_customResync :: "known_type \<rightharpoonup> int"
  opt_tweakListOptions :: "'tw option"
  opt_transform :: "'tr option"
  opt_namespace :: string

type_synonym ('tw, 'tr) SharedInformerOption = "('tw, 'tr) SharedInformerOptions \<Rightarrow> ('tw, 'tr) SharedInformerOptions"

text \<open>The configuration is a map from objects, whose types count; here its entries in iteration order.\<close>

fun WithCustomResyncConfig :: "('o \<Rightarrow> known_type) \<Rightarrow> ('o \<times> int) list \<Rightarrow> ('tw, 'tr) SharedInformerOption" where
  "WithCustomResyncConfig TypeOf [] opts = opts"
| "WithCustomResyncConfig TypeOf ((k, v) # entries) opts =
     WithCustomResyncConfig TypeOf entries (opts\<lparr>opt_customResync := (opt_customResync opts)(TypeOf k \<mapsto> v)\<rparr>)"

definition WithTweakListOptions :: "'tw \<Rightarrow> ('tw, 'tr) SharedInformerOption" where
  "WithTweakListOptions tweakListOptions opts = opts\<lparr>opt_tweakListOptions := Some tweakListOptions\<rparr>"

definition WithTransform :: "'tr \<Rightarrow> ('tw, 'tr) SharedInformerOption" where
  "WithTransform transform opts = opts\<lparr>opt_transform := Some transform\<rparr>"

definition WithNamespace :: "string \<Rightarrow> ('tw, 'tr) SharedInformerOption" where
  "WithNamespace namespace opts = opts\<lparr>opt_namespace := namespace\<rparr>"

definition empty_options :: "('tw, 'tr) SharedInformerOptions" where
  "empty_options = \<lparr>opt_customResync = Map.empty, opt_tweakListOptions = None, opt_transform = None, opt_namespace = []\<rparr>"

definition apply_options :: "('tw, 'tr) SharedInformerOption list \<Rightarrow> ('tw, 'tr) SharedInformerOptions" where
  "apply_options options = foldl (\<lambda>opts opt. opt opts) empty_options options"

subsection \<open>The factory across clusters\<close>

record ('cl, 'tw, 'tr, 'inf, 'ch) sharedInformerFactory =
  sf_client :: 'cl
  sf_tweakListOptions :: "'tw option"
  sf_defaultResync :: int
  sf_customResync :: "known_type \<rightharpoonup> int"
  sf_transform :: "'tr option"
  sf_informers :: "known_type \<rightharpoonup> 'inf"
  sf_startedInformers :: "known_type \<Rightarrow> bool"
  sf_wg :: nat
  sf_shuttingDown :: bool
  sf_running :: "(known_type \<times> 'inf \<times> 'ch) list"

definition NewSharedInformerFactoryWithOptions ::
  "'cl \<Rightarrow> int \<Rightarrow> ('tw, 'tr) SharedInformerOption list \<Rightarrow> ('cl, 'tw, 'tr, 'inf, 'ch) sharedInformerFactory" where
  "NewSharedInformerFactoryWithOptions client defaultResync options =
     (let factory = \<lparr>sf_client = client, sf_tweakListOptions = None, sf_defaultResync = defaultResync,
                     sf_customResync = Map.empty, sf_transform = None, sf_informers = Map.empty,
                     sf_startedInformers = (\<lambda>_. False), sf_wg = 0, sf_shuttingDown = False, sf_running = []\<rparr>;
          opts = apply_options options
      in factory\<lparr>sf_customResync := opt_customResync opts, sf_tweakListOptions := opt_tweakListOptions opts,
                 sf_transform := opt_transform opts\<rparr>)"

definition NewSharedInformerFactory :: "'cl \<Rightarrow> int \<Rightarrow> ('cl, 'tw, 'tr, 'inf, 'ch) sharedInformerFactory" where
  "NewSharedInformerFactory client defaultResync = NewSharedInformerFactoryWithOptions client defaultResync []"

definition InformerFor ::
  "known_type \<Rightarrow> ('cl \<Rightarrow> int \<Rightarrow> 'inf) \<Rightarrow> ('cl, 'tw, 'tr, 'inf, 'ch) sharedInformerFactory \<Rightarrow>
   'inf \<times> ('cl, 'tw, 'tr, 'inf, 'ch) sharedInformerFactory" where
  "InformerFor informerType newFunc f =
     (case sf_informers f informerType of
        Some informer \<Rightarrow> (informer, f)
      | None \<Rightarrow>
          (let resyncPeriod = (case sf_customResync f informerType of
                                 Some r \<Rightarrow> r | None \<Rightarrow> sf_defaultResync f);
               informer = newFunc (sf_client f) resyncPeriod
           in (informer, f\<lparr>sf_informers := (sf_informers f)(informerType \<mapsto> informer)\<rparr>)))"

definition entries_of :: "('k \<rightharpoonup> 'v) \<Rightarrow> ('k \<times> 'v) list \<Rightarrow> bool" where
  "entries_of m entries \<longleftrightarrow> distinct (map fst entries) \<and> map_of entries = m"

fun start_loop ::
  "'ch \<Rightarrow> (known_type \<times> 'inf) list \<Rightarrow> ('cl, 'tw, 'tr, 'inf, 'ch) sharedInformerFactory \<Rightarrow>
   ('cl, 'tw, 'tr, 'inf, 'ch) sharedInformerFactory" where
  "start_loop stopCh [] f = f"
| "start_loop stopCh ((informerType, informer) # entries) f =
     (if \<not> sf_startedInformers f informerType
      then start_loop stopCh entries
             (f\<lparr>sf_wg := sf_wg f + 1,
                sf_running := sf_running f @ [(informerType, informer, stopCh)],
                sf_startedInformers := (sf_startedInformers f)(informerType := True)\<rparr>)
      else start_loop stopCh entries f)"

definition Start ::
  "'ch \<Rightarrow> (known_type \<times> 'inf) list \<Rightarrow> ('cl, 'tw, 'tr, 'inf, 'ch) sharedInformerFactory \<Rightarrow>
   ('cl, 'tw, 'tr, 'inf, 'ch) sharedInformerFactory" where
  "Start stopCh entries f = (if sf_shuttingDown f then f else start_loop stopCh entries f)"

text \<open>\<^verbatim>\<open>Shutdown\<close> sets its flag and then waits for the wait group; the second component says
  whether the wait returns in the state it finds.\<close>

definition Shutdown ::
  "('cl, 'tw, 'tr, 'inf, 'ch) sharedInformerFactory \<Rightarrow> ('cl, 'tw, 'tr, 'inf, 'ch) sharedInformerFactory \<times> bool" where
  "Shutdown f = (f\<lparr>sf_shuttingDown := True\<rparr>, sf_wg f = 0)"

text \<open>The goroutine of a type ends: \<^verbatim>\<open>informer.Run\<close> has returned, and it signs off at the
  wait group.\<close>

definition goroutine_done ::
  "known_type \<Rightarrow> ('cl, 'tw, 'tr, 'inf, 'ch) sharedInformerFactory \<Rightarrow> ('cl, 'tw, 'tr, 'inf, 'ch) sharedInformerFactory" where
  "goroutine_done ty f = f\<lparr>sf_running := filter (\<lambda>p. fst p \<noteq> ty) (sf_running f), sf_wg := sf_wg f - 1\<rparr>"

text \<open>\<^verbatim>\<open>cache.WaitForCacheSync\<close> on one informer is the argument \<open>wait\<close>.\<close>

definition WaitForCacheSync ::
  "('inf \<Rightarrow> bool) \<Rightarrow> (known_type \<times> 'inf) list \<Rightarrow> ('cl, 'tw, 'tr, 'inf, 'ch) sharedInformerFactory \<Rightarrow>
   (known_type \<times> bool) list" where
  "WaitForCacheSync wait entries f =
     (let informers = filter (\<lambda>(informerType, informer). sf_startedInformers f informerType) entries
      in map (\<lambda>(informType, informer). (informType, wait informer)) informers)"

subsection \<open>The scoped factory\<close>

record ('cl, 'tw, 'tr, 'inf, 'ch) sharedScopedInformerFactory =
  ss_client :: 'cl
  ss_namespace :: string
  ss_tweakListOptions :: "'tw option"
  ss_defaultResync :: int
  ss_customResync :: "known_type \<rightharpoonup> int"
  ss_transform :: "'tr option"
  ss_informers :: "known_type \<rightharpoonup> 'inf"
  ss_startedInformers :: "known_type \<Rightarrow> bool"
  ss_running :: "(known_type \<times> 'inf \<times> 'ch) list"

definition NewSharedScopedInformerFactoryWithOptions ::
  "'cl \<Rightarrow> int \<Rightarrow> ('tw, 'tr) SharedInformerOption list \<Rightarrow> ('cl, 'tw, 'tr, 'inf, 'ch) sharedScopedInformerFactory" where
  "NewSharedScopedInformerFactoryWithOptions client defaultResync options =
     (let factory = \<lparr>ss_client = client, ss_namespace = [], ss_tweakListOptions = None,
                     ss_defaultResync = defaultResync, ss_customResync = Map.empty, ss_transform = None,
                     ss_informers = Map.empty, ss_startedInformers = (\<lambda>_. False), ss_running = []\<rparr>;
          opts = apply_options options
      in factory\<lparr>ss_customResync := opt_customResync opts, ss_tweakListOptions := opt_tweakListOptions opts,
                 ss_namespace := opt_namespace opts\<rparr>)"

definition NewSharedScopedInformerFactory ::
  "'cl \<Rightarrow> int \<Rightarrow> string \<Rightarrow> ('cl, 'tw, 'tr, 'inf, 'ch) sharedScopedInformerFactory" where
  "NewSharedScopedInformerFactory client defaultResync namespace =
     NewSharedScopedInformerFactoryWithOptions client defaultResync [WithNamespace namespace]"

text \<open>\<^verbatim>\<open>informer.SetTransform\<close> is the argument \<open>SetTransform\<close>.\<close>

definition InformerFor_scoped ::
  "('tr option \<Rightarrow> 'inf \<Rightarrow> 'inf) \<Rightarrow> known_type \<Rightarrow> ('cl \<Rightarrow> int \<Rightarrow> 'inf) \<Rightarrow>
   ('cl, 'tw, 'tr, 'inf, 'ch) sharedScopedInformerFactory \<Rightarrow>
   'inf \<times> ('cl, 'tw, 'tr, 'inf, 'ch) sharedScopedInformerFactory" where
  "InformerFor_scoped SetTransform informerType newFunc f =
     (case ss_informers f informerType of
        Some informer \<Rightarrow> (informer, f)
      | None \<Rightarrow>
          (let resyncPeriod = (case ss_customResync f informerType of
                                 Some r \<Rightarrow> r | None \<Rightarrow> ss_defaultResync f);
               informer = SetTransform (ss_transform f) (newFunc (ss_client f) resyncPeriod)
           in (informer, f\<lparr>ss_informers := (ss_informers f)(informerType \<mapsto> informer)\<rparr>)))"

fun Start_scoped ::
  "'ch \<Rightarrow> (known_type \<times> 'inf) list \<Rightarrow> ('cl, 'tw, 'tr, 'inf, 'ch) sharedScopedInformerFactory \<Rightarrow>
   ('cl, 'tw, 'tr, 'inf, 'ch) sharedScopedInformerFactory" where
  "Start_scoped stopCh [] f = f"
| "Start_scoped stopCh ((informerType, informer) # entries) f =
     (if \<not> ss_startedInformers f informerType
      then Start_scoped stopCh entries
             (f\<lparr>ss_running := ss_running f @ [(informerType, informer, stopCh)],
                ss_startedInformers := (ss_startedInformers f)(informerType := True)\<rparr>)
      else Start_scoped stopCh entries f)"

definition WaitForCacheSync_scoped ::
  "('inf \<Rightarrow> bool) \<Rightarrow> (known_type \<times> 'inf) list \<Rightarrow> ('cl, 'tw, 'tr, 'inf, 'ch) sharedScopedInformerFactory \<Rightarrow>
   (known_type \<times> bool) list" where
  "WaitForCacheSync_scoped wait entries f =
     (let informers = filter (\<lambda>(informerType, informer). ss_startedInformers f informerType) entries
      in map (\<lambda>(informType, informer). (informType, wait informer)) informers)"

subsection \<open>What Start does\<close>

lemma start_loop_fields [simp]:
  "sf_informers (start_loop ch es f) = sf_informers f"
  "sf_shuttingDown (start_loop ch es f) = sf_shuttingDown f"
  "sf_transform (start_loop ch es f) = sf_transform f"
  by (induction ch es f rule: start_loop.induct) auto

lemma start_loop_started:
  "sf_startedInformers (start_loop ch es f) ty \<longleftrightarrow> sf_startedInformers f ty \<or> ty \<in> fst ` set es"
  by (induction ch es f rule: start_loop.induct) auto

text \<open>The goroutines added are those of the entries that were not started, in the order of the loop.\<close>

lemma start_loop_running:
  "distinct (map fst es) \<Longrightarrow>
   sf_running (start_loop ch es f) =
     sf_running f @ map (\<lambda>(ty, infm). (ty, infm, ch)) (filter (\<lambda>(ty, infm). \<not> sf_startedInformers f ty) es)"
proof (induction ch es f rule: start_loop.induct)
  case (2 ch ty infm es f)
  have "filter (\<lambda>(t, i). \<not> ((sf_startedInformers f)(ty := True)) t) es = filter (\<lambda>(t, i). \<not> sf_startedInformers f t) es"
    using 2(3) by (intro filter_cong) force+
  with 2 show ?case by (cases "sf_startedInformers f ty") (simp_all add: fun_upd_def)
qed simp

lemma start_loop_wg:
  "sf_wg (start_loop ch es f) + length (sf_running f) = sf_wg f + length (sf_running (start_loop ch es f))"
  by (induction ch es f rule: start_loop.induct) auto

lemma entries_of_set: "entries_of m es \<Longrightarrow> (ty, infm) \<in> set es \<longleftrightarrow> m ty = Some infm"
  by (auto simp: entries_of_def)

lemma entries_of_fst: "entries_of m es \<Longrightarrow> ty \<in> fst ` set es \<longleftrightarrow> m ty \<noteq> None"
  using map_of_eq_None_iff [of es ty] by (auto simp: entries_of_def)

subsection \<open>Runs of a factory\<close>

datatype ('inf, 'ch) factory_event =
    EvInformer known_type 'inf
  | EvStart 'ch
  | EvShutdown
  | EvDone known_type

inductive factory_step ::
  "('cl, 'tw, 'tr, 'inf, 'ch) sharedInformerFactory \<Rightarrow> ('inf, 'ch) factory_event \<Rightarrow>
   ('cl, 'tw, 'tr, 'inf, 'ch) sharedInformerFactory \<Rightarrow> bool" where
  step_informer: "InformerFor ty newFunc f = (infm, f') \<Longrightarrow> factory_step f (EvInformer ty infm) f'"
| step_start: "entries_of (sf_informers f) es \<Longrightarrow> factory_step f (EvStart ch) (Start ch es f)"
| step_shutdown: "Shutdown f = (f', returned) \<Longrightarrow> factory_step f EvShutdown f'"
| step_done: "(ty, infm, ch) \<in> set (sf_running f) \<Longrightarrow> factory_step f (EvDone ty) (goroutine_done ty f)"

definition factory_start :: "('cl, 'tw, 'tr, 'inf, 'ch) sharedInformerFactory \<Rightarrow> bool" where
  "factory_start f \<longleftrightarrow> sf_informers f = Map.empty \<and> (\<forall>ty. \<not> sf_startedInformers f ty) \<and> sf_running f = []
     \<and> sf_wg f = 0 \<and> \<not> sf_shuttingDown f"

definition factory_inv ::
  "('inf, 'ch) factory_event list \<Rightarrow> ('cl, 'tw, 'tr, 'inf, 'ch) sharedInformerFactory \<Rightarrow> bool" where
  "factory_inv evs f \<longleftrightarrow>
     (\<forall>ty. sf_startedInformers f ty \<longrightarrow> sf_informers f ty \<noteq> None)
   \<and> distinct (map fst (sf_running f))
   \<and> (\<forall>ty infm ch. (ty, infm, ch) \<in> set (sf_running f) \<longrightarrow> sf_startedInformers f ty \<and> sf_informers f ty = Some infm)
   \<and> sf_wg f = length (sf_running f)
   \<and> (\<forall>ty infm. EvInformer ty infm \<in> set evs \<longrightarrow> sf_informers f ty = Some infm)
   \<and> (EvShutdown \<in> set evs \<longrightarrow> sf_shuttingDown f)"

lemma factory_inv_InformerFor:
  assumes "factory_inv evs f" "InformerFor ty newFunc f = (infm, f')"
  shows "factory_inv (evs @ [EvInformer ty infm]) f'"
proof (cases "sf_informers f ty")
  case (Some i)
  with assms show ?thesis by (auto simp: factory_inv_def InformerFor_def)
next
  case None
  then have f': "f' = f\<lparr>sf_informers := (sf_informers f)(ty \<mapsto> infm)\<rparr>"
    using assms(2) by (auto simp: InformerFor_def Let_def)
  show ?thesis using assms(1) None unfolding f' by (fastforce simp: factory_inv_def)
qed

lemma factory_inv_Start:
  assumes inv: "factory_inv evs f" and es: "entries_of (sf_informers f) es"
  shows "factory_inv (evs @ [EvStart ch]) (Start ch es f)"
proof (cases "sf_shuttingDown f")
  case True
  with inv show ?thesis by (auto simp: factory_inv_def Start_def)
next
  case False
  let ?new = "filter (\<lambda>(ty, infm). \<not> sf_startedInformers f ty) es"
  have d: "distinct (map fst es)" using es by (simp add: entries_of_def)
  have run: "sf_running (start_loop ch es f) = sf_running f @ map (\<lambda>(ty, infm). (ty, infm, ch)) ?new"
    by (rule start_loop_running [OF d])
  have fsts: "map fst (map (\<lambda>(ty, infm). (ty, infm, ch)) ?new) = map fst ?new"
    by (simp add: case_prod_beta)
  have "distinct (map fst ?new)" using d by (rule distinct_map_filter)
  moreover have "set (map fst (sf_running f)) \<inter> set (map fst ?new) = {}"
    using inv by (fastforce simp: factory_inv_def)
  ultimately have "distinct (map fst (sf_running (start_loop ch es f)))"
    unfolding run map_append fsts using inv by (simp add: factory_inv_def)
  moreover have "sf_wg (start_loop ch es f) = length (sf_running (start_loop ch es f))"
    using start_loop_wg [of ch es f] inv by (simp add: factory_inv_def)
  moreover have "sf_startedInformers (start_loop ch es f) ty \<and> sf_informers f ty = Some infm"
    if "(ty, infm, c) \<in> set (sf_running (start_loop ch es f))" for ty infm c
  proof -
    from that consider "(ty, infm, c) \<in> set (sf_running f)" | "(ty, infm) \<in> set es" unfolding run by auto
    then show ?thesis
    proof cases
      case 1
      then show ?thesis using inv start_loop_started [of ch es f ty] unfolding factory_inv_def by blast
    next
      case 2
      then have "ty \<in> fst ` set es" by (metis fst_conv imageI)
      with 2 show ?thesis using entries_of_set [OF es, of ty infm] start_loop_started [of ch es f ty] by simp
    qed
  qed
  ultimately show ?thesis
    using inv False entries_of_fst [OF es] start_loop_started [of ch es f]
    by (simp add: factory_inv_def Start_def)
qed

lemma factory_inv_done:
  assumes inv: "factory_inv evs f" and ty: "(ty, infm, ch) \<in> set (sf_running f)"
  shows "factory_inv (evs @ [EvDone ty]) (goroutine_done ty f)"
proof -
  have d: "distinct (map fst (sf_running f))" using inv by (simp add: factory_inv_def)
  have "length (filter (\<lambda>p. fst p \<noteq> ty) xs) = length xs - 1"
    if "distinct (map fst xs)" "ty \<in> fst ` set xs" for xs :: "(known_type \<times> 'a \<times> 'b) list"
    using that
  proof (induction xs)
    case (Cons x xs)
    show ?case
    proof (cases "fst x = ty")
      case True
      from Cons.prems(1) have "fst x \<notin> fst ` set xs" by simp
      with True have "\<forall>p \<in> set xs. fst p \<noteq> ty" by (metis imageI)
      then have "filter (\<lambda>p. fst p \<noteq> ty) xs = xs" by (simp add: filter_id_conv)
      with True show ?thesis by simp
    next
      case False
      with Cons have "length (filter (\<lambda>p. fst p \<noteq> ty) xs) = length xs - 1" "xs \<noteq> []" by auto
      with False show ?thesis by (cases xs) auto
    qed
  qed simp
  then have "length (filter (\<lambda>p. fst p \<noteq> ty) (sf_running f)) = length (sf_running f) - 1"
    using d ty by force
  then show ?thesis
    using inv distinct_map_filter [OF d, of "\<lambda>p. fst p \<noteq> ty"] by (auto simp: factory_inv_def goroutine_done_def)
qed

lemma factory_inv_step:
  assumes "factory_inv evs f" "factory_step f ev f'"
  shows "factory_inv (evs @ [ev]) f'"
  using assms(2)
proof (cases rule: factory_step.cases)
  case (step_informer ty newFunc infm)
  with factory_inv_InformerFor [OF assms(1)] show ?thesis by simp
next
  case (step_start es ch)
  with factory_inv_Start [OF assms(1)] show ?thesis by simp
next
  case (step_shutdown returned)
  then have "f' = f\<lparr>sf_shuttingDown := True\<rparr>" by (simp add: Shutdown_def)
  with assms(1) step_shutdown(1) show ?thesis unfolding factory_inv_def by simp
next
  case (step_done ty infm ch)
  with factory_inv_done [OF assms(1)] show ?thesis by simp
qed

interpretation factory_runs: run_invariant factory_step factory_start "\<lambda>_. True" factory_inv
proof
  fix f :: "('cl, 'tw, 'tr, 'inf, 'ch) sharedInformerFactory"
  assume "factory_start f"
  then show "factory_inv [] f" by (simp add: factory_inv_def factory_start_def)
qed (auto intro: factory_inv_step)

subsection \<open>Properties\<close>

text \<open>C32: sharing. In any run of a new factory, with requests for informers, starts, shutdowns and ending
  goroutines in any order: all requests for one type got the same informer; at most one goroutine
  runs for a type, and it runs that informer; the wait group counts exactly the goroutines
  that run; and no informer is started that was not requested.\<close>

theorem one_informer_per_type:
  assumes "run factory_step (NewSharedInformerFactoryWithOptions client resync options) evs f"
  shows "(\<forall>ty i j. EvInformer ty i \<in> set evs \<and> EvInformer ty j \<in> set evs \<longrightarrow> i = j)
    \<and> distinct (map fst (sf_running f))
    \<and> (\<forall>(ty, infm, ch) \<in> set (sf_running f). sf_startedInformers f ty \<and> sf_informers f ty = Some infm)
    \<and> sf_wg f = length (sf_running f)
    \<and> (\<forall>ty. sf_startedInformers f ty \<longrightarrow> sf_informers f ty \<noteq> None)"
proof -
  have "factory_start (NewSharedInformerFactoryWithOptions client resync options)"
    by (simp add: factory_start_def NewSharedInformerFactoryWithOptions_def Let_def)
  from factory_runs.inv_run [OF assms this TrueI] have inv: "factory_inv evs f" .
  have "i = j" if "EvInformer ty i \<in> set evs" "EvInformer ty j \<in> set evs" for ty i j
    using inv that unfolding factory_inv_def by (metis option.inject)
  with inv show ?thesis unfolding factory_inv_def by blast
qed

definition sample_factory_started :: "(unit, unit, unit, nat, unit) sharedInformerFactory" where
  "sample_factory_started =
     Start () [(KInitTarget, 7)] (snd (InformerFor KInitTarget (\<lambda>c r. 7) (NewSharedInformerFactory () 5)))"

lemma sample_factory_run:
  "run factory_step (NewSharedInformerFactoryWithOptions () 5 []) [EvInformer KInitTarget (7::nat), EvStart ()]
     sample_factory_started"
proof -
  let ?f0 = "NewSharedInformerFactoryWithOptions () 5 [] :: (unit, unit, unit, nat, unit) sharedInformerFactory"
  let ?f1 = "snd (InformerFor KInitTarget (\<lambda>c r. 7) ?f0)"
  have fst1: "InformerFor KInitTarget (\<lambda>c r. 7) ?f0 = (7, ?f1)"
    by (simp add: InformerFor_def NewSharedInformerFactoryWithOptions_def Let_def)
  have s1: "factory_step ?f0 (EvInformer KInitTarget 7) ?f1" by (rule step_informer [OF fst1])
  have "entries_of (sf_informers ?f1) [(KInitTarget, 7)]"
    by (simp add: entries_of_def InformerFor_def NewSharedInformerFactoryWithOptions_def Let_def fun_eq_iff)
  then have s2: "factory_step ?f1 (EvStart ()) sample_factory_started"
    unfolding sample_factory_started_def NewSharedInformerFactory_def by (rule step_start)
  show ?thesis using run_Cons [where step = factory_step, OF s1 run_one [where step = factory_step, OF s2]] .
qed

theorem one_informer_per_type_witness:
  "sf_wg sample_factory_started = 1 \<and> distinct (map fst (sf_running sample_factory_started))
   \<and> sf_running sample_factory_started = [(KInitTarget, 7, ())]"
proof -
  have "sf_running sample_factory_started = [(KInitTarget, 7, ())]"
    by (simp add: sample_factory_started_def Start_def InformerFor_def NewSharedInformerFactory_def
        NewSharedInformerFactoryWithOptions_def Let_def)
  then show ?thesis using one_informer_per_type [OF sample_factory_run] by simp
qed

text \<open>Starting. Unless the factory is shutting down, after \<^verbatim>\<open>Start\<close> every requested
  informer is started; the new goroutines are one for each informer that was not started, with the given
  channel, and the running ones are not touched; a second \<^verbatim>\<open>Start\<close> changes nothing; and the order
  in which Go iterates over the map does not matter, up to the order of the goroutines. While it is
  shutting down, \<^verbatim>\<open>Start\<close> does nothing.\<close>

theorem Start_starts_the_rest:
  assumes "entries_of (sf_informers f) es" and "entries_of (sf_informers f) es'"
  shows "if sf_shuttingDown f then Start ch es f = f
    else (\<forall>ty. sf_startedInformers (Start ch es f) ty \<longleftrightarrow> sf_startedInformers f ty \<or> sf_informers f ty \<noteq> None)
      \<and> sf_running (Start ch es f) =
          sf_running f @ map (\<lambda>(ty, infm). (ty, infm, ch)) (filter (\<lambda>(ty, infm). \<not> sf_startedInformers f ty) es)
      \<and> sf_running (Start ch2 es' (Start ch es f)) = sf_running (Start ch es f)
      \<and> sf_startedInformers (Start ch es f) = sf_startedInformers (Start ch es' f)
      \<and> set (sf_running (Start ch es f)) = set (sf_running (Start ch es' f))"
proof (cases "sf_shuttingDown f")
  case False
  have d: "distinct (map fst es)" "distinct (map fst es')" using assms by (simp_all add: entries_of_def)
  have started: "sf_startedInformers (start_loop ch xs f) ty \<longleftrightarrow> sf_startedInformers f ty \<or> sf_informers f ty \<noteq> None"
    if "entries_of (sf_informers f) xs" for xs ty
    using start_loop_started [of ch xs f ty] entries_of_fst [OF that, of ty] by simp
  have "filter (\<lambda>(ty, infm). \<not> sf_startedInformers (start_loop ch es f) ty) es' = []"
    using started [OF assms(1)] entries_of_set [OF assms(2)] by (auto simp: filter_empty_conv)
  then have twice: "sf_running (start_loop ch2 es' (start_loop ch es f)) = sf_running (start_loop ch es f)"
    using start_loop_running [OF d(2), of ch2 "start_loop ch es f"] by simp
  have "set es = set es'" using entries_of_set [OF assms(1)] entries_of_set [OF assms(2)] by auto
  then have "set (sf_running (start_loop ch es f)) = set (sf_running (start_loop ch es' f))"
    using start_loop_running [OF d(1), of ch f] start_loop_running [OF d(2), of ch f] by auto
  moreover have "sf_startedInformers (start_loop ch es f) = sf_startedInformers (start_loop ch es' f)"
    using started [OF assms(1)] started [OF assms(2)] by (simp add: fun_eq_iff)
  ultimately show ?thesis
    using False started [OF assms(1)] start_loop_running [OF d(1), of ch f] twice by (simp add: Start_def)
qed (simp add: Start_def)

theorem Start_starts_the_rest_witness:
  "sf_running (Start () [(KInitTarget, 7)] sample_factory_started) = [(KInitTarget, 7, ())]"
proof -
  let ?f = "snd (InformerFor KInitTarget (\<lambda>c r. 7) (NewSharedInformerFactory () 5)) ::
      (unit, unit, unit, nat, unit) sharedInformerFactory"
  have e: "entries_of (sf_informers ?f) [(KInitTarget, 7)]"
    by (simp add: entries_of_def InformerFor_def NewSharedInformerFactory_def
        NewSharedInformerFactoryWithOptions_def Let_def fun_eq_iff)
  have "\<not> sf_shuttingDown ?f" "sf_running ?f = []" "\<not> sf_startedInformers ?f KInitTarget"
    by (simp_all add: InformerFor_def NewSharedInformerFactory_def NewSharedInformerFactoryWithOptions_def Let_def)
  then show ?thesis
    using Start_starts_the_rest [OF e e, of "()" "()"] unfolding sample_factory_started_def by simp
qed

lemma shutdown_run:
  "run factory_step f evs f' \<Longrightarrow> sf_shuttingDown f \<Longrightarrow> sf_shuttingDown f' \<and> set (sf_running f') \<subseteq> set (sf_running f)"
proof (induction rule: run.induct)
  case (run_step f evs f' ev f'')
  from run_step(2) have "sf_shuttingDown f' \<Longrightarrow> sf_shuttingDown f'' \<and> set (sf_running f'') \<subseteq> set (sf_running f')"
    by (cases rule: factory_step.cases)
      (auto simp: InformerFor_def Start_def Shutdown_def goroutine_done_def Let_def split: option.splits)
  with run_step show ?case by blast
qed simp

text \<open>Shutting down. Once \<^verbatim>\<open>Shutdown\<close> was called, in every later state no goroutine runs
  that did not run before, whatever is requested or started; and the wait of \<^verbatim>\<open>Shutdown\<close> returns
  exactly when no goroutine is left.\<close>

theorem Shutdown_stops_starting:
  assumes "run factory_step (NewSharedInformerFactoryWithOptions client resync options) evs f"
    and "run factory_step (fst (Shutdown f)) evs' f'"
  shows "set (sf_running f') \<subseteq> set (sf_running f) \<and> (snd (Shutdown f') \<longleftrightarrow> sf_running f' = [])"
proof -
  have start: "factory_start (NewSharedInformerFactoryWithOptions client resync options)"
    by (simp add: factory_start_def NewSharedInformerFactoryWithOptions_def Let_def)
  have "factory_step f EvShutdown (fst (Shutdown f))" by (rule step_shutdown [OF prod.collapse [symmetric]])
  from run_step [where step = factory_step, OF assms(1) this]
  have "run factory_step (NewSharedInformerFactoryWithOptions client resync options) ((evs @ [EvShutdown]) @ evs') f'"
    using run_trans [where step = factory_step, OF assms(2)] by blast
  from factory_runs.inv_run [OF this start TrueI] have "sf_wg f' = length (sf_running f')"
    by (simp add: factory_inv_def)
  with shutdown_run [OF assms(2)] show ?thesis by (simp add: Shutdown_def)
qed

theorem Shutdown_stops_starting_witness:
  "set (sf_running (Start () [(KInitTarget, 7)] (fst (Shutdown (sample_factory_started))))) \<subseteq>
     set (sf_running sample_factory_started)"
proof -
  let ?f = "fst (Shutdown sample_factory_started)"
  have e: "entries_of (sf_informers ?f) [(KInitTarget, 7)]"
    by (simp add: entries_of_def Shutdown_def sample_factory_started_def Start_def InformerFor_def
        NewSharedInformerFactory_def NewSharedInformerFactoryWithOptions_def Let_def fun_eq_iff)
  have "run factory_step ?f [EvStart ()] (Start () [(KInitTarget, 7)] ?f)"
    by (rule run_one [where step = factory_step, OF step_start [OF e]])
  from Shutdown_stops_starting [OF sample_factory_run this] show ?thesis by blast
qed

lemma apply_options_snoc: "apply_options (opts @ [opt]) = opt (apply_options opts)"
  by (simp add: apply_options_def)


end
