(* ===== verification/Listers.thy ===== *)
theory Listers
  imports Api_Types
begin

text \<open>
  \<^verbatim>\<open>sdk/listers\<close>: typed reads from an informer's store. The store (\<^verbatim>\<open>cache.Indexer\<close>)
  and the helper functions of the cache libraries are the fields of \<open>cache_lib\<close>; it holds values of any
  type (\<^verbatim>\<open>interface{}\<close>), so the type assertions of the listers can fail, which is a panic.
  Each operation is written once for an assertion \<open>as_type\<close> and a resource name, and instantiated for
  the two API types, as the generated files are.
\<close>

datatype stored = STarget init_target | STemplate InitTemplate | SOther

fun as_InitTarget :: "stored \<Rightarrow> init_target option" where
  "as_InitTarget (STarget t) = Some t"
| "as_InitTarget _ = None"

fun as_InitTemplate :: "stored \<Rightarrow> InitTemplate option" where
  "as_InitTemplate (STemplate t) = Some t"
| "as_InitTemplate _ = None"

record ('ix, 'sel, 'e) cache_lib =
  ca_ListAll :: "'ix \<Rightarrow> 'sel \<Rightarrow> stored list \<times> 'e option"
  ca_ListAllByCluster :: "'ix \<Rightarrow> string \<Rightarrow> 'sel \<Rightarrow> stored list \<times> 'e option"
  ca_GetByKey :: "'ix \<Rightarrow> string \<Rightarrow> stored option \<times> 'e option"
  ca_ToClusterAwareKey :: "string \<Rightarrow> string \<Rightarrow> string \<Rightarrow> string"
  ca_NewNotFound :: "group_resource \<Rightarrow> string \<Rightarrow> 'e"

subsection \<open>One operation for every type\<close>

text \<open>The append function that the library calls for every object it selects.\<close>

fun append_all :: "(stored \<Rightarrow> 'a option) \<Rightarrow> stored list \<Rightarrow> 'a list \<Rightarrow> 'a list outcome" where
  "append_all as_type [] ret = Ret ret"
| "append_all as_type (m # ms) ret =
     (case as_type m of
        None \<Rightarrow> Panic ''interface conversion''
      | Some a \<Rightarrow> append_all as_type ms (ret @ [a]))"

definition list_typed ::
  "(stored \<Rightarrow> 'a option) \<Rightarrow> stored list \<times> 'e option \<Rightarrow> ('a list \<times> 'e option) outcome" where
  "list_typed as_type found =
     (case found of (objs, err) \<Rightarrow>
        (case append_all as_type objs [] of
           Ret ret \<Rightarrow> Ret (ret, err)
         | Panic m \<Rightarrow> Panic m
         | Diverges \<Rightarrow> Diverges))"

definition get_typed ::
  "('ix, 'sel, 'e) cache_lib \<Rightarrow> (stored \<Rightarrow> 'a option) \<Rightarrow> string \<Rightarrow> 'ix \<Rightarrow> string \<Rightarrow> string \<Rightarrow> ('e + 'a) outcome" where
  "get_typed lib as_type resource indexer key name =
     (case ca_GetByKey lib indexer key of
        (obj, Some err) \<Rightarrow> Ret (Inl err)
      | (None, None) \<Rightarrow> Ret (Inl (ca_NewNotFound lib (Resource resource) name))
      | (Some obj, None) \<Rightarrow>
          (case as_type obj of None \<Rightarrow> Panic ''interface conversion'' | Some a \<Rightarrow> Ret (Inr a)))"

subsection \<open>InitTarget\<close>

record 'ix initTargetClusterLister =
  initTargetCL_indexer :: 'ix

record 'ix initTargetLister =
  initTargetL_indexer :: 'ix
  initTargetL_clusterName :: string

record 'ix initTargetScopedLister =
  initTargetSL_indexer :: 'ix

definition NewInitTargetClusterLister :: "'ix \<Rightarrow> 'ix initTargetClusterLister" where
  "NewInitTargetClusterLister indexer = \<lparr>initTargetCL_indexer = indexer\<rparr>"

definition initTargetClusterLister_List ::
  "('ix, 'sel, 'e) cache_lib \<Rightarrow> 'ix initTargetClusterLister \<Rightarrow> 'sel \<Rightarrow> (init_target list \<times> 'e option) outcome" where
  "initTargetClusterLister_List lib s selector = list_typed as_InitTarget (ca_ListAll lib (initTargetCL_indexer s) selector)"

definition initTargetClusterLister_Cluster :: "'ix initTargetClusterLister \<Rightarrow> string \<Rightarrow> 'ix initTargetLister" where
  "initTargetClusterLister_Cluster s clusterName =
     \<lparr>initTargetL_indexer = initTargetCL_indexer s, initTargetL_clusterName = clusterName\<rparr>"

definition initTargetLister_List ::
  "('ix, 'sel, 'e) cache_lib \<Rightarrow> 'ix initTargetLister \<Rightarrow> 'sel \<Rightarrow> (init_target list \<times> 'e option) outcome" where
  "initTargetLister_List lib s selector =
     list_typed as_InitTarget (ca_ListAllByCluster lib (initTargetL_indexer s) (initTargetL_clusterName s) selector)"

definition initTargetLister_Get ::
  "('ix, 'sel, 'e) cache_lib \<Rightarrow> 'ix initTargetLister \<Rightarrow> string \<Rightarrow> ('e + init_target) outcome" where
  "initTargetLister_Get lib s name =
     (let key = ca_ToClusterAwareKey lib (initTargetL_clusterName s) [] name
      in get_typed lib as_InitTarget ''inittargets'' (initTargetL_indexer s) key name)"

definition NewInitTargetLister :: "'ix \<Rightarrow> 'ix initTargetScopedLister" where
  "NewInitTargetLister indexer = \<lparr>initTargetSL_indexer = indexer\<rparr>"

definition initTargetScopedLister_List ::
  "('ix, 'sel, 'e) cache_lib \<Rightarrow> 'ix initTargetScopedLister \<Rightarrow> 'sel \<Rightarrow> (init_target list \<times> 'e option) outcome" where
  "initTargetScopedLister_List lib s selector = list_typed as_InitTarget (ca_ListAll lib (initTargetSL_indexer s) selector)"

definition initTargetScopedLister_Get ::
  "('ix, 'sel, 'e) cache_lib \<Rightarrow> 'ix initTargetScopedLister \<Rightarrow> string \<Rightarrow> ('e + init_target) outcome" where
  "initTargetScopedLister_Get lib s name =
     (let key = name in get_typed lib as_InitTarget ''inittargets'' (initTargetSL_indexer s) key name)"

subsection \<open>InitTemplate\<close>

record 'ix initTemplateClusterLister =
  initTemplateCL_indexer :: 'ix

record 'ix initTemplateLister =
  initTemplateL_indexer :: 'ix
  initTemplateL_clusterName :: string

record 'ix initTemplateScopedLister =
  initTemplateSL_indexer :: 'ix

definition NewInitTemplateClusterLister :: "'ix \<Rightarrow> 'ix initTemplateClusterLister" where
  "NewInitTemplateClusterLister indexer = \<lparr>initTemplateCL_indexer = indexer\<rparr>"

definition initTemplateClusterLister_List ::
  "('ix, 'sel, 'e) cache_lib \<Rightarrow> 'ix initTemplateClusterLister \<Rightarrow> 'sel \<Rightarrow> (InitTemplate list \<times> 'e option) outcome" where
  "initTemplateClusterLister_List lib s selector = list_typed as_InitTemplate (ca_ListAll lib (initTemplateCL_indexer s) selector)"

definition initTemplateClusterLister_Cluster :: "'ix initTemplateClusterLister \<Rightarrow> string \<Rightarrow> 'ix initTemplateLister" where
  "initTemplateClusterLister_Cluster s clusterName =
     \<lparr>initTemplateL_indexer = initTemplateCL_indexer s, initTemplateL_clusterName = clusterName\<rparr>"

definition initTemplateLister_List ::
  "('ix, 'sel, 'e) cache_lib \<Rightarrow> 'ix initTemplateLister \<Rightarrow> 'sel \<Rightarrow> (InitTemplate list \<times> 'e option) outcome" where
  "initTemplateLister_List lib s selector =
     list_typed as_InitTemplate (ca_ListAllByCluster lib (initTemplateL_indexer s) (initTemplateL_clusterName s) selector)"

definition initTemplateLister_Get ::
  "('ix, 'sel, 'e) cache_lib \<Rightarrow> 'ix initTemplateLister \<Rightarrow> string \<Rightarrow> ('e + InitTemplate) outcome" where
  "initTemplateLister_Get lib s name =
     (let key = ca_ToClusterAwareKey lib (initTemplateL_clusterName s) [] name
      in get_typed lib as_InitTemplate ''inittemplates'' (initTemplateL_indexer s) key name)"

definition NewInitTemplateLister :: "'ix \<Rightarrow> 'ix initTemplateScopedLister" where
  "NewInitTemplateLister indexer = \<lparr>initTemplateSL_indexer = indexer\<rparr>"

definition initTemplateScopedLister_List ::
  "('ix, 'sel, 'e) cache_lib \<Rightarrow> 'ix initTemplateScopedLister \<Rightarrow> 'sel \<Rightarrow> (InitTemplate list \<times> 'e option) outcome" where
  "initTemplateScopedLister_List lib s selector = list_typed as_InitTemplate (ca_ListAll lib (initTemplateSL_indexer s) selector)"

definition initTemplateScopedLister_Get ::
  "('ix, 'sel, 'e) cache_lib \<Rightarrow> 'ix initTemplateScopedLister \<Rightarrow> string \<Rightarrow> ('e + InitTemplate) outcome" where
  "initTemplateScopedLister_Get lib s name =
     (let key = name in get_typed lib as_InitTemplate ''inittemplates'' (initTemplateSL_indexer s) key name)"

subsection \<open>What a lister returns\<close>

lemma append_all_Ret: "list_all2 (\<lambda>m a. as_type m = Some a) ms as \<Longrightarrow> append_all as_type ms ret = Ret (ret @ as)"
  by (induction ms as arbitrary: ret rule: list_all2_induct) auto

lemma append_all_Panic: "\<exists>m \<in> set ms. as_type m = None \<Longrightarrow> append_all as_type ms ret = Panic ''interface conversion''"
  by (induction ms arbitrary: ret) (auto split: option.splits)

lemma append_all_cases:
  "append_all as_type ms ret =
     (if \<exists>m \<in> set ms. as_type m = None then Panic ''interface conversion'' else Ret (ret @ map (the \<circ> as_type) ms))"
  using append_all_Panic [of ms as_type ret] append_all_Ret [of as_type ms "map (the \<circ> as_type) ms" ret]
  by (auto simp: list_all2_conv_all_nth)

lemma list_typed_cases:
  "list_typed as_type (objs, err) =
     (if \<exists>m \<in> set objs. as_type m = None then Panic ''interface conversion''
      else Ret (map (the \<circ> as_type) objs, err))"
  by (simp add: list_typed_def append_all_cases)

text \<open>What the documentation of the constructors assumes of a cross-workspace indexer: it holds objects of one
  type, with their clusters, under cluster-aware keys, no two under one key; listing filters
  by the selector, and by cluster.\<close>

definition cluster_store ::
  "('ix, 'sel, 'e) cache_lib \<Rightarrow> ('a \<Rightarrow> stored) \<Rightarrow> ('a \<Rightarrow> object_meta) \<Rightarrow> ('sel \<Rightarrow> 'a \<Rightarrow> bool) \<Rightarrow> 'ix \<Rightarrow>
   (string \<times> 'a) list \<Rightarrow> bool" where
  "cluster_store lib inject meta matches indexer items \<longleftrightarrow>
     distinct (map (\<lambda>(c, a). (c, meta_Name (meta a))) items)
   \<and> (\<forall>sel. ca_ListAll lib indexer sel = (map (inject \<circ> snd) (filter (\<lambda>(c, a). matches sel a) items), None))
   \<and> (\<forall>c sel. ca_ListAllByCluster lib indexer c sel =
        (map (inject \<circ> snd) (filter (\<lambda>(c', a). c' = c \<and> matches sel a) items), None))
   \<and> (\<forall>c n. ca_GetByKey lib indexer (ca_ToClusterAwareKey lib c [] n) =
        (map_option (inject \<circ> snd) (find (\<lambda>(c', a). c' = c \<and> meta_Name (meta a) = n) items), None))"

lemma find_distinct:
  assumes "distinct (map f xs)" "x \<in> set xs"
  shows "find (\<lambda>y. f y = f x) xs = Some x"
  using assms by (induction xs) (auto simp: image_iff)

lemma find_cluster_item:
  assumes "distinct (map (\<lambda>(c, a). (c, meta_Name (meta a))) items)" "(c, a) \<in> set items"
  shows "find (\<lambda>(c', a'). c' = c \<and> meta_Name (meta a') = meta_Name (meta a)) items = Some (c, a)"
  using find_distinct [OF assms] by (simp add: split_def)

lemma find_cluster_none:
  "\<forall>a. (c, a) \<in> set items \<longrightarrow> meta_Name (meta a) \<noteq> n \<Longrightarrow>
   find (\<lambda>(c', a'). c' = c \<and> meta_Name (meta a') = n) items = None"
  by (auto simp: find_None_iff)

text \<open>The listers agree with the store: a list operation returns the selected objects in the
  store's order, restricted to the cluster where there is one; a get operation returns the object of
  the cluster with that name if there is one, and otherwise the error made by \<^verbatim>\<open>NewNotFound\<close> for the
  resource.\<close>

definition lister_agrees ::
  "('ix, 'sel, 'e) cache_lib \<Rightarrow> string \<Rightarrow> ('a \<Rightarrow> object_meta) \<Rightarrow> ('sel \<Rightarrow> 'a \<Rightarrow> bool) \<Rightarrow>
   ('sel \<Rightarrow> ('a list \<times> 'e option) outcome) \<Rightarrow> (string \<Rightarrow> 'sel \<Rightarrow> ('a list \<times> 'e option) outcome) \<Rightarrow>
   (string \<Rightarrow> string \<Rightarrow> ('e + 'a) outcome) \<Rightarrow> (string \<times> 'a) list \<Rightarrow> bool" where
  "lister_agrees lib resource meta matches list_all_clusters list_cluster get items \<longleftrightarrow>
     (\<forall>sel. list_all_clusters sel = Ret (map snd (filter (\<lambda>(c, a). matches sel a) items), None))
   \<and> (\<forall>c sel. list_cluster c sel = Ret (map snd (filter (\<lambda>(c', a). c' = c \<and> matches sel a) items), None))
   \<and> (\<forall>c a. (c, a) \<in> set items \<longrightarrow> get c (meta_Name (meta a)) = Ret (Inr a))
   \<and> (\<forall>c n. (\<forall>a. (c, a) \<in> set items \<longrightarrow> meta_Name (meta a) \<noteq> n) \<longrightarrow>
        get c n = Ret (Inl (ca_NewNotFound lib (Resource resource) n)))"

lemma list_typed_inject:
  assumes "\<And>a. as_type (inject a) = Some a"
  shows "list_typed as_type (map (inject \<circ> snd) xs, err) = Ret (map snd xs, err)"
  using assms by (simp add: list_typed_cases comp_def)

lemma get_typed_store:
  assumes "cluster_store lib inject meta matches indexer items" "\<And>a. as_type (inject a) = Some a"
  shows "(c, a) \<in> set items \<Longrightarrow>
      get_typed lib as_type res indexer (ca_ToClusterAwareKey lib c [] (meta_Name (meta a))) (meta_Name (meta a)) = Ret (Inr a)"
    and "\<forall>a. (c, a) \<in> set items \<longrightarrow> meta_Name (meta a) \<noteq> n \<Longrightarrow>
      get_typed lib as_type res indexer (ca_ToClusterAwareKey lib c [] n) n
        = Ret (Inl (ca_NewNotFound lib (Resource res) n))"
proof -
  have d: "distinct (map (\<lambda>(c, a). (c, meta_Name (meta a))) items)"
    and g: "\<And>c n. ca_GetByKey lib indexer (ca_ToClusterAwareKey lib c [] n) =
        (map_option (inject \<circ> snd) (find (\<lambda>(c', a). c' = c \<and> meta_Name (meta a) = n) items), None)"
    using assms(1) by (simp_all add: cluster_store_def)
  show "(c, a) \<in> set items \<Longrightarrow>
      get_typed lib as_type res indexer (ca_ToClusterAwareKey lib c [] (meta_Name (meta a))) (meta_Name (meta a)) = Ret (Inr a)"
    using find_cluster_item [OF d] assms(2) by (simp add: get_typed_def g)
  show "\<forall>a. (c, a) \<in> set items \<longrightarrow> meta_Name (meta a) \<noteq> n \<Longrightarrow>
      get_typed lib as_type res indexer (ca_ToClusterAwareKey lib c [] n) n
        = Ret (Inl (ca_NewNotFound lib (Resource res) n))"
    using find_cluster_none [of c items meta n] by (simp add: get_typed_def g)
qed

lemma store_lists:
  assumes "cluster_store lib inject meta matches indexer items"
  shows "ca_ListAll lib indexer sel = (map (inject \<circ> snd) (filter (\<lambda>(c, a). matches sel a) items), None)"
    and "ca_ListAllByCluster lib indexer c sel =
        (map (inject \<circ> snd) (filter (\<lambda>(c', a). c' = c \<and> matches sel a) items), None)"
  using assms by (simp_all add: cluster_store_def)

text \<open>C34: the typed listers of both API types agree with the store they read, without a panic, when the
  store is what their constructors document.\<close>

theorem listers_agree_with_store:
  assumes "cluster_store lib STarget it_ObjectMeta matches ix targets"
    and "cluster_store lib STemplate itp_ObjectMeta matches' ix' templates"
  shows "lister_agrees lib ''inittargets'' it_ObjectMeta matches
      (initTargetClusterLister_List lib (NewInitTargetClusterLister ix))
      (\<lambda>c. initTargetLister_List lib (initTargetClusterLister_Cluster (NewInitTargetClusterLister ix) c))
      (\<lambda>c. initTargetLister_Get lib (initTargetClusterLister_Cluster (NewInitTargetClusterLister ix) c)) targets
    \<and> lister_agrees lib ''inittemplates'' itp_ObjectMeta matches'
      (initTemplateClusterLister_List lib (NewInitTemplateClusterLister ix'))
      (\<lambda>c. initTemplateLister_List lib (initTemplateClusterLister_Cluster (NewInitTemplateClusterLister ix') c))
      (\<lambda>c. initTemplateLister_Get lib (initTemplateClusterLister_Cluster (NewInitTemplateClusterLister ix') c)) templates"
proof
  show "lister_agrees lib ''inittargets'' it_ObjectMeta matches
      (initTargetClusterLister_List lib (NewInitTargetClusterLister ix))
      (\<lambda>c. initTargetLister_List lib (initTargetClusterLister_Cluster (NewInitTargetClusterLister ix) c))
      (\<lambda>c. initTargetLister_Get lib (initTargetClusterLister_Cluster (NewInitTargetClusterLister ix) c)) targets"
    by (simp add: lister_agrees_def initTargetClusterLister_List_def initTargetClusterLister_Cluster_def
        initTargetLister_List_def initTargetLister_Get_def NewInitTargetClusterLister_def
        store_lists [OF assms(1)] list_typed_inject get_typed_store [OF assms(1)])
  show "lister_agrees lib ''inittemplates'' itp_ObjectMeta matches'
      (initTemplateClusterLister_List lib (NewInitTemplateClusterLister ix'))
      (\<lambda>c. initTemplateLister_List lib (initTemplateClusterLister_Cluster (NewInitTemplateClusterLister ix') c))
      (\<lambda>c. initTemplateLister_Get lib (initTemplateClusterLister_Cluster (NewInitTemplateClusterLister ix') c)) templates"
    by (simp add: lister_agrees_def initTemplateClusterLister_List_def initTemplateClusterLister_Cluster_def
        initTemplateLister_List_def initTemplateLister_Get_def NewInitTemplateClusterLister_def
        store_lists [OF assms(2)] list_typed_inject get_typed_store [OF assms(2)])
qed

text \<open>A store that is the list of its items, in a table from keys to positions.\<close>

definition sample_named_target :: "string \<Rightarrow> init_target" where
  "sample_named_target n =
     \<lparr>it_TypeMeta = \<lparr>tm_Kind = [], tm_APIVersion = []\<rparr>, it_ObjectMeta = empty_meta\<lparr>meta_Name := n\<rparr>,
      it_Spec = \<lparr>its_WorkspaceTypeReference = \<lparr>wtr_Path = [], wtr_Name = []\<rparr>, its_Sources = []\<rparr>\<rparr>"

definition stored_meta :: "stored \<Rightarrow> object_meta" where
  "stored_meta s = (case s of STarget t \<Rightarrow> it_ObjectMeta t | STemplate t \<Rightarrow> itp_ObjectMeta t | SOther \<Rightarrow> empty_meta)"

definition list_cache :: "((string \<times> stored) list, unit, string) cache_lib" where
  "list_cache =
     \<lparr>ca_ListAll = (\<lambda>ix sel. (map snd ix, None)),
      ca_ListAllByCluster = (\<lambda>ix c sel. (map snd (filter (\<lambda>(c', a). c' = c) ix), None)),
      ca_GetByKey = (\<lambda>ix key. (map_option snd (find (\<lambda>(c', a). c' @ [CHR 0x00] @ meta_Name (stored_meta a) = key) ix), None)),
      ca_ToClusterAwareKey = (\<lambda>c ns n. c @ [CHR 0x00] @ n),
      ca_NewNotFound = (\<lambda>r n. gr_Resource r @ '' '' @ n @ '' not found'')\<rparr>"

theorem listers_agree_with_store_witness:
  "initTargetClusterLister_List list_cache (NewInitTargetClusterLister [(''root'', STarget (sample_named_target ''a''))]) ()
     = Ret ([sample_named_target ''a''], None)"
proof -
  have t: "cluster_store list_cache STarget it_ObjectMeta (\<lambda>_ _. True) [(''root'', STarget (sample_named_target ''a''))]
      [(''root'', sample_named_target ''a'')]"
    by (auto simp: cluster_store_def list_cache_def stored_meta_def sample_named_target_def append_Cons_eq_iff [of "CHR 0x00" "''root''" "''a''", simplified])
  have e: "cluster_store list_cache STemplate itp_ObjectMeta (\<lambda>_ _. True) [] []"
    by (simp add: cluster_store_def list_cache_def)
  from conjunct1 [OF listers_agree_with_store [OF t e]] show ?thesis by (simp add: lister_agrees_def)
qed

end
