(* ===== verification/Informers.thy ===== *)
theory Informers
  imports Informer_Factory Listers
begin

text \<open>
  \<^verbatim>\<open>sdk/informers/externalversions\<close>: the typed accessors of the factories
  (\<^verbatim>\<open>initialization/interface.go\<close>, \<^verbatim>\<open>initialization/v1alpha1\<close>) and the generic one
  (\<^verbatim>\<open>generic.go\<close>). An accessor object of the code holds the factory and the tweak function; the
  factory is a state that every operation passes on, so the objects here hold the tweak function only. The
  informers, their stores and scoping them to a cluster are library code, the fields of
  \<open>informer_lib\<close>; a client is the two operations of each resource that informers use. The definitions of
  the two resources are the same up to names, as the generated files are.
\<close>

type_synonym 'o tweak = "('o \<Rightarrow> 'o) option"

record ('o, 'r) list_watch =
  lw_ListFunc :: "'o \<Rightarrow> 'r"
  lw_WatchFunc :: "'o \<Rightarrow> 'r"

record ('o, 'r) typed_client =
  tc_ListInitTargets :: "'o \<Rightarrow> 'r"
  tc_WatchInitTargets :: "'o \<Rightarrow> 'r"
  tc_ListInitTemplates :: "'o \<Rightarrow> 'r"
  tc_WatchInitTemplates :: "'o \<Rightarrow> 'r"

record ('o, 'r, 'idx, 'inf, 'sinf, 'ix) informer_lib =
  il_NewSharedIndexInformer :: "('o, 'r) list_watch \<Rightarrow> known_type \<Rightarrow> int \<Rightarrow> 'idx \<Rightarrow> 'inf"
  il_NewScopedSharedIndexInformer :: "('o, 'r) list_watch \<Rightarrow> known_type \<Rightarrow> int \<Rightarrow> 'idx \<Rightarrow> 'sinf"
  il_Cluster :: "'inf \<Rightarrow> string \<Rightarrow> 'sinf"
  il_GetIndexer :: "'inf \<Rightarrow> 'ix"
  il_GetScopedIndexer :: "'sinf \<Rightarrow> 'ix"
  il_ClusterIndexers :: 'idx
  il_NoIndexers :: 'idx

text \<open>\<^verbatim>\<open>if tweakListOptions != nil { tweakListOptions(&options) }\<close>\<close>

definition tweaked :: "'o tweak \<Rightarrow> 'o \<Rightarrow> 'o" where
  "tweaked tweakListOptions options = (case tweakListOptions of Some t \<Rightarrow> t options | None \<Rightarrow> options)"

type_synonym ('o, 'r, 'tr, 'inf, 'ch) factory =
  "(('o, 'r) typed_client, 'o \<Rightarrow> 'o, 'tr, 'inf, 'ch) sharedInformerFactory"

type_synonym ('o, 'r, 'tr, 'sinf, 'ch) scoped_factory =
  "(('o, 'r) typed_client, 'o \<Rightarrow> 'o, 'tr, 'sinf, 'ch) sharedScopedInformerFactory"

subsection \<open>InitTarget\<close>

record 'o initTargetClusterInformer =
  initTargetCI_tweakListOptions :: "'o tweak"

record ('sinf, 'ix) initTargetInformer =
  initTargetI_informer :: 'sinf
  initTargetI_lister :: "'ix initTargetLister"

record 'o initTargetScopedInformer =
  initTargetSI_tweakListOptions :: "'o tweak"

definition NewFilteredInitTargetClusterInformer ::
  "('o, 'r, 'idx, 'inf, 'sinf, 'ix) informer_lib \<Rightarrow> ('o, 'r) typed_client \<Rightarrow> int \<Rightarrow> 'idx \<Rightarrow> 'o tweak \<Rightarrow> 'inf" where
  "NewFilteredInitTargetClusterInformer lib client resyncPeriod indexers tweakListOptions =
     il_NewSharedIndexInformer lib
       \<lparr>lw_ListFunc = (\<lambda>options. tc_ListInitTargets client (tweaked tweakListOptions options)),
        lw_WatchFunc = (\<lambda>options. tc_WatchInitTargets client (tweaked tweakListOptions options))\<rparr>
       KInitTarget resyncPeriod indexers"

definition NewInitTargetClusterInformer ::
  "('o, 'r, 'idx, 'inf, 'sinf, 'ix) informer_lib \<Rightarrow> ('o, 'r) typed_client \<Rightarrow> int \<Rightarrow> 'idx \<Rightarrow> 'inf" where
  "NewInitTargetClusterInformer lib client resyncPeriod indexers =
     NewFilteredInitTargetClusterInformer lib client resyncPeriod indexers None"

definition initTargetClusterInformer_defaultInformer ::
  "('o, 'r, 'idx, 'inf, 'sinf, 'ix) informer_lib \<Rightarrow> 'o initTargetClusterInformer \<Rightarrow> ('o, 'r) typed_client \<Rightarrow> int \<Rightarrow> 'inf" where
  "initTargetClusterInformer_defaultInformer lib i client resyncPeriod =
     NewFilteredInitTargetClusterInformer lib client resyncPeriod (il_ClusterIndexers lib) (initTargetCI_tweakListOptions i)"

definition initTargetClusterInformer_Informer ::
  "('o, 'r, 'idx, 'inf, 'sinf, 'ix) informer_lib \<Rightarrow> 'o initTargetClusterInformer \<Rightarrow> ('o, 'r, 'tr, 'inf, 'ch) factory \<Rightarrow>
   'inf \<times> ('o, 'r, 'tr, 'inf, 'ch) factory" where
  "initTargetClusterInformer_Informer lib i f = InformerFor KInitTarget (initTargetClusterInformer_defaultInformer lib i) f"

definition initTargetClusterInformer_Lister ::
  "('o, 'r, 'idx, 'inf, 'sinf, 'ix) informer_lib \<Rightarrow> 'o initTargetClusterInformer \<Rightarrow> ('o, 'r, 'tr, 'inf, 'ch) factory \<Rightarrow>
   'ix initTargetClusterLister \<times> ('o, 'r, 'tr, 'inf, 'ch) factory" where
  "initTargetClusterInformer_Lister lib i f =
     (case initTargetClusterInformer_Informer lib i f of
        (informer, f') \<Rightarrow> (NewInitTargetClusterLister (il_GetIndexer lib informer), f'))"

definition initTargetClusterInformer_Cluster ::
  "('o, 'r, 'idx, 'inf, 'sinf, 'ix) informer_lib \<Rightarrow> 'o initTargetClusterInformer \<Rightarrow> string \<Rightarrow> ('o, 'r, 'tr, 'inf, 'ch) factory \<Rightarrow>
   ('sinf, 'ix) initTargetInformer \<times> ('o, 'r, 'tr, 'inf, 'ch) factory" where
  "initTargetClusterInformer_Cluster lib i clusterName f =
     (case initTargetClusterInformer_Informer lib i f of
        (informer, f1) \<Rightarrow>
          (case initTargetClusterInformer_Lister lib i f1 of
             (lister, f2) \<Rightarrow>
               (\<lparr>initTargetI_informer = il_Cluster lib informer clusterName,
                 initTargetI_lister = initTargetClusterLister_Cluster lister clusterName\<rparr>, f2)))"

definition initTargetInformer_Informer :: "('sinf, 'ix) initTargetInformer \<Rightarrow> 'sinf" where
  "initTargetInformer_Informer i = initTargetI_informer i"

definition initTargetInformer_Lister :: "('sinf, 'ix) initTargetInformer \<Rightarrow> 'ix initTargetLister" where
  "initTargetInformer_Lister i = initTargetI_lister i"

definition NewFilteredInitTargetInformer ::
  "('o, 'r, 'idx, 'inf, 'sinf, 'ix) informer_lib \<Rightarrow> ('o, 'r) typed_client \<Rightarrow> int \<Rightarrow> 'idx \<Rightarrow> 'o tweak \<Rightarrow> 'sinf" where
  "NewFilteredInitTargetInformer lib client resyncPeriod indexers tweakListOptions =
     il_NewScopedSharedIndexInformer lib
       \<lparr>lw_ListFunc = (\<lambda>options. tc_ListInitTargets client (tweaked tweakListOptions options)),
        lw_WatchFunc = (\<lambda>options. tc_WatchInitTargets client (tweaked tweakListOptions options))\<rparr>
       KInitTarget resyncPeriod indexers"

definition NewInitTargetInformer ::
  "('o, 'r, 'idx, 'inf, 'sinf, 'ix) informer_lib \<Rightarrow> ('o, 'r) typed_client \<Rightarrow> int \<Rightarrow> 'idx \<Rightarrow> 'sinf" where
  "NewInitTargetInformer lib client resyncPeriod indexers = NewFilteredInitTargetInformer lib client resyncPeriod indexers None"

definition initTargetScopedInformer_defaultInformer ::
  "('o, 'r, 'idx, 'inf, 'sinf, 'ix) informer_lib \<Rightarrow> 'o initTargetScopedInformer \<Rightarrow> ('o, 'r) typed_client \<Rightarrow> int \<Rightarrow> 'sinf" where
  "initTargetScopedInformer_defaultInformer lib i client resyncPeriod =
     NewFilteredInitTargetInformer lib client resyncPeriod (il_NoIndexers lib) (initTargetSI_tweakListOptions i)"

definition initTargetScopedInformer_Informer ::
  "('o, 'r, 'idx, 'inf, 'sinf, 'ix) informer_lib \<Rightarrow> ('tr option \<Rightarrow> 'sinf \<Rightarrow> 'sinf) \<Rightarrow> 'o initTargetScopedInformer \<Rightarrow>
   ('o, 'r, 'tr, 'sinf, 'ch) scoped_factory \<Rightarrow> 'sinf \<times> ('o, 'r, 'tr, 'sinf, 'ch) scoped_factory" where
  "initTargetScopedInformer_Informer lib SetTransform i f =
     InformerFor_scoped SetTransform KInitTarget (initTargetScopedInformer_defaultInformer lib i) f"

definition initTargetScopedInformer_Lister ::
  "('o, 'r, 'idx, 'inf, 'sinf, 'ix) informer_lib \<Rightarrow> ('tr option \<Rightarrow> 'sinf \<Rightarrow> 'sinf) \<Rightarrow> 'o initTargetScopedInformer \<Rightarrow>
   ('o, 'r, 'tr, 'sinf, 'ch) scoped_factory \<Rightarrow> 'ix initTargetScopedLister \<times> ('o, 'r, 'tr, 'sinf, 'ch) scoped_factory" where
  "initTargetScopedInformer_Lister lib SetTransform i f =
     (case initTargetScopedInformer_Informer lib SetTransform i f of
        (informer, f') \<Rightarrow> (NewInitTargetLister (il_GetScopedIndexer lib informer), f'))"

subsection \<open>InitTemplate\<close>

record 'o initTemplateClusterInformer =
  initTemplateCI_tweakListOptions :: "'o tweak"

record ('sinf, 'ix) initTemplateInformer =
  initTemplateI_informer :: 'sinf
  initTemplateI_lister :: "'ix initTemplateLister"

record 'o initTemplateScopedInformer =
  initTemplateSI_tweakListOptions :: "'o tweak"

definition NewFilteredInitTemplateClusterInformer ::
  "('o, 'r, 'idx, 'inf, 'sinf, 'ix) informer_lib \<Rightarrow> ('o, 'r) typed_client \<Rightarrow> int \<Rightarrow> 'idx \<Rightarrow> 'o tweak \<Rightarrow> 'inf" where
  "NewFilteredInitTemplateClusterInformer lib client resyncPeriod indexers tweakListOptions =
     il_NewSharedIndexInformer lib
       \<lparr>lw_ListFunc = (\<lambda>options. tc_ListInitTemplates client (tweaked tweakListOptions options)),
        lw_WatchFunc = (\<lambda>options. tc_WatchInitTemplates client (tweaked tweakListOptions options))\<rparr>
       KInitTemplate resyncPeriod indexers"

definition NewInitTemplateClusterInformer ::
  "('o, 'r, 'idx, 'inf, 'sinf, 'ix) informer_lib \<Rightarrow> ('o, 'r) typed_client \<Rightarrow> int \<Rightarrow> 'idx \<Rightarrow> 'inf" where
  "NewInitTemplateClusterInformer lib client resyncPeriod indexers =
     NewFilteredInitTemplateClusterInformer lib client resyncPeriod indexers None"

definition initTemplateClusterInformer_defaultInformer ::
  "('o, 'r, 'idx, 'inf, 'sinf, 'ix) informer_lib \<Rightarrow> 'o initTemplateClusterInformer \<Rightarrow> ('o, 'r) typed_client \<Rightarrow> int \<Rightarrow> 'inf" where
  "initTemplateClusterInformer_defaultInformer lib i client resyncPeriod =
     NewFilteredInitTemplateClusterInformer lib client resyncPeriod (il_ClusterIndexers lib) (initTemplateCI_tweakListOptions i)"

definition initTemplateClusterInformer_Informer ::
  "('o, 'r, 'idx, 'inf, 'sinf, 'ix) informer_lib \<Rightarrow> 'o initTemplateClusterInformer \<Rightarrow> ('o, 'r, 'tr, 'inf, 'ch) factory \<Rightarrow>
   'inf \<times> ('o, 'r, 'tr, 'inf, 'ch) factory" where
  "initTemplateClusterInformer_Informer lib i f = InformerFor KInitTemplate (initTemplateClusterInformer_defaultInformer lib i) f"

definition initTemplateClusterInformer_Lister ::
  "('o, 'r, 'idx, 'inf, 'sinf, 'ix) informer_lib \<Rightarrow> 'o initTemplateClusterInformer \<Rightarrow> ('o, 'r, 'tr, 'inf, 'ch) factory \<Rightarrow>
   'ix initTemplateClusterLister \<times> ('o, 'r, 'tr, 'inf, 'ch) factory" where
  "initTemplateClusterInformer_Lister lib i f =
     (case initTemplateClusterInformer_Informer lib i f of
        (informer, f') \<Rightarrow> (NewInitTemplateClusterLister (il_GetIndexer lib informer), f'))"

definition initTemplateClusterInformer_Cluster ::
  "('o, 'r, 'idx, 'inf, 'sinf, 'ix) informer_lib \<Rightarrow> 'o initTemplateClusterInformer \<Rightarrow> string \<Rightarrow> ('o, 'r, 'tr, 'inf, 'ch) factory \<Rightarrow>
   ('sinf, 'ix) initTemplateInformer \<times> ('o, 'r, 'tr, 'inf, 'ch) factory" where
  "initTemplateClusterInformer_Cluster lib i clusterName f =
     (case initTemplateClusterInformer_Informer lib i f of
        (informer, f1) \<Rightarrow>
          (case initTemplateClusterInformer_Lister lib i f1 of
             (lister, f2) \<Rightarrow>
               (\<lparr>initTemplateI_informer = il_Cluster lib informer clusterName,
                 initTemplateI_lister = initTemplateClusterLister_Cluster lister clusterName\<rparr>, f2)))"

definition initTemplateInformer_Informer :: "('sinf, 'ix) initTemplateInformer \<Rightarrow> 'sinf" where
  "initTemplateInformer_Informer i = initTemplateI_informer i"

definition initTemplateInformer_Lister :: "('sinf, 'ix) initTemplateInformer \<Rightarrow> 'ix initTemplateLister" where
  "initTemplateInformer_Lister i = initTemplateI_lister i"

definition NewFilteredInitTemplateInformer ::
  "('o, 'r, 'idx, 'inf, 'sinf, 'ix) informer_lib \<Rightarrow> ('o, 'r) typed_client \<Rightarrow> int \<Rightarrow> 'idx \<Rightarrow> 'o tweak \<Rightarrow> 'sinf" where
  "NewFilteredInitTemplateInformer lib client resyncPeriod indexers tweakListOptions =
     il_NewScopedSharedIndexInformer lib
       \<lparr>lw_ListFunc = (\<lambda>options. tc_ListInitTemplates client (tweaked tweakListOptions options)),
        lw_WatchFunc = (\<lambda>options. tc_WatchInitTemplates client (tweaked tweakListOptions options))\<rparr>
       KInitTemplate resyncPeriod indexers"

definition NewInitTemplateInformer ::
  "('o, 'r, 'idx, 'inf, 'sinf, 'ix) informer_lib \<Rightarrow> ('o, 'r) typed_client \<Rightarrow> int \<Rightarrow> 'idx \<Rightarrow> 'sinf" where
  "NewInitTemplateInformer lib client resyncPeriod indexers = NewFilteredInitTemplateInformer lib client resyncPeriod indexers None"

definition initTemplateScopedInformer_defaultInformer ::
  "('o, 'r, 'idx, 'inf, 'sinf, 'ix) informer_lib \<Rightarrow> 'o initTemplateScopedInformer \<Rightarrow> ('o, 'r) typed_client \<Rightarrow> int \<Rightarrow> 'sinf" where
  "initTemplateScopedInformer_defaultInformer lib i client resyncPeriod =
     NewFilteredInitTemplateInformer lib client resyncPeriod (il_NoIndexers lib) (initTemplateSI_tweakListOptions i)"

definition initTemplateScopedInformer_Informer ::
  "('o, 'r, 'idx, 'inf, 'sinf, 'ix) informer_lib \<Rightarrow> ('tr option \<Rightarrow> 'sinf \<Rightarrow> 'sinf) \<Rightarrow> 'o initTemplateScopedInformer \<Rightarrow>
   ('o, 'r, 'tr, 'sinf, 'ch) scoped_factory \<Rightarrow> 'sinf \<times> ('o, 'r, 'tr, 'sinf, 'ch) scoped_factory" where
  "initTemplateScopedInformer_Informer lib SetTransform i f =
     InformerFor_scoped SetTransform KInitTemplate (initTemplateScopedInformer_defaultInformer lib i) f"

definition initTemplateScopedInformer_Lister ::
  "('o, 'r, 'idx, 'inf, 'sinf, 'ix) informer_lib \<Rightarrow> ('tr option \<Rightarrow> 'sinf \<Rightarrow> 'sinf) \<Rightarrow> 'o initTemplateScopedInformer \<Rightarrow>
   ('o, 'r, 'tr, 'sinf, 'ch) scoped_factory \<Rightarrow> 'ix initTemplateScopedLister \<times> ('o, 'r, 'tr, 'sinf, 'ch) scoped_factory" where
  "initTemplateScopedInformer_Lister lib SetTransform i f =
     (case initTemplateScopedInformer_Informer lib SetTransform i f of
        (informer, f') \<Rightarrow> (NewInitTemplateLister (il_GetScopedIndexer lib informer), f'))"

subsection \<open>Groups and versions\<close>

record 'o group =
  g_tweakListOptions :: "'o tweak"

record 'o version =
  v_tweakListOptions :: "'o tweak"

record 'o scopedGroup =
  sg_namespace :: string
  sg_tweakListOptions :: "'o tweak"

record 'o scopedVersion =
  sv_namespace :: string
  sv_tweakListOptions :: "'o tweak"

definition New_group :: "'o tweak \<Rightarrow> 'o group" where
  "New_group tweakListOptions = \<lparr>g_tweakListOptions = tweakListOptions\<rparr>"

definition New_version :: "'o tweak \<Rightarrow> 'o version" where
  "New_version tweakListOptions = \<lparr>v_tweakListOptions = tweakListOptions\<rparr>"

definition NewScoped_group :: "string \<Rightarrow> 'o tweak \<Rightarrow> 'o scopedGroup" where
  "NewScoped_group namespace tweakListOptions = \<lparr>sg_namespace = namespace, sg_tweakListOptions = tweakListOptions\<rparr>"

definition NewScoped_version :: "string \<Rightarrow> 'o tweak \<Rightarrow> 'o scopedVersion" where
  "NewScoped_version namespace tweakListOptions = \<lparr>sv_namespace = namespace, sv_tweakListOptions = tweakListOptions\<rparr>"

definition group_V1alpha1 :: "'o group \<Rightarrow> 'o version" where
  "group_V1alpha1 g = New_version (g_tweakListOptions g)"

definition scopedGroup_V1alpha1 :: "'o scopedGroup \<Rightarrow> 'o scopedVersion" where
  "scopedGroup_V1alpha1 g = NewScoped_version (sg_namespace g) (sg_tweakListOptions g)"

definition version_InitTargets :: "'o version \<Rightarrow> 'o initTargetClusterInformer" where
  "version_InitTargets v = \<lparr>initTargetCI_tweakListOptions = v_tweakListOptions v\<rparr>"

definition version_InitTemplates :: "'o version \<Rightarrow> 'o initTemplateClusterInformer" where
  "version_InitTemplates v = \<lparr>initTemplateCI_tweakListOptions = v_tweakListOptions v\<rparr>"

definition scopedVersion_InitTargets :: "'o scopedVersion \<Rightarrow> 'o initTargetScopedInformer" where
  "scopedVersion_InitTargets v = \<lparr>initTargetSI_tweakListOptions = sv_tweakListOptions v\<rparr>"

definition scopedVersion_InitTemplates :: "'o scopedVersion \<Rightarrow> 'o initTemplateScopedInformer" where
  "scopedVersion_InitTemplates v = \<lparr>initTemplateSI_tweakListOptions = sv_tweakListOptions v\<rparr>"

definition Initialization :: "('o, 'r, 'tr, 'inf, 'ch) factory \<Rightarrow> 'o group" where
  "Initialization f = New_group (sf_tweakListOptions f)"

definition Initialization_scoped :: "('o, 'r, 'tr, 'sinf, 'ch) scoped_factory \<Rightarrow> 'o scopedGroup" where
  "Initialization_scoped f = NewScoped_group (ss_namespace f) (ss_tweakListOptions f)"

subsection \<open>Generic informers\<close>

text \<open>\<^verbatim>\<open>kcpcache.NewGenericClusterLister\<close>, its \<^verbatim>\<open>ByCluster\<close>, and
  \<^verbatim>\<open>cache.NewGenericLister\<close>.\<close>

record ('ix, 'gcl, 'gl) generic_lib =
  gn_NewGenericClusterLister :: "'ix \<Rightarrow> group_resource \<Rightarrow> 'gcl"
  gn_ByCluster :: "'gcl \<Rightarrow> string \<Rightarrow> 'gl"
  gn_NewGenericLister :: "'ix \<Rightarrow> group_resource \<Rightarrow> 'gl"
  gn_ResourceString :: "group_version_resource \<Rightarrow> string"

record 'inf genericClusterInformer =
  gci_informer :: 'inf
  gci_resource :: group_resource

record ('sinf, 'gl) genericInformer =
  gi_informer :: 'sinf
  gi_lister :: 'gl

definition genericClusterInformer_Informer :: "'inf genericClusterInformer \<Rightarrow> 'inf" where
  "genericClusterInformer_Informer i = gci_informer i"

definition genericClusterInformer_Lister ::
  "('o, 'r, 'idx, 'inf, 'sinf, 'ix) informer_lib \<Rightarrow> ('ix, 'gcl, 'gl) generic_lib \<Rightarrow> 'inf genericClusterInformer \<Rightarrow> 'gcl" where
  "genericClusterInformer_Lister lib gen i =
     gn_NewGenericClusterLister gen (il_GetIndexer lib (genericClusterInformer_Informer i)) (gci_resource i)"

definition genericClusterInformer_Cluster ::
  "('o, 'r, 'idx, 'inf, 'sinf, 'ix) informer_lib \<Rightarrow> ('ix, 'gcl, 'gl) generic_lib \<Rightarrow> 'inf genericClusterInformer \<Rightarrow>
   string \<Rightarrow> ('sinf, 'gl) genericInformer" where
  "genericClusterInformer_Cluster lib gen i clusterName =
     \<lparr>gi_informer = il_Cluster lib (genericClusterInformer_Informer i) clusterName,
      gi_lister = gn_ByCluster gen (genericClusterInformer_Lister lib gen i) clusterName\<rparr>"

definition genericInformer_Informer :: "('sinf, 'gl) genericInformer \<Rightarrow> 'sinf" where
  "genericInformer_Informer i = gi_informer i"

definition genericInformer_Lister :: "('sinf, 'gl) genericInformer \<Rightarrow> 'gl" where
  "genericInformer_Lister i = gi_lister i"

definition ForResource ::
  "('o, 'r, 'idx, 'inf, 'sinf, 'ix) informer_lib \<Rightarrow> ('ix, 'gcl, 'gl) generic_lib \<Rightarrow> group_version_resource \<Rightarrow>
   ('o, 'r, 'tr, 'inf, 'ch) factory \<Rightarrow>
   ('e, 'inf genericClusterInformer) result \<times> ('o, 'r, 'tr, 'inf, 'ch) factory" where
  "ForResource lib gen resource f =
     (if resource = WithResource SchemeGroupVersion ''inittargets'' then
        (case initTargetClusterInformer_Informer lib (version_InitTargets (group_V1alpha1 (Initialization f))) f of
           (informer, f') \<Rightarrow> (Inr \<lparr>gci_informer = informer, gci_resource = GroupResource resource\<rparr>, f'))
      else if resource = WithResource SchemeGroupVersion ''inittemplates'' then
        (case initTemplateClusterInformer_Informer lib (version_InitTemplates (group_V1alpha1 (Initialization f))) f of
           (informer, f') \<Rightarrow> (Inr \<lparr>gci_informer = informer, gci_resource = GroupResource resource\<rparr>, f'))
      else (Inl (ErrorNew (''no informer found for '' @ gn_ResourceString gen resource)), f))"

definition ForResource_scoped ::
  "('o, 'r, 'idx, 'inf, 'sinf, 'ix) informer_lib \<Rightarrow> ('ix, 'gcl, 'gl) generic_lib \<Rightarrow> ('tr option \<Rightarrow> 'sinf \<Rightarrow> 'sinf) \<Rightarrow>
   group_version_resource \<Rightarrow> ('o, 'r, 'tr, 'sinf, 'ch) scoped_factory \<Rightarrow>
   ('e, ('sinf, 'gl) genericInformer) result \<times> ('o, 'r, 'tr, 'sinf, 'ch) scoped_factory" where
  "ForResource_scoped lib gen SetTransform resource f =
     (if resource = WithResource SchemeGroupVersion ''inittargets'' then
        (case initTargetScopedInformer_Informer lib SetTransform
                (scopedVersion_InitTargets (scopedGroup_V1alpha1 (Initialization_scoped f))) f of
           (informer, f') \<Rightarrow>
             (Inr \<lparr>gi_informer = informer,
                   gi_lister = gn_NewGenericLister gen (il_GetScopedIndexer lib informer) (GroupResource resource)\<rparr>, f'))
      else if resource = WithResource SchemeGroupVersion ''inittemplates'' then
        (case initTemplateScopedInformer_Informer lib SetTransform
                (scopedVersion_InitTemplates (scopedGroup_V1alpha1 (Initialization_scoped f))) f of
           (informer, f') \<Rightarrow>
             (Inr \<lparr>gi_informer = informer,
                   gi_lister = gn_NewGenericLister gen (il_GetScopedIndexer lib informer) (GroupResource resource)\<rparr>, f'))
      else (Inl (ErrorNew (''no informer found for '' @ gn_ResourceString gen resource)), f))"

text \<open>A factory restricted to one cluster (\<^verbatim>\<open>Cluster\<close>) shares the informers of the factory.\<close>

record scopedDynamicSharedInformerFactory =
  sd_clusterName :: string

definition Cluster_factory :: "string \<Rightarrow> scopedDynamicSharedInformerFactory" where
  "Cluster_factory clusterName = \<lparr>sd_clusterName = clusterName\<rparr>"

definition ForResource_dynamic ::
  "('o, 'r, 'idx, 'inf, 'sinf, 'ix) informer_lib \<Rightarrow> ('ix, 'gcl, 'gl) generic_lib \<Rightarrow> scopedDynamicSharedInformerFactory \<Rightarrow>
   group_version_resource \<Rightarrow> ('o, 'r, 'tr, 'inf, 'ch) factory \<Rightarrow>
   ('e, ('sinf, 'gl) genericInformer) result \<times> ('o, 'r, 'tr, 'inf, 'ch) factory" where
  "ForResource_dynamic lib gen sd resource f =
     (case ForResource lib gen resource f of
        (Inl e, f') \<Rightarrow> (Inl e, f')
      | (Inr clusterInformer, f') \<Rightarrow> (Inr (genericClusterInformer_Cluster lib gen clusterInformer (sd_clusterName sd)), f'))"

definition Start_dynamic ::
  "'ch \<Rightarrow> (known_type \<times> 'inf) list \<Rightarrow> ('o, 'r, 'tr, 'inf, 'ch) factory \<Rightarrow> ('o, 'r, 'tr, 'inf, 'ch) factory" where
  "Start_dynamic stopCh entries f = Start stopCh entries f"

subsection \<open>Typed and generic access\<close>

lemmas accessor_defs = Initialization_def New_group_def group_V1alpha1_def New_version_def
  version_InitTargets_def version_InitTemplates_def
  initTargetClusterInformer_Informer_def initTemplateClusterInformer_Informer_def

lemma InformerFor_twice:
  "InformerFor ty newFunc f = (informer, f') \<Longrightarrow> InformerFor ty newFunc' f' = (informer, f')"
  by (auto simp: InformerFor_def Let_def split: option.splits)

lemma InformerFor_tweak: "InformerFor ty newFunc f = (informer, f') \<Longrightarrow> sf_tweakListOptions f' = sf_tweakListOptions f"
  by (auto simp: InformerFor_def Let_def split: option.splits)

lemma WithResource_inject [simp]: "WithResource gv r = WithResource gv r' \<longleftrightarrow> r = r'"
  by (simp add: WithResource_def)

lemma GroupResource_WithResource [simp]: "GroupResource (WithResource SchemeGroupVersion r) = Resource r"
  by (simp add: Resource_def)

abbreviation typed_InitTargets :: "('o, 'r, 'tr, 'inf, 'ch) factory \<Rightarrow> 'o initTargetClusterInformer" where
  "typed_InitTargets f \<equiv> version_InitTargets (group_V1alpha1 (Initialization f))"

abbreviation typed_InitTemplates :: "('o, 'r, 'tr, 'inf, 'ch) factory \<Rightarrow> 'o initTemplateClusterInformer" where
  "typed_InitTemplates f \<equiv> version_InitTemplates (group_V1alpha1 (Initialization f))"

text \<open>Generic access. Asking a factory for one of the API's two resources gives, with the resource's
  group, the very informer that typed access gives, in whichever order the two are asked; the informer of one cluster
  obtained generically has the same informer as the typed one's; any other resource is an error and
  leaves the factory as it is.\<close>

theorem ForResource_shares_informers:
  "(case initTargetClusterInformer_Informer lib (typed_InitTargets f) f of (informer, f') \<Rightarrow>
      ForResource lib gen (WithResource SchemeGroupVersion ''inittargets'') f
        = (Inr \<lparr>gci_informer = informer, gci_resource = Resource ''inittargets''\<rparr>, f')
    \<and> ForResource lib gen (WithResource SchemeGroupVersion ''inittargets'') f'
        = (Inr \<lparr>gci_informer = informer, gci_resource = Resource ''inittargets''\<rparr>, f')
    \<and> map_sum id gi_informer (fst (ForResource_dynamic lib gen (Cluster_factory c) (WithResource SchemeGroupVersion ''inittargets'') f))
        = Inr (initTargetI_informer (fst (initTargetClusterInformer_Cluster lib (typed_InitTargets f) c f))))
   \<and> (case initTemplateClusterInformer_Informer lib (typed_InitTemplates f) f of (informer, f') \<Rightarrow>
      ForResource lib gen (WithResource SchemeGroupVersion ''inittemplates'') f
        = (Inr \<lparr>gci_informer = informer, gci_resource = Resource ''inittemplates''\<rparr>, f')
    \<and> ForResource lib gen (WithResource SchemeGroupVersion ''inittemplates'') f'
        = (Inr \<lparr>gci_informer = informer, gci_resource = Resource ''inittemplates''\<rparr>, f'))
   \<and> (resource \<notin> WithResource SchemeGroupVersion ` {''inittargets'', ''inittemplates''} \<longrightarrow>
      (\<exists>msg. ForResource lib gen resource f = (Inl (ErrorNew msg), f)))"
proof -
  obtain t f1 where t: "initTargetClusterInformer_Informer lib (typed_InitTargets f) f = (t, f1)" by force
  then have t': "initTargetClusterInformer_Informer lib i f1 = (t, f1)" for i
    unfolding initTargetClusterInformer_Informer_def by (rule InformerFor_twice)
  obtain p f2 where p: "initTemplateClusterInformer_Informer lib (typed_InitTemplates f) f = (p, f2)" by force
  then have p': "initTemplateClusterInformer_Informer lib i f2 = (p, f2)" for i
    unfolding initTemplateClusterInformer_Informer_def by (rule InformerFor_twice)
  show ?thesis
    by (auto simp: t t' p p' ForResource_def ForResource_dynamic_def genericClusterInformer_Cluster_def
        genericClusterInformer_Informer_def initTargetClusterInformer_Cluster_def
        initTargetClusterInformer_Lister_def Cluster_factory_def)
qed

text \<open>The tweak function of \<^verbatim>\<open>WithTweakListOptions\<close>. On a factory made with it as the last option, the first
  request for the informer of a resource makes an informer whose list and watch calls pass
  options through the tweak function before they reach the client, with the factory's resync period; later
  requests return this informer.\<close>

theorem tweak_reaches_the_client:
  fixes f :: "('o, 'r, 'tr, 'inf, 'ch) factory"
  assumes "f = NewSharedInformerFactoryWithOptions client resync (opts @ [WithTweakListOptions tw])"
  shows "fst (initTargetClusterInformer_Informer lib (typed_InitTargets f) f) =
      il_NewSharedIndexInformer lib
        \<lparr>lw_ListFunc = tc_ListInitTargets client \<circ> tw, lw_WatchFunc = tc_WatchInitTargets client \<circ> tw\<rparr>
        KInitTarget (case opt_customResync (apply_options opts) KInitTarget of Some r \<Rightarrow> r | None \<Rightarrow> resync)
        (il_ClusterIndexers lib)
    \<and> fst (initTemplateClusterInformer_Informer lib (typed_InitTemplates f) f) =
      il_NewSharedIndexInformer lib
        \<lparr>lw_ListFunc = tc_ListInitTemplates client \<circ> tw, lw_WatchFunc = tc_WatchInitTemplates client \<circ> tw\<rparr>
        KInitTemplate (case opt_customResync (apply_options opts) KInitTemplate of Some r \<Rightarrow> r | None \<Rightarrow> resync)
        (il_ClusterIndexers lib)"
  by (simp add: assms accessor_defs InformerFor_def NewSharedInformerFactoryWithOptions_def apply_options_snoc
      WithTweakListOptions_def initTargetClusterInformer_defaultInformer_def initTemplateClusterInformer_defaultInformer_def
      NewFilteredInitTargetClusterInformer_def NewFilteredInitTemplateClusterInformer_def tweaked_def comp_def Let_def split: option.split)

definition sample_typed_client :: "(nat, nat) typed_client" where
  "sample_typed_client = \<lparr>tc_ListInitTargets = (\<lambda>o'. o'), tc_WatchInitTargets = (\<lambda>o'. o' + 1),
     tc_ListInitTemplates = (\<lambda>o'. o' + 2), tc_WatchInitTemplates = (\<lambda>o'. o' + 3)\<rparr>"

definition sample_informer_lib :: "(nat, nat, unit, nat, nat, unit) informer_lib" where
  "sample_informer_lib = \<lparr>il_NewSharedIndexInformer = (\<lambda>lw ty r idx. lw_ListFunc lw 0),
     il_NewScopedSharedIndexInformer = (\<lambda>lw ty r idx. 0), il_Cluster = (\<lambda>i c. i), il_GetIndexer = (\<lambda>i. ()),
     il_GetScopedIndexer = (\<lambda>i. ()), il_ClusterIndexers = (), il_NoIndexers = ()\<rparr>"

definition sample_shared_factory :: "(nat, nat, unit, nat, unit) factory" where
  "sample_shared_factory = NewSharedInformerFactoryWithOptions sample_typed_client 5 [WithTweakListOptions (\<lambda>o'. 42)]"

theorem tweak_reaches_the_client_witness:
  "fst (initTargetClusterInformer_Informer sample_informer_lib (typed_InitTargets sample_shared_factory) sample_shared_factory) = 42"
proof -
  have f: "sample_shared_factory = NewSharedInformerFactoryWithOptions sample_typed_client 5 ([] @ [WithTweakListOptions (\<lambda>o'. 42)])"
    by (simp add: sample_shared_factory_def)
  show ?thesis
    using tweak_reaches_the_client [OF f, of sample_informer_lib] by (simp add: sample_informer_lib_def sample_typed_client_def)
qed

definition sample_generic_lib :: "(unit, group_resource, string) generic_lib" where
  "sample_generic_lib = \<lparr>gn_NewGenericClusterLister = (\<lambda>ix gr. gr), gn_ByCluster = (\<lambda>l c. c),
     gn_NewGenericLister = (\<lambda>ix gr. []), gn_ResourceString = (\<lambda>r. ''resource'')\<rparr>"

theorem ForResource_shares_informers_witness:
  "WithResource SchemeGroupVersion ''secrets'' \<notin> WithResource SchemeGroupVersion ` {''inittargets'', ''inittemplates''}
   \<and> (\<exists>msg :: string. (ForResource sample_informer_lib sample_generic_lib (WithResource SchemeGroupVersion ''secrets'') sample_shared_factory
        :: (unit, nat genericClusterInformer) result \<times> (nat, nat, unit, nat, unit) factory) = (Inl (ErrorNew msg), sample_shared_factory))"
proof -
  have other: "WithResource SchemeGroupVersion ''secrets'' \<notin> WithResource SchemeGroupVersion ` {''inittargets'', ''inittemplates''}"
    by simp
  show ?thesis
    by (intro conjI [OF other]
        mp [OF conjunct2 [OF conjunct2 [OF ForResource_shares_informers [where lib = sample_informer_lib and gen = sample_generic_lib and f = sample_shared_factory]]] other])
qed

end
