(* ===== verification/Clientset.thy ===== *)
theory Clientset
  imports Api_Types Complex_Main
begin

text \<open>
  The clientsets (\<^verbatim>\<open>sdk/clientset/versioned\<close>): the typed client of the API group, the clientset around
  it, and their counterparts for many clusters. What builds on client-go is a parameter: the HTTP
  and REST clients made from a configuration, the discovery client, the token bucket, and the
  generic client of a resource, of which the code says the resource, the REST client and the namespace.
  A \<^verbatim>\<open>kcpclient.Cache\<close> is the function from cluster paths to the client it hands out,
  or the error of making it.
\<close>

subsection \<open>Configurations and libraries\<close>

text \<open>The fields of \<^verbatim>\<open>rest.Config\<close> that the code reads or writes, and the rest of it. \<^verbatim>\<open>QPS\<close> is a
  float, compared with zero only.\<close>

record ('rl, 'ser, 'r) rest_Config =
  cfg_UserAgent :: string
  cfg_RateLimiter :: "'rl option"
  cfg_QPS :: rat
  cfg_Burst :: int
  cfg_GroupVersion :: "group_version option"
  cfg_APIPath :: string
  cfg_NegotiatedSerializer :: "'ser option"
  cfg_Rest :: 'r

record ('e, 'rl, 'ser, 'r, 'http, 'rest, 'disc) rest_lib =
  rs_DefaultKubernetesUserAgent :: string
  rs_Codec :: 'ser
  rs_HTTPClientFor :: "('rl, 'ser, 'r) rest_Config \<Rightarrow> 'e + 'http"
  rs_RESTClientForConfigAndClient :: "('rl, 'ser, 'r) rest_Config \<Rightarrow> 'http \<Rightarrow> 'e + 'rest"
  rs_NewTokenBucketRateLimiter :: "rat \<Rightarrow> int \<Rightarrow> 'rl"
  rs_NewDiscoveryClientForConfigAndClient :: "('rl, 'ser, 'r) rest_Config \<Rightarrow> 'http \<Rightarrow> 'e + 'disc"
  rs_NewDiscoveryClient :: "'rest \<Rightarrow> 'disc"
  rs_Error :: "'e err \<Rightarrow> string"

text \<open>\<^verbatim>\<open>panic(err)\<close> in the functions whose name ends in \<^verbatim>\<open>OrDie\<close>.\<close>

definition or_die :: "('e err \<Rightarrow> string) \<Rightarrow> ('e, 'a) result \<Rightarrow> 'a outcome" where
  "or_die msg r = (case r of Inl e \<Rightarrow> Panic (msg e) | Inr a \<Rightarrow> Ret a)"

primrec map_outcome :: "('a \<Rightarrow> 'b) \<Rightarrow> 'a outcome \<Rightarrow> 'b outcome" where
  "map_outcome f (Ret a) = Ret (f a)"
| "map_outcome f (Panic m) = Panic m"
| "map_outcome f Diverges = Diverges"

subsection \<open>The typed client\<close>

record 'rest InitializationV1alpha1Client =
  v1c_restClient :: 'rest

definition RESTClient :: "'rest InitializationV1alpha1Client option \<Rightarrow> 'rest option" where
  "RESTClient c = (case c of None \<Rightarrow> None | Some c' \<Rightarrow> Some (v1c_restClient c'))"

text \<open>The arguments of \<^verbatim>\<open>gentype.NewClientWithList\<close>.\<close>

record 'rest resource_client =
  rsc_resource :: string
  rsc_client :: "'rest option"
  rsc_namespace :: string

definition newInitTargets :: "'rest InitializationV1alpha1Client \<Rightarrow> 'rest resource_client" where
  "newInitTargets c = \<lparr>rsc_resource = ''inittargets'', rsc_client = RESTClient (Some c), rsc_namespace = []\<rparr>"

definition newInitTemplates :: "'rest InitializationV1alpha1Client \<Rightarrow> 'rest resource_client" where
  "newInitTemplates c = \<lparr>rsc_resource = ''inittemplates'', rsc_client = RESTClient (Some c), rsc_namespace = []\<rparr>"

definition v1alpha1_InitTargets :: "'rest InitializationV1alpha1Client \<Rightarrow> 'rest resource_client" where
  "v1alpha1_InitTargets c = newInitTargets c"

definition v1alpha1_InitTemplates :: "'rest InitializationV1alpha1Client \<Rightarrow> 'rest resource_client" where
  "v1alpha1_InitTemplates c = newInitTemplates c"

definition setConfigDefaults ::
  "('e, 'rl, 'ser, 'r, 'http, 'rest, 'disc) rest_lib \<Rightarrow> ('rl, 'ser, 'r) rest_Config \<Rightarrow> ('rl, 'ser, 'r) rest_Config" where
  "setConfigDefaults lib config =
     (let gv = SchemeGroupVersion;
          c1 = config\<lparr>cfg_GroupVersion := Some gv, cfg_APIPath := ''/apis'', cfg_NegotiatedSerializer := Some (rs_Codec lib)\<rparr>
      in if cfg_UserAgent c1 = [] then c1\<lparr>cfg_UserAgent := rs_DefaultKubernetesUserAgent lib\<rparr> else c1)"

definition v1alpha1_NewForConfigAndClient ::
  "('e, 'rl, 'ser, 'r, 'http, 'rest, 'disc) rest_lib \<Rightarrow> ('rl, 'ser, 'r) rest_Config \<Rightarrow> 'http \<Rightarrow>
   ('e, 'rest InitializationV1alpha1Client) result" where
  "v1alpha1_NewForConfigAndClient lib c h =
     (let config = setConfigDefaults lib c
      in case rs_RESTClientForConfigAndClient lib config h of
           Inl e \<Rightarrow> Inl (External e)
         | Inr client \<Rightarrow> Inr \<lparr>v1c_restClient = client\<rparr>)"

definition v1alpha1_NewForConfig ::
  "('e, 'rl, 'ser, 'r, 'http, 'rest, 'disc) rest_lib \<Rightarrow> ('rl, 'ser, 'r) rest_Config \<Rightarrow>
   ('e, 'rest InitializationV1alpha1Client) result" where
  "v1alpha1_NewForConfig lib c =
     (let config = setConfigDefaults lib c
      in case rs_HTTPClientFor lib config of
           Inl e \<Rightarrow> Inl (External e)
         | Inr httpClient \<Rightarrow> v1alpha1_NewForConfigAndClient lib config httpClient)"

definition v1alpha1_NewForConfigOrDie ::
  "('e, 'rl, 'ser, 'r, 'http, 'rest, 'disc) rest_lib \<Rightarrow> ('rl, 'ser, 'r) rest_Config \<Rightarrow>
   'rest InitializationV1alpha1Client outcome" where
  "v1alpha1_NewForConfigOrDie lib c = or_die (rs_Error lib) (v1alpha1_NewForConfig lib c)"

definition v1alpha1_New :: "'rest \<Rightarrow> 'rest InitializationV1alpha1Client" where
  "v1alpha1_New c = \<lparr>v1c_restClient = c\<rparr>"

subsection \<open>The clientset\<close>

record ('disc, 'rest) Clientset =
  cs_DiscoveryClient :: 'disc
  cs_initializationV1alpha1 :: "'rest InitializationV1alpha1Client"

definition InitializationV1alpha1 :: "('disc, 'rest) Clientset \<Rightarrow> 'rest InitializationV1alpha1Client" where
  "InitializationV1alpha1 c = cs_initializationV1alpha1 c"

definition Discovery :: "('disc, 'rest) Clientset option \<Rightarrow> 'disc option" where
  "Discovery c = (case c of None \<Rightarrow> None | Some c' \<Rightarrow> Some (cs_DiscoveryClient c'))"

text \<open>The rate limiter of a configuration that asks for one and has none; both clientsets start with this.\<close>

definition burst_error :: "'e err" where
  "burst_error =
     ErrorNew ''burst is required to be greater than 0 when RateLimiter is not set and QPS is set to greater than 0''"

definition NewForConfigAndClient ::
  "('e, 'rl, 'ser, 'r, 'http, 'rest, 'disc) rest_lib \<Rightarrow> ('rl, 'ser, 'r) rest_Config \<Rightarrow> 'http \<Rightarrow>
   ('e, ('disc, 'rest) Clientset) result" where
  "NewForConfigAndClient lib c httpClient =
     (let limited =
        (if cfg_RateLimiter c = None \<and> cfg_QPS c > 0 then
           if cfg_Burst c \<le> 0 then Inl burst_error
           else Inr (c\<lparr>cfg_RateLimiter := Some (rs_NewTokenBucketRateLimiter lib (cfg_QPS c) (cfg_Burst c))\<rparr>)
         else Inr c)
      in case limited of
           Inl e \<Rightarrow> Inl e
         | Inr configShallowCopy \<Rightarrow>
             (case v1alpha1_NewForConfigAndClient lib configShallowCopy httpClient of
                Inl e \<Rightarrow> Inl e
              | Inr v1alpha1 \<Rightarrow>
                  (case rs_NewDiscoveryClientForConfigAndClient lib configShallowCopy httpClient of
                     Inl e \<Rightarrow> Inl (External e)
                   | Inr disc \<Rightarrow> Inr \<lparr>cs_DiscoveryClient = disc, cs_initializationV1alpha1 = v1alpha1\<rparr>)))"

definition NewForConfig ::
  "('e, 'rl, 'ser, 'r, 'http, 'rest, 'disc) rest_lib \<Rightarrow> ('rl, 'ser, 'r) rest_Config \<Rightarrow>
   ('e, ('disc, 'rest) Clientset) result" where
  "NewForConfig lib c =
     (let configShallowCopy =
        (if cfg_UserAgent c = [] then c\<lparr>cfg_UserAgent := rs_DefaultKubernetesUserAgent lib\<rparr> else c)
      in case rs_HTTPClientFor lib configShallowCopy of
           Inl e \<Rightarrow> Inl (External e)
         | Inr httpClient \<Rightarrow> NewForConfigAndClient lib configShallowCopy httpClient)"

definition NewForConfigOrDie ::
  "('e, 'rl, 'ser, 'r, 'http, 'rest, 'disc) rest_lib \<Rightarrow> ('rl, 'ser, 'r) rest_Config \<Rightarrow>
   ('disc, 'rest) Clientset outcome" where
  "NewForConfigOrDie lib c = or_die (rs_Error lib) (NewForConfig lib c)"

definition New_clientset ::
  "('e, 'rl, 'ser, 'r, 'http, 'rest, 'disc) rest_lib \<Rightarrow> 'rest \<Rightarrow> ('disc, 'rest) Clientset" where
  "New_clientset lib c = \<lparr>cs_DiscoveryClient = rs_NewDiscoveryClient lib c, cs_initializationV1alpha1 = v1alpha1_New c\<rparr>"

subsection \<open>The typed client of many clusters\<close>

type_synonym ('e, 'cl) client_Cache = "string \<Rightarrow> ('e, 'cl) result"

definition Wildcard :: string where
  "Wildcard = ''*''"

definition wildcard_panic :: string where
  "wildcard_panic = ''A specific cluster must be provided when scoping, not the wildcard.''"

text \<open>\<^verbatim>\<open>ClusterOrDie\<close> of the cache.\<close>

definition ClusterOrDie :: "('e err \<Rightarrow> string) \<Rightarrow> ('e, 'cl) client_Cache \<Rightarrow> string \<Rightarrow> 'cl outcome" where
  "ClusterOrDie msg cache path = or_die msg (cache path)"

record ('e, 'rest) InitializationV1alpha1ClusterClient =
  v1cc_clientCache :: "('e, 'rest InitializationV1alpha1Client) client_Cache"

record ('e, 'rest) initTargetsClusterInterface =
  itci_clientCache :: "('e, 'rest InitializationV1alpha1Client) client_Cache"

record ('e, 'rest) initTemplatesClusterInterface =
  itpci_clientCache :: "('e, 'rest InitializationV1alpha1Client) client_Cache"

definition v1alpha1Cluster_Cluster ::
  "('e err \<Rightarrow> string) \<Rightarrow> ('e, 'rest) InitializationV1alpha1ClusterClient \<Rightarrow> string \<Rightarrow>
   'rest InitializationV1alpha1Client outcome" where
  "v1alpha1Cluster_Cluster msg c clusterPath =
     (if clusterPath = Wildcard then Panic wildcard_panic
      else ClusterOrDie msg (v1cc_clientCache c) clusterPath)"

definition v1alpha1Cluster_InitTargets ::
  "('e, 'rest) InitializationV1alpha1ClusterClient \<Rightarrow> ('e, 'rest) initTargetsClusterInterface" where
  "v1alpha1Cluster_InitTargets c = \<lparr>itci_clientCache = v1cc_clientCache c\<rparr>"

definition v1alpha1Cluster_InitTemplates ::
  "('e, 'rest) InitializationV1alpha1ClusterClient \<Rightarrow> ('e, 'rest) initTemplatesClusterInterface" where
  "v1alpha1Cluster_InitTemplates c = \<lparr>itpci_clientCache = v1cc_clientCache c\<rparr>"

definition v1alpha1Cluster_NewForConfigAndClient ::
  "('e, 'rl, 'ser, 'r, 'http, 'rest, 'disc) rest_lib \<Rightarrow>
   (('rl, 'ser, 'r) rest_Config \<Rightarrow> 'http \<Rightarrow>
     (('rl, 'ser, 'r) rest_Config \<Rightarrow> 'http \<Rightarrow> ('e, 'rest InitializationV1alpha1Client) result) \<Rightarrow>
     ('e, 'rest InitializationV1alpha1Client) client_Cache) \<Rightarrow>
   ('rl, 'ser, 'r) rest_Config \<Rightarrow> 'http \<Rightarrow> ('e, ('e, 'rest) InitializationV1alpha1ClusterClient) result" where
  "v1alpha1Cluster_NewForConfigAndClient lib NewCache c h =
     (let cache = NewCache c h (v1alpha1_NewForConfigAndClient lib)
      in case cache ''root'' of
           Inl e \<Rightarrow> Inl e
         | Inr _ \<Rightarrow> Inr \<lparr>v1cc_clientCache = cache\<rparr>)"

definition v1alpha1Cluster_NewForConfig ::
  "('e, 'rl, 'ser, 'r, 'http, 'rest, 'disc) rest_lib \<Rightarrow>
   (('rl, 'ser, 'r) rest_Config \<Rightarrow> 'http \<Rightarrow>
     (('rl, 'ser, 'r) rest_Config \<Rightarrow> 'http \<Rightarrow> ('e, 'rest InitializationV1alpha1Client) result) \<Rightarrow>
     ('e, 'rest InitializationV1alpha1Client) client_Cache) \<Rightarrow>
   ('rl, 'ser, 'r) rest_Config \<Rightarrow> ('e, ('e, 'rest) InitializationV1alpha1ClusterClient) result" where
  "v1alpha1Cluster_NewForConfig lib NewCache c =
     (case rs_HTTPClientFor lib c of
        Inl e \<Rightarrow> Inl (External e)
      | Inr client \<Rightarrow> v1alpha1Cluster_NewForConfigAndClient lib NewCache c client)"

definition v1alpha1Cluster_NewForConfigOrDie ::
  "('e, 'rl, 'ser, 'r, 'http, 'rest, 'disc) rest_lib \<Rightarrow>
   (('rl, 'ser, 'r) rest_Config \<Rightarrow> 'http \<Rightarrow>
     (('rl, 'ser, 'r) rest_Config \<Rightarrow> 'http \<Rightarrow> ('e, 'rest InitializationV1alpha1Client) result) \<Rightarrow>
     ('e, 'rest InitializationV1alpha1Client) client_Cache) \<Rightarrow>
   ('rl, 'ser, 'r) rest_Config \<Rightarrow> ('e, 'rest) InitializationV1alpha1ClusterClient outcome" where
  "v1alpha1Cluster_NewForConfigOrDie lib NewCache c =
     or_die (rs_Error lib) (v1alpha1Cluster_NewForConfig lib NewCache c)"

text \<open>The resource interfaces: scoped to a cluster, or across all of them; the generic client's own \<^verbatim>\<open>List\<close> and
  \<^verbatim>\<open>Watch\<close> are arguments.\<close>

definition initTargetsCI_Cluster ::
  "('e err \<Rightarrow> string) \<Rightarrow> ('e, 'rest) initTargetsClusterInterface \<Rightarrow> string \<Rightarrow> 'rest resource_client outcome" where
  "initTargetsCI_Cluster msg c clusterPath =
     (if clusterPath = Wildcard then Panic wildcard_panic
      else map_outcome v1alpha1_InitTargets (ClusterOrDie msg (itci_clientCache c) clusterPath))"

definition initTargetsCI_List ::
  "('e err \<Rightarrow> string) \<Rightarrow> ('rest resource_client \<Rightarrow> 'o \<Rightarrow> 'res) \<Rightarrow> ('e, 'rest) initTargetsClusterInterface \<Rightarrow> 'o \<Rightarrow>
   'res outcome" where
  "initTargetsCI_List msg List c opts =
     map_outcome (\<lambda>client. List (v1alpha1_InitTargets client) opts) (ClusterOrDie msg (itci_clientCache c) Wildcard)"

definition initTargetsCI_Watch ::
  "('e err \<Rightarrow> string) \<Rightarrow> ('rest resource_client \<Rightarrow> 'o \<Rightarrow> 'res) \<Rightarrow> ('e, 'rest) initTargetsClusterInterface \<Rightarrow> 'o \<Rightarrow>
   'res outcome" where
  "initTargetsCI_Watch msg Watch c opts =
     map_outcome (\<lambda>client. Watch (v1alpha1_InitTargets client) opts) (ClusterOrDie msg (itci_clientCache c) Wildcard)"

definition initTemplatesCI_Cluster ::
  "('e err \<Rightarrow> string) \<Rightarrow> ('e, 'rest) initTemplatesClusterInterface \<Rightarrow> string \<Rightarrow> 'rest resource_client outcome" where
  "initTemplatesCI_Cluster msg c clusterPath =
     (if clusterPath = Wildcard then Panic wildcard_panic
      else map_outcome v1alpha1_InitTemplates (ClusterOrDie msg (itpci_clientCache c) clusterPath))"

definition initTemplatesCI_List ::
  "('e err \<Rightarrow> string) \<Rightarrow> ('rest resource_client \<Rightarrow> 'o \<Rightarrow> 'res) \<Rightarrow> ('e, 'rest) initTemplatesClusterInterface \<Rightarrow> 'o \<Rightarrow>
   'res outcome" where
  "initTemplatesCI_List msg List c opts =
     map_outcome (\<lambda>client. List (v1alpha1_InitTemplates client) opts) (ClusterOrDie msg (itpci_clientCache c) Wildcard)"

definition initTemplatesCI_Watch ::
  "('e err \<Rightarrow> string) \<Rightarrow> ('rest resource_client \<Rightarrow> 'o \<Rightarrow> 'res) \<Rightarrow> ('e, 'rest) initTemplatesClusterInterface \<Rightarrow> 'o \<Rightarrow>
   'res outcome" where
  "initTemplatesCI_Watch msg Watch c opts =
     map_outcome (\<lambda>client. Watch (v1alpha1_InitTemplates client) opts) (ClusterOrDie msg (itpci_clientCache c) Wildcard)"

subsection \<open>The clientset of many clusters\<close>

record ('e, 'disc, 'rest) ClusterClientset =
  ccs_DiscoveryClient :: 'disc
  ccs_clientCache :: "('e, ('disc, 'rest) Clientset) client_Cache"
  ccs_initializationV1alpha1 :: "('e, 'rest) InitializationV1alpha1ClusterClient"

definition clusterset_Discovery :: "('e, 'disc, 'rest) ClusterClientset option \<Rightarrow> 'disc option" where
  "clusterset_Discovery c = (case c of None \<Rightarrow> None | Some c' \<Rightarrow> Some (ccs_DiscoveryClient c'))"

definition clusterset_InitializationV1alpha1 ::
  "('e, 'disc, 'rest) ClusterClientset \<Rightarrow> ('e, 'rest) InitializationV1alpha1ClusterClient" where
  "clusterset_InitializationV1alpha1 c = ccs_initializationV1alpha1 c"

definition clusterset_Cluster ::
  "('e err \<Rightarrow> string) \<Rightarrow> ('e, 'disc, 'rest) ClusterClientset \<Rightarrow> string \<Rightarrow> ('disc, 'rest) Clientset outcome" where
  "clusterset_Cluster msg c clusterPath =
     (if clusterPath = Wildcard then Panic wildcard_panic
      else ClusterOrDie msg (ccs_clientCache c) clusterPath)"

text \<open>The cache of clientsets is made from the configuration as it was given, without the rate limiter of the
  copy; the typed client and the discovery client are made from the copy.\<close>

record ('e, 'rl, 'ser, 'r, 'http, 'rest, 'disc) caches =
  NewClientsetCache :: "('rl, 'ser, 'r) rest_Config \<Rightarrow> 'http \<Rightarrow>
    (('rl, 'ser, 'r) rest_Config \<Rightarrow> 'http \<Rightarrow> ('e, ('disc, 'rest) Clientset) result) \<Rightarrow>
    ('e, ('disc, 'rest) Clientset) client_Cache"
  NewTypedCache :: "('rl, 'ser, 'r) rest_Config \<Rightarrow> 'http \<Rightarrow>
    (('rl, 'ser, 'r) rest_Config \<Rightarrow> 'http \<Rightarrow> ('e, 'rest InitializationV1alpha1Client) result) \<Rightarrow>
    ('e, 'rest InitializationV1alpha1Client) client_Cache"

definition clusterset_NewForConfigAndClient ::
  "('e, 'rl, 'ser, 'r, 'http, 'rest, 'disc) rest_lib \<Rightarrow> ('e, 'rl, 'ser, 'r, 'http, 'rest, 'disc) caches \<Rightarrow>
   ('rl, 'ser, 'r) rest_Config \<Rightarrow> 'http \<Rightarrow> ('e, ('e, 'disc, 'rest) ClusterClientset) result" where
  "clusterset_NewForConfigAndClient lib ca c httpClient =
     (let limited =
        (if cfg_RateLimiter c = None \<and> cfg_QPS c > 0 then
           if cfg_Burst c \<le> 0 then Inl burst_error
           else Inr (c\<lparr>cfg_RateLimiter := Some (rs_NewTokenBucketRateLimiter lib (cfg_QPS c) (cfg_Burst c))\<rparr>)
         else Inr c)
      in case limited of
           Inl e \<Rightarrow> Inl e
         | Inr configShallowCopy \<Rightarrow>
             (let cache = NewClientsetCache ca c httpClient (NewForConfigAndClient lib)
              in case cache ''root'' of
                   Inl e \<Rightarrow> Inl e
                 | Inr _ \<Rightarrow>
                     (case v1alpha1Cluster_NewForConfigAndClient lib (NewTypedCache ca) configShallowCopy httpClient of
                        Inl e \<Rightarrow> Inl e
                      | Inr v1alpha1 \<Rightarrow>
                          (case rs_NewDiscoveryClientForConfigAndClient lib configShallowCopy httpClient of
                             Inl e \<Rightarrow> Inl (External e)
                           | Inr disc \<Rightarrow>
                               Inr \<lparr>ccs_DiscoveryClient = disc, ccs_clientCache = cache,
                                    ccs_initializationV1alpha1 = v1alpha1\<rparr>))))"

definition clusterset_NewForConfig ::
  "('e, 'rl, 'ser, 'r, 'http, 'rest, 'disc) rest_lib \<Rightarrow> ('e, 'rl, 'ser, 'r, 'http, 'rest, 'disc) caches \<Rightarrow>
   ('rl, 'ser, 'r) rest_Config \<Rightarrow> ('e, ('e, 'disc, 'rest) ClusterClientset) result" where
  "clusterset_NewForConfig lib ca c =
     (let configShallowCopy =
        (if cfg_UserAgent c = [] then c\<lparr>cfg_UserAgent := rs_DefaultKubernetesUserAgent lib\<rparr> else c)
      in case rs_HTTPClientFor lib configShallowCopy of
           Inl e \<Rightarrow> Inl (External e)
         | Inr httpClient \<Rightarrow> clusterset_NewForConfigAndClient lib ca configShallowCopy httpClient)"

definition clusterset_NewForConfigOrDie ::
  "('e, 'rl, 'ser, 'r, 'http, 'rest, 'disc) rest_lib \<Rightarrow> ('e, 'rl, 'ser, 'r, 'http, 'rest, 'disc) caches \<Rightarrow>
   ('rl, 'ser, 'r) rest_Config \<Rightarrow> ('e, 'disc, 'rest) ClusterClientset outcome" where
  "clusterset_NewForConfigOrDie lib ca c = or_die (rs_Error lib) (clusterset_NewForConfig lib ca c)"

subsection \<open>What the constructors give\<close>

text \<open>The configuration that a clientset hands on: with a user agent, and with a rate limiter where it asks for
  one. It is refused when it asks for one without a burst.\<close>

definition refused :: "('rl, 'ser, 'r) rest_Config \<Rightarrow> bool" where
  "refused c \<longleftrightarrow> cfg_RateLimiter c = None \<and> cfg_QPS c > 0 \<and> cfg_Burst c \<le> 0"

definition with_agent ::
  "('e, 'rl, 'ser, 'r, 'http, 'rest, 'disc) rest_lib \<Rightarrow> ('rl, 'ser, 'r) rest_Config \<Rightarrow> ('rl, 'ser, 'r) rest_Config" where
  "with_agent lib c =
     c\<lparr>cfg_UserAgent := if cfg_UserAgent c = [] then rs_DefaultKubernetesUserAgent lib else cfg_UserAgent c\<rparr>"

definition with_limiter ::
  "('e, 'rl, 'ser, 'r, 'http, 'rest, 'disc) rest_lib \<Rightarrow> ('rl, 'ser, 'r) rest_Config \<Rightarrow> ('rl, 'ser, 'r) rest_Config" where
  "with_limiter lib c =
     c\<lparr>cfg_RateLimiter :=
          (case cfg_RateLimiter c of
             Some rl \<Rightarrow> Some rl
           | None \<Rightarrow> if cfg_QPS c > 0 then Some (rs_NewTokenBucketRateLimiter lib (cfg_QPS c) (cfg_Burst c)) else None)\<rparr>"

lemma agent_step: "(if cfg_UserAgent c = [] then c\<lparr>cfg_UserAgent := rs_DefaultKubernetesUserAgent lib\<rparr> else c) = with_agent lib c"
  by (simp add: with_agent_def)

lemma limiter_step:
  "(if cfg_RateLimiter c = None \<and> cfg_QPS c > 0 then
      if cfg_Burst c \<le> 0 then Inl burst_error
      else Inr (c\<lparr>cfg_RateLimiter := Some (rs_NewTokenBucketRateLimiter lib (cfg_QPS c) (cfg_Burst c))\<rparr>)
    else Inr c) = (if refused c then Inl burst_error else Inr (with_limiter lib c))"
  by (auto simp: refused_def with_limiter_def split: option.split)

lemma NewForConfigAndClient_cases:
  "NewForConfigAndClient lib c h =
     (if refused c then Inl burst_error
      else case rs_RESTClientForConfigAndClient lib (setConfigDefaults lib (with_limiter lib c)) h of
             Inl e \<Rightarrow> Inl (External e)
           | Inr rest \<Rightarrow>
               (case rs_NewDiscoveryClientForConfigAndClient lib (with_limiter lib c) h of
                  Inl e \<Rightarrow> Inl (External e)
                | Inr disc \<Rightarrow> Inr \<lparr>cs_DiscoveryClient = disc, cs_initializationV1alpha1 = v1alpha1_New rest\<rparr>))"
  unfolding NewForConfigAndClient_def limiter_step
  by (simp add: v1alpha1_NewForConfigAndClient_def v1alpha1_New_def Let_def split: sum.split)

lemma refused_with_agent [simp]: "refused (with_agent lib c) = refused c"
  by (simp add: refused_def with_agent_def)

lemma setConfigDefaults_eq:
  "setConfigDefaults lib c = with_agent lib
     (c\<lparr>cfg_GroupVersion := Some SchemeGroupVersion, cfg_APIPath := ''/apis'', cfg_NegotiatedSerializer := Some (rs_Codec lib)\<rparr>)"
  by (simp add: setConfigDefaults_def with_agent_def Let_def)

lemma with_agent_twice: "with_agent lib (with_agent lib c) = with_agent lib c"
  by (simp add: with_agent_def)

text \<open>C39: the clientset made from a configuration. Making it fails with the error of the burst exactly
  when the HTTP client could be made and the configuration asks for a rate limit without a burst; any other error is
  one of client-go. A clientset that is made has its REST client and its discovery client
  from one HTTP client and one rate limiter, and the REST client is configured for the group and version of the
  API below \<^verbatim>\<open>/apis\<close> and otherwise as given; its resource clients have no namespace. \<^verbatim>\<open>NewForConfigOrDie\<close>
  panics with exactly the errors.\<close>

theorem NewForConfig_outcomes:
  "case NewForConfig lib c of
     Inl e \<Rightarrow> NewForConfigOrDie lib c = Panic (rs_Error lib e)
       \<and> (if refused c \<and> (\<exists>h. rs_HTTPClientFor lib (with_agent lib c) = Inr h) then e = burst_error
          else (\<exists>x. e = External x))
   | Inr cs \<Rightarrow> NewForConfigOrDie lib c = Ret cs \<and> \<not> refused c
       \<and> (\<exists>h cfg rest.
            rs_HTTPClientFor lib (with_agent lib c) = Inr h
          \<and> rs_RESTClientForConfigAndClient lib cfg h = Inr rest
          \<and> rs_NewDiscoveryClientForConfigAndClient lib (with_limiter lib (with_agent lib c)) h = Inr (cs_DiscoveryClient cs)
          \<and> cfg = (with_limiter lib (with_agent lib c))
                \<lparr>cfg_GroupVersion := Some SchemeGroupVersion, cfg_APIPath := ''/apis'',
                 cfg_NegotiatedSerializer := Some (rs_Codec lib)\<rparr>
          \<and> v1alpha1_InitTargets (InitializationV1alpha1 cs)
              = \<lparr>rsc_resource = ''inittargets'', rsc_client = Some rest, rsc_namespace = []\<rparr>
          \<and> v1alpha1_InitTemplates (InitializationV1alpha1 cs)
              = \<lparr>rsc_resource = ''inittemplates'', rsc_client = Some rest, rsc_namespace = []\<rparr>)"
proof -
  let ?c = "with_agent lib c"
  have cfg: "setConfigDefaults lib (with_limiter lib ?c) = (with_limiter lib ?c)
      \<lparr>cfg_GroupVersion := Some SchemeGroupVersion, cfg_APIPath := ''/apis'', cfg_NegotiatedSerializer := Some (rs_Codec lib)\<rparr>"
    by (simp add: setConfigDefaults_def with_agent_def with_limiter_def Let_def)
  show ?thesis
    unfolding NewForConfigOrDie_def NewForConfig_def agent_step NewForConfigAndClient_cases refused_with_agent
    by (auto simp: cfg or_die_def InitializationV1alpha1_def v1alpha1_New_def v1alpha1_InitTargets_def
        v1alpha1_InitTemplates_def newInitTargets_def newInitTemplates_def RESTClient_def burst_error_def Let_def
        split: sum.split)
qed

text \<open>What the caches promise: the client of a cluster is made from the configuration with the cluster's
  address in it, by the constructor the cache was given.\<close>

definition at_cluster :: "('r \<Rightarrow> string \<Rightarrow> 'r) \<Rightarrow> ('rl, 'ser, 'r) rest_Config \<Rightarrow> string \<Rightarrow> ('rl, 'ser, 'r) rest_Config" where
  "at_cluster host c p = c\<lparr>cfg_Rest := host (cfg_Rest c) p\<rparr>"

definition cluster_caches :: "('r \<Rightarrow> string \<Rightarrow> 'r) \<Rightarrow> ('e, 'rl, 'ser, 'r, 'http, 'rest, 'disc) caches \<Rightarrow> bool" where
  "cluster_caches host ca \<longleftrightarrow>
     (\<forall>c h mk p. NewClientsetCache ca c h mk p = mk (at_cluster host c p) h)
   \<and> (\<forall>c h mk p. NewTypedCache ca c h mk p = mk (at_cluster host c p) h)"

definition unlimited :: "('rl, 'ser, 'r) rest_Config \<Rightarrow> bool" where
  "unlimited c \<longleftrightarrow> cfg_RateLimiter c \<noteq> None \<or> \<not> cfg_QPS c > 0"

lemma unlimited_simps:
  "unlimited c \<Longrightarrow> with_limiter lib c = c" "unlimited c \<Longrightarrow> \<not> refused c"
  "unlimited (at_cluster host c p) = unlimited c" "unlimited (with_agent lib c) = unlimited c"
  by (auto simp: unlimited_def with_limiter_def refused_def at_cluster_def with_agent_def split: option.split)

lemma clusterset_cases:
  assumes "clusterset_NewForConfig lib ca c = Inr ccs" and "unlimited c"
  obtains h where "rs_HTTPClientFor lib (with_agent lib c) = Inr h"
    and "ccs_clientCache ccs = NewClientsetCache ca (with_agent lib c) h (NewForConfigAndClient lib)"
    and "v1cc_clientCache (ccs_initializationV1alpha1 ccs)
      = NewTypedCache ca (with_agent lib c) h (v1alpha1_NewForConfigAndClient lib)"
  using assms
  unfolding clusterset_NewForConfig_def agent_step clusterset_NewForConfigAndClient_def limiter_step
  by (auto simp: v1alpha1Cluster_NewForConfigAndClient_def unlimited_simps Let_def split: sum.splits)

text \<open>One cluster by four routes. When the clientset of many clusters is made from a configuration
  that brings its own rate limiter or needs none, and hands out the clientset of a cluster, the typed client scoped to
  the cluster is the typed client of that clientset, and the resource interfaces scoped to
  it are the resource clients of that typed client. The wildcard is refused by every
  one of the four.\<close>

theorem cluster_routes_agree:
  assumes "cluster_caches host ca" and "unlimited c"
    and "clusterset_NewForConfig lib ca c = Inr ccs"
    and "clusterset_Cluster (rs_Error lib) ccs p = Ret cs"
  shows "v1alpha1Cluster_Cluster (rs_Error lib) (clusterset_InitializationV1alpha1 ccs) p = Ret (InitializationV1alpha1 cs)
    \<and> initTargetsCI_Cluster (rs_Error lib) (v1alpha1Cluster_InitTargets (clusterset_InitializationV1alpha1 ccs)) p
        = Ret (v1alpha1_InitTargets (InitializationV1alpha1 cs))
    \<and> initTemplatesCI_Cluster (rs_Error lib) (v1alpha1Cluster_InitTemplates (clusterset_InitializationV1alpha1 ccs)) p
        = Ret (v1alpha1_InitTemplates (InitializationV1alpha1 cs))
    \<and> clusterset_Cluster (rs_Error lib) ccs Wildcard = Panic wildcard_panic
    \<and> v1alpha1Cluster_Cluster (rs_Error lib) (clusterset_InitializationV1alpha1 ccs) Wildcard = Panic wildcard_panic
    \<and> initTargetsCI_Cluster (rs_Error lib) (v1alpha1Cluster_InitTargets (clusterset_InitializationV1alpha1 ccs)) Wildcard
        = Panic wildcard_panic
    \<and> initTemplatesCI_Cluster (rs_Error lib) (v1alpha1Cluster_InitTemplates (clusterset_InitializationV1alpha1 ccs)) Wildcard
        = Panic wildcard_panic"
proof -
  let ?c = "at_cluster host (with_agent lib c) p"
  obtain h where caches: "ccs_clientCache ccs = NewClientsetCache ca (with_agent lib c) h (NewForConfigAndClient lib)"
      "v1cc_clientCache (ccs_initializationV1alpha1 ccs)
        = NewTypedCache ca (with_agent lib c) h (v1alpha1_NewForConfigAndClient lib)"
    using clusterset_cases [OF assms(3,2)] by metis
  have p: "p \<noteq> Wildcard" using assms(4) by (auto simp: clusterset_Cluster_def)
  have "NewForConfigAndClient lib ?c h = Inr cs"
    using assms(1,4) p caches(1)
    by (auto simp: clusterset_Cluster_def ClusterOrDie_def or_die_def cluster_caches_def split: sum.splits)
  then have "v1alpha1_NewForConfigAndClient lib ?c h = Inr (InitializationV1alpha1 cs)"
    using assms(2) by (auto simp: NewForConfigAndClient_cases unlimited_simps v1alpha1_NewForConfigAndClient_def
        InitializationV1alpha1_def v1alpha1_New_def Let_def split: if_splits sum.splits)
  then have "v1cc_clientCache (ccs_initializationV1alpha1 ccs) p = Inr (InitializationV1alpha1 cs)"
    using assms(1) caches(2) by (simp add: cluster_caches_def)
  then show ?thesis
    using p by (simp add: v1alpha1Cluster_Cluster_def initTargetsCI_Cluster_def initTemplatesCI_Cluster_def
        clusterset_InitializationV1alpha1_def v1alpha1Cluster_InitTargets_def v1alpha1Cluster_InitTemplates_def
        clusterset_Cluster_def ClusterOrDie_def or_die_def)
qed

text \<open>A library whose clients are the configurations they were made from, and caches on it.\<close>

definition sample_rest_lib :: "(nat, nat, unit, string, unit, string, string) rest_lib" where
  "sample_rest_lib = \<lparr>rs_DefaultKubernetesUserAgent = ''agent'', rs_Codec = (), rs_HTTPClientFor = (\<lambda>c. Inr ()),
     rs_RESTClientForConfigAndClient = (\<lambda>c h. Inr (cfg_Rest c)), rs_NewTokenBucketRateLimiter = (\<lambda>q b. 0),
     rs_NewDiscoveryClientForConfigAndClient = (\<lambda>c h. Inr (cfg_Rest c)), rs_NewDiscoveryClient = (\<lambda>r. r),
     rs_Error = (\<lambda>e. ''error'')\<rparr>"

definition sample_caches :: "(nat, nat, unit, string, unit, string, string) caches" where
  "sample_caches = \<lparr>NewClientsetCache = (\<lambda>c h mk p. mk (at_cluster (@) c p) h), NewTypedCache = (\<lambda>c h mk p. mk (at_cluster (@) c p) h)\<rparr>"

definition sample_rest_config :: "(nat, unit, string) rest_Config" where
  "sample_rest_config = \<lparr>cfg_UserAgent = [], cfg_RateLimiter = Some 7, cfg_QPS = 5, cfg_Burst = 0, cfg_GroupVersion = None,
     cfg_APIPath = [], cfg_NegotiatedSerializer = None, cfg_Rest = ''https://k/clusters/''\<rparr>"

lemmas sample_clientset_defs = sample_rest_lib_def sample_caches_def sample_rest_config_def

theorem cluster_routes_agree_witness:
  "\<exists>ccs. clusterset_NewForConfig sample_rest_lib sample_caches sample_rest_config = Inr ccs
     \<and> initTargetsCI_Cluster (rs_Error sample_rest_lib)
          (v1alpha1Cluster_InitTargets (clusterset_InitializationV1alpha1 ccs)) ''root:org''
        = Ret \<lparr>rsc_resource = ''inittargets'', rsc_client = Some ''https://k/clusters/root:org'', rsc_namespace = []\<rparr>"
proof -
  have caches: "cluster_caches (@) sample_caches" by (simp add: cluster_caches_def sample_caches_def)
  have unl: "unlimited sample_rest_config" by (simp add: unlimited_def sample_rest_config_def)
  obtain ccs where ccs: "clusterset_NewForConfig sample_rest_lib sample_caches sample_rest_config = Inr ccs"
      "clusterset_Cluster (rs_Error sample_rest_lib) ccs ''root:org'' =
        Ret \<lparr>cs_DiscoveryClient = ''https://k/clusters/root:org'',
             cs_initializationV1alpha1 = \<lparr>v1c_restClient = ''https://k/clusters/root:org''\<rparr>\<rparr>"
    by (simp add: clusterset_NewForConfig_def clusterset_NewForConfigAndClient_def clusterset_Cluster_def
        v1alpha1Cluster_NewForConfigAndClient_def v1alpha1_NewForConfigAndClient_def NewForConfigAndClient_def
        ClusterOrDie_def or_die_def Wildcard_def at_cluster_def setConfigDefaults_def sample_clientset_defs Let_def)
  from cluster_routes_agree [OF caches unl ccs] ccs(1) show ?thesis
    by (simp add: v1alpha1_InitTargets_def newInitTargets_def RESTClient_def InitializationV1alpha1_def)
qed

end
