(* ===== verification/Apply_Config.thy ===== *)
theory Apply_Config
  imports Api_Types "HOL-Library.Word"
begin

text \<open>
  The builders of declarative configurations (\<^verbatim>\<open>sdk/applyconfiguration\<close>). A configuration has a
  pointer for every field, nil for a field it says nothing about. A \<^verbatim>\<open>With\<close> method
  changes the struct its receiver points to and returns the receiver: here a function from
  the struct to the changed struct; those that can panic return the outcome with it. A pointer to a
  field's value is an \<open>option\<close>. The structs of client-go that are embedded or held
  (\<^verbatim>\<open>ObjectMetaApplyConfiguration\<close>, \<^verbatim>\<open>TypeMetaApplyConfiguration\<close>) are records of their fields; a time and an
  owner reference are of an arbitrary type, as the builders only store them.

  The builders of the two object types are proved to be the same specification, \<open>described\<close>, which gives
  each field in closed form from the calls made. Configurations of specs are shown to carry
  over JSON, through the tags of both type families, to the API types.
\<close>

subsection \<open>The structs\<close>

record TypeMetaApplyConfiguration =
  tma_Kind :: "string option"
  tma_APIVersion :: "string option"

record ('t, 'o) ObjectMetaApplyConfiguration =
  oma_Name :: "string option"
  oma_GenerateName :: "string option"
  oma_Namespace :: "string option"
  oma_UID :: "string option"
  oma_ResourceVersion :: "string option"
  oma_Generation :: "64 word option"
  oma_CreationTimestamp :: "'t option"
  oma_DeletionTimestamp :: "'t option"
  oma_DeletionGracePeriodSeconds :: "64 word option"
  oma_Labels :: "(string \<rightharpoonup> string) option"
  oma_Annotations :: "(string \<rightharpoonup> string) option"
  oma_OwnerReferences :: "'o list"
  oma_Finalizers :: "string list"

definition empty_TypeMeta :: TypeMetaApplyConfiguration where
  "empty_TypeMeta = \<lparr>tma_Kind = None, tma_APIVersion = None\<rparr>"

definition empty_ObjectMeta :: "('t, 'o) ObjectMetaApplyConfiguration" where
  "empty_ObjectMeta =
     \<lparr>oma_Name = None, oma_GenerateName = None, oma_Namespace = None, oma_UID = None, oma_ResourceVersion = None,
      oma_Generation = None, oma_CreationTimestamp = None, oma_DeletionTimestamp = None,
      oma_DeletionGracePeriodSeconds = None, oma_Labels = None, oma_Annotations = None,
      oma_OwnerReferences = [], oma_Finalizers = []\<rparr>"

record WorkspaceTypeReferenceApplyConfiguration =
  wtrac_Path :: "string option"
  wtrac_Name :: "string option"

record TemplateInitSourceApplyConfiguration =
  tisac_Name :: "string option"

record InitSourceApplyConfiguration =
  srcac_Template :: "TemplateInitSourceApplyConfiguration option"

record InitTargetSpecApplyConfiguration =
  itsac_WorkspaceTypeReference :: "WorkspaceTypeReferenceApplyConfiguration option"
  itsac_Sources :: "InitSourceApplyConfiguration list"

record InitTemplateSpecApplyConfiguration =
  tplac_Template :: "string option"

record ('t, 'o) InitTargetApplyConfiguration =
  itac_TypeMeta :: TypeMetaApplyConfiguration
  itac_ObjectMeta :: "('t, 'o) ObjectMetaApplyConfiguration option"
  itac_Spec :: "InitTargetSpecApplyConfiguration option"

record ('t, 'o) InitTemplateApplyConfiguration =
  itpac_TypeMeta :: TypeMetaApplyConfiguration
  itpac_ObjectMeta :: "('t, 'o) ObjectMetaApplyConfiguration option"
  itpac_Spec :: "InitTemplateSpecApplyConfiguration option"

subsection \<open>The loops of the builders\<close>

text \<open>A loop that appends the values of a list of pointers and panics at a nil one, with what was
  appended before it.\<close>

fun append_values :: "string \<Rightarrow> 'v option list \<Rightarrow> 'v list \<Rightarrow> unit outcome \<times> 'v list" where
  "append_values msg [] acc = (Ret (), acc)"
| "append_values msg (v # vs) acc =
     (case v of
        None \<Rightarrow> (Panic msg, acc)
      | Some x \<Rightarrow> append_values msg vs (acc @ [x]))"

text \<open>A nil map is made when there is something to put into it; the entries are those of a map, in the order
  of the iteration.\<close>

definition put_entries :: "('k \<times> 'v) list \<Rightarrow> ('k \<rightharpoonup> 'v) option \<Rightarrow> ('k \<rightharpoonup> 'v) option" where
  "put_entries entries m =
     (let m' = (if Option.is_none m \<and> length entries > 0 then Some Map.empty else m)
      in foldl (\<lambda>acc (k, v). map_option (\<lambda>f. f(k \<mapsto> v)) acc) m' entries)"

subsection \<open>The builders of the specs\<close>

definition WorkspaceTypeReference_config :: WorkspaceTypeReferenceApplyConfiguration where
  "WorkspaceTypeReference_config = \<lparr>wtrac_Path = None, wtrac_Name = None\<rparr>"

definition WorkspaceTypeReference_WithPath ::
  "string \<Rightarrow> WorkspaceTypeReferenceApplyConfiguration \<Rightarrow> WorkspaceTypeReferenceApplyConfiguration" where
  "WorkspaceTypeReference_WithPath value' b = b\<lparr>wtrac_Path := Some value'\<rparr>"

definition WorkspaceTypeReference_WithName ::
  "string \<Rightarrow> WorkspaceTypeReferenceApplyConfiguration \<Rightarrow> WorkspaceTypeReferenceApplyConfiguration" where
  "WorkspaceTypeReference_WithName value' b = b\<lparr>wtrac_Name := Some value'\<rparr>"

definition TemplateInitSource_config :: TemplateInitSourceApplyConfiguration where
  "TemplateInitSource_config = \<lparr>tisac_Name = None\<rparr>"

definition TemplateInitSource_WithName ::
  "string \<Rightarrow> TemplateInitSourceApplyConfiguration \<Rightarrow> TemplateInitSourceApplyConfiguration" where
  "TemplateInitSource_WithName value' b = b\<lparr>tisac_Name := Some value'\<rparr>"

definition InitSource_config :: InitSourceApplyConfiguration where
  "InitSource_config = \<lparr>srcac_Template = None\<rparr>"

definition InitSource_WithTemplate ::
  "TemplateInitSourceApplyConfiguration option \<Rightarrow> InitSourceApplyConfiguration \<Rightarrow> InitSourceApplyConfiguration" where
  "InitSource_WithTemplate value' b = b\<lparr>srcac_Template := value'\<rparr>"

definition InitTargetSpec_config :: InitTargetSpecApplyConfiguration where
  "InitTargetSpec_config = \<lparr>itsac_WorkspaceTypeReference = None, itsac_Sources = []\<rparr>"

definition InitTargetSpec_WithWorkspaceTypeReference ::
  "WorkspaceTypeReferenceApplyConfiguration option \<Rightarrow> InitTargetSpecApplyConfiguration \<Rightarrow> InitTargetSpecApplyConfiguration" where
  "InitTargetSpec_WithWorkspaceTypeReference value' b = b\<lparr>itsac_WorkspaceTypeReference := value'\<rparr>"

definition InitTargetSpec_WithSources ::
  "InitSourceApplyConfiguration option list \<Rightarrow> InitTargetSpecApplyConfiguration \<Rightarrow>
   unit outcome \<times> InitTargetSpecApplyConfiguration" where
  "InitTargetSpec_WithSources values b =
     (case append_values ''nil value passed to WithSources'' values (itsac_Sources b) of
        (out, sources) \<Rightarrow> (out, b\<lparr>itsac_Sources := sources\<rparr>))"

definition InitTemplateSpec_config :: InitTemplateSpecApplyConfiguration where
  "InitTemplateSpec_config = \<lparr>tplac_Template = None\<rparr>"

definition InitTemplateSpec_WithTemplate ::
  "string \<Rightarrow> InitTemplateSpecApplyConfiguration \<Rightarrow> InitTemplateSpecApplyConfiguration" where
  "InitTemplateSpec_WithTemplate value' b = b\<lparr>tplac_Template := Some value'\<rparr>"

subsection \<open>The builder of InitTarget\<close>

definition InitTarget_ensureObjectMeta :: "('t, 'o) InitTargetApplyConfiguration \<Rightarrow> ('t, 'o) InitTargetApplyConfiguration" where
  "InitTarget_ensureObjectMeta b =
     (case itac_ObjectMeta b of None \<Rightarrow> b\<lparr>itac_ObjectMeta := Some empty_ObjectMeta\<rparr> | Some m \<Rightarrow> b)"

definition InitTarget_WithKind :: "string \<Rightarrow> ('t, 'o) InitTargetApplyConfiguration \<Rightarrow> ('t, 'o) InitTargetApplyConfiguration" where
  "InitTarget_WithKind value' b = b\<lparr>itac_TypeMeta := (itac_TypeMeta b)\<lparr>tma_Kind := Some value'\<rparr>\<rparr>"

definition InitTarget_WithAPIVersion :: "string \<Rightarrow> ('t, 'o) InitTargetApplyConfiguration \<Rightarrow> ('t, 'o) InitTargetApplyConfiguration" where
  "InitTarget_WithAPIVersion value' b = b\<lparr>itac_TypeMeta := (itac_TypeMeta b)\<lparr>tma_APIVersion := Some value'\<rparr>\<rparr>"

definition InitTarget_WithName :: "string \<Rightarrow> ('t, 'o) InitTargetApplyConfiguration \<Rightarrow> ('t, 'o) InitTargetApplyConfiguration" where
  "InitTarget_WithName value' b =
     (let b' = InitTarget_ensureObjectMeta b
      in b'\<lparr>itac_ObjectMeta := map_option (\<lambda>m. m\<lparr>oma_Name := Some value'\<rparr>) (itac_ObjectMeta b')\<rparr>)"

definition InitTarget_WithGenerateName :: "string \<Rightarrow> ('t, 'o) InitTargetApplyConfiguration \<Rightarrow> ('t, 'o) InitTargetApplyConfiguration" where
  "InitTarget_WithGenerateName value' b =
     (let b' = InitTarget_ensureObjectMeta b
      in b'\<lparr>itac_ObjectMeta := map_option (\<lambda>m. m\<lparr>oma_GenerateName := Some value'\<rparr>) (itac_ObjectMeta b')\<rparr>)"

definition InitTarget_WithNamespace :: "string \<Rightarrow> ('t, 'o) InitTargetApplyConfiguration \<Rightarrow> ('t, 'o) InitTargetApplyConfiguration" where
  "InitTarget_WithNamespace value' b =
     (let b' = InitTarget_ensureObjectMeta b
      in b'\<lparr>itac_ObjectMeta := map_option (\<lambda>m. m\<lparr>oma_Namespace := Some value'\<rparr>) (itac_ObjectMeta b')\<rparr>)"

definition InitTarget_WithUID :: "string \<Rightarrow> ('t, 'o) InitTargetApplyConfiguration \<Rightarrow> ('t, 'o) InitTargetApplyConfiguration" where
  "InitTarget_WithUID value' b =
     (let b' = InitTarget_ensureObjectMeta b
      in b'\<lparr>itac_ObjectMeta := map_option (\<lambda>m. m\<lparr>oma_UID := Some value'\<rparr>) (itac_ObjectMeta b')\<rparr>)"

definition InitTarget_WithResourceVersion :: "string \<Rightarrow> ('t, 'o) InitTargetApplyConfiguration \<Rightarrow> ('t, 'o) InitTargetApplyConfiguration" where
  "InitTarget_WithResourceVersion value' b =
     (let b' = InitTarget_ensureObjectMeta b
      in b'\<lparr>itac_ObjectMeta := map_option (\<lambda>m. m\<lparr>oma_ResourceVersion := Some value'\<rparr>) (itac_ObjectMeta b')\<rparr>)"

definition InitTarget_WithGeneration :: "64 word \<Rightarrow> ('t, 'o) InitTargetApplyConfiguration \<Rightarrow> ('t, 'o) InitTargetApplyConfiguration" where
  "InitTarget_WithGeneration value' b =
     (let b' = InitTarget_ensureObjectMeta b
      in b'\<lparr>itac_ObjectMeta := map_option (\<lambda>m. m\<lparr>oma_Generation := Some value'\<rparr>) (itac_ObjectMeta b')\<rparr>)"

definition InitTarget_WithCreationTimestamp :: "'t \<Rightarrow> ('t, 'o) InitTargetApplyConfiguration \<Rightarrow> ('t, 'o) InitTargetApplyConfiguration" where
  "InitTarget_WithCreationTimestamp value' b =
     (let b' = InitTarget_ensureObjectMeta b
      in b'\<lparr>itac_ObjectMeta := map_option (\<lambda>m. m\<lparr>oma_CreationTimestamp := Some value'\<rparr>) (itac_ObjectMeta b')\<rparr>)"

definition InitTarget_WithDeletionTimestamp :: "'t \<Rightarrow> ('t, 'o) InitTargetApplyConfiguration \<Rightarrow> ('t, 'o) InitTargetApplyConfiguration" where
  "InitTarget_WithDeletionTimestamp value' b =
     (let b' = InitTarget_ensureObjectMeta b
      in b'\<lparr>itac_ObjectMeta := map_option (\<lambda>m. m\<lparr>oma_DeletionTimestamp := Some value'\<rparr>) (itac_ObjectMeta b')\<rparr>)"

definition InitTarget_WithDeletionGracePeriodSeconds :: "64 word \<Rightarrow> ('t, 'o) InitTargetApplyConfiguration \<Rightarrow> ('t, 'o) InitTargetApplyConfiguration" where
  "InitTarget_WithDeletionGracePeriodSeconds value' b =
     (let b' = InitTarget_ensureObjectMeta b
      in b'\<lparr>itac_ObjectMeta := map_option (\<lambda>m. m\<lparr>oma_DeletionGracePeriodSeconds := Some value'\<rparr>) (itac_ObjectMeta b')\<rparr>)"

definition InitTarget_WithLabels :: "(string \<times> string) list \<Rightarrow> ('t, 'o) InitTargetApplyConfiguration \<Rightarrow> ('t, 'o) InitTargetApplyConfiguration" where
  "InitTarget_WithLabels entries b =
     (let b' = InitTarget_ensureObjectMeta b
      in b'\<lparr>itac_ObjectMeta := map_option (\<lambda>m. m\<lparr>oma_Labels := put_entries entries (oma_Labels m)\<rparr>) (itac_ObjectMeta b')\<rparr>)"

definition InitTarget_WithAnnotations :: "(string \<times> string) list \<Rightarrow> ('t, 'o) InitTargetApplyConfiguration \<Rightarrow> ('t, 'o) InitTargetApplyConfiguration" where
  "InitTarget_WithAnnotations entries b =
     (let b' = InitTarget_ensureObjectMeta b
      in b'\<lparr>itac_ObjectMeta := map_option (\<lambda>m. m\<lparr>oma_Annotations := put_entries entries (oma_Annotations m)\<rparr>) (itac_ObjectMeta b')\<rparr>)"

definition InitTarget_WithOwnerReferences ::
  "'o option list \<Rightarrow> ('t, 'o) InitTargetApplyConfiguration \<Rightarrow> unit outcome \<times> ('t, 'o) InitTargetApplyConfiguration" where
  "InitTarget_WithOwnerReferences values b =
     (let b' = InitTarget_ensureObjectMeta b
      in case itac_ObjectMeta b' of
           None \<Rightarrow> (Panic ''nil pointer dereference'', b')
         | Some m \<Rightarrow>
             (case append_values ''nil value passed to WithOwnerReferences'' values (oma_OwnerReferences m) of
                (out, refs) \<Rightarrow> (out, b'\<lparr>itac_ObjectMeta := Some (m\<lparr>oma_OwnerReferences := refs\<rparr>)\<rparr>)))"

definition InitTarget_WithFinalizers :: "string list \<Rightarrow> ('t, 'o) InitTargetApplyConfiguration \<Rightarrow> ('t, 'o) InitTargetApplyConfiguration" where
  "InitTarget_WithFinalizers values b =
     (let b' = InitTarget_ensureObjectMeta b
      in b'\<lparr>itac_ObjectMeta := map_option (\<lambda>m. m\<lparr>oma_Finalizers := foldl (\<lambda>fs v. fs @ [v]) (oma_Finalizers m) values\<rparr>) (itac_ObjectMeta b')\<rparr>)"

definition InitTarget_WithSpec ::
  "InitTargetSpecApplyConfiguration option \<Rightarrow> ('t, 'o) InitTargetApplyConfiguration \<Rightarrow> ('t, 'o) InitTargetApplyConfiguration" where
  "InitTarget_WithSpec value' b = b\<lparr>itac_Spec := value'\<rparr>"

definition InitTarget_GetName :: "('t, 'o) InitTargetApplyConfiguration \<Rightarrow> string option \<times> ('t, 'o) InitTargetApplyConfiguration" where
  "InitTarget_GetName b =
     (let b' = InitTarget_ensureObjectMeta b
      in (Option.bind (itac_ObjectMeta b') oma_Name, b'))"

definition InitTarget_config :: "string \<Rightarrow> ('t, 'o) InitTargetApplyConfiguration" where
  "InitTarget_config name =
     (let b0 = \<lparr>itac_TypeMeta = empty_TypeMeta, itac_ObjectMeta = None, itac_Spec = None\<rparr>;
          b1 = InitTarget_WithName name b0;
          b2 = InitTarget_WithKind ''InitTarget'' b1
      in InitTarget_WithAPIVersion ''initialization.kcp.io/v1alpha1'' b2)"

subsection \<open>The builder of InitTemplate\<close>

definition InitTemplate_ensureObjectMeta :: "('t, 'o) InitTemplateApplyConfiguration \<Rightarrow> ('t, 'o) InitTemplateApplyConfiguration" where
  "InitTemplate_ensureObjectMeta b =
     (case itpac_ObjectMeta b of None \<Rightarrow> b\<lparr>itpac_ObjectMeta := Some empty_ObjectMeta\<rparr> | Some m \<Rightarrow> b)"

definition InitTemplate_WithKind :: "string \<Rightarrow> ('t, 'o) InitTemplateApplyConfiguration \<Rightarrow> ('t, 'o) InitTemplateApplyConfiguration" where
  "InitTemplate_WithKind value' b = b\<lparr>itpac_TypeMeta := (itpac_TypeMeta b)\<lparr>tma_Kind := Some value'\<rparr>\<rparr>"

definition InitTemplate_WithAPIVersion :: "string \<Rightarrow> ('t, 'o) InitTemplateApplyConfiguration \<Rightarrow> ('t, 'o) InitTemplateApplyConfiguration" where
  "InitTemplate_WithAPIVersion value' b = b\<lparr>itpac_TypeMeta := (itpac_TypeMeta b)\<lparr>tma_APIVersion := Some value'\<rparr>\<rparr>"

definition InitTemplate_WithName :: "string \<Rightarrow> ('t, 'o) InitTemplateApplyConfiguration \<Rightarrow> ('t, 'o) InitTemplateApplyConfiguration" where
  "InitTemplate_WithName value' b =
     (let b' = InitTemplate_ensureObjectMeta b
      in b'\<lparr>itpac_ObjectMeta := map_option (\<lambda>m. m\<lparr>oma_Name := Some value'\<rparr>) (itpac_ObjectMeta b')\<rparr>)"

definition InitTemplate_WithGenerateName :: "string \<Rightarrow> ('t, 'o) InitTemplateApplyConfiguration \<Rightarrow> ('t, 'o) InitTemplateApplyConfiguration" where
  "InitTemplate_WithGenerateName value' b =
     (let b' = InitTemplate_ensureObjectMeta b
      in b'\<lparr>itpac_ObjectMeta := map_option (\<lambda>m. m\<lparr>oma_GenerateName := Some value'\<rparr>) (itpac_ObjectMeta b')\<rparr>)"

definition InitTemplate_WithNamespace :: "string \<Rightarrow> ('t, 'o) InitTemplateApplyConfiguration \<Rightarrow> ('t, 'o) InitTemplateApplyConfiguration" where
  "InitTemplate_WithNamespace value' b =
     (let b' = InitTemplate_ensureObjectMeta b
      in b'\<lparr>itpac_ObjectMeta := map_option (\<lambda>m. m\<lparr>oma_Namespace := Some value'\<rparr>) (itpac_ObjectMeta b')\<rparr>)"

definition InitTemplate_WithUID :: "string \<Rightarrow> ('t, 'o) InitTemplateApplyConfiguration \<Rightarrow> ('t, 'o) InitTemplateApplyConfiguration" where
  "InitTemplate_WithUID value' b =
     (let b' = InitTemplate_ensureObjectMeta b
      in b'\<lparr>itpac_ObjectMeta := map_option (\<lambda>m. m\<lparr>oma_UID := Some value'\<rparr>) (itpac_ObjectMeta b')\<rparr>)"

definition InitTemplate_WithResourceVersion :: "string \<Rightarrow> ('t, 'o) InitTemplateApplyConfiguration \<Rightarrow> ('t, 'o) InitTemplateApplyConfiguration" where
  "InitTemplate_WithResourceVersion value' b =
     (let b' = InitTemplate_ensureObjectMeta b
      in b'\<lparr>itpac_ObjectMeta := map_option (\<lambda>m. m\<lparr>oma_ResourceVersion := Some value'\<rparr>) (itpac_ObjectMeta b')\<rparr>)"

definition InitTemplate_WithGeneration :: "64 word \<Rightarrow> ('t, 'o) InitTemplateApplyConfiguration \<Rightarrow> ('t, 'o) InitTemplateApplyConfiguration" where
  "InitTemplate_WithGeneration value' b =
     (let b' = InitTemplate_ensureObjectMeta b
      in b'\<lparr>itpac_ObjectMeta := map_option (\<lambda>m. m\<lparr>oma_Generation := Some value'\<rparr>) (itpac_ObjectMeta b')\<rparr>)"

definition InitTemplate_WithCreationTimestamp :: "'t \<Rightarrow> ('t, 'o) InitTemplateApplyConfiguration \<Rightarrow> ('t, 'o) InitTemplateApplyConfiguration" where
  "InitTemplate_WithCreationTimestamp value' b =
     (let b' = InitTemplate_ensureObjectMeta b
      in b'\<lparr>itpac_ObjectMeta := map_option (\<lambda>m. m\<lparr>oma_CreationTimestamp := Some value'\<rparr>) (itpac_ObjectMeta b')\<rparr>)"

definition InitTemplate_WithDeletionTimestamp :: "'t \<Rightarrow> ('t, 'o) InitTemplateApplyConfiguration \<Rightarrow> ('t, 'o) InitTemplateApplyConfiguration" where
  "InitTemplate_WithDeletionTimestamp value' b =
     (let b' = InitTemplate_ensureObjectMeta b
      in b'\<lparr>itpac_ObjectMeta := map_option (\<lambda>m. m\<lparr>oma_DeletionTimestamp := Some value'\<rparr>) (itpac_ObjectMeta b')\<rparr>)"

definition InitTemplate_WithDeletionGracePeriodSeconds :: "64 word \<Rightarrow> ('t, 'o) InitTemplateApplyConfiguration \<Rightarrow> ('t, 'o) InitTemplateApplyConfiguration" where
  "InitTemplate_WithDeletionGracePeriodSeconds value' b =
     (let b' = InitTemplate_ensureObjectMeta b
      in b'\<lparr>itpac_ObjectMeta := map_option (\<lambda>m. m\<lparr>oma_DeletionGracePeriodSeconds := Some value'\<rparr>) (itpac_ObjectMeta b')\<rparr>)"

definition InitTemplate_WithLabels :: "(string \<times> string) list \<Rightarrow> ('t, 'o) InitTemplateApplyConfiguration \<Rightarrow> ('t, 'o) InitTemplateApplyConfiguration" where
  "InitTemplate_WithLabels entries b =
     (let b' = InitTemplate_ensureObjectMeta b
      in b'\<lparr>itpac_ObjectMeta := map_option (\<lambda>m. m\<lparr>oma_Labels := put_entries entries (oma_Labels m)\<rparr>) (itpac_ObjectMeta b')\<rparr>)"

definition InitTemplate_WithAnnotations :: "(string \<times> string) list \<Rightarrow> ('t, 'o) InitTemplateApplyConfiguration \<Rightarrow> ('t, 'o) InitTemplateApplyConfiguration" where
  "InitTemplate_WithAnnotations entries b =
     (let b' = InitTemplate_ensureObjectMeta b
      in b'\<lparr>itpac_ObjectMeta := map_option (\<lambda>m. m\<lparr>oma_Annotations := put_entries entries (oma_Annotations m)\<rparr>) (itpac_ObjectMeta b')\<rparr>)"

definition InitTemplate_WithOwnerReferences ::
  "'o option list \<Rightarrow> ('t, 'o) InitTemplateApplyConfiguration \<Rightarrow> unit outcome \<times> ('t, 'o) InitTemplateApplyConfiguration" where
  "InitTemplate_WithOwnerReferences values b =
     (let b' = InitTemplate_ensureObjectMeta b
      in case itpac_ObjectMeta b' of
           None \<Rightarrow> (Panic ''nil pointer dereference'', b')
         | Some m \<Rightarrow>
             (case append_values ''nil value passed to WithOwnerReferences'' values (oma_OwnerReferences m) of
                (out, refs) \<Rightarrow> (out, b'\<lparr>itpac_ObjectMeta := Some (m\<lparr>oma_OwnerReferences := refs\<rparr>)\<rparr>)))"

definition InitTemplate_WithFinalizers :: "string list \<Rightarrow> ('t, 'o) InitTemplateApplyConfiguration \<Rightarrow> ('t, 'o) InitTemplateApplyConfiguration" where
  "InitTemplate_WithFinalizers values b =
     (let b' = InitTemplate_ensureObjectMeta b
      in b'\<lparr>itpac_ObjectMeta := map_option (\<lambda>m. m\<lparr>oma_Finalizers := foldl (\<lambda>fs v. fs @ [v]) (oma_Finalizers m) values\<rparr>) (itpac_ObjectMeta b')\<rparr>)"

definition InitTemplate_WithSpec ::
  "InitTemplateSpecApplyConfiguration option \<Rightarrow> ('t, 'o) InitTemplateApplyConfiguration \<Rightarrow> ('t, 'o) InitTemplateApplyConfiguration" where
  "InitTemplate_WithSpec value' b = b\<lparr>itpac_Spec := value'\<rparr>"

definition InitTemplate_GetName :: "('t, 'o) InitTemplateApplyConfiguration \<Rightarrow> string option \<times> ('t, 'o) InitTemplateApplyConfiguration" where
  "InitTemplate_GetName b =
     (let b' = InitTemplate_ensureObjectMeta b
      in (Option.bind (itpac_ObjectMeta b') oma_Name, b'))"

definition InitTemplate_config :: "string \<Rightarrow> ('t, 'o) InitTemplateApplyConfiguration" where
  "InitTemplate_config name =
     (let b0 = \<lparr>itpac_TypeMeta = empty_TypeMeta, itpac_ObjectMeta = None, itpac_Spec = None\<rparr>;
          b1 = InitTemplate_WithName name b0;
          b2 = InitTemplate_WithKind ''InitTemplate'' b1
      in InitTemplate_WithAPIVersion ''initialization.kcp.io/v1alpha1'' b2)"

subsection \<open>Chains of calls\<close>

text \<open>A call of a builder, and the calls of a chain one after the other, until one panics.\<close>

datatype ('t, 'o, 's) builder_call =
    CKind string
  | CAPIVersion string
  | CName string
  | CGenerateName string
  | CNamespace string
  | CUID string
  | CResourceVersion string
  | CGeneration "64 word"
  | CCreationTimestamp 't
  | CDeletionTimestamp 't
  | CDeletionGracePeriodSeconds "64 word"
  | CLabels "(string \<times> string) list"
  | CAnnotations "(string \<times> string) list"
  | CFinalizers "string list"
  | COwnerReferences "'o option list"
  | CSpec "'s option"

fun InitTarget_call ::
  "('t, 'o, InitTargetSpecApplyConfiguration) builder_call \<Rightarrow> ('t, 'o) InitTargetApplyConfiguration \<Rightarrow>
   unit outcome \<times> ('t, 'o) InitTargetApplyConfiguration" where
  "InitTarget_call (CKind v) b = (Ret (), InitTarget_WithKind v b)"
| "InitTarget_call (CAPIVersion v) b = (Ret (), InitTarget_WithAPIVersion v b)"
| "InitTarget_call (CName v) b = (Ret (), InitTarget_WithName v b)"
| "InitTarget_call (CGenerateName v) b = (Ret (), InitTarget_WithGenerateName v b)"
| "InitTarget_call (CNamespace v) b = (Ret (), InitTarget_WithNamespace v b)"
| "InitTarget_call (CUID v) b = (Ret (), InitTarget_WithUID v b)"
| "InitTarget_call (CResourceVersion v) b = (Ret (), InitTarget_WithResourceVersion v b)"
| "InitTarget_call (CGeneration v) b = (Ret (), InitTarget_WithGeneration v b)"
| "InitTarget_call (CCreationTimestamp v) b = (Ret (), InitTarget_WithCreationTimestamp v b)"
| "InitTarget_call (CDeletionTimestamp v) b = (Ret (), InitTarget_WithDeletionTimestamp v b)"
| "InitTarget_call (CDeletionGracePeriodSeconds v) b = (Ret (), InitTarget_WithDeletionGracePeriodSeconds v b)"
| "InitTarget_call (CLabels v) b = (Ret (), InitTarget_WithLabels v b)"
| "InitTarget_call (CAnnotations v) b = (Ret (), InitTarget_WithAnnotations v b)"
| "InitTarget_call (CFinalizers v) b = (Ret (), InitTarget_WithFinalizers v b)"
| "InitTarget_call (CSpec v) b = (Ret (), InitTarget_WithSpec v b)"
| "InitTarget_call (COwnerReferences vs) b = InitTarget_WithOwnerReferences vs b"

fun InitTemplate_call ::
  "('t, 'o, InitTemplateSpecApplyConfiguration) builder_call \<Rightarrow> ('t, 'o) InitTemplateApplyConfiguration \<Rightarrow>
   unit outcome \<times> ('t, 'o) InitTemplateApplyConfiguration" where
  "InitTemplate_call (CKind v) b = (Ret (), InitTemplate_WithKind v b)"
| "InitTemplate_call (CAPIVersion v) b = (Ret (), InitTemplate_WithAPIVersion v b)"
| "InitTemplate_call (CName v) b = (Ret (), InitTemplate_WithName v b)"
| "InitTemplate_call (CGenerateName v) b = (Ret (), InitTemplate_WithGenerateName v b)"
| "InitTemplate_call (CNamespace v) b = (Ret (), InitTemplate_WithNamespace v b)"
| "InitTemplate_call (CUID v) b = (Ret (), InitTemplate_WithUID v b)"
| "InitTemplate_call (CResourceVersion v) b = (Ret (), InitTemplate_WithResourceVersion v b)"
| "InitTemplate_call (CGeneration v) b = (Ret (), InitTemplate_WithGeneration v b)"
| "InitTemplate_call (CCreationTimestamp v) b = (Ret (), InitTemplate_WithCreationTimestamp v b)"
| "InitTemplate_call (CDeletionTimestamp v) b = (Ret (), InitTemplate_WithDeletionTimestamp v b)"
| "InitTemplate_call (CDeletionGracePeriodSeconds v) b = (Ret (), InitTemplate_WithDeletionGracePeriodSeconds v b)"
| "InitTemplate_call (CLabels v) b = (Ret (), InitTemplate_WithLabels v b)"
| "InitTemplate_call (CAnnotations v) b = (Ret (), InitTemplate_WithAnnotations v b)"
| "InitTemplate_call (CFinalizers v) b = (Ret (), InitTemplate_WithFinalizers v b)"
| "InitTemplate_call (CSpec v) b = (Ret (), InitTemplate_WithSpec v b)"
| "InitTemplate_call (COwnerReferences vs) b = InitTemplate_WithOwnerReferences vs b"

fun run_calls :: "('call \<Rightarrow> 'b \<Rightarrow> unit outcome \<times> 'b) \<Rightarrow> 'call list \<Rightarrow> 'b \<Rightarrow> unit outcome \<times> 'b" where
  "run_calls step [] b = (Ret (), b)"
| "run_calls step (c # cs) b =
     (case step c b of
        (Ret u, b') \<Rightarrow> run_calls step cs b'
      | (Panic m, b') \<Rightarrow> (Panic m, b')
      | (Diverges, b') \<Rightarrow> (Diverges, b'))"

subsection \<open>What a chain of calls describes\<close>

text \<open>The fields of a configuration without the pointer to the metadata, and the specification of a chain: a
  field holds the value of the last call for it, the labels and annotations the last value given for
  each key, finalizers and owner references everything that was given, in order.\<close>

record ('t, 'o, 's) built =
  bt_TypeMeta :: TypeMetaApplyConfiguration
  bt_ObjectMeta :: "('t, 'o) ObjectMetaApplyConfiguration"
  bt_Spec :: "'s option"

definition last_given :: "'v option \<Rightarrow> ('c \<Rightarrow> 'v option) \<Rightarrow> 'c list \<Rightarrow> 'v option" where
  "last_given d f cs = (let vs = List.map_filter f cs in if vs = [] then d else Some (last vs))"

definition all_given :: "('c \<Rightarrow> 'v list option) \<Rightarrow> 'c list \<Rightarrow> 'v list" where
  "all_given f cs = concat (List.map_filter f cs)"

definition map_given :: "('k \<times> 'v) list \<Rightarrow> ('k \<rightharpoonup> 'v) option" where
  "map_given es = (if es = [] then None else Some (map_of (rev es)))"

definition nil_free :: "('t, 'o, 's) builder_call \<Rightarrow> bool" where
  "nil_free c \<longleftrightarrow> (case c of COwnerReferences vs \<Rightarrow> None \<notin> set vs | _ \<Rightarrow> True)"

definition described :: "string \<Rightarrow> string \<Rightarrow> ('t, 'o, 's) builder_call list \<Rightarrow> ('t, 'o, 's) built" where
  "described kind name cs =
     \<lparr>bt_TypeMeta =
        \<lparr>tma_Kind = last_given (Some kind) (\<lambda>c. case c of CKind v \<Rightarrow> Some v | _ \<Rightarrow> None) cs,
         tma_APIVersion = last_given (Some ''initialization.kcp.io/v1alpha1'') (\<lambda>c. case c of CAPIVersion v \<Rightarrow> Some v | _ \<Rightarrow> None) cs\<rparr>,
      bt_ObjectMeta =
        \<lparr>oma_Name = last_given (Some name) (\<lambda>c. case c of CName v \<Rightarrow> Some v | _ \<Rightarrow> None) cs,
         oma_GenerateName = last_given None (\<lambda>c. case c of CGenerateName v \<Rightarrow> Some v | _ \<Rightarrow> None) cs,
         oma_Namespace = last_given None (\<lambda>c. case c of CNamespace v \<Rightarrow> Some v | _ \<Rightarrow> None) cs,
         oma_UID = last_given None (\<lambda>c. case c of CUID v \<Rightarrow> Some v | _ \<Rightarrow> None) cs,
         oma_ResourceVersion = last_given None (\<lambda>c. case c of CResourceVersion v \<Rightarrow> Some v | _ \<Rightarrow> None) cs,
         oma_Generation = last_given None (\<lambda>c. case c of CGeneration v \<Rightarrow> Some v | _ \<Rightarrow> None) cs,
         oma_CreationTimestamp = last_given None (\<lambda>c. case c of CCreationTimestamp v \<Rightarrow> Some v | _ \<Rightarrow> None) cs,
         oma_DeletionTimestamp = last_given None (\<lambda>c. case c of CDeletionTimestamp v \<Rightarrow> Some v | _ \<Rightarrow> None) cs,
         oma_DeletionGracePeriodSeconds = last_given None (\<lambda>c. case c of CDeletionGracePeriodSeconds v \<Rightarrow> Some v | _ \<Rightarrow> None) cs,
         oma_Labels = map_given (all_given (\<lambda>c. case c of CLabels v \<Rightarrow> Some v | _ \<Rightarrow> None) cs),
         oma_Annotations = map_given (all_given (\<lambda>c. case c of CAnnotations v \<Rightarrow> Some v | _ \<Rightarrow> None) cs),
         oma_OwnerReferences = map the (all_given (\<lambda>c. case c of COwnerReferences v \<Rightarrow> Some v | _ \<Rightarrow> None) cs),
         oma_Finalizers = all_given (\<lambda>c. case c of CFinalizers v \<Rightarrow> Some v | _ \<Rightarrow> None) cs\<rparr>,
      bt_Spec = Option.bind (last_given None (\<lambda>c. case c of CSpec v \<Rightarrow> Some v | _ \<Rightarrow> None) cs) id\<rparr>"

lemma last_given_simps [simp]:
  "last_given d f [] = d"
  "last_given d f (cs @ [c]) = (case f c of None \<Rightarrow> last_given d f cs | Some v \<Rightarrow> Some v)"
  by (auto simp: last_given_def List.map_filter_def split: option.split)

lemma all_given_simps [simp]:
  "all_given f [] = []"
  "all_given f (cs @ [c]) = all_given f cs @ (case f c of None \<Rightarrow> [] | Some vs \<Rightarrow> vs)"
  by (auto simp: all_given_def List.map_filter_def split: option.split)

lemma map_given_Nil [simp]: "map_given [] = None"
  by (simp add: map_given_def)

lemma put_entries_Some: "foldl (\<lambda>acc (k, v). map_option (\<lambda>f. f(k \<mapsto> v)) acc) (Some f) es = Some (f ++ map_of (rev es))"
  by (induction es arbitrary: f) (auto simp: map_add_def fun_eq_iff split: option.split)

lemma put_entries_given [simp]: "put_entries es (map_given given) = map_given (given @ es)"
proof (cases "given = [] \<and> es = []")
  case False
  then have "(if Option.is_none (map_given given) \<and> length es > 0 then Some Map.empty else map_given given)
      = Some (map_of (rev given))"
    by (auto simp: map_given_def)
  with False show ?thesis
    by (auto simp: put_entries_def put_entries_Some map_given_def map_of_append)
qed (simp add: put_entries_def)

lemma append_values_ok: "None \<notin> set vs \<Longrightarrow> append_values msg vs acc = (Ret (), acc @ map the vs)"
proof (induction vs arbitrary: acc)
  case (Cons v vs)
  then show ?case by (cases v) auto
qed simp

lemma append_values_nil: "append_values msg vs acc = (out, rest) \<Longrightarrow> None \<in> set vs \<Longrightarrow> out = Panic msg"
  by (induction vs arbitrary: acc) (auto split: option.splits)

lemma foldl_snoc [simp]: "foldl (\<lambda>fs v. fs @ [v]) fs vs = fs @ vs"
  by (induction vs arbitrary: fs) auto

text \<open>The contract of a builder, and what a chain of its calls gives.\<close>

locale apply_builder =
  fixes step :: "('t, 'o, 's) builder_call \<Rightarrow> 'b \<Rightarrow> unit outcome \<times> 'b"
    and view :: "'b \<Rightarrow> ('t, 'o, 's) built"
    and start :: "string \<Rightarrow> 'b"
    and kind :: string
  assumes view_start: "view (start name) = described kind name []"
    and step_view: "nil_free c \<Longrightarrow> view b = described kind name cs \<Longrightarrow>
      fst (step c b) = Ret () \<and> view (snd (step c b)) = described kind name (cs @ [c])"
    and step_nil: "\<not> nil_free c \<Longrightarrow> fst (step c b) = Panic ''nil value passed to WithOwnerReferences''"
begin

lemma chain_from:
  assumes "view b = described kind name before" and "list_all nil_free cs"
  shows "\<exists>b'. run_calls step cs b = (Ret (), b') \<and> view b' = described kind name (before @ cs)"
  using assms
proof (induction cs arbitrary: b before)
  case (Cons c cs)
  then have "fst (step c b) = Ret () \<and> view (snd (step c b)) = described kind name (before @ [c])"
    using step_view by simp
  with Cons.IH [of "snd (step c b)" "before @ [c]"] Cons.prems show ?case
    by (cases "step c b") simp
qed simp

lemma chain:
  "list_all nil_free cs \<Longrightarrow>
     \<exists>b. run_calls step cs (start name) = (Ret (), b) \<and> view b = described kind name cs"
  using chain_from [OF view_start] by simp

lemma chain_panics:
  assumes "\<not> list_all nil_free cs"
  shows "fst (run_calls step cs (start name)) = Panic ''nil value passed to WithOwnerReferences''"
proof -
  have "fst (run_calls step cs b) = Panic ''nil value passed to WithOwnerReferences''"
    if "view b = described kind name before" for b before
    using assms that
  proof (induction cs arbitrary: b before)
    case (Cons c cs)
    show ?case
    proof (cases "nil_free c")
      case True
      with Cons.prems(2) have "fst (step c b) = Ret () \<and> view (snd (step c b)) = described kind name (before @ [c])"
        by (rule step_view [rotated])
      with Cons.IH [of "snd (step c b)" "before @ [c]"] Cons.prems(1) True show ?thesis
        by (cases "step c b") simp
    next
      case False
      then show ?thesis using step_nil [of c b] by (cases "step c b") simp
    qed
  qed simp
  then show ?thesis using view_start by blast
qed

end

definition view_InitTarget ::
  "('t, 'o) InitTargetApplyConfiguration \<Rightarrow> ('t, 'o, InitTargetSpecApplyConfiguration) built" where
  "view_InitTarget b =
     \<lparr>bt_TypeMeta = itac_TypeMeta b,
      bt_ObjectMeta = (case itac_ObjectMeta b of None \<Rightarrow> empty_ObjectMeta | Some m \<Rightarrow> m),
      bt_Spec = itac_Spec b\<rparr>"

lemmas InitTarget_with_defs = InitTarget_WithKind_def InitTarget_WithAPIVersion_def InitTarget_WithName_def InitTarget_WithGenerateName_def InitTarget_WithNamespace_def InitTarget_WithUID_def InitTarget_WithResourceVersion_def InitTarget_WithGeneration_def InitTarget_WithCreationTimestamp_def InitTarget_WithDeletionTimestamp_def InitTarget_WithDeletionGracePeriodSeconds_def InitTarget_WithLabels_def InitTarget_WithAnnotations_def InitTarget_WithFinalizers_def InitTarget_WithOwnerReferences_def InitTarget_WithSpec_def
lemmas InitTarget_builder_defs = InitTarget_with_defs InitTarget_ensureObjectMeta_def

lemma view_InitTarget_simps:
  "view_InitTarget (InitTarget_ensureObjectMeta b) = view_InitTarget b"
  "itac_ObjectMeta (InitTarget_ensureObjectMeta b) = Some (bt_ObjectMeta (view_InitTarget b))"
  "view_InitTarget (b\<lparr>itac_ObjectMeta := Some m\<rparr>) = (view_InitTarget b)\<lparr>bt_ObjectMeta := m\<rparr>"
  "view_InitTarget (b\<lparr>itac_TypeMeta := t\<rparr>) = (view_InitTarget b)\<lparr>bt_TypeMeta := t\<rparr>"
  "view_InitTarget (b\<lparr>itac_Spec := s\<rparr>) = (view_InitTarget b)\<lparr>bt_Spec := s\<rparr>"
  "itac_TypeMeta b = bt_TypeMeta (view_InitTarget b)"
  by (simp_all add: view_InitTarget_def InitTarget_ensureObjectMeta_def split: option.split)

lemma InitTarget_GetName_view: "InitTarget_GetName b = (oma_Name (bt_ObjectMeta (view_InitTarget b)), InitTarget_ensureObjectMeta b)"
  by (simp add: InitTarget_GetName_def view_InitTarget_simps Let_def)

interpretation InitTarget_builder: apply_builder InitTarget_call view_InitTarget InitTarget_config "''InitTarget''"
proof
  show "view_InitTarget (InitTarget_config name) = described ''InitTarget'' name []" for name
    by (simp add: InitTarget_config_def InitTarget_builder_defs described_def view_InitTarget_def empty_TypeMeta_def
        empty_ObjectMeta_def Let_def)
  show "fst (InitTarget_call c b) = Ret () \<and> view_InitTarget (snd (InitTarget_call c b)) = described ''InitTarget'' name (cs @ [c])"
    if "nil_free c" "view_InitTarget b = described ''InitTarget'' name cs" for c b name cs
    using that
    by (cases c) (simp_all add: InitTarget_with_defs view_InitTarget_simps described_def nil_free_def append_values_ok Let_def)
  show "fst (InitTarget_call c b) = Panic ''nil value passed to WithOwnerReferences''" if "\<not> nil_free c" for c b
    using that by (cases c) (auto simp: InitTarget_with_defs view_InitTarget_simps nil_free_def Let_def split: prod.split
        dest: append_values_nil)
qed

definition view_InitTemplate ::
  "('t, 'o) InitTemplateApplyConfiguration \<Rightarrow> ('t, 'o, InitTemplateSpecApplyConfiguration) built" where
  "view_InitTemplate b =
     \<lparr>bt_TypeMeta = itpac_TypeMeta b,
      bt_ObjectMeta = (case itpac_ObjectMeta b of None \<Rightarrow> empty_ObjectMeta | Some m \<Rightarrow> m),
      bt_Spec = itpac_Spec b\<rparr>"

lemmas InitTemplate_with_defs = InitTemplate_WithKind_def InitTemplate_WithAPIVersion_def InitTemplate_WithName_def InitTemplate_WithGenerateName_def InitTemplate_WithNamespace_def InitTemplate_WithUID_def InitTemplate_WithResourceVersion_def InitTemplate_WithGeneration_def InitTemplate_WithCreationTimestamp_def InitTemplate_WithDeletionTimestamp_def InitTemplate_WithDeletionGracePeriodSeconds_def InitTemplate_WithLabels_def InitTemplate_WithAnnotations_def InitTemplate_WithFinalizers_def InitTemplate_WithOwnerReferences_def InitTemplate_WithSpec_def
lemmas InitTemplate_builder_defs = InitTemplate_with_defs InitTemplate_ensureObjectMeta_def

lemma view_InitTemplate_simps:
  "view_InitTemplate (InitTemplate_ensureObjectMeta b) = view_InitTemplate b"
  "itpac_ObjectMeta (InitTemplate_ensureObjectMeta b) = Some (bt_ObjectMeta (view_InitTemplate b))"
  "view_InitTemplate (b\<lparr>itpac_ObjectMeta := Some m\<rparr>) = (view_InitTemplate b)\<lparr>bt_ObjectMeta := m\<rparr>"
  "view_InitTemplate (b\<lparr>itpac_TypeMeta := t\<rparr>) = (view_InitTemplate b)\<lparr>bt_TypeMeta := t\<rparr>"
  "view_InitTemplate (b\<lparr>itpac_Spec := s\<rparr>) = (view_InitTemplate b)\<lparr>bt_Spec := s\<rparr>"
  "itpac_TypeMeta b = bt_TypeMeta (view_InitTemplate b)"
  by (simp_all add: view_InitTemplate_def InitTemplate_ensureObjectMeta_def split: option.split)

lemma InitTemplate_GetName_view: "InitTemplate_GetName b = (oma_Name (bt_ObjectMeta (view_InitTemplate b)), InitTemplate_ensureObjectMeta b)"
  by (simp add: InitTemplate_GetName_def view_InitTemplate_simps Let_def)

interpretation InitTemplate_builder: apply_builder InitTemplate_call view_InitTemplate InitTemplate_config "''InitTemplate''"
proof
  show "view_InitTemplate (InitTemplate_config name) = described ''InitTemplate'' name []" for name
    by (simp add: InitTemplate_config_def InitTemplate_builder_defs described_def view_InitTemplate_def empty_TypeMeta_def
        empty_ObjectMeta_def Let_def)
  show "fst (InitTemplate_call c b) = Ret () \<and> view_InitTemplate (snd (InitTemplate_call c b)) = described ''InitTemplate'' name (cs @ [c])"
    if "nil_free c" "view_InitTemplate b = described ''InitTemplate'' name cs" for c b name cs
    using that
    by (cases c) (simp_all add: InitTemplate_with_defs view_InitTemplate_simps described_def nil_free_def append_values_ok Let_def)
  show "fst (InitTemplate_call c b) = Panic ''nil value passed to WithOwnerReferences''" if "\<not> nil_free c" for c b
    using that by (cases c) (auto simp: InitTemplate_with_defs view_InitTemplate_simps nil_free_def Let_def split: prod.split
        dest: append_values_nil)
qed

text \<open>C37: the builders. For any chain of calls in which no owner reference is nil, the configuration
  \<^verbatim>\<open>InitTarget(name)\<close> or \<^verbatim>\<open>InitTemplate(name)\<close> changed by the chain is the one the
  specification describes: a field has the value of the last call for it, with kind, version and name from the
  constructor where no call sets them; every label and annotation has the last value given for its
  key; finalizers and owner references are all that were given, in order. \<^verbatim>\<open>GetName\<close> reads the name back
  without changing what the configuration says.\<close>

theorem builders_as_described:
  assumes "list_all nil_free cs" and "list_all nil_free cs'"
  shows "\<exists>b b'. run_calls InitTarget_call cs (InitTarget_config name) = (Ret (), b)
     \<and> view_InitTarget b = described ''InitTarget'' name cs
     \<and> run_calls InitTemplate_call cs' (InitTemplate_config name) = (Ret (), b')
     \<and> view_InitTemplate b' = described ''InitTemplate'' name cs'
     \<and> fst (InitTarget_GetName b) = oma_Name (bt_ObjectMeta (described ''InitTarget'' name cs))
     \<and> view_InitTarget (snd (InitTarget_GetName b)) = view_InitTarget b
     \<and> fst (InitTemplate_GetName b') = oma_Name (bt_ObjectMeta (described ''InitTemplate'' name cs'))
     \<and> view_InitTemplate (snd (InitTemplate_GetName b')) = view_InitTemplate b'"
proof -
  obtain b where b: "run_calls InitTarget_call cs (InitTarget_config name) = (Ret (), b)"
      "view_InitTarget b = described ''InitTarget'' name cs"
    using InitTarget_builder.chain [OF assms(1)] by blast
  obtain b' where b': "run_calls InitTemplate_call cs' (InitTemplate_config name) = (Ret (), b')"
      "view_InitTemplate b' = described ''InitTemplate'' name cs'"
    using InitTemplate_builder.chain [OF assms(2)] by blast
  show ?thesis
    using b b' by (simp add: InitTarget_GetName_view InitTemplate_GetName_view view_InitTarget_simps view_InitTemplate_simps)
qed

theorem builders_as_described_witness:
  "\<exists>b :: (unit, unit) InitTargetApplyConfiguration.
     run_calls InitTarget_call [CLabels [(''a'', ''1'')], CName ''other'', CLabels [(''a'', ''3'')], CFinalizers [''x'', ''y'']]
       (InitTarget_config ''t'') = (Ret (), b)
     \<and> fst (InitTarget_GetName b) = Some ''other''
     \<and> Option.bind (oma_Labels (bt_ObjectMeta (view_InitTarget b))) (\<lambda>m. m ''a'') = Some ''3''
     \<and> oma_Finalizers (bt_ObjectMeta (view_InitTarget b)) = [''x'', ''y'']"
proof -
  let ?cs = "[CLabels [(''a'', ''1'')], CName ''other'', CLabels [(''a'', ''3'')], CFinalizers [''x'', ''y'']]"
  have ok: "list_all nil_free ?cs" by (simp add: nil_free_def)
  from builders_as_described [OF ok, of "[]" "''t''"] show ?thesis
    by (auto simp: described_def last_given_def all_given_def map_given_def List.map_filter_def)
qed

subsection \<open>Configurations by kind\<close>

record group_version_kind =
  gvk_Group :: string
  gvk_Version :: string
  gvk_Kind :: string

definition WithKind :: "group_version \<Rightarrow> string \<Rightarrow> group_version_kind" where
  "WithKind gv k = \<lparr>gvk_Group = gv_Group gv, gvk_Version = gv_Version gv, gvk_Kind = k\<rparr>"

text \<open>\<^verbatim>\<open>GroupVersion.String\<close> of apimachinery, for a version with a group.\<close>

definition gv_String :: "group_version \<Rightarrow> string" where
  "gv_String gv = gv_Group gv @ ''/'' @ gv_Version gv"

datatype ('t, 'o) apply_configuration =
    ACInitSource InitSourceApplyConfiguration
  | ACInitTarget "('t, 'o) InitTargetApplyConfiguration"
  | ACInitTargetSpec InitTargetSpecApplyConfiguration
  | ACInitTemplate "('t, 'o) InitTemplateApplyConfiguration"
  | ACInitTemplateSpec InitTemplateSpecApplyConfiguration
  | ACTemplateInitSource TemplateInitSourceApplyConfiguration
  | ACWorkspaceTypeReference WorkspaceTypeReferenceApplyConfiguration

definition ForKind :: "group_version_kind \<Rightarrow> ('t, 'o) apply_configuration option" where
  "ForKind kind =
     (if kind = WithKind SchemeGroupVersion ''InitSource'' then Some (ACInitSource \<lparr>srcac_Template = None\<rparr>)
      else if kind = WithKind SchemeGroupVersion ''InitTarget'' then
        Some (ACInitTarget \<lparr>itac_TypeMeta = empty_TypeMeta, itac_ObjectMeta = None, itac_Spec = None\<rparr>)
      else if kind = WithKind SchemeGroupVersion ''InitTargetSpec'' then
        Some (ACInitTargetSpec \<lparr>itsac_WorkspaceTypeReference = None, itsac_Sources = []\<rparr>)
      else if kind = WithKind SchemeGroupVersion ''InitTemplate'' then
        Some (ACInitTemplate \<lparr>itpac_TypeMeta = empty_TypeMeta, itpac_ObjectMeta = None, itpac_Spec = None\<rparr>)
      else if kind = WithKind SchemeGroupVersion ''InitTemplateSpec'' then
        Some (ACInitTemplateSpec \<lparr>tplac_Template = None\<rparr>)
      else if kind = WithKind SchemeGroupVersion ''TemplateInitSource'' then
        Some (ACTemplateInitSource \<lparr>tisac_Name = None\<rparr>)
      else if kind = WithKind SchemeGroupVersion ''WorkspaceTypeReference'' then
        Some (ACWorkspaceTypeReference \<lparr>wtrac_Path = None, wtrac_Name = None\<rparr>)
      else None)"

text \<open>The parser of the schema is made once, by \<^verbatim>\<open>sync.Once\<close>; its state is whether that was tried and the
  parser, nil until it succeeded. \<^verbatim>\<open>Do\<close> counts as done also when its function panics.\<close>

record 'p parser_state =
  ps_done :: bool
  ps_parser :: "'p option"

definition Parser :: "('y \<Rightarrow> 'e + 'p) \<Rightarrow> 'y \<Rightarrow> 'p parser_state \<Rightarrow> 'p option outcome \<times> 'p parser_state" where
  "Parser NewParser schemaYAML st =
     (if ps_done st then (Ret (ps_parser st), st)
      else
        (case NewParser schemaYAML of
           Inl e \<Rightarrow> (Panic ''Failed to parse schema'', st\<lparr>ps_done := True\<rparr>)
         | Inr p \<Rightarrow> (Ret (Some p), st\<lparr>ps_done := True, ps_parser := Some p\<rparr>)))"

record ('sch, 'p) type_converter =
  conv_Scheme :: 'sch
  conv_TypeResolver :: "'p option"

definition NewTypeConverter ::
  "('y \<Rightarrow> 'e + 'p) \<Rightarrow> 'y \<Rightarrow> 'sch \<Rightarrow> 'p parser_state \<Rightarrow> ('sch, 'p) type_converter outcome \<times> 'p parser_state" where
  "NewTypeConverter NewParser schemaYAML scheme st =
     (case Parser NewParser schemaYAML st of
        (Ret p, st') \<Rightarrow> (Ret \<lparr>conv_Scheme = scheme, conv_TypeResolver = p\<rparr>, st')
      | (Panic m, st') \<Rightarrow> (Panic m, st')
      | (Diverges, st') \<Rightarrow> (Diverges, st'))"

lemma Parser_once:
  assumes "Parser NewParser schemaYAML st = (Ret p, st')"
  shows "Parser NewParser' schemaYAML' st' = (Ret p, st')"
  using assms by (auto simp: Parser_def split: if_splits sum.splits)

text \<open>The kind an object's configuration is made with is one that \<open>ForKind\<close> knows, in the
  group and version the types are registered under, and \<open>ForKind\<close> gives a configuration of this type.\<close>

lemma constructors_registered:
  "bt_TypeMeta (view_InitTarget (InitTarget_config name)) =
     \<lparr>tma_Kind = Some ''InitTarget'', tma_APIVersion = Some (gv_String SchemeGroupVersion)\<rparr>"
  "bt_TypeMeta (view_InitTemplate (InitTemplate_config name)) =
     \<lparr>tma_Kind = Some ''InitTemplate'', tma_APIVersion = Some (gv_String SchemeGroupVersion)\<rparr>"
  by (simp_all add: InitTarget_builder.view_start InitTemplate_builder.view_start described_def gv_String_def
      SchemeGroupVersion_def GroupName_def GroupVersion_def)

lemma WithKind_inject [simp]: "WithKind gv k = WithKind gv k' \<longleftrightarrow> k = k'"
  by (simp add: WithKind_def)

lemma ForKind_objects:
  "\<exists>b. ForKind (WithKind SchemeGroupVersion ''InitTarget'') = Some (ACInitTarget b) \<and> itac_ObjectMeta b = None"
  "\<exists>b. ForKind (WithKind SchemeGroupVersion ''InitTemplate'') = Some (ACInitTemplate b) \<and> itpac_ObjectMeta b = None"
  "ForKind (WithKind SchemeGroupVersion ''InitTargetList'') = None"
  "ForKind (WithKind SchemeGroupVersion ''InitTemplateList'') = None"
  by (simp_all add: ForKind_def)

subsection \<open>From a configuration to the API type, over JSON\<close>

text \<open>The encoding of a configuration of a spec by the tags of its type: a nil pointer and an empty slice
  are left out.\<close>

definition omitempty :: "string \<Rightarrow> json option \<Rightarrow> (string \<times> json) list" where
  "omitempty key v = (case v of None \<Rightarrow> [] | Some j \<Rightarrow> [(key, j)])"

definition encode_WorkspaceTypeReference :: "WorkspaceTypeReferenceApplyConfiguration \<Rightarrow> json" where
  "encode_WorkspaceTypeReference c =
     JObj (omitempty ''path'' (map_option JStr (wtrac_Path c)) @ omitempty ''name'' (map_option JStr (wtrac_Name c)))"

definition encode_TemplateInitSource :: "TemplateInitSourceApplyConfiguration \<Rightarrow> json" where
  "encode_TemplateInitSource c = JObj (omitempty ''name'' (map_option JStr (tisac_Name c)))"

definition encode_InitSource :: "InitSourceApplyConfiguration \<Rightarrow> json" where
  "encode_InitSource c = JObj (omitempty ''template'' (map_option encode_TemplateInitSource (srcac_Template c)))"

definition encode_InitTargetSpec :: "InitTargetSpecApplyConfiguration \<Rightarrow> json" where
  "encode_InitTargetSpec c =
     JObj (omitempty ''workspaceTypeRef'' (map_option encode_WorkspaceTypeReference (itsac_WorkspaceTypeReference c))
         @ omitempty ''sources'' (if itsac_Sources c = [] then None
                                  else Some (JArr (map encode_InitSource (itsac_Sources c)))))"

definition encode_InitTemplateSpec :: "InitTemplateSpecApplyConfiguration \<Rightarrow> json" where
  "encode_InitTemplateSpec c = JObj (omitempty ''template'' (map_option JStr (tplac_Template c)))"

text \<open>The decoding into an API type by the tags of that type: a missing field and a null give the zero
  value, a value of another kind is an error (\<open>None\<close>), unknown fields are ignored.\<close>

fun decode_string :: "json option \<Rightarrow> string option" where
  "decode_string None = Some []"
| "decode_string (Some JNull) = Some []"
| "decode_string (Some (JStr s)) = Some s"
| "decode_string (Some j) = None"

fun decode_struct :: "((string \<rightharpoonup> json) \<Rightarrow> 'a option) \<Rightarrow> json option \<Rightarrow> 'a option" where
  "decode_struct flds None = flds Map.empty"
| "decode_struct flds (Some JNull) = flds Map.empty"
| "decode_struct flds (Some (JObj kvs)) = flds (map_of kvs)"
| "decode_struct flds (Some j) = None"

fun decode_pointer :: "(json option \<Rightarrow> 'a option) \<Rightarrow> json option \<Rightarrow> 'a option option" where
  "decode_pointer dec None = Some None"
| "decode_pointer dec (Some JNull) = Some None"
| "decode_pointer dec (Some j) = map_option Some (dec (Some j))"

fun decode_slice :: "(json option \<Rightarrow> 'a option) \<Rightarrow> json option \<Rightarrow> 'a list option" where
  "decode_slice dec None = Some []"
| "decode_slice dec (Some JNull) = Some []"
| "decode_slice dec (Some (JArr js)) = those (map (\<lambda>j. dec (Some j)) js)"
| "decode_slice dec (Some j) = None"

definition decode_WorkspaceTypeReference :: "json option \<Rightarrow> WorkspaceTypeReference option" where
  "decode_WorkspaceTypeReference = decode_struct (\<lambda>m.
     Option.bind (decode_string (m ''path'')) (\<lambda>p.
     Option.bind (decode_string (m ''name'')) (\<lambda>n. Some \<lparr>wtr_Path = p, wtr_Name = n\<rparr>)))"

definition decode_TemplateInitSource :: "json option \<Rightarrow> TemplateInitSource option" where
  "decode_TemplateInitSource = decode_struct (\<lambda>m.
     Option.bind (decode_string (m ''name'')) (\<lambda>n. Some \<lparr>tis_Name = n\<rparr>))"

definition decode_InitSource :: "json option \<Rightarrow> init_source option" where
  "decode_InitSource = decode_struct (\<lambda>m.
     Option.bind (decode_pointer decode_TemplateInitSource (m ''template'')) (\<lambda>t. Some \<lparr>src_Template = t\<rparr>))"

definition decode_InitTargetSpec :: "json option \<Rightarrow> init_source list InitTargetSpec option" where
  "decode_InitTargetSpec = decode_struct (\<lambda>m.
     Option.bind (decode_WorkspaceTypeReference (m ''workspaceTypeRef'')) (\<lambda>r.
     Option.bind (decode_slice decode_InitSource (m ''sources'')) (\<lambda>ss.
       Some \<lparr>its_WorkspaceTypeReference = r, its_Sources = ss\<rparr>)))"

definition decode_InitTemplateSpec :: "json option \<Rightarrow> InitTemplateSpec option" where
  "decode_InitTemplateSpec = decode_struct (\<lambda>m.
     Option.bind (decode_string (m ''template'')) (\<lambda>t. Some \<lparr>tpl_Template = t\<rparr>))"

text \<open>The chain of builder calls for the fields of a spec.\<close>

definition declare_source :: "init_source \<Rightarrow> InitSourceApplyConfiguration" where
  "declare_source s =
     (case src_Template s of
        None \<Rightarrow> InitSource_config
      | Some t \<Rightarrow> InitSource_WithTemplate (Some (TemplateInitSource_WithName (tis_Name t) TemplateInitSource_config)) InitSource_config)"

definition declare_InitTargetSpec :: "init_source list InitTargetSpec \<Rightarrow> unit outcome \<times> InitTargetSpecApplyConfiguration" where
  "declare_InitTargetSpec spec =
     InitTargetSpec_WithSources (map (\<lambda>s. Some (declare_source s)) (its_Sources spec))
       (InitTargetSpec_WithWorkspaceTypeReference
         (Some (WorkspaceTypeReference_WithName (wtr_Name (its_WorkspaceTypeReference spec))
                 (WorkspaceTypeReference_WithPath (wtr_Path (its_WorkspaceTypeReference spec)) WorkspaceTypeReference_config)))
         InitTargetSpec_config)"

lemmas spec_builder_defs = WorkspaceTypeReference_config_def WorkspaceTypeReference_WithPath_def
  WorkspaceTypeReference_WithName_def TemplateInitSource_config_def TemplateInitSource_WithName_def InitSource_config_def
  InitSource_WithTemplate_def InitTargetSpec_config_def InitTargetSpec_WithWorkspaceTypeReference_def
  InitTargetSpec_WithSources_def InitTemplateSpec_config_def InitTemplateSpec_WithTemplate_def

lemma decode_declared_source: "decode_InitSource (Some (encode_InitSource (declare_source s))) = Some s"
  by (cases s) (auto simp: decode_InitSource_def encode_InitSource_def declare_source_def spec_builder_defs omitempty_def
      decode_TemplateInitSource_def encode_TemplateInitSource_def split: option.split)

lemma those_Some [simp]: "those (map (\<lambda>x. Some (f x)) xs) = Some (map f xs)"
  by (induction xs) auto

lemma decode_declared_sources:
  "decode_slice decode_InitSource (if ss = [] then None else Some (JArr (map (encode_InitSource \<circ> declare_source) ss))) = Some ss"
  using those_Some [of "\<lambda>s. s" ss] by (simp add: decode_declared_source comp_def)

text \<open>C38: specs over JSON. A spec that is declared with the builders, encoded by the tags of the
  configurations and decoded by the tags of the API types is the spec again, whatever its workspace type reference
  and its sources; the same for the spec of a template.\<close>

theorem declared_spec_roundtrip:
  "\<exists>c. declare_InitTargetSpec spec = (Ret (), c)
     \<and> decode_InitTargetSpec (Some (encode_InitTargetSpec c)) = Some spec
     \<and> decode_InitTemplateSpec (Some (encode_InitTemplateSpec
         (InitTemplateSpec_WithTemplate (tpl_Template tspec) InitTemplateSpec_config))) = Some tspec"
proof -
  let ?ss = "its_Sources spec"
  let ?c = "\<lparr>itsac_WorkspaceTypeReference =
      Some \<lparr>wtrac_Path = Some (wtr_Path (its_WorkspaceTypeReference spec)),
            wtrac_Name = Some (wtr_Name (its_WorkspaceTypeReference spec))\<rparr>,
      itsac_Sources = map declare_source ?ss\<rparr>"
  have "None \<notin> set (map (\<lambda>s. Some (declare_source s)) ?ss)" by auto
  then have "declare_InitTargetSpec spec = (Ret (), ?c)"
    by (simp add: declare_InitTargetSpec_def spec_builder_defs append_values_ok comp_def)
  moreover have "decode_InitTargetSpec (Some (encode_InitTargetSpec ?c)) = Some spec"
    using decode_declared_sources [of ?ss]
    by (cases "?ss = []") (simp_all add: decode_InitTargetSpec_def encode_InitTargetSpec_def omitempty_def
        decode_WorkspaceTypeReference_def encode_WorkspaceTypeReference_def)
  moreover have "decode_InitTemplateSpec (Some (encode_InitTemplateSpec
      (InitTemplateSpec_WithTemplate (tpl_Template tspec) InitTemplateSpec_config))) = Some tspec"
    by (simp add: decode_InitTemplateSpec_def encode_InitTemplateSpec_def omitempty_def spec_builder_defs)
  ultimately show ?thesis by blast
qed

end
