(* ===== verification/Fake_Clients.thy ===== *)
theory Fake_Clients
  imports Apply_Config
begin

text \<open>
  The fake clients for tests (\<^verbatim>\<open>sdk/clientset/versioned/cluster/fake\<close> and
  \<^verbatim>\<open>cluster/typed/initialization/v1alpha1/fake\<close>), and the fakes without clusters, which instantiate client-go's
  generic fake (\<^verbatim>\<open>fake\<close> and \<^verbatim>\<open>typed/initialization/v1alpha1/fake\<close>). A method of a fake client hands an action to the fake,
  \<^verbatim>\<open>Fake.Invokes\<close> of kcp's client-go, and converts the object it gets back; a conversion to another type than the
  object's is a panic. The fake and the object tracker behind it are a parameter: a function from actions and the
  state of the tracker to an object, an error and the next state. Contexts and the
  options the methods ignore are left out.

  What the object tracker is documented to do is \<open>tracker_contract\<close>; with it the clients of a cluster are
  shown to be a store of the cluster's objects.
\<close>

subsection \<open>Objects and actions\<close>

datatype runtime_object =
    ObjTarget init_target
  | ObjTargetList "init_target list InitTargetList"
  | ObjTemplate InitTemplate
  | ObjTemplateList "InitTemplate list InitTemplateList"
  | ObjOther

text \<open>The actions the code makes: with the resource, the cluster, and what the constructor of the action takes
  besides. \<open>'lo\<close> are list options, \<open>'dl\<close> delete options, \<open>'d\<close> is the data of a patch.\<close>

datatype ('lo, 'dl, 'd) fake_action =
    ActList group_version_resource group_version_kind string 'lo
  | ActWatch group_version_resource string 'lo
  | ActCreate group_version_resource string runtime_object
  | ActUpdate group_version_resource string "string list" runtime_object
  | ActDelete group_version_resource string string 'dl
  | ActDeleteCollection group_version_resource string 'lo
  | ActGet group_version_resource string string
  | ActPatch group_version_resource string string string 'd "string list"

record ('s, 'e, 'lo, 'dl, 'd, 'w) fake_lib =
  fk_Invokes :: "('lo, 'dl, 'd) fake_action \<Rightarrow> runtime_object \<Rightarrow> 's \<Rightarrow> (runtime_object option \<times> 'e err option) \<times> 's"
  fk_InvokesWatch :: "('lo, 'dl, 'd) fake_action \<Rightarrow> 's \<Rightarrow> ('w option \<times> 'e err option) \<times> 's"
  fk_ExtractLabel :: "'lo \<Rightarrow> ((string \<times> string) list \<Rightarrow> bool) option"

definition fake_Wildcard :: string where
  "fake_Wildcard = ''*''"

definition ApplyPatchType :: string where
  "ApplyPatchType = ''application/apply-patch+yaml''"

definition no_type_meta :: type_meta where
  "no_type_meta = \<lparr>tm_Kind = [], tm_APIVersion = []\<rparr>"

definition no_target :: init_target where
  "no_target = \<lparr>it_TypeMeta = no_type_meta, it_ObjectMeta = empty_meta,
     it_Spec = \<lparr>its_WorkspaceTypeReference = \<lparr>wtr_Path = [], wtr_Name = []\<rparr>, its_Sources = []\<rparr>\<rparr>"

definition no_target_list :: "init_target list InitTargetList" where
  "no_target_list = \<lparr>itl_TypeMeta = no_type_meta, itl_ListMeta = [], itl_Items = []\<rparr>"

definition no_template :: InitTemplate where
  "no_template = \<lparr>itp_TypeMeta = no_type_meta, itp_ObjectMeta = empty_meta, itp_Spec = \<lparr>tpl_Template = []\<rparr>\<rparr>"

definition no_template_list :: "InitTemplate list InitTemplateList" where
  "no_template_list = \<lparr>itpl_TypeMeta = no_type_meta, itpl_ListMeta = [], itpl_Items = []\<rparr>"

text \<open>The last lines of nearly every method: no object gives nil and the error, an object is converted to its type.\<close>

definition as_result ::
  "(runtime_object \<Rightarrow> 'a outcome) \<Rightarrow> runtime_object option \<times> 'e err option \<Rightarrow> ('a option \<times> 'e err option) outcome" where
  "as_result convert r =
     (case r of
        (None, err) \<Rightarrow> Ret (None, err)
      | (Some obj, err) \<Rightarrow>
          (case convert obj of
             Ret a \<Rightarrow> Ret (Some a, err)
           | Panic m \<Rightarrow> Panic m
           | Diverges \<Rightarrow> Diverges))"

definition conversion_panic :: string where
  "conversion_panic = ''interface conversion''"

fun to_InitTarget :: "runtime_object \<Rightarrow> init_target outcome" where
  "to_InitTarget (ObjTarget t) = Ret t"
| "to_InitTarget _ = Panic conversion_panic"

fun to_InitTargetList :: "runtime_object \<Rightarrow> init_target list InitTargetList outcome" where
  "to_InitTargetList (ObjTargetList l) = Ret l"
| "to_InitTargetList _ = Panic conversion_panic"

fun to_InitTemplate :: "runtime_object \<Rightarrow> InitTemplate outcome" where
  "to_InitTemplate (ObjTemplate t) = Ret t"
| "to_InitTemplate _ = Panic conversion_panic"

fun to_InitTemplateList :: "runtime_object \<Rightarrow> InitTemplate list InitTemplateList outcome" where
  "to_InitTemplateList (ObjTemplateList l) = Ret l"
| "to_InitTemplateList _ = Panic conversion_panic"

definition label_of :: "((string \<times> string) list \<Rightarrow> bool) option \<Rightarrow> (string \<times> string) list \<Rightarrow> bool" where
  "label_of label = (case label of None \<Rightarrow> (\<lambda>_. True) | Some m \<Rightarrow> m)"

subsection \<open>The fake client of InitTargets\<close>

definition initTargetsResource :: group_version_resource where
  "initTargetsResource = \<lparr>gvr_Group = ''initialization.kcp.io'', gvr_Version = ''v1alpha1'', gvr_Resource = ''inittargets''\<rparr>"

definition initTargetsKind :: group_version_kind where
  "initTargetsKind = \<lparr>gvk_Group = ''initialization.kcp.io'', gvk_Version = ''v1alpha1'', gvk_Kind = ''InitTarget''\<rparr>"

record initTargetsClient =
  ftc_ClusterPath :: string

definition initTargetsClusterClient_Cluster :: "string \<Rightarrow> initTargetsClient outcome" where
  "initTargetsClusterClient_Cluster clusterPath =
     (if clusterPath = fake_Wildcard
      then Panic ''A specific cluster must be provided when scoping, not the wildcard.''
      else Ret \<lparr>ftc_ClusterPath = clusterPath\<rparr>)"

definition initTargetsClusterClient_List :: "('s, 'e, 'lo, 'dl, 'd, 'w) fake_lib \<Rightarrow> 'lo \<Rightarrow> 's \<Rightarrow> (init_target list InitTargetList option \<times> 'e err option) outcome \<times> 's" where
  "initTargetsClusterClient_List lib opts s =
     (case fk_Invokes lib (ActList initTargetsResource initTargetsKind fake_Wildcard opts) (ObjTargetList no_target_list) s of
        ((obj, err), s') \<Rightarrow>
          (let label = label_of (fk_ExtractLabel lib opts)
           in (as_result (\<lambda>obj. case to_InitTargetList obj of
                 Ret l \<Rightarrow> Ret (no_target_list\<lparr>itl_ListMeta := itl_ListMeta l,
                   itl_Items := filter (\<lambda>item. label (meta_Labels (it_ObjectMeta item))) (itl_Items l)\<rparr>)
               | Panic m \<Rightarrow> Panic m | Diverges \<Rightarrow> Diverges) (obj, err), s')))"

definition initTargetsClusterClient_Watch :: "('s, 'e, 'lo, 'dl, 'd, 'w) fake_lib \<Rightarrow> 'lo \<Rightarrow> 's \<Rightarrow> ('w option \<times> 'e err option) \<times> 's" where
  "initTargetsClusterClient_Watch lib opts s = fk_InvokesWatch lib (ActWatch initTargetsResource fake_Wildcard opts) s"

definition initTargetsClient_Create :: "('s, 'e, 'lo, 'dl, 'd, 'w) fake_lib \<Rightarrow> initTargetsClient \<Rightarrow> init_target \<Rightarrow> 's \<Rightarrow> (init_target option \<times> 'e err option) outcome \<times> 's" where
  "initTargetsClient_Create lib c obj s =
     (case fk_Invokes lib (ActCreate initTargetsResource (ftc_ClusterPath c) (ObjTarget obj)) (ObjTarget no_target) s of (r, s') \<Rightarrow> (as_result to_InitTarget r, s'))"

definition initTargetsClient_Update :: "('s, 'e, 'lo, 'dl, 'd, 'w) fake_lib \<Rightarrow> initTargetsClient \<Rightarrow> init_target \<Rightarrow> 's \<Rightarrow> (init_target option \<times> 'e err option) outcome \<times> 's" where
  "initTargetsClient_Update lib c obj s =
     (case fk_Invokes lib (ActUpdate initTargetsResource (ftc_ClusterPath c) [] (ObjTarget obj)) (ObjTarget no_target) s of (r, s') \<Rightarrow> (as_result to_InitTarget r, s'))"

definition initTargetsClient_UpdateStatus :: "('s, 'e, 'lo, 'dl, 'd, 'w) fake_lib \<Rightarrow> initTargetsClient \<Rightarrow> init_target \<Rightarrow> 's \<Rightarrow> (init_target option \<times> 'e err option) outcome \<times> 's" where
  "initTargetsClient_UpdateStatus lib c obj s =
     (case fk_Invokes lib (ActUpdate initTargetsResource (ftc_ClusterPath c) [''status''] (ObjTarget obj)) (ObjTarget no_target) s of (r, s') \<Rightarrow> (as_result to_InitTarget r, s'))"

definition initTargetsClient_Delete :: "('s, 'e, 'lo, 'dl, 'd, 'w) fake_lib \<Rightarrow> initTargetsClient \<Rightarrow> string \<Rightarrow> 'dl \<Rightarrow> 's \<Rightarrow> 'e err option \<times> 's" where
  "initTargetsClient_Delete lib c name opts s =
     (case fk_Invokes lib (ActDelete initTargetsResource (ftc_ClusterPath c) name opts) (ObjTarget no_target) s of ((obj, err), s') \<Rightarrow> (err, s'))"

definition initTargetsClient_DeleteCollection :: "('s, 'e, 'lo, 'dl, 'd, 'w) fake_lib \<Rightarrow> initTargetsClient \<Rightarrow> 'lo \<Rightarrow> 's \<Rightarrow> 'e err option \<times> 's" where
  "initTargetsClient_DeleteCollection lib c listOpts s =
     (case fk_Invokes lib (ActDeleteCollection initTargetsResource (ftc_ClusterPath c) listOpts) (ObjTargetList no_target_list) s of ((obj, err), s') \<Rightarrow> (err, s'))"

definition initTargetsClient_Get :: "('s, 'e, 'lo, 'dl, 'd, 'w) fake_lib \<Rightarrow> initTargetsClient \<Rightarrow> string \<Rightarrow> 's \<Rightarrow> (init_target option \<times> 'e err option) outcome \<times> 's" where
  "initTargetsClient_Get lib c name s =
     (case fk_Invokes lib (ActGet initTargetsResource (ftc_ClusterPath c) name) (ObjTarget no_target) s of (r, s') \<Rightarrow> (as_result to_InitTarget r, s'))"

definition initTargetsClient_List :: "('s, 'e, 'lo, 'dl, 'd, 'w) fake_lib \<Rightarrow> initTargetsClient \<Rightarrow> 'lo \<Rightarrow> 's \<Rightarrow> (init_target list InitTargetList option \<times> 'e err option) outcome \<times> 's" where
  "initTargetsClient_List lib c opts s =
     (case fk_Invokes lib (ActList initTargetsResource initTargetsKind (ftc_ClusterPath c) opts) (ObjTargetList no_target_list) s of
        ((obj, err), s') \<Rightarrow>
          (let label = label_of (fk_ExtractLabel lib opts)
           in (as_result (\<lambda>obj. case to_InitTargetList obj of
                 Ret l \<Rightarrow> Ret (no_target_list\<lparr>itl_ListMeta := itl_ListMeta l,
                   itl_Items := filter (\<lambda>item. label (meta_Labels (it_ObjectMeta item))) (itl_Items l)\<rparr>)
               | Panic m \<Rightarrow> Panic m | Diverges \<Rightarrow> Diverges) (obj, err), s')))"

definition initTargetsClient_Watch :: "('s, 'e, 'lo, 'dl, 'd, 'w) fake_lib \<Rightarrow> initTargetsClient \<Rightarrow> 'lo \<Rightarrow> 's \<Rightarrow> ('w option \<times> 'e err option) \<times> 's" where
  "initTargetsClient_Watch lib c opts s = fk_InvokesWatch lib (ActWatch initTargetsResource (ftc_ClusterPath c) opts) s"

definition initTargetsClient_Patch :: "('s, 'e, 'lo, 'dl, 'd, 'w) fake_lib \<Rightarrow> initTargetsClient \<Rightarrow> string \<Rightarrow> string \<Rightarrow> 'd \<Rightarrow> string list \<Rightarrow> 's \<Rightarrow> (init_target option \<times> 'e err option) outcome \<times> 's" where
  "initTargetsClient_Patch lib c name pt data subs s =
     (case fk_Invokes lib (ActPatch initTargetsResource (ftc_ClusterPath c) name pt data subs) (ObjTarget no_target) s of (r, s') \<Rightarrow> (as_result to_InitTarget r, s'))"

definition initTargetsClient_Apply ::
  "('s, 'e, 'lo, 'dl, 'd, 'w) fake_lib \<Rightarrow> (('t, 'o) InitTargetApplyConfiguration \<Rightarrow> 'e + 'd) \<Rightarrow> initTargetsClient \<Rightarrow>
   ('t, 'o) InitTargetApplyConfiguration option \<Rightarrow> 's \<Rightarrow> (init_target option \<times> 'e err option) outcome \<times> 's" where
  "initTargetsClient_Apply lib Marshal c applyConfiguration s =
     (case applyConfiguration of
        None \<Rightarrow> (Ret (None, Some (ErrorNew ''applyConfiguration provided to Apply must not be nil'')), s)
      | Some conf \<Rightarrow>
          (case Marshal conf of
             Inl e \<Rightarrow> (Ret (None, Some (External e)), s)
           | Inr data \<Rightarrow>
               (case itac_ObjectMeta conf of
                  None \<Rightarrow> (Panic ''nil pointer dereference'', s)
                | Some m \<Rightarrow>
                    (case oma_Name m of
                       None \<Rightarrow> (Ret (None, Some (ErrorNew ''applyConfiguration.Name must be provided to Apply'')), s)
                     | Some name \<Rightarrow>
                         (case fk_Invokes lib (ActPatch initTargetsResource (ftc_ClusterPath c) name ApplyPatchType data []) (ObjTarget no_target) s of
                            (r, s') \<Rightarrow> (as_result to_InitTarget r, s'))))))"

definition initTargetsClient_ApplyStatus ::
  "('s, 'e, 'lo, 'dl, 'd, 'w) fake_lib \<Rightarrow> (('t, 'o) InitTargetApplyConfiguration \<Rightarrow> 'e + 'd) \<Rightarrow> initTargetsClient \<Rightarrow>
   ('t, 'o) InitTargetApplyConfiguration option \<Rightarrow> 's \<Rightarrow> (init_target option \<times> 'e err option) outcome \<times> 's" where
  "initTargetsClient_ApplyStatus lib Marshal c applyConfiguration s =
     (case applyConfiguration of
        None \<Rightarrow> (Ret (None, Some (ErrorNew ''applyConfiguration provided to Apply must not be nil'')), s)
      | Some conf \<Rightarrow>
          (case Marshal conf of
             Inl e \<Rightarrow> (Ret (None, Some (External e)), s)
           | Inr data \<Rightarrow>
               (case itac_ObjectMeta conf of
                  None \<Rightarrow> (Panic ''nil pointer dereference'', s)
                | Some m \<Rightarrow>
                    (case oma_Name m of
                       None \<Rightarrow> (Ret (None, Some (ErrorNew ''applyConfiguration.Name must be provided to Apply'')), s)
                     | Some name \<Rightarrow>
                         (case fk_Invokes lib (ActPatch initTargetsResource (ftc_ClusterPath c) name ApplyPatchType data [''status'']) (ObjTarget no_target) s of
                            (r, s') \<Rightarrow> (as_result to_InitTarget r, s'))))))"

subsection \<open>The fake client of InitTemplates\<close>

definition initTemplatesResource :: group_version_resource where
  "initTemplatesResource = \<lparr>gvr_Group = ''initialization.kcp.io'', gvr_Version = ''v1alpha1'', gvr_Resource = ''inittemplates''\<rparr>"

definition initTemplatesKind :: group_version_kind where
  "initTemplatesKind = \<lparr>gvk_Group = ''initialization.kcp.io'', gvk_Version = ''v1alpha1'', gvk_Kind = ''InitTemplate''\<rparr>"

record initTemplatesClient =
  fpc_ClusterPath :: string

definition initTemplatesClusterClient_Cluster :: "string \<Rightarrow> initTemplatesClient outcome" where
  "initTemplatesClusterClient_Cluster clusterPath =
     (if clusterPath = fake_Wildcard
      then Panic ''A specific cluster must be provided when scoping, not the wildcard.''
      else Ret \<lparr>fpc_ClusterPath = clusterPath\<rparr>)"

definition initTemplatesClusterClient_List :: "('s, 'e, 'lo, 'dl, 'd, 'w) fake_lib \<Rightarrow> 'lo \<Rightarrow> 's \<Rightarrow> (InitTemplate list InitTemplateList option \<times> 'e err option) outcome \<times> 's" where
  "initTemplatesClusterClient_List lib opts s =
     (case fk_Invokes lib (ActList initTemplatesResource initTemplatesKind fake_Wildcard opts) (ObjTemplateList no_template_list) s of
        ((obj, err), s') \<Rightarrow>
          (let label = label_of (fk_ExtractLabel lib opts)
           in (as_result (\<lambda>obj. case to_InitTemplateList obj of
                 Ret l \<Rightarrow> Ret (no_template_list\<lparr>itpl_ListMeta := itpl_ListMeta l,
                   itpl_Items := filter (\<lambda>item. label (meta_Labels (itp_ObjectMeta item))) (itpl_Items l)\<rparr>)
               | Panic m \<Rightarrow> Panic m | Diverges \<Rightarrow> Diverges) (obj, err), s')))"

definition initTemplatesClusterClient_Watch :: "('s, 'e, 'lo, 'dl, 'd, 'w) fake_lib \<Rightarrow> 'lo \<Rightarrow> 's \<Rightarrow> ('w option \<times> 'e err option) \<times> 's" where
  "initTemplatesClusterClient_Watch lib opts s = fk_InvokesWatch lib (ActWatch initTemplatesResource fake_Wildcard opts) s"

definition initTemplatesClient_Create :: "('s, 'e, 'lo, 'dl, 'd, 'w) fake_lib \<Rightarrow> initTemplatesClient \<Rightarrow> InitTemplate \<Rightarrow> 's \<Rightarrow> (InitTemplate option \<times> 'e err option) outcome \<times> 's" where
  "initTemplatesClient_Create lib c obj s =
     (case fk_Invokes lib (ActCreate initTemplatesResource (fpc_ClusterPath c) (ObjTemplate obj)) (ObjTemplate no_template) s of (r, s') \<Rightarrow> (as_result to_InitTemplate r, s'))"

definition initTemplatesClient_Update :: "('s, 'e, 'lo, 'dl, 'd, 'w) fake_lib \<Rightarrow> initTemplatesClient \<Rightarrow> InitTemplate \<Rightarrow> 's \<Rightarrow> (InitTemplate option \<times> 'e err option) outcome \<times> 's" where
  "initTemplatesClient_Update lib c obj s =
     (case fk_Invokes lib (ActUpdate initTemplatesResource (fpc_ClusterPath c) [] (ObjTemplate obj)) (ObjTemplate no_template) s of (r, s') \<Rightarrow> (as_result to_InitTemplate r, s'))"

definition initTemplatesClient_UpdateStatus :: "('s, 'e, 'lo, 'dl, 'd, 'w) fake_lib \<Rightarrow> initTemplatesClient \<Rightarrow> InitTemplate \<Rightarrow> 's \<Rightarrow> (InitTemplate option \<times> 'e err option) outcome \<times> 's" where
  "initTemplatesClient_UpdateStatus lib c obj s =
     (case fk_Invokes lib (ActUpdate initTemplatesResource (fpc_ClusterPath c) [''status''] (ObjTemplate obj)) (ObjTemplate no_template) s of (r, s') \<Rightarrow> (as_result to_InitTemplate r, s'))"

definition initTemplatesClient_Delete :: "('s, 'e, 'lo, 'dl, 'd, 'w) fake_lib \<Rightarrow> initTemplatesClient \<Rightarrow> string \<Rightarrow> 'dl \<Rightarrow> 's \<Rightarrow> 'e err option \<times> 's" where
  "initTemplatesClient_Delete lib c name opts s =
     (case fk_Invokes lib (ActDelete initTemplatesResource (fpc_ClusterPath c) name opts) (ObjTemplate no_template) s of ((obj, err), s') \<Rightarrow> (err, s'))"

definition initTemplatesClient_DeleteCollection :: "('s, 'e, 'lo, 'dl, 'd, 'w) fake_lib \<Rightarrow> initTemplatesClient \<Rightarrow> 'lo \<Rightarrow> 's \<Rightarrow> 'e err option \<times> 's" where
  "initTemplatesClient_DeleteCollection lib c listOpts s =
     (case fk_Invokes lib (ActDeleteCollection initTemplatesResource (fpc_ClusterPath c) listOpts) (ObjTemplateList no_template_list) s of ((obj, err), s') \<Rightarrow> (err, s'))"

definition initTemplatesClient_Get :: "('s, 'e, 'lo, 'dl, 'd, 'w) fake_lib \<Rightarrow> initTemplatesClient \<Rightarrow> string \<Rightarrow> 's \<Rightarrow> (InitTemplate option \<times> 'e err option) outcome \<times> 's" where
  "initTemplatesClient_Get lib c name s =
     (case fk_Invokes lib (ActGet initTemplatesResource (fpc_ClusterPath c) name) (ObjTemplate no_template) s of (r, s') \<Rightarrow> (as_result to_InitTemplate r, s'))"

definition initTemplatesClient_List :: "('s, 'e, 'lo, 'dl, 'd, 'w) fake_lib \<Rightarrow> initTemplatesClient \<Rightarrow> 'lo \<Rightarrow> 's \<Rightarrow> (InitTemplate list InitTemplateList option \<times> 'e err option) outcome \<times> 's" where
  "initTemplatesClient_List lib c opts s =
     (case fk_Invokes lib (ActList initTemplatesResource initTemplatesKind (fpc_ClusterPath c) opts) (ObjTemplateList no_template_list) s of
        ((obj, err), s') \<Rightarrow>
          (let label = label_of (fk_ExtractLabel lib opts)
           in (as_result (\<lambda>obj. case to_InitTemplateList obj of
                 Ret l \<Rightarrow> Ret (no_template_list\<lparr>itpl_ListMeta := itpl_ListMeta l,
                   itpl_Items := filter (\<lambda>item. label (meta_Labels (itp_ObjectMeta item))) (itpl_Items l)\<rparr>)
               | Panic m \<Rightarrow> Panic m | Diverges \<Rightarrow> Diverges) (obj, err), s')))"

definition initTemplatesClient_Watch :: "('s, 'e, 'lo, 'dl, 'd, 'w) fake_lib \<Rightarrow> initTemplatesClient \<Rightarrow> 'lo \<Rightarrow> 's \<Rightarrow> ('w option \<times> 'e err option) \<times> 's" where
  "initTemplatesClient_Watch lib c opts s = fk_InvokesWatch lib (ActWatch initTemplatesResource (fpc_ClusterPath c) opts) s"

definition initTemplatesClient_Patch :: "('s, 'e, 'lo, 'dl, 'd, 'w) fake_lib \<Rightarrow> initTemplatesClient \<Rightarrow> string \<Rightarrow> string \<Rightarrow> 'd \<Rightarrow> string list \<Rightarrow> 's \<Rightarrow> (InitTemplate option \<times> 'e err option) outcome \<times> 's" where
  "initTemplatesClient_Patch lib c name pt data subs s =
     (case fk_Invokes lib (ActPatch initTemplatesResource (fpc_ClusterPath c) name pt data subs) (ObjTemplate no_template) s of (r, s') \<Rightarrow> (as_result to_InitTemplate r, s'))"

definition initTemplatesClient_Apply ::
  "('s, 'e, 'lo, 'dl, 'd, 'w) fake_lib \<Rightarrow> (('t, 'o) InitTemplateApplyConfiguration \<Rightarrow> 'e + 'd) \<Rightarrow> initTemplatesClient \<Rightarrow>
   ('t, 'o) InitTemplateApplyConfiguration option \<Rightarrow> 's \<Rightarrow> (InitTemplate option \<times> 'e err option) outcome \<times> 's" where
  "initTemplatesClient_Apply lib Marshal c applyConfiguration s =
     (case applyConfiguration of
        None \<Rightarrow> (Ret (None, Some (ErrorNew ''applyConfiguration provided to Apply must not be nil'')), s)
      | Some conf \<Rightarrow>
          (case Marshal conf of
             Inl e \<Rightarrow> (Ret (None, Some (External e)), s)
           | Inr data \<Rightarrow>
               (case itpac_ObjectMeta conf of
                  None \<Rightarrow> (Panic ''nil pointer dereference'', s)
                | Some m \<Rightarrow>
                    (case oma_Name m of
                       None \<Rightarrow> (Ret (None, Some (ErrorNew ''applyConfiguration.Name must be provided to Apply'')), s)
                     | Some name \<Rightarrow>
                         (case fk_Invokes lib (ActPatch initTemplatesResource (fpc_ClusterPath c) name ApplyPatchType data []) (ObjTemplate no_template) s of
                            (r, s') \<Rightarrow> (as_result to_InitTemplate r, s'))))))"

definition initTemplatesClient_ApplyStatus ::
  "('s, 'e, 'lo, 'dl, 'd, 'w) fake_lib \<Rightarrow> (('t, 'o) InitTemplateApplyConfiguration \<Rightarrow> 'e + 'd) \<Rightarrow> initTemplatesClient \<Rightarrow>
   ('t, 'o) InitTemplateApplyConfiguration option \<Rightarrow> 's \<Rightarrow> (InitTemplate option \<times> 'e err option) outcome \<times> 's" where
  "initTemplatesClient_ApplyStatus lib Marshal c applyConfiguration s =
     (case applyConfiguration of
        None \<Rightarrow> (Ret (None, Some (ErrorNew ''applyConfiguration provided to Apply must not be nil'')), s)
      | Some conf \<Rightarrow>
          (case Marshal conf of
             Inl e \<Rightarrow> (Ret (None, Some (External e)), s)
           | Inr data \<Rightarrow>
               (case itpac_ObjectMeta conf of
                  None \<Rightarrow> (Panic ''nil pointer dereference'', s)
                | Some m \<Rightarrow>
                    (case oma_Name m of
                       None \<Rightarrow> (Ret (None, Some (ErrorNew ''applyConfiguration.Name must be provided to Apply'')), s)
                     | Some name \<Rightarrow>
                         (case fk_Invokes lib (ActPatch initTemplatesResource (fpc_ClusterPath c) name ApplyPatchType data [''status'']) (ObjTemplate no_template) s of
                            (r, s') \<Rightarrow> (as_result to_InitTemplate r, s'))))))"

subsection \<open>The fake clientset\<close>

text \<open>The fake behind all clients of a clientset is one: the state that the methods thread. What a
  client holds besides is the cluster it is scoped to.\<close>

record fake_V1alpha1Client =
  fv_ClusterPath :: string

definition fake_V1alpha1ClusterClient_Cluster :: "string \<Rightarrow> fake_V1alpha1Client outcome" where
  "fake_V1alpha1ClusterClient_Cluster clusterPath =
     (if clusterPath = fake_Wildcard
      then Panic ''A specific cluster must be provided when scoping, not the wildcard.''
      else Ret \<lparr>fv_ClusterPath = clusterPath\<rparr>)"

definition fake_V1alpha1Client_RESTClient :: "fake_V1alpha1Client \<Rightarrow> 'rest option" where
  "fake_V1alpha1Client_RESTClient c = None"

definition fake_V1alpha1Client_InitTargets :: "fake_V1alpha1Client \<Rightarrow> initTargetsClient" where
  "fake_V1alpha1Client_InitTargets c = \<lparr>ftc_ClusterPath = fv_ClusterPath c\<rparr>"

definition fake_V1alpha1Client_InitTemplates :: "fake_V1alpha1Client \<Rightarrow> initTemplatesClient" where
  "fake_V1alpha1Client_InitTemplates c = \<lparr>fpc_ClusterPath = fv_ClusterPath c\<rparr>"

record 'tr fake_ClusterClientset =
  fcs_discovery :: string
  fcs_tracker :: 'tr

record 'str fake_Clientset =
  fs_discovery :: string
  fs_tracker :: 'str
  fs_clusterPath :: string

definition fake_clusterset_Cluster ::
  "('tr \<Rightarrow> string \<Rightarrow> 'str) \<Rightarrow> 'tr fake_ClusterClientset \<Rightarrow> string \<Rightarrow> 'str fake_Clientset outcome" where
  "fake_clusterset_Cluster scoped c clusterPath =
     (if clusterPath = fake_Wildcard
      then Panic ''A specific cluster must be provided when scoping, not the wildcard.''
      else Ret \<lparr>fs_discovery = clusterPath, fs_tracker = scoped (fcs_tracker c) clusterPath, fs_clusterPath = clusterPath\<rparr>)"

definition fake_clusterset_Discovery :: "'tr fake_ClusterClientset \<Rightarrow> string" where
  "fake_clusterset_Discovery c = fcs_discovery c"

definition fake_clusterset_Tracker :: "'tr fake_ClusterClientset \<Rightarrow> 'tr" where
  "fake_clusterset_Tracker c = fcs_tracker c"

definition fake_clientset_Discovery :: "'str fake_Clientset \<Rightarrow> string" where
  "fake_clientset_Discovery c = fs_discovery c"

definition fake_clientset_Tracker :: "'str fake_Clientset \<Rightarrow> 'str" where
  "fake_clientset_Tracker c = fs_tracker c"

definition fake_clientset_InitializationV1alpha1 :: "'str fake_Clientset \<Rightarrow> fake_V1alpha1Client" where
  "fake_clientset_InitializationV1alpha1 c = \<lparr>fv_ClusterPath = fs_clusterPath c\<rparr>"

text \<open>A new clientset: a tracker with the given objects, discovery across all clusters, and one
  reaction for all verbs and resources, one for all watches.\<close>

record ('tr, 're, 'wre) fake_chain =
  ch_reactors :: "(string \<times> string \<times> 're) list"
  ch_watchReactors :: "(string \<times> 'wre) list"

definition fake_NewSimpleClientset ::
  "'tr \<Rightarrow> (runtime_object list \<Rightarrow> 'tr \<Rightarrow> 'tr) \<Rightarrow> ('tr \<Rightarrow> 're) \<Rightarrow> ('tr \<Rightarrow> 'wre) \<Rightarrow> runtime_object list \<Rightarrow>
   'tr fake_ClusterClientset \<times> ('tr, 're, 'wre) fake_chain" where
  "fake_NewSimpleClientset NewObjectTracker AddAll ObjectReaction WatchReaction objects =
     (let o' = AddAll objects NewObjectTracker;
          cs = \<lparr>fcs_discovery = fake_Wildcard, fcs_tracker = o'\<rparr>;
          chain = \<lparr>ch_reactors = [], ch_watchReactors = []\<rparr>;
          chain1 = chain\<lparr>ch_reactors := ch_reactors chain @ [(''*'', ''*'', ObjectReaction o')]\<rparr>;
          chain2 = chain1\<lparr>ch_watchReactors := ch_watchReactors chain1 @ [(''*'', WatchReaction o')]\<rparr>
      in (cs, chain2))"

subsection \<open>The fakes without clusters\<close>

text \<open>The generic fake client of client-go is a parameter; what the code says of it is the record of its
  arguments: namespace, resource, kind, the new object and list, how list metadata is copied, and how the items are
  read and set.\<close>

record ('a, 'l) fake_resource_client =
  frc_namespace :: string
  frc_resource :: group_version_resource
  frc_kind :: group_version_kind
  frc_newObject :: 'a
  frc_newList :: 'l
  frc_copyListMeta :: "'l \<Rightarrow> 'l \<Rightarrow> 'l"
  frc_toItems :: "'l \<Rightarrow> 'a list"
  frc_fromItems :: "'l \<Rightarrow> 'a list \<Rightarrow> 'l"

definition newFakeInitTargets :: "(init_target, init_target list InitTargetList) fake_resource_client" where
  "newFakeInitTargets =
     \<lparr>frc_namespace = [], frc_resource = WithResource SchemeGroupVersion ''inittargets'',
      frc_kind = WithKind SchemeGroupVersion ''InitTarget'', frc_newObject = no_target, frc_newList = no_target_list,
      frc_copyListMeta = (\<lambda>dst src. dst\<lparr>itl_ListMeta := itl_ListMeta src\<rparr>),
      frc_toItems = itl_Items, frc_fromItems = (\<lambda>l items. l\<lparr>itl_Items := items\<rparr>)\<rparr>"

definition newFakeInitTemplates :: "(InitTemplate, InitTemplate list InitTemplateList) fake_resource_client" where
  "newFakeInitTemplates =
     \<lparr>frc_namespace = [], frc_resource = WithResource SchemeGroupVersion ''inittemplates'',
      frc_kind = WithKind SchemeGroupVersion ''InitTemplate'', frc_newObject = no_template, frc_newList = no_template_list,
      frc_copyListMeta = (\<lambda>dst src. dst\<lparr>itpl_ListMeta := itpl_ListMeta src\<rparr>),
      frc_toItems = itpl_Items, frc_fromItems = (\<lambda>l items. l\<lparr>itpl_Items := items\<rparr>)\<rparr>"

definition FakeV1alpha1_InitTargets :: "(init_target, init_target list InitTargetList) fake_resource_client" where
  "FakeV1alpha1_InitTargets = newFakeInitTargets"

definition FakeV1alpha1_InitTemplates :: "(InitTemplate, InitTemplate list InitTemplateList) fake_resource_client" where
  "FakeV1alpha1_InitTemplates = newFakeInitTemplates"

definition FakeV1alpha1_RESTClient :: "'rest option" where
  "FakeV1alpha1_RESTClient = None"

text \<open>A new clientset: the objects are added to a tracker one by one, and the first that is refused is a
  panic; then one reaction for everything and one for watches. The reaction to a watch takes the list options of
  a watch action, and zero options of any other.\<close>

fun add_objects :: "('e err \<Rightarrow> string) \<Rightarrow> ('obj \<Rightarrow> 'tr \<Rightarrow> 'e err option \<times> 'tr) \<Rightarrow> 'obj list \<Rightarrow> 'tr \<Rightarrow> 'tr outcome" where
  "add_objects msg Add [] o' = Ret o'"
| "add_objects msg Add (obj # objs) o' =
     (case Add obj o' of
        (Some err, o1) \<Rightarrow> Panic (msg err)
      | (None, o1) \<Rightarrow> add_objects msg Add objs o1)"

record ('act, 'lo, 'tr, 'w, 'e) watch_lib =
  wl_WatchOptions :: "'act \<Rightarrow> 'lo option"
  wl_ZeroOptions :: 'lo
  wl_GetResource :: "'act \<Rightarrow> group_version_resource"
  wl_GetNamespace :: "'act \<Rightarrow> string"
  wl_Watch :: "'tr \<Rightarrow> group_version_resource \<Rightarrow> string \<Rightarrow> 'lo \<Rightarrow> 'e err + 'w"

definition watch_reaction :: "('act, 'lo, 'tr, 'w, 'e) watch_lib \<Rightarrow> 'tr \<Rightarrow> 'act \<Rightarrow> bool \<times> 'w option \<times> 'e err option" where
  "watch_reaction wl o' action =
     (let opts = (case wl_WatchOptions wl action of Some lo \<Rightarrow> lo | None \<Rightarrow> wl_ZeroOptions wl);
          gvr = wl_GetResource wl action;
          ns = wl_GetNamespace wl action
      in case wl_Watch wl o' gvr ns opts of
           Inl err \<Rightarrow> (False, None, Some err)
         | Inr watch \<Rightarrow> (True, Some watch, None))"

record 'tr plain_Clientset =
  pcs_tracker :: 'tr

definition plain_Tracker :: "'tr plain_Clientset \<Rightarrow> 'tr" where
  "plain_Tracker c = pcs_tracker c"

definition plain_NewSimpleClientset ::
  "('e err \<Rightarrow> string) \<Rightarrow> 'tr \<Rightarrow> ('obj \<Rightarrow> 'tr \<Rightarrow> 'e err option \<times> 'tr) \<Rightarrow> ('tr \<Rightarrow> 're) \<Rightarrow> ('act, 'lo, 'tr, 'w, 'e) watch_lib \<Rightarrow>
   'obj list \<Rightarrow> ('tr plain_Clientset \<times> ('tr, 're, 'act \<Rightarrow> bool \<times> 'w option \<times> 'e err option) fake_chain) outcome" where
  "plain_NewSimpleClientset msg NewObjectTracker Add ObjectReaction wl objects =
     (case add_objects msg Add objects NewObjectTracker of
        Panic m \<Rightarrow> Panic m
      | Diverges \<Rightarrow> Diverges
      | Ret o' \<Rightarrow>
          (let chain = \<lparr>ch_reactors = [], ch_watchReactors = []\<rparr>;
               chain1 = chain\<lparr>ch_reactors := ch_reactors chain @ [(''*'', ''*'', ObjectReaction o')]\<rparr>;
               chain2 = chain1\<lparr>ch_watchReactors := ch_watchReactors chain1 @ [(''*'', watch_reaction wl o')]\<rparr>
           in Ret (\<lparr>pcs_tracker = o'\<rparr>, chain2)))"

lemma add_objects_Ret_iff:
  "add_objects msg Add objs o' = Ret o1 \<longleftrightarrow>
     (\<exists>os. length os = Suc (length objs) \<and> os ! 0 = o' \<and> os ! length objs = o1
        \<and> (\<forall>i < length objs. Add (objs ! i) (os ! i) = (None, os ! Suc i)))"
proof (induction objs arbitrary: o')
  case Nil
  show ?case by (auto simp: length_Suc_conv intro: exI [of _ "[o1]"])
next
  case (Cons obj objs)
  show ?case
  proof (cases "Add obj o'")
    case (Pair r o2)
    show ?thesis
    proof (cases r)
      case None
      have "(\<exists>os. length os = Suc (length (obj # objs)) \<and> os ! 0 = o' \<and> os ! length (obj # objs) = o1
            \<and> (\<forall>i < length (obj # objs). Add ((obj # objs) ! i) (os ! i) = (None, os ! Suc i)))
          \<longleftrightarrow> (\<exists>os. length os = Suc (length objs) \<and> os ! 0 = o2 \<and> os ! length objs = o1
            \<and> (\<forall>i < length objs. Add (objs ! i) (os ! i) = (None, os ! Suc i)))" (is "?L \<longleftrightarrow> ?R")
      proof
        assume ?L
        then obtain os where os: "length os = Suc (length (obj # objs))" "os ! 0 = o'" "os ! length (obj # objs) = o1"
          "\<And>i. i < length (obj # objs) \<Longrightarrow> Add ((obj # objs) ! i) (os ! i) = (None, os ! Suc i)" by blast
        from os(1) obtain a os' where c: "os = a # os'" by (cases os) auto
        with os(4) [of 0] os(2) Pair None have "os' ! 0 = o2" by simp
        moreover have "Add (objs ! i) (os' ! i) = (None, os' ! Suc i)" if "i < length objs" for i
          using os(4) [of "Suc i"] that c by simp
        ultimately show ?R using os(1,3) c by (intro exI [of _ os']) simp
      next
        assume ?R
        then obtain os where "length os = Suc (length objs)" "os ! 0 = o2" "os ! length objs = o1"
          "\<forall>i < length objs. Add (objs ! i) (os ! i) = (None, os ! Suc i)" by blast
        with Pair None show ?L by (intro exI [of _ "o' # os"]) (auto simp: nth_Cons split: nat.split)
      qed
      with Pair None Cons.IH [of o2] show ?thesis by simp
    next
      case (Some e)
      with Pair show ?thesis by (force dest: spec [of _ 0])
    qed
  qed
qed

lemma fake_resources_agree:
  "frc_resource newFakeInitTargets = initTargetsResource" "frc_kind newFakeInitTargets = initTargetsKind"
  "frc_resource newFakeInitTemplates = initTemplatesResource" "frc_kind newFakeInitTemplates = initTemplatesKind"
  by (simp_all add: newFakeInitTargets_def newFakeInitTemplates_def initTargetsResource_def initTargetsKind_def
      initTemplatesResource_def initTemplatesKind_def WithResource_def WithKind_def SchemeGroupVersion_def
      GroupName_def GroupVersion_def)

subsection \<open>The object tracker, and the clients as stores\<close>

fun object_name :: "runtime_object \<Rightarrow> string" where
  "object_name (ObjTarget t) = meta_Name (it_ObjectMeta t)"
| "object_name (ObjTemplate t) = meta_Name (itp_ObjectMeta t)"
| "object_name _ = []"

text \<open>What the tracker answers, with \<open>objs\<close> the objects in its state by resource, cluster and name: it adds
  an object that is not there, replaces and deletes one that is, and lists those of a cluster or, for the wildcard, of
  all clusters, in a list of the kind asked for. What it refuses leaves its state as it was.\<close>

definition in_cluster :: "string \<Rightarrow> string \<Rightarrow> bool" where
  "in_cluster p q \<longleftrightarrow> p = fake_Wildcard \<or> q = p"

definition refuses :: "(runtime_object option \<times> 'e err option) \<times> 's \<Rightarrow> ('s \<Rightarrow> 'm) \<Rightarrow> 's \<Rightarrow> bool" where
  "refuses r objs s \<longleftrightarrow> (\<exists>e. fst r = (None, Some e)) \<and> objs (snd r) = objs s"

definition lists_kind :: "group_version_kind \<Rightarrow> runtime_object set \<Rightarrow> runtime_object option \<Rightarrow> bool" where
  "lists_kind k obs r \<longleftrightarrow>
     (gvk_Kind k = ''InitTarget'' \<longrightarrow> (\<exists>l. r = Some (ObjTargetList l) \<and> set (itl_Items l) = {t. ObjTarget t \<in> obs}))
   \<and> (gvk_Kind k = ''InitTemplate'' \<longrightarrow> (\<exists>l. r = Some (ObjTemplateList l) \<and> set (itpl_Items l) = {t. ObjTemplate t \<in> obs}))"

type_synonym tracked = "(group_version_resource \<times> string \<times> string) \<rightharpoonup> runtime_object"

definition tracker_creates :: "('s, 'e, 'lo, 'dl, 'd, 'w) fake_lib \<Rightarrow> ('s \<Rightarrow> tracked) \<Rightarrow> bool" where
  "tracker_creates lib objs \<longleftrightarrow>
     (\<forall>r p ob z s res s'. fk_Invokes lib (ActCreate r p ob) z s = (res, s') \<longrightarrow>
        (if objs s (r, p, object_name ob) = None
         then res = (Some ob, None) \<and> objs s' = (objs s)((r, p, object_name ob) \<mapsto> ob)
         else refuses (res, s') objs s))"

definition tracker_updates :: "('s, 'e, 'lo, 'dl, 'd, 'w) fake_lib \<Rightarrow> ('s \<Rightarrow> tracked) \<Rightarrow> bool" where
  "tracker_updates lib objs \<longleftrightarrow>
     (\<forall>r p sub ob z s res s'. fk_Invokes lib (ActUpdate r p sub ob) z s = (res, s') \<longrightarrow>
        (if objs s (r, p, object_name ob) = None then refuses (res, s') objs s
         else res = (Some ob, None) \<and> objs s' = (objs s)((r, p, object_name ob) \<mapsto> ob)))"

definition tracker_deletes :: "('s, 'e, 'lo, 'dl, 'd, 'w) fake_lib \<Rightarrow> ('s \<Rightarrow> tracked) \<Rightarrow> bool" where
  "tracker_deletes lib objs \<longleftrightarrow>
     (\<forall>r p n opts z s res s'. fk_Invokes lib (ActDelete r p n opts) z s = (res, s') \<longrightarrow>
        (if objs s (r, p, n) = None then refuses (res, s') objs s
         else snd res = None \<and> objs s' = (objs s)((r, p, n) := None)))"

definition tracker_gets :: "('s, 'e, 'lo, 'dl, 'd, 'w) fake_lib \<Rightarrow> ('s \<Rightarrow> tracked) \<Rightarrow> bool" where
  "tracker_gets lib objs \<longleftrightarrow>
     (\<forall>r p n z s res s'. fk_Invokes lib (ActGet r p n) z s = (res, s') \<longrightarrow>
        objs s' = objs s \<and>
        (case objs s (r, p, n) of None \<Rightarrow> refuses (res, s') objs s | Some ob \<Rightarrow> res = (Some ob, None)))"

definition tracker_lists :: "('s, 'e, 'lo, 'dl, 'd, 'w) fake_lib \<Rightarrow> ('s \<Rightarrow> tracked) \<Rightarrow> bool" where
  "tracker_lists lib objs \<longleftrightarrow>
     (\<forall>r k p opts z s res s'. fk_Invokes lib (ActList r k p opts) z s = (res, s') \<longrightarrow>
        objs s' = objs s \<and> snd res = None
        \<and> lists_kind k {ob. \<exists>q n. in_cluster p q \<and> objs s (r, q, n) = Some ob} (fst res))"

definition tracker_contract :: "('s, 'e, 'lo, 'dl, 'd, 'w) fake_lib \<Rightarrow> ('s \<Rightarrow> tracked) \<Rightarrow> bool" where
  "tracker_contract lib objs \<longleftrightarrow>
     tracker_creates lib objs \<and> tracker_updates lib objs \<and> tracker_deletes lib objs
   \<and> tracker_gets lib objs \<and> tracker_lists lib objs"

text \<open>The tracker holds under a resource only objects of the resource's type.\<close>

definition typed_store ::
  "group_version_resource \<Rightarrow> ('a \<Rightarrow> runtime_object) \<Rightarrow> tracked \<Rightarrow> bool" where
  "typed_store r wrap m \<longleftrightarrow> (\<forall>p n ob. m (r, p, n) = Some ob \<longrightarrow> ob \<in> range wrap)"

text \<open>A client of one cluster as a store of the cluster's objects.\<close>

definition store_client ::
  "('s \<Rightarrow> tracked) \<Rightarrow> group_version_resource \<Rightarrow> string \<Rightarrow>
   ('a \<Rightarrow> runtime_object) \<Rightarrow> ('a \<Rightarrow> object_meta) \<Rightarrow> ('lo \<Rightarrow> (string \<times> string) list \<Rightarrow> bool) \<Rightarrow>
   ('a \<Rightarrow> 's \<Rightarrow> ('a option \<times> 'e err option) outcome \<times> 's) \<Rightarrow>
   ('a \<Rightarrow> 's \<Rightarrow> ('a option \<times> 'e err option) outcome \<times> 's) \<Rightarrow>
   (string \<Rightarrow> 's \<Rightarrow> 'e err option \<times> 's) \<Rightarrow>
   (string \<Rightarrow> 's \<Rightarrow> ('a option \<times> 'e err option) outcome \<times> 's) \<Rightarrow>
   ('lo \<Rightarrow> 's \<Rightarrow> ('a list option \<times> 'e err option) outcome \<times> 's) \<Rightarrow> 's \<Rightarrow> bool" where
  "store_client objs r p wrap meta sel create update delete get lst s \<longleftrightarrow>
     (\<forall>a. case objs s (r, p, meta_Name (meta a)) of
        None \<Rightarrow> fst (create a s) = Ret (Some a, None) \<and> objs (snd (create a s)) = (objs s)((r, p, meta_Name (meta a)) \<mapsto> wrap a)
          \<and> (\<exists>e. fst (update a s) = Ret (None, Some e)) \<and> objs (snd (update a s)) = objs s
      | Some _ \<Rightarrow> (\<exists>e. fst (create a s) = Ret (None, Some e)) \<and> objs (snd (create a s)) = objs s
          \<and> fst (update a s) = Ret (Some a, None) \<and> objs (snd (update a s)) = (objs s)((r, p, meta_Name (meta a)) \<mapsto> wrap a))
   \<and> (\<forall>n. objs (snd (get n s)) = objs s
        \<and> (case objs s (r, p, n) of
             None \<Rightarrow> (\<exists>e. fst (get n s) = Ret (None, Some e)) \<and> fst (delete n s) \<noteq> None \<and> objs (snd (delete n s)) = objs s
           | Some ob \<Rightarrow> (\<exists>a. ob = wrap a \<and> fst (get n s) = Ret (Some a, None))
               \<and> fst (delete n s) = None \<and> objs (snd (delete n s)) = (objs s)((r, p, n) := None)))
   \<and> (\<forall>opts. objs (snd (lst opts s)) = objs s
        \<and> (\<exists>as. fst (lst opts s) = Ret (Some as, None)
             \<and> set as = {a. (\<exists>n. objs s (r, p, n) = Some (wrap a)) \<and> sel opts (meta_Labels (meta a))}))"

lemma store_client_get:
  assumes "store_client objs r p wrap meta sel create update delete get lst s"
    and "objs s (r, p, n) = Some (wrap a)" and "inj wrap"
  shows "fst (get n s) = Ret (Some a, None)"
proof -
  from assms(1) have "case objs s (r, p, n) of
      None \<Rightarrow> (\<exists>e. fst (get n s) = Ret (None, Some e)) \<and> fst (delete n s) \<noteq> None \<and> objs (snd (delete n s)) = objs s
    | Some ob \<Rightarrow> (\<exists>a. ob = wrap a \<and> fst (get n s) = Ret (Some a, None))
        \<and> fst (delete n s) = None \<and> objs (snd (delete n s)) = (objs s)((r, p, n) := None)"
    unfolding store_client_def by blast
  with assms(2,3) show ?thesis by (auto dest: injD)
qed

lemma as_result_simps [simp]:
  "as_result conv (None, err) = Ret (None, err)"
  "conv ob = Ret a \<Longrightarrow> as_result conv (Some ob, err) = Ret (Some a, err)"
  by (simp_all add: as_result_def)

fun items_result ::
  "('l \<Rightarrow> 'a list) \<Rightarrow> ('l option \<times> 'e err option) outcome \<times> 's \<Rightarrow> ('a list option \<times> 'e err option) outcome \<times> 's" where
  "items_result f (Ret (l, err), s) = (Ret (map_option f l, err), s)"
| "items_result f (Panic m, s) = (Panic m, s)"
| "items_result f (Diverges, s) = (Diverges, s)"

lemma tracker_create:
  "tracker_contract lib objs \<Longrightarrow> fk_Invokes lib (ActCreate r p ob) z s = (res, s') \<Longrightarrow>
     if objs s (r, p, object_name ob) = None
     then res = (Some ob, None) \<and> objs s' = (objs s)((r, p, object_name ob) \<mapsto> ob)
     else refuses (res, s') objs s"
  unfolding tracker_contract_def tracker_creates_def by blast

lemma tracker_update:
  "tracker_contract lib objs \<Longrightarrow> fk_Invokes lib (ActUpdate r p sub ob) z s = (res, s') \<Longrightarrow>
     if objs s (r, p, object_name ob) = None then refuses (res, s') objs s
     else res = (Some ob, None) \<and> objs s' = (objs s)((r, p, object_name ob) \<mapsto> ob)"
  unfolding tracker_contract_def tracker_updates_def by blast

lemma tracker_delete:
  "tracker_contract lib objs \<Longrightarrow> fk_Invokes lib (ActDelete r p n opts) z s = (res, s') \<Longrightarrow>
     if objs s (r, p, n) = None then refuses (res, s') objs s
     else snd res = None \<and> objs s' = (objs s)((r, p, n) := None)"
  unfolding tracker_contract_def tracker_deletes_def by blast

lemma tracker_get:
  "tracker_contract lib objs \<Longrightarrow> fk_Invokes lib (ActGet r p n) z s = (res, s') \<Longrightarrow>
     objs s' = objs s \<and>
     (case objs s (r, p, n) of None \<Rightarrow> refuses (res, s') objs s | Some ob \<Rightarrow> res = (Some ob, None))"
  unfolding tracker_contract_def tracker_gets_def by blast

lemma tracker_list:
  "tracker_contract lib objs \<Longrightarrow> fk_Invokes lib (ActList r k p opts) z s = (res, s') \<Longrightarrow>
     objs s' = objs s \<and> snd res = None
     \<and> lists_kind k {ob. \<exists>q n. in_cluster p q \<and> objs s (r, q, n) = Some ob} (fst res)"
  unfolding tracker_contract_def tracker_lists_def by blast

text \<open>The methods but \<^verbatim>\<open>List\<close>, for any type whose objects \<open>wrap\<close> embeds and \<open>conv\<close> gets back.\<close>

lemma store_ops:
  fixes lib :: "('s, 'e, 'lo, 'dl, 'd, 'w) fake_lib"
  assumes tc: "tracker_contract lib objs" and ty: "typed_store r wrap (objs s)"
    and conv: "\<And>a. conv (wrap a) = Ret a" and name: "\<And>a. object_name (wrap a) = meta_Name (meta a)"
    and lst: "\<And>opts. objs (snd (lst opts s)) = objs s \<and> (\<exists>as. fst (lst opts s) = Ret (Some as, None)
        \<and> set as = {a. (\<exists>n. objs s (r, p, n) = Some (wrap a)) \<and> sel opts (meta_Labels (meta a))})"
  shows "store_client objs r p wrap meta sel
     (\<lambda>a s. case fk_Invokes lib (ActCreate r p (wrap a)) z s of (x, s') \<Rightarrow> (as_result conv x, s'))
     (\<lambda>a s. case fk_Invokes lib (ActUpdate r p [] (wrap a)) z s of (x, s') \<Rightarrow> (as_result conv x, s'))
     (\<lambda>n s. case fk_Invokes lib (ActDelete r p n opts) z s of ((ob, err), s') \<Rightarrow> (err, s'))
     (\<lambda>n s. case fk_Invokes lib (ActGet r p n) z s of (x, s') \<Rightarrow> (as_result conv x, s')) lst s"
  unfolding store_client_def
proof (intro conjI allI)
  fix a
  obtain x s1 where c: "fk_Invokes lib (ActCreate r p (wrap a)) z s = (x, s1)" by (metis surj_pair)
  obtain y s2 where u: "fk_Invokes lib (ActUpdate r p [] (wrap a)) z s = (y, s2)" by (metis surj_pair)
  show "case objs s (r, p, meta_Name (meta a)) of
      None \<Rightarrow> fst (case fk_Invokes lib (ActCreate r p (wrap a)) z s of (x, s') \<Rightarrow> (as_result conv x, s')) = Ret (Some a, None)
          \<and> objs (snd (case fk_Invokes lib (ActCreate r p (wrap a)) z s of (x, s') \<Rightarrow> (as_result conv x, s')))
              = (objs s)((r, p, meta_Name (meta a)) \<mapsto> wrap a)
          \<and> (\<exists>e. fst (case fk_Invokes lib (ActUpdate r p [] (wrap a)) z s of (x, s') \<Rightarrow> (as_result conv x, s')) = Ret (None, Some e))
          \<and> objs (snd (case fk_Invokes lib (ActUpdate r p [] (wrap a)) z s of (x, s') \<Rightarrow> (as_result conv x, s'))) = objs s
      | Some _ \<Rightarrow> (\<exists>e. fst (case fk_Invokes lib (ActCreate r p (wrap a)) z s of (x, s') \<Rightarrow> (as_result conv x, s')) = Ret (None, Some e))
          \<and> objs (snd (case fk_Invokes lib (ActCreate r p (wrap a)) z s of (x, s') \<Rightarrow> (as_result conv x, s'))) = objs s
          \<and> fst (case fk_Invokes lib (ActUpdate r p [] (wrap a)) z s of (x, s') \<Rightarrow> (as_result conv x, s')) = Ret (Some a, None)
          \<and> objs (snd (case fk_Invokes lib (ActUpdate r p [] (wrap a)) z s of (x, s') \<Rightarrow> (as_result conv x, s')))
              = (objs s)((r, p, meta_Name (meta a)) \<mapsto> wrap a)"
    using tracker_create [OF tc c] tracker_update [OF tc u]
    by (cases "objs s (r, p, meta_Name (meta a))") (auto simp: c u name conv refuses_def)
next
  fix n
  obtain x s1 where g: "fk_Invokes lib (ActGet r p n) z s = (x, s1)" by (metis surj_pair)
  have stored: "\<exists>a. ob = wrap a \<and> as_result conv (Some ob, None) = Ret (Some a, None)" if "objs s (r, p, n) = Some ob" for ob
    using ty that by (fastforce simp: typed_store_def conv as_result_def)
  obtain ob err s2 where d: "fk_Invokes lib (ActDelete r p n opts) z s = ((ob, err), s2)" by (metis surj_pair)
  show "objs (snd (case fk_Invokes lib (ActGet r p n) z s of (x, s') \<Rightarrow> (as_result conv x, s'))) = objs s"
    using tracker_get [OF tc g] by (simp add: g)
  show "case objs s (r, p, n) of
      None \<Rightarrow> (\<exists>e. fst (case fk_Invokes lib (ActGet r p n) z s of (x, s') \<Rightarrow> (as_result conv x, s')) = Ret (None, Some e))
          \<and> fst (case fk_Invokes lib (ActDelete r p n opts) z s of ((ob, err), s') \<Rightarrow> (err, s')) \<noteq> None
          \<and> objs (snd (case fk_Invokes lib (ActDelete r p n opts) z s of ((ob, err), s') \<Rightarrow> (err, s'))) = objs s
      | Some ob \<Rightarrow> (\<exists>a. ob = wrap a
            \<and> fst (case fk_Invokes lib (ActGet r p n) z s of (x, s') \<Rightarrow> (as_result conv x, s')) = Ret (Some a, None))
          \<and> fst (case fk_Invokes lib (ActDelete r p n opts) z s of ((ob, err), s') \<Rightarrow> (err, s')) = None
          \<and> objs (snd (case fk_Invokes lib (ActDelete r p n opts) z s of ((ob, err), s') \<Rightarrow> (err, s')))
              = (objs s)((r, p, n) := None)"
    using tracker_get [OF tc g] tracker_delete [OF tc d] stored
    by (cases "objs s (r, p, n)") (auto simp: g d refuses_def)
next
  fix opts'
  show "objs (snd (lst opts' s)) = objs s" using lst by blast
  show "\<exists>as. fst (lst opts' s) = Ret (Some as, None)
      \<and> set as = {a. (\<exists>n. objs s (r, p, n) = Some (wrap a)) \<and> sel opts' (meta_Labels (meta a))}"
    using lst by blast
qed

lemma gvk_Kind_simps [simp]: "gvk_Kind initTargetsKind = ''InitTarget''" "gvk_Kind initTemplatesKind = ''InitTemplate''"
  by (simp_all add: initTargetsKind_def initTemplatesKind_def)

lemma listed_targets:
  assumes "tracker_contract lib objs" and "ftc_ClusterPath c \<noteq> fake_Wildcard"
  shows "objs (snd (items_result itl_Items (initTargetsClient_List lib c opts s))) = objs s
    \<and> (\<exists>as. fst (items_result itl_Items (initTargetsClient_List lib c opts s)) = Ret (Some as, None)
        \<and> set as = {a. (\<exists>n. objs s (initTargetsResource, ftc_ClusterPath c, n) = Some (ObjTarget a))
            \<and> label_of (fk_ExtractLabel lib opts) (meta_Labels (it_ObjectMeta a))})"
proof -
  obtain res s' where l: "fk_Invokes lib (ActList initTargetsResource initTargetsKind (ftc_ClusterPath c) opts)
      (ObjTargetList no_target_list) s = (res, s')" by (metis surj_pair)
  from tracker_list [OF assms(1) l] show ?thesis
    using assms(2)
    by (cases res) (auto simp: initTargetsClient_List_def l lists_kind_def in_cluster_def as_result_def Let_def)
qed

lemma listed_templates:
  assumes "tracker_contract lib objs" and "fpc_ClusterPath c \<noteq> fake_Wildcard"
  shows "objs (snd (items_result itpl_Items (initTemplatesClient_List lib c opts s))) = objs s
    \<and> (\<exists>as. fst (items_result itpl_Items (initTemplatesClient_List lib c opts s)) = Ret (Some as, None)
        \<and> set as = {a. (\<exists>n. objs s (initTemplatesResource, fpc_ClusterPath c, n) = Some (ObjTemplate a))
            \<and> label_of (fk_ExtractLabel lib opts) (meta_Labels (itp_ObjectMeta a))})"
proof -
  obtain res s' where l: "fk_Invokes lib (ActList initTemplatesResource initTemplatesKind (fpc_ClusterPath c) opts)
      (ObjTemplateList no_template_list) s = (res, s')" by (metis surj_pair)
  from tracker_list [OF assms(1) l] show ?thesis
    using assms(2)
    by (cases res) (auto simp: initTemplatesClient_List_def l lists_kind_def in_cluster_def as_result_def Let_def)
qed

text \<open>C40: a fake client scoped to a cluster is a store of the cluster's objects. With a tracker as documented
  that holds objects of the right types, and for both API types: an object is created when its name is free in the
  cluster and replaced when it is not, each time refusing the other; an object is got and deleted when it is
  there, with an error otherwise; listing gives the objects of the cluster that the label selector of the options
  matches. No other object changes, in this cluster or in another, and nothing panics.\<close>

theorem fake_clients_are_stores:
  assumes "tracker_contract lib objs"
    and "initTargetsClusterClient_Cluster p = Ret c" and "initTemplatesClusterClient_Cluster p = Ret c'"
    and "typed_store initTargetsResource ObjTarget (objs s)" and "typed_store initTemplatesResource ObjTemplate (objs s)"
  shows "store_client objs initTargetsResource p ObjTarget it_ObjectMeta (\<lambda>opts. label_of (fk_ExtractLabel lib opts))
      (initTargetsClient_Create lib c) (initTargetsClient_Update lib c) (\<lambda>n. initTargetsClient_Delete lib c n dopts)
      (initTargetsClient_Get lib c) (\<lambda>opts s. items_result itl_Items (initTargetsClient_List lib c opts s)) s
    \<and> store_client objs initTemplatesResource p ObjTemplate itp_ObjectMeta (\<lambda>opts. label_of (fk_ExtractLabel lib opts))
      (initTemplatesClient_Create lib c') (initTemplatesClient_Update lib c') (\<lambda>n. initTemplatesClient_Delete lib c' n dopts)
      (initTemplatesClient_Get lib c') (\<lambda>opts s. items_result itpl_Items (initTemplatesClient_List lib c' opts s)) s"
proof
  have p: "ftc_ClusterPath c = p" "fpc_ClusterPath c' = p" "p \<noteq> fake_Wildcard"
    using assms(2,3) by (auto simp: initTargetsClusterClient_Cluster_def initTemplatesClusterClient_Cluster_def split: if_splits)
  show "store_client objs initTargetsResource p ObjTarget it_ObjectMeta (\<lambda>opts. label_of (fk_ExtractLabel lib opts))
      (initTargetsClient_Create lib c) (initTargetsClient_Update lib c) (\<lambda>n. initTargetsClient_Delete lib c n dopts)
      (initTargetsClient_Get lib c) (\<lambda>opts s. items_result itl_Items (initTargetsClient_List lib c opts s)) s"
    unfolding initTargetsClient_Create_def initTargetsClient_Update_def initTargetsClient_Delete_def
      initTargetsClient_Get_def p(1)
    by (rule store_ops [OF assms(1,4)]) (use listed_targets [OF assms(1), of c] p in simp_all)
  show "store_client objs initTemplatesResource p ObjTemplate itp_ObjectMeta (\<lambda>opts. label_of (fk_ExtractLabel lib opts))
      (initTemplatesClient_Create lib c') (initTemplatesClient_Update lib c') (\<lambda>n. initTemplatesClient_Delete lib c' n dopts)
      (initTemplatesClient_Get lib c') (\<lambda>opts s. items_result itpl_Items (initTemplatesClient_List lib c' opts s)) s"
    unfolding initTemplatesClient_Create_def initTemplatesClient_Update_def initTemplatesClient_Delete_def
      initTemplatesClient_Get_def p(2)
    by (rule store_ops [OF assms(1,5)]) (use listed_templates [OF assms(1), of c'] p in simp_all)
qed

text \<open>A tracker that is an association list, and two clusters in it.\<close>

type_synonym list_tracker = "((group_version_resource \<times> string \<times> string) \<times> runtime_object) list"

fun target_of :: "runtime_object \<Rightarrow> init_target option" where
  "target_of (ObjTarget t) = Some t"
| "target_of _ = None"

fun template_of :: "runtime_object \<Rightarrow> InitTemplate option" where
  "template_of (ObjTemplate t) = Some t"
| "template_of _ = None"

fun list_Invokes ::
  "(unit, unit, unit) fake_action \<Rightarrow> runtime_object \<Rightarrow> list_tracker \<Rightarrow> (runtime_object option \<times> nat err option) \<times> list_tracker" where
  "list_Invokes (ActCreate r p ob) z s =
     (if map_of s (r, p, object_name ob) = None then ((Some ob, None), ((r, p, object_name ob), ob) # s)
      else ((None, Some (External 409)), s))"
| "list_Invokes (ActUpdate r p sub ob) z s =
     (if map_of s (r, p, object_name ob) = None then ((None, Some (External 404)), s)
      else ((Some ob, None), ((r, p, object_name ob), ob) # s))"
| "list_Invokes (ActDelete r p n opts) z s =
     (if map_of s (r, p, n) = None then ((None, Some (External 404)), s)
      else ((None, None), filter (\<lambda>(k, ob). k \<noteq> (r, p, n)) s))"
| "list_Invokes (ActGet r p n) z s =
     (case map_of s (r, p, n) of None \<Rightarrow> ((None, Some (External 404)), s) | Some ob \<Rightarrow> ((Some ob, None), s))"
| "list_Invokes (ActList r k p opts) z s =
     (let obs = map snd (filter (\<lambda>((r', q, n), ob). r' = r \<and> in_cluster p q \<and> map_of s (r', q, n) = Some ob) s)
      in ((Some (if gvk_Kind k = ''InitTarget''
                 then ObjTargetList (no_target_list\<lparr>itl_Items :=
                        List.map_filter target_of obs\<rparr>)
                 else ObjTemplateList (no_template_list\<lparr>itpl_Items :=
                        List.map_filter template_of obs\<rparr>)), None), s))"
| "list_Invokes act z s = ((None, None), s)"

definition list_fake :: "(list_tracker, nat, unit, unit, unit, unit) fake_lib" where
  "list_fake = \<lparr>fk_Invokes = list_Invokes, fk_InvokesWatch = (\<lambda>a s. ((None, None), s)), fk_ExtractLabel = (\<lambda>_. None)\<rparr>"

lemma map_of_filter_key: "map_of (filter (\<lambda>(k, v). k \<noteq> x) s) = (map_of s)(x := None)"
  by (induction s) auto

lemma listed_set:
  "set (map snd (filter (\<lambda>((r', q, n), ob). r' = r \<and> in_cluster p q \<and> map_of s (r', q, n) = Some ob) s))
   = {ob. \<exists>q n. in_cluster p q \<and> map_of s (r, q, n) = Some ob}"
  by (force dest: map_of_SomeD)

lemma set_map_filter_of:
  "set (List.map_filter target_of obs) = {t. ObjTarget t \<in> set obs}"
  "set (List.map_filter template_of obs) = {t. ObjTemplate t \<in> set obs}"
proof -
  have "target_of ob = Some t \<longleftrightarrow> ob = ObjTarget t" "template_of ob = Some u \<longleftrightarrow> ob = ObjTemplate u" for ob t u
    by (cases ob; simp)+
  then show "set (List.map_filter target_of obs) = {t. ObjTarget t \<in> set obs}"
    "set (List.map_filter template_of obs) = {t. ObjTemplate t \<in> set obs}"
    by (force simp: List.map_filter_def)+
qed

lemma list_fake_contract: "tracker_contract list_fake map_of"
proof -
  have "tracker_creates list_fake map_of" "tracker_updates list_fake map_of" "tracker_deletes list_fake map_of"
    "tracker_gets list_fake map_of"
    by (auto simp: tracker_creates_def tracker_updates_def tracker_deletes_def tracker_gets_def list_fake_def
        refuses_def map_of_filter_key split: if_splits option.splits)
  moreover have "tracker_lists list_fake map_of"
    by (auto simp: tracker_lists_def list_fake_def lists_kind_def Let_def set_map_filter_of listed_set
        simp del: set_map set_filter)
  ultimately show ?thesis by (simp add: tracker_contract_def)
qed

theorem fake_clients_are_stores_witness:
  "fst (initTargetsClient_Get list_fake \<lparr>ftc_ClusterPath = ''root:a''\<rparr> ''t''
      (snd (initTargetsClient_Create list_fake \<lparr>ftc_ClusterPath = ''root:a''\<rparr>
         (no_target\<lparr>it_ObjectMeta := empty_meta\<lparr>meta_Name := ''t''\<rparr>\<rparr>) [])))
   = Ret (Some (no_target\<lparr>it_ObjectMeta := empty_meta\<lparr>meta_Name := ''t''\<rparr>\<rparr>), None)"
proof -
  let ?c = "\<lparr>ftc_ClusterPath = ''root:a''\<rparr>" and ?c' = "\<lparr>fpc_ClusterPath = ''root:a''\<rparr>"
  let ?t = "no_target\<lparr>it_ObjectMeta := empty_meta\<lparr>meta_Name := ''t''\<rparr>\<rparr>"
  have c: "initTargetsClusterClient_Cluster ''root:a'' = Ret ?c" "initTemplatesClusterClient_Cluster ''root:a'' = Ret ?c'"
    by (simp_all add: initTargetsClusterClient_Cluster_def initTemplatesClusterClient_Cluster_def fake_Wildcard_def)
  have created: "snd (initTargetsClient_Create list_fake ?c ?t []) = [((initTargetsResource, ''root:a'', ''t''), ObjTarget ?t)]"
    by (simp add: initTargetsClient_Create_def list_fake_def)
  have "typed_store initTargetsResource ObjTarget (map_of [((initTargetsResource, ''root:a'', ''t''), ObjTarget ?t)])"
    "typed_store initTemplatesResource ObjTemplate (map_of [((initTargetsResource, ''root:a'', ''t''), ObjTarget ?t)])"
    by (auto simp: typed_store_def initTargetsResource_def initTemplatesResource_def split: if_splits)
  note store = conjunct1 [OF fake_clients_are_stores [where lib = list_fake and objs = map_of and p = "''root:a''"
      and c = ?c and c' = ?c' and dopts = "()" and s = "[((initTargetsResource, ''root:a'', ''t''), ObjTarget ?t)]",
      OF list_fake_contract c this]]
  show ?thesis
    unfolding created by (rule store_client_get [OF store]) (simp_all add: inj_def)
qed

end
