(* ===== verification/Fake_Sessions.thy ===== *)
theory Fake_Sessions
  imports Fake_Clients
begin

text \<open>
  Sessions with the fake clients: any calls of the clients of any clusters on one tracker, one after the other.
  The code converts what the tracker returns with a type assertion, which panics on an object of
  another type. Here the clients are shown to be type safe: they only store objects of the type of
  their resource, and so never fail an assertion. Then, what \<^verbatim>\<open>Apply\<close> makes of a configuration.
\<close>

subsection \<open>The calls of a session\<close>

datatype 'lo fake_call =
    TargetCreate init_target
  | TargetUpdate init_target
  | TargetUpdateStatus init_target
  | TargetDelete string
  | TargetGet string
  | TargetList 'lo
  | TargetListAll 'lo
  | TemplateCreate InitTemplate
  | TemplateUpdate InitTemplate
  | TemplateUpdateStatus InitTemplate
  | TemplateDelete string
  | TemplateGet string
  | TemplateList 'lo
  | TemplateListAll 'lo

text \<open>Whether a call returns; what it returns is dropped.\<close>

fun done_of :: "'a outcome \<times> 's \<Rightarrow> unit outcome \<times> 's" where
  "done_of (Ret a, s) = (Ret (), s)"
| "done_of (Panic m, s) = (Panic m, s)"
| "done_of (Diverges, s) = (Diverges, s)"

definition with_client :: "'c outcome \<Rightarrow> ('c \<Rightarrow> 's \<Rightarrow> unit outcome \<times> 's) \<Rightarrow> 's \<Rightarrow> unit outcome \<times> 's" where
  "with_client client f s =
     (case client of Ret c \<Rightarrow> f c s | Panic m \<Rightarrow> (Panic m, s) | Diverges \<Rightarrow> (Diverges, s))"

text \<open>A call with the client of cluster \<open>p\<close>; the two lists over all clusters are methods of the cluster client.\<close>

fun fake_call_on ::
  "('s, 'e, 'lo, 'dl, 'd, 'w) fake_lib \<Rightarrow> 'dl \<Rightarrow> string \<Rightarrow> 'lo fake_call \<Rightarrow> 's \<Rightarrow> unit outcome \<times> 's" where
  "fake_call_on lib dopts p (TargetCreate t) s =
     with_client (initTargetsClusterClient_Cluster p) (\<lambda>c s. done_of (initTargetsClient_Create lib c t s)) s"
| "fake_call_on lib dopts p (TargetUpdate t) s =
     with_client (initTargetsClusterClient_Cluster p) (\<lambda>c s. done_of (initTargetsClient_Update lib c t s)) s"
| "fake_call_on lib dopts p (TargetUpdateStatus t) s =
     with_client (initTargetsClusterClient_Cluster p) (\<lambda>c s. done_of (initTargetsClient_UpdateStatus lib c t s)) s"
| "fake_call_on lib dopts p (TargetDelete n) s =
     with_client (initTargetsClusterClient_Cluster p) (\<lambda>c s. (Ret (), snd (initTargetsClient_Delete lib c n dopts s))) s"
| "fake_call_on lib dopts p (TargetGet n) s =
     with_client (initTargetsClusterClient_Cluster p) (\<lambda>c s. done_of (initTargetsClient_Get lib c n s)) s"
| "fake_call_on lib dopts p (TargetList lo) s =
     with_client (initTargetsClusterClient_Cluster p) (\<lambda>c s. done_of (initTargetsClient_List lib c lo s)) s"
| "fake_call_on lib dopts p (TargetListAll lo) s = done_of (initTargetsClusterClient_List lib lo s)"
| "fake_call_on lib dopts p (TemplateCreate t) s =
     with_client (initTemplatesClusterClient_Cluster p) (\<lambda>c s. done_of (initTemplatesClient_Create lib c t s)) s"
| "fake_call_on lib dopts p (TemplateUpdate t) s =
     with_client (initTemplatesClusterClient_Cluster p) (\<lambda>c s. done_of (initTemplatesClient_Update lib c t s)) s"
| "fake_call_on lib dopts p (TemplateUpdateStatus t) s =
     with_client (initTemplatesClusterClient_Cluster p) (\<lambda>c s. done_of (initTemplatesClient_UpdateStatus lib c t s)) s"
| "fake_call_on lib dopts p (TemplateDelete n) s =
     with_client (initTemplatesClusterClient_Cluster p) (\<lambda>c s. (Ret (), snd (initTemplatesClient_Delete lib c n dopts s))) s"
| "fake_call_on lib dopts p (TemplateGet n) s =
     with_client (initTemplatesClusterClient_Cluster p) (\<lambda>c s. done_of (initTemplatesClient_Get lib c n s)) s"
| "fake_call_on lib dopts p (TemplateList lo) s =
     with_client (initTemplatesClusterClient_Cluster p) (\<lambda>c s. done_of (initTemplatesClient_List lib c lo s)) s"
| "fake_call_on lib dopts p (TemplateListAll lo) s = done_of (initTemplatesClusterClient_List lib lo s)"

fun fake_session ::
  "('s, 'e, 'lo, 'dl, 'd, 'w) fake_lib \<Rightarrow> 'dl \<Rightarrow> (string \<times> 'lo fake_call) list \<Rightarrow> 's \<Rightarrow> unit outcome \<times> 's" where
  "fake_session lib dopts [] s = (Ret (), s)"
| "fake_session lib dopts ((p, op) # ops) s =
     (case fake_call_on lib dopts p op s of
        (Ret u, s') \<Rightarrow> fake_session lib dopts ops s'
      | (Panic m, s') \<Rightarrow> (Panic m, s')
      | (Diverges, s') \<Rightarrow> (Diverges, s'))"

fun all_clusters :: "'lo fake_call \<Rightarrow> bool" where
  "all_clusters (TargetListAll lo) = True"
| "all_clusters (TemplateListAll lo) = True"
| "all_clusters _ = False"

subsection \<open>Type safety\<close>

text \<open>Both resources hold objects of their types.\<close>

definition well_typed :: "tracked \<Rightarrow> bool" where
  "well_typed m \<longleftrightarrow> typed_store initTargetsResource ObjTarget m \<and> typed_store initTemplatesResource ObjTemplate m"

lemma resources_differ [simp]:
  "initTargetsResource \<noteq> initTemplatesResource" "initTemplatesResource \<noteq> initTargetsResource"
  by (simp_all add: initTargetsResource_def initTemplatesResource_def)

lemma well_typed_upd [simp]:
  "well_typed m \<Longrightarrow> well_typed (m((initTargetsResource, p, n) \<mapsto> ObjTarget t))"
  "well_typed m \<Longrightarrow> well_typed (m((initTemplatesResource, p, n) \<mapsto> ObjTemplate u))"
  "well_typed m \<Longrightarrow> well_typed (m(k := None))"
  unfolding well_typed_def typed_store_def by auto

text \<open>The result of a call converted to the type of its resource.\<close>

definition safe :: "('s \<Rightarrow> tracked) \<Rightarrow> unit outcome \<times> 's \<Rightarrow> bool" where
  "safe objs r \<longleftrightarrow> fst r = Ret () \<and> well_typed (objs (snd r))"

lemma done_converted:
  assumes "\<And>ob. fst x = Some ob \<Longrightarrow> \<exists>a. conv ob = Ret a"
  shows "done_of (as_result conv x, s) = (Ret (), s)"
proof (cases x)
  case (Pair ob err)
  with assms show ?thesis by (cases ob) (auto simp: as_result_def)
qed

lemma safe_create:
  assumes "tracker_contract lib objs" "well_typed (objs s)"
  shows "safe objs (case fk_Invokes lib (ActCreate initTargetsResource p (ObjTarget t)) z s of (r, s') \<Rightarrow> done_of (as_result to_InitTarget r, s'))"
    and "safe objs (case fk_Invokes lib (ActCreate initTemplatesResource p (ObjTemplate u)) z s of (r, s') \<Rightarrow> done_of (as_result to_InitTemplate r, s'))"
proof -
  obtain x s1 where c: "fk_Invokes lib (ActCreate initTargetsResource p (ObjTarget t)) z s = (x, s1)" by (metis surj_pair)
  show "safe objs (case fk_Invokes lib (ActCreate initTargetsResource p (ObjTarget t)) z s of (r, s') \<Rightarrow> done_of (as_result to_InitTarget r, s'))"
    using tracker_create [OF assms(1) c] assms(2) unfolding c prod.case
    by (subst done_converted) (auto simp: safe_def refuses_def split: if_splits)
  obtain y s2 where d: "fk_Invokes lib (ActCreate initTemplatesResource p (ObjTemplate u)) z s = (y, s2)" by (metis surj_pair)
  show "safe objs (case fk_Invokes lib (ActCreate initTemplatesResource p (ObjTemplate u)) z s of (r, s') \<Rightarrow> done_of (as_result to_InitTemplate r, s'))"
    using tracker_create [OF assms(1) d] assms(2) unfolding d prod.case
    by (subst done_converted) (auto simp: safe_def refuses_def split: if_splits)
qed

lemma safe_update:
  assumes "tracker_contract lib objs" "well_typed (objs s)"
  shows "safe objs (case fk_Invokes lib (ActUpdate initTargetsResource p sub (ObjTarget t)) z s of (r, s') \<Rightarrow> done_of (as_result to_InitTarget r, s'))"
    and "safe objs (case fk_Invokes lib (ActUpdate initTemplatesResource p sub (ObjTemplate u)) z s of (r, s') \<Rightarrow> done_of (as_result to_InitTemplate r, s'))"
proof -
  obtain x s1 where c: "fk_Invokes lib (ActUpdate initTargetsResource p sub (ObjTarget t)) z s = (x, s1)" by (metis surj_pair)
  show "safe objs (case fk_Invokes lib (ActUpdate initTargetsResource p sub (ObjTarget t)) z s of (r, s') \<Rightarrow> done_of (as_result to_InitTarget r, s'))"
    using tracker_update [OF assms(1) c] assms(2) unfolding c prod.case
    by (subst done_converted) (auto simp: safe_def refuses_def split: if_splits)
  obtain y s2 where d: "fk_Invokes lib (ActUpdate initTemplatesResource p sub (ObjTemplate u)) z s = (y, s2)" by (metis surj_pair)
  show "safe objs (case fk_Invokes lib (ActUpdate initTemplatesResource p sub (ObjTemplate u)) z s of (r, s') \<Rightarrow> done_of (as_result to_InitTemplate r, s'))"
    using tracker_update [OF assms(1) d] assms(2) unfolding d prod.case
    by (subst done_converted) (auto simp: safe_def refuses_def split: if_splits)
qed

lemma safe_get:
  assumes "tracker_contract lib objs" "well_typed (objs s)"
  shows "safe objs (case fk_Invokes lib (ActGet initTargetsResource p n) z s of (r, s') \<Rightarrow> done_of (as_result to_InitTarget r, s'))"
    and "safe objs (case fk_Invokes lib (ActGet initTemplatesResource p n) z s of (r, s') \<Rightarrow> done_of (as_result to_InitTemplate r, s'))"
proof -
  obtain x s1 where c: "fk_Invokes lib (ActGet initTargetsResource p n) z s = (x, s1)" by (metis surj_pair)
  have "\<exists>t. ob = ObjTarget t" if "objs s (initTargetsResource, p, n) = Some ob" for ob
    using assms(2) that unfolding well_typed_def typed_store_def by blast
  then show "safe objs (case fk_Invokes lib (ActGet initTargetsResource p n) z s of (r, s') \<Rightarrow> done_of (as_result to_InitTarget r, s'))"
    using tracker_get [OF assms(1) c] assms(2) unfolding c prod.case
    by (subst done_converted) (fastforce simp: safe_def refuses_def split: option.splits)+
  obtain y s2 where d: "fk_Invokes lib (ActGet initTemplatesResource p n) z s = (y, s2)" by (metis surj_pair)
  have "\<exists>t. ob = ObjTemplate t" if "objs s (initTemplatesResource, p, n) = Some ob" for ob
    using assms(2) that unfolding well_typed_def typed_store_def by blast
  then show "safe objs (case fk_Invokes lib (ActGet initTemplatesResource p n) z s of (r, s') \<Rightarrow> done_of (as_result to_InitTemplate r, s'))"
    using tracker_get [OF assms(1) d] assms(2) unfolding d prod.case
    by (subst done_converted) (fastforce simp: safe_def refuses_def split: option.splits)+
qed

lemma well_typed_delete:
  "tracker_contract lib objs \<Longrightarrow> well_typed (objs s) \<Longrightarrow>
   well_typed (objs (snd (fk_Invokes lib (ActDelete r p n opts) z s)))"
  using tracker_delete [of lib objs r p n opts z s "fst (fk_Invokes lib (ActDelete r p n opts) z s)"
      "snd (fk_Invokes lib (ActDelete r p n opts) z s)"]
  by (auto simp: refuses_def split: if_splits)

lemma safe_lists:
  assumes "tracker_contract lib objs" "well_typed (objs s)"
  shows "safe objs (done_of (initTargetsClient_List lib c lo s))"
    "safe objs (done_of (initTemplatesClient_List lib c' lo s))"
    "safe objs (done_of (initTargetsClusterClient_List lib lo s))"
    "safe objs (done_of (initTemplatesClusterClient_List lib lo s))"
proof -
  have t: "\<exists>l. fst (fst (fk_Invokes lib (ActList initTargetsResource initTargetsKind p lo) z s)) = Some (ObjTargetList l)"
    and kt: "objs (snd (fk_Invokes lib (ActList initTargetsResource initTargetsKind p lo) z s)) = objs s"
    and u: "\<exists>l. fst (fst (fk_Invokes lib (ActList initTemplatesResource initTemplatesKind p lo) z s)) = Some (ObjTemplateList l)"
    and ku: "objs (snd (fk_Invokes lib (ActList initTemplatesResource initTemplatesKind p lo) z s)) = objs s" for p z
    using tracker_list [OF assms(1), of initTargetsResource initTargetsKind p lo z s, OF prod.collapse [symmetric]]
      tracker_list [OF assms(1), of initTemplatesResource initTemplatesKind p lo z s, OF prod.collapse [symmetric]]
    by (auto simp: lists_kind_def)
  show "safe objs (done_of (initTargetsClient_List lib c lo s))"
    using t [of "ftc_ClusterPath c" "ObjTargetList no_target_list"] kt [of "ftc_ClusterPath c" "ObjTargetList no_target_list"] assms(2)
    by (auto simp: initTargetsClient_List_def safe_def as_result_def Let_def split: prod.split)
  show "safe objs (done_of (initTemplatesClient_List lib c' lo s))"
    using u [of "fpc_ClusterPath c'" "ObjTemplateList no_template_list"] ku [of "fpc_ClusterPath c'" "ObjTemplateList no_template_list"] assms(2)
    by (auto simp: initTemplatesClient_List_def safe_def as_result_def Let_def split: prod.split)
  show "safe objs (done_of (initTargetsClusterClient_List lib lo s))"
    using t [of fake_Wildcard "ObjTargetList no_target_list"] kt [of fake_Wildcard "ObjTargetList no_target_list"] assms(2)
    by (auto simp: initTargetsClusterClient_List_def safe_def as_result_def Let_def split: prod.split)
  show "safe objs (done_of (initTemplatesClusterClient_List lib lo s))"
    using u [of fake_Wildcard "ObjTemplateList no_template_list"] ku [of fake_Wildcard "ObjTemplateList no_template_list"] assms(2)
    by (auto simp: initTemplatesClusterClient_List_def safe_def as_result_def Let_def split: prod.split)
qed

text \<open>Preservation and progress of one call.\<close>

lemma Cluster_specific:
  "p \<noteq> fake_Wildcard \<Longrightarrow> initTargetsClusterClient_Cluster p = Ret \<lparr>ftc_ClusterPath = p\<rparr>"
  "p \<noteq> fake_Wildcard \<Longrightarrow> initTemplatesClusterClient_Cluster p = Ret \<lparr>fpc_ClusterPath = p\<rparr>"
  by (simp_all add: initTargetsClusterClient_Cluster_def initTemplatesClusterClient_Cluster_def)

lemma fake_call_safe:
  assumes "tracker_contract lib objs" "well_typed (objs s)" "all_clusters op \<or> p \<noteq> fake_Wildcard"
  shows "safe objs (fake_call_on lib dopts p op s)"
proof -
  note ops = initTargetsClient_Create_def initTargetsClient_Update_def initTargetsClient_UpdateStatus_def
    initTargetsClient_Get_def initTargetsClient_Delete_def initTemplatesClient_Create_def initTemplatesClient_Update_def
    initTemplatesClient_UpdateStatus_def initTemplatesClient_Get_def initTemplatesClient_Delete_def
  note calls = safe_create [OF assms(1,2)] safe_update [OF assms(1,2)] safe_get [OF assms(1,2)] safe_lists [OF assms(1,2)]
  have out: "done_of (case x of (r, s') \<Rightarrow> (f r, s')) = (case x of (r, s') \<Rightarrow> done_of (f r, s'))" for x :: "'x \<times> 'y" and f :: "'x \<Rightarrow> 'z outcome"
    by (cases x) simp
  have del: "snd (case x of ((ob, err), s') \<Rightarrow> (err, s')) = snd x" for x :: "('p \<times> 'q) \<times> 'r"
    by (simp add: case_prod_beta)
  show ?thesis
    using assms(3) well_typed_delete [OF assms(1,2)]
    by (cases op) (auto simp: with_client_def Cluster_specific ops out del calls, simp_all add: safe_def)
qed

lemma fake_call_wildcard:
  "\<not> all_clusters op \<Longrightarrow> fst (fake_call_on lib dopts fake_Wildcard op s)
     = Panic ''A specific cluster must be provided when scoping, not the wildcard.''"
  by (cases op) (simp_all add: with_client_def initTargetsClusterClient_Cluster_def initTemplatesClusterClient_Cluster_def)

text \<open>C35: the fake clients are type safe. With a tracker as documented that holds under each resource objects of its
  type, a session (any sequence of creations, updates, deletions, gets and lists of both
  types, by the clients of any clusters) never fails a type assertion: it panics only where a client of the
  wildcard cluster is asked for, and while it runs the tracker stays well typed.\<close>

theorem fake_sessions_are_type_safe:
  assumes "tracker_contract lib objs" and "well_typed (objs s)"
  shows "(fst (fake_session lib dopts ops s) = Ret ()
      \<longleftrightarrow> (\<forall>(p, op) \<in> set ops. all_clusters op \<or> p \<noteq> fake_Wildcard))
    \<and> fst (fake_session lib dopts ops s)
        \<in> {Ret (), Panic ''A specific cluster must be provided when scoping, not the wildcard.''}
    \<and> well_typed (objs (snd (fake_session lib dopts ops s)))"
  using assms(2)
proof (induction ops arbitrary: s)
  case (Cons a ops)
  obtain p op where a: "a = (p, op)" by fastforce
  obtain r s1 where c: "fake_call_on lib dopts p op s = (r, s1)" by fastforce
  show ?case
  proof (cases "all_clusters op \<or> p \<noteq> fake_Wildcard")
    case True
    from fake_call_safe [OF assms(1) Cons.prems True, of dopts] c have "r = Ret ()" "well_typed (objs s1)"
      by (simp_all add: safe_def)
    with Cons.IH [of s1] a c True show ?thesis by auto
  next
    case False
    then have p: "p = fake_Wildcard" "\<not> all_clusters op" by auto
    from fake_call_wildcard [OF p(2), of lib dopts s] c p have "r = Panic ''A specific cluster must be provided when scoping, not the wildcard.''"
      by simp
    moreover have "s1 = s"
      using c p by (cases op) (simp_all add: with_client_def initTargetsClusterClient_Cluster_def initTemplatesClusterClient_Cluster_def)
    ultimately show ?thesis using Cons.prems a c False by auto
  qed
qed simp

text \<open>A session of two clusters on the list tracker.\<close>

theorem fake_sessions_are_type_safe_witness:
  "fst (fake_session list_fake () [(''root:a'', TargetCreate no_target), (''root:b'', TemplateCreate no_template),
       (''root:b'', TemplateGet []), (''root:a'', TargetList ()), (fake_Wildcard, TargetListAll ()),
       (''root:a'', TargetDelete [])] []) = Ret ()
   \<and> fst (fake_session list_fake () [(''root:a'', TargetCreate no_target), (fake_Wildcard, TargetGet [])] []) \<noteq> Ret ()"
proof -
  have "well_typed (map_of [])" by (simp add: well_typed_def typed_store_def)
  note iff = conjunct1 [OF fake_sessions_are_type_safe [where lib = list_fake and dopts = "()", OF list_fake_contract this]]
  show ?thesis unfolding iff by (simp add: fake_Wildcard_def)
qed

subsection \<open>Apply\<close>

lemma built_target_name:
  assumes "list_all nil_free cs"
  shows "\<exists>conf m. run_calls InitTarget_call cs (InitTarget_config name) = (Ret (), conf) \<and> itac_ObjectMeta conf = Some m
    \<and> oma_Name m = last_given (Some name) (\<lambda>c. case c of CName v \<Rightarrow> Some v | _ \<Rightarrow> None) cs"
proof -
  obtain conf where b: "run_calls InitTarget_call cs (InitTarget_config name) = (Ret (), conf)"
      "view_InitTarget conf = described ''InitTarget'' name cs"
    using InitTarget_builder.chain [OF assms] by blast
  have "oma_Name (bt_ObjectMeta (view_InitTarget conf)) = last_given (Some name) (\<lambda>c. case c of CName v \<Rightarrow> Some v | _ \<Rightarrow> None) cs"
    by (simp add: b(2) described_def)
  moreover have "last_given (Some name) (\<lambda>c. case c of CName v \<Rightarrow> Some v | _ \<Rightarrow> None) cs \<noteq> None"
    by (simp add: last_given_def Let_def)
  ultimately show ?thesis using b(1)
    by (cases "itac_ObjectMeta conf") (auto simp: view_InitTarget_def empty_ObjectMeta_def)
qed

lemma built_template_name:
  assumes "list_all nil_free cs"
  shows "\<exists>conf m. run_calls InitTemplate_call cs (InitTemplate_config name) = (Ret (), conf) \<and> itpac_ObjectMeta conf = Some m
    \<and> oma_Name m = last_given (Some name) (\<lambda>c. case c of CName v \<Rightarrow> Some v | _ \<Rightarrow> None) cs"
proof -
  obtain conf where b: "run_calls InitTemplate_call cs (InitTemplate_config name) = (Ret (), conf)"
      "view_InitTemplate conf = described ''InitTemplate'' name cs"
    using InitTemplate_builder.chain [OF assms] by blast
  have "oma_Name (bt_ObjectMeta (view_InitTemplate conf)) = last_given (Some name) (\<lambda>c. case c of CName v \<Rightarrow> Some v | _ \<Rightarrow> None) cs"
    by (simp add: b(2) described_def)
  moreover have "last_given (Some name) (\<lambda>c. case c of CName v \<Rightarrow> Some v | _ \<Rightarrow> None) cs \<noteq> None"
    by (simp add: last_given_def Let_def)
  ultimately show ?thesis using b(1)
    by (cases "itpac_ObjectMeta conf") (auto simp: view_InitTemplate_def empty_ObjectMeta_def)
qed

text \<open>The last name that a chain of calls gives, starting with the one of the constructor.\<close>

definition given_name :: "string \<Rightarrow> ('t, 'o, 's) builder_call list \<Rightarrow> string" where
  "given_name name cs = the (last_given (Some name) (\<lambda>c. case c of CName v \<Rightarrow> Some v | _ \<Rightarrow> None) cs)"

lemma last_given_name: "last_given (Some name) (\<lambda>c. case c of CName v \<Rightarrow> Some v | _ \<Rightarrow> None) cs = Some (given_name name cs)"
  by (simp add: given_name_def last_given_def Let_def)

lemma initTargetsClient_Apply_patch:
  assumes "list_all nil_free cs" and "\<And>conf. Marshal conf = Inr (encode conf)"
  shows "\<exists>conf. run_calls InitTarget_call cs (InitTarget_config name) = (Ret (), conf)
     \<and> initTargetsClient_Apply lib Marshal c (Some conf) s = initTargetsClient_Patch lib c (given_name name cs) ApplyPatchType (encode conf) [] s
     \<and> initTargetsClient_ApplyStatus lib Marshal c (Some conf) s
         = initTargetsClient_Patch lib c (given_name name cs) ApplyPatchType (encode conf) [''status''] s"
proof -
  obtain conf m where "run_calls InitTarget_call cs (InitTarget_config name) = (Ret (), conf)"
    "itac_ObjectMeta conf = Some m" "oma_Name m = Some (given_name name cs)"
    using built_target_name [OF assms(1)] unfolding last_given_name by blast
  then show ?thesis
    by (intro exI [of _ conf]) (simp add: initTargetsClient_Apply_def initTargetsClient_ApplyStatus_def initTargetsClient_Patch_def assms(2))
qed

lemma initTargetsClient_Apply_zero:
  assumes "ForKind (WithKind SchemeGroupVersion ''InitTarget'') = Some (ACInitTarget zero)" and "Marshal zero = Inr data"
  shows "initTargetsClient_Apply lib Marshal c (Some zero) s = (Panic ''nil pointer dereference'', s)
    \<and> initTargetsClient_ApplyStatus lib Marshal c (Some zero) s = (Panic ''nil pointer dereference'', s)"
proof -
  have "itac_ObjectMeta zero = None" using assms(1) by (auto simp: ForKind_def WithKind_def)
  then show ?thesis by (simp add: initTargetsClient_Apply_def initTargetsClient_ApplyStatus_def assms(2))
qed

lemma initTemplatesClient_Apply_patch:
  assumes "list_all nil_free cs" and "\<And>conf. Marshal conf = Inr (encode conf)"
  shows "\<exists>conf. run_calls InitTemplate_call cs (InitTemplate_config name) = (Ret (), conf)
     \<and> initTemplatesClient_Apply lib Marshal c (Some conf) s = initTemplatesClient_Patch lib c (given_name name cs) ApplyPatchType (encode conf) [] s
     \<and> initTemplatesClient_ApplyStatus lib Marshal c (Some conf) s
         = initTemplatesClient_Patch lib c (given_name name cs) ApplyPatchType (encode conf) [''status''] s"
proof -
  obtain conf m where "run_calls InitTemplate_call cs (InitTemplate_config name) = (Ret (), conf)"
    "itpac_ObjectMeta conf = Some m" "oma_Name m = Some (given_name name cs)"
    using built_template_name [OF assms(1)] unfolding last_given_name by blast
  then show ?thesis
    by (intro exI [of _ conf]) (simp add: initTemplatesClient_Apply_def initTemplatesClient_ApplyStatus_def initTemplatesClient_Patch_def assms(2))
qed

lemma initTemplatesClient_Apply_zero:
  assumes "ForKind (WithKind SchemeGroupVersion ''InitTemplate'') = Some (ACInitTemplate zero)" and "Marshal zero = Inr data"
  shows "initTemplatesClient_Apply lib Marshal c (Some zero) s = (Panic ''nil pointer dereference'', s)
    \<and> initTemplatesClient_ApplyStatus lib Marshal c (Some zero) s = (Panic ''nil pointer dereference'', s)"
proof -
  have "itpac_ObjectMeta zero = None" using assms(1) by (auto simp: ForKind_def WithKind_def)
  then show ?thesis by (simp add: initTemplatesClient_Apply_def initTemplatesClient_ApplyStatus_def assms(2))
qed



end
