(* ===== verification/Spec2Isabelle.thy ===== *)
theory Spec2Isabelle
  imports Target_Selection Schemes Go_Context Deep_Copy Informers Clientset Fake_Sessions
begin

text \<open>
  A model of the kcp init-agent and of the Go SDK it ships. The agent watches \<^verbatim>\<open>InitTarget\<close>
  objects in one workspace (\<^verbatim>\<open>--config-workspace\<close>). For each of them it runs an \<^emph>\<open>init controller\<close>, which
  waits for logical clusters of the target's workspace type that still carry the type's initializer,
  renders the target's sources for the cluster, creates the resulting objects in it, and then
  takes the initializer off the cluster.

  \<^bold>\<open>How the parts interact.\<close> \<open>main\<close> parses the options and calls \<open>run\<close>,
  which makes the local manager and registers the target controller. The target controller reads a target; it starts,
  keeps or stops the target's init controller. An init controller reads the target again in each of its
  reconciliations, asks the source factory for a manifests source per entry of \<open>spec.sources\<close>, and hands
  the manifests to the applier. The applier sorts them by hierarchy and creates them. A source is an
  \<^verbatim>\<open>InitTemplate\<close>: a text template read in the cluster of the target, executed with the name
  and the path of the new cluster, and parsed as YAML.

  \<^bold>\<open>Theories and code.\<close>
  \<^item> \<open>Prelude\<close>: errors, results, outcomes with panics, and the lemmas shared by all parts.
    \<open>Go_Strings\<close>: the functions of \<^verbatim>\<open>strings\<close> and \<^verbatim>\<open>slices\<close> the code calls.
  \<^item> \<open>Api_Types\<close>: the types, group, version and resources of \<^verbatim>\<open>sdk/apis/initialization/v1alpha1\<close>.
  \<^item> \<open>Kcp_Client\<close>: \<^verbatim>\<open>internal/kcp\<close>, the cluster in a URL, and a client of another cluster.
  \<^item> \<open>Go_Context\<close>: \<^verbatim>\<open>internal/initialize/context.go\<close> and \<^verbatim>\<open>internal/log/context.go\<close>.
    \<open>Log_Zap\<close>: \<^verbatim>\<open>internal/log/zap.go\<close>.
  \<^item> \<open>Agent_World\<close>: the outside world as explicit state, with the calls made to it recorded in order.
  \<^item> \<open>Manifest_Sort\<close>, \<open>Manifest_Yaml\<close>, \<open>Manifest_Applier\<close>: \<^verbatim>\<open>internal/manifest\<close>.
  \<^item> \<open>Init_Source\<close>: \<^verbatim>\<open>internal/initialize\<close> with its source factory and template source.
  \<^item> \<open>Init_Controller\<close>: \<^verbatim>\<open>internal/controller/initcontroller\<close>. \<open>Reconcile\<close>, \<open>reconcile\<close>,
    \<open>reconcile_sources\<close> (the loop) and \<open>removeInitializer\<close> are the methods of its reconciler.
  \<^item> \<open>Event_Predicate\<close>: \<^verbatim>\<open>internal/controllerutil/predicate\<close>.
  \<^item> \<open>Runs\<close>: runs of a step relation, and a locale for their invariants.
    \<open>Target_Controller\<close>: \<^verbatim>\<open>internal/controller/targetcontroller\<close>. \<open>tc_state\<close> is the reconciler's map
    \<open>ctrlCancels\<close> with the contexts, the waiting cleanup goroutines and the running managers.
    \<open>Target_Lifecycle\<close>: the specification of the controllers' lifecycle, the reconciliations and goroutines as
    its first implementation, and their invariants. \<open>Target_Interleaving\<close>: the second one, at the grain of the accesses to
    \<open>ctrlCancels\<close>, with \<^verbatim>\<open>ctrlLock\<close>.
  \<^item> \<open>Cmd_Options\<close>, \<open>Cmd_Main\<close>: \<^verbatim>\<open>cmd/init-agent\<close>. \<open>Agent_Sample\<close>: one agent with everything
    instantiated, on which the hypotheses of the theorems are shown to hold.
  \<^item> \<open>Cluster_Protocol\<close>: several init controllers on one logical cluster, as a step relation whose steps are the calls that
    \<open>reconcile\<close> makes (reading the target, resolving, rendering and applying one source, the patch), with the contract of
    the shared cluster. \<open>Cluster_Progress\<close>: \<open>Reconcile\<close> as a run of these steps, and the bound on removals.
    \<open>Cluster_Agents\<close>: the agents as the code wires them, under a contract of the API server.
    \<open>Whole_Agent\<close>: the target controller with the parts \<^verbatim>\<open>run\<close> gives it, and the init controllers in the managers
    it starts. \<open>Target_Selection\<close>: the watch events, the label predicate and the queue in front of the target controller.
  \<^item> \<open>Go_Heap\<close>, \<open>Deep_Copy\<close>: pointers and slices on a heap, and \<^verbatim>\<open>zz_generated.deepcopy.go\<close>.
  \<^item> \<open>Informer_Factory\<close>, \<open>Informers\<close>, \<open>Listers\<close>: \<^verbatim>\<open>sdk/informers\<close> and \<^verbatim>\<open>sdk/listers\<close>.
  \<^item> \<open>Apply_Config\<close>: \<^verbatim>\<open>sdk/applyconfiguration\<close>, the builders of declarative configurations.
    \<open>Clientset\<close>: \<^verbatim>\<open>sdk/clientset/versioned\<close> with its typed clients and \<^verbatim>\<open>cluster\<close>, the clientset of many clusters.
    \<open>Fake_Clients\<close>: \<^verbatim>\<open>cluster/fake\<close> and the typed fakes below it, and \<^verbatim>\<open>fake\<close>. \<open>Fake_Sessions\<close>: sequences of calls
    on them. \<open>Schemes\<close>: the packages that register the types.

  \<^bold>\<open>What the lemmas show.\<close> This theory states what the parts give together: the initializer goes
  only when the cluster is initialized, what a reconciliation returns, when it panics, and that a ready cluster is
  initialized. \<open>Cluster_Agents\<close> goes from one reconciliation to the agents of a cluster: the merge patch
  of one agent can undo another's removal, and yet an initializer is gone only after its agent's work, the removals
  are bounded, and the list can always be emptied; \<open>Reconcile\<close> is a run of the protocol.
  \<open>Whole_Agent\<close> traces a running manager back to the target it was built for, and forward to what its
  init controller takes off a cluster, and \<open>Target_Selection\<close> back to a watch event that the selector let in.
  The applier's lemmas describe its calls, their order and that applying again
  changes nothing; the sort's, permutation, order and stability; the parser's, that it returns. For the target
  controller, both grains implement one specification, from which a target has at most one live controller, and one
  that can be stopped. The theorems also show where the code falls short: a target that is gone before its deletion
  was seen keeps its controller, a changed target is ignored, a target that just lost its
  label is started, a manager that ends quietly stays registered, and a
  registration can overlap with a cleanup. For the SDK: deep copies are independent of the original, informers are
  shared and started once, listers agree with the store they read, a chain of builder calls gives the configuration
  its specification describes, which survives the way over JSON into the API types, the clients of one cluster are
  the same by every route, the fake clients are stores and stay well typed, and every scheme knows the types.

  \<^bold>\<open>Interfaces.\<close> Locales state what one part relies on in another: a source factory and its
  manifests sources (\<open>Init_Source\<close>), the reconciler's use of sources and applier
  (\<open>Init_Controller\<close>, interpreted as \<open>agent\<close> in \<open>Cmd_Main\<close>), retargeting of
  configurations (\<open>Kcp_Client\<close>), deep copyable types, pointers and slices (\<open>Go_Heap\<close>),
  invariants of runs (\<open>Runs\<close>), the contract of a builder (\<open>Apply_Config\<close>). Each is
  interpreted on the model's definitions.

  \<^bold>\<open>Parameters.\<close> Code that is not in the repository is an argument of the definitions: the
  clients of controller-runtime, its managers and builders, the YAML decoder, the template engine,
  \<^verbatim>\<open>logicalcluster\<close>, the error tests of apimachinery, the indexers and informers of
  client-go. What a theorem needs of one is a named hypothesis (\<open>hierarchy_sort\<close>: the sort used above
  twelve elements sorts; \<open>create_contract\<close>: an accepted creation makes the object present;
  \<open>cluster_store\<close>: what an indexer holds; \<open>tracker_contract\<close>: what an object tracker
  answers; \<open>cluster_caches\<close>: for which cluster a cached client is made; \<open>cluster_server\<close>:
  only a status patch changes what can be read of a cluster, and it replaces the list;
  \<open>reads_by_name\<close>: a target read by name has this name;
  \<open>scheme_contract\<close>: what a scheme knows after a registration; \<open>merge_patches\<close>: a merge
  patch replaces a list). The test for an unknown kind is an argument in the same way.

  \<^bold>\<open>Loops and bounds.\<close> There is no fuel: the parse loop is a \<open>partial_function
  (option)\<close>, and is proved to return when the decoder consumes its input; all other loops recurse on lists.
  Twelve is the length up to which \<^verbatim>\<open>slices.SortFunc\<close> is an insertion sort. No integer of the
  code is computed with near the limits of its width; they are \<open>int\<close>, the
  \<^verbatim>\<open>int64\<close> fields that builders store are words.

  \<^bold>\<open>Not modelled.\<close> Logging calls; the text that \<^verbatim>\<open>%q\<close> and
  \<^verbatim>\<open>%v\<close> give in messages (a message is its fixed part, and a wrapped error stays visible
  below it); the encoders of zap; the version's variables; the code under \<^verbatim>\<open>test\<close>. A
  builder's pointer to a value it was given is the value, so that a later change of the value by the caller is not
  seen. In \<open>Target_Interleaving\<close> an access to the map is one step, and so are the building of a manager
  and a registration with its two \<^verbatim>\<open>go\<close> statements; in \<open>Cluster_Protocol\<close> the
  application of one source's manifests is one step. Object metadata is a value holding the fields the code reads.
\<close>

subsection \<open>The agent\<close>

text \<open>C1: the initializer is taken off a cluster only when it is initialized. If a reconciliation patches a
  cluster at all, it does so once, with the object it fetched less exactly its own initializer;
  and before that, in this very run, the InitTarget was read, every source of it was resolved, rendered
  for this cluster and applied in this cluster, each object of it with a creation that succeeded or
  found the object. Nothing is created afterwards.\<close>

theorem initializer_removed_only_when_complete:
  assumes "hierarchy_sort (ae_sort env)"
    and "Reconcile (the_reconciler env sf mgr tr name initializer) req w = (out, w')"
    and "CallPatch c old new res \<in> set (new_calls w w')"
  shows "\<exists>pre post. new_calls w w' = pre @ CallPatch c old new res # post
    \<and> (\<forall>ev \<in> set (pre @ post). \<not> is_patch ev) \<and> created post = []
    \<and> (\<exists>err w0 wp. fetch (the_reconciler env sf mgr tr name initializer) req w = (Some (c, err, old), w0)
         \<and> complete_target (the_reconciler env sf mgr tr name initializer) c old w0 wp
         \<and> calls wp = calls w @ pre)
    \<and> initializer \<in> set (lc_Initializers old)
    \<and> new = without_initializer initializer old"
  using init_reconciler.Reconcile_gate [OF agent_init_reconciler_sorted [OF assms(1)] assms(2,3)]
  by simp

lemma sample_sorted: "hierarchy_sort (ae_sort sample_env)"
  using insertion_hierarchy.hierarchy_sort_axioms by (simp add: sample_env_def)

theorem initializer_removed_only_when_complete_witness:
  "\<exists>w0 wp. complete_target sample_init_reconciler 7 sample_lc w0 wp
     \<and> created (calls wp) = [\<lparr>Object = [(''kind'', JStr ''ConfigMap'')]\<rparr>]"
proof -
  let ?w = "sample_server_with sample_lc [''ConfigMap'']"
  let ?r = "Reconcile sample_init_reconciler sample_request ?w"
  have patch: "CallPatch 7 sample_lc (without_initializer ''root:base'' sample_lc) None \<in> set (new_calls ?w (snd ?r))"
    by code_simp
  have created: "created (new_calls ?w (snd ?r)) = [\<lparr>Object = [(''kind'', JStr ''ConfigMap'')]\<rparr>]"
    by code_simp
  have "calls ?w = []" by (simp add: sample_server_with_def)
  with initializer_removed_only_when_complete
      [OF sample_sorted prod.collapse [symmetric] patch [unfolded sample_init_reconciler_def]] created
  show ?thesis unfolding sample_init_reconciler_def by fastforce
qed

text \<open>C2: what a reconciliation returns says what it did. With an error nothing was taken off the cluster
  and there is no delay. Without one, there are three cases: there was nothing to do, and it only read;
  or the initializer was taken off; or it comes back in five seconds, because a kind was not known
  yet, and it patched nothing.\<close>

theorem reconcile_outcomes:
  assumes "hierarchy_sort (ae_sort env)"
    and "Reconcile (the_reconciler env sf mgr tr name initializer) req w = (Ret (result, err), w')"
  shows "case err of
       Some e \<Rightarrow> result = empty_result \<and> (\<forall>c old new. CallPatch c old new None \<notin> set (new_calls w w'))
     | None \<Rightarrow>
         (result = empty_result \<and> nothing_to_do (the_reconciler env sf mgr tr name initializer) req w
            \<and> list_all is_read (new_calls w w'))
       \<or> (result = empty_result \<and> (\<exists>c old new. CallPatch c old new None \<in> set (new_calls w w')))
       \<or> (result = \<lparr>RequeueAfter = 5 * Second\<rparr>
            \<and> (\<exists>c. \<exists>ev \<in> set (new_calls w w'). blocked_create (se_tests (ae_source env)) c ev)
            \<and> (\<forall>ev \<in> set (new_calls w w'). \<not> is_patch ev))"
  using init_reconciler.Reconcile_outcome [OF agent_init_reconciler_sorted [OF assms(1)] assms(2)]
  unfolding agent_reconciler_sel agent_library_sel .

theorem reconcile_outcomes_witness:
  "let w = sample_server_with sample_lc [''Secret'']; res = Reconcile sample_init_reconciler sample_request w
   in fst res = Ret (\<lparr>RequeueAfter = 5 * Second\<rparr>, None)
    \<and> (\<exists>c. \<exists>ev \<in> set (new_calls w (snd res)). blocked_create store_tests c ev)"
proof -
  let ?w = "sample_server_with sample_lc [''Secret'']"
  let ?r = "Reconcile sample_init_reconciler sample_request ?w"
  have r: "fst ?r = Ret (\<lparr>RequeueAfter = 5 * Second\<rparr>, None)" by code_simp
  then have "?r = (Ret (\<lparr>RequeueAfter = 5 * Second\<rparr>, None), snd ?r)" by (metis prod.collapse)
  from reconcile_outcomes [OF sample_sorted this [unfolded sample_init_reconciler_def]]
  have "\<exists>c. \<exists>ev \<in> set (new_calls ?w (snd ?r)). blocked_create (se_tests (ae_source sample_env)) c ev"
    unfolding sample_init_reconciler_def by (simp add: empty_result_def Second_def)
  then show ?thesis using r by (simp add: sample_env_def sample_source_env_def Let_def)
qed



text \<open>C4: progress. When the cluster was fetched without an error and is waiting for this agent (it has a name, the
  initializer and a path), its target can be read, every source resolves and renders, every creation
  succeeds or finds its object and patches succeed, then the reconciliation ends without error or
  delay, and its last call takes the initializer off.\<close>

theorem ready_cluster_is_initialized:
  assumes "fetch (the_reconciler env sf mgr tr name initializer) req w = (Some (c, None, lc), w0)"
    and "meta_Name (lc_ObjectMeta lc) \<noteq> []" and "initializer \<in> set (lc_Initializers lc)"
    and "path_known (ae_source env) lc"
    and "newInitTargetProvider tr name w0 = (Inr target, w1)"
    and "ready_sources (the_reconciler env sf mgr tr name initializer)
      (ClusterNameFromObject (se_lib (ae_source env)) (it_ObjectMeta target)) lc (its_Sources (it_Spec target))"
    and "\<And>obj x. create_ok (se_tests (ae_source env)) (fst (ae_Create env c obj x))"
    and "\<And>old new x. fst (rm_PatchStatus (ae_remote env mgr) c old new x) = None"
  shows "\<exists>w' pre. Reconcile (the_reconciler env sf mgr tr name initializer) req w = (Ret (empty_result, None), w')
    \<and> calls w' = pre @ [CallPatch c lc (without_initializer initializer lc) None]"
proof -
  obtain path where "ClusterPathFromObject (se_lib (ae_source env)) (se_LogicalClusterGVK (ae_source env))
      (lc_ObjectMeta lc) = Ret path"
    using assms(4) by (auto simp: path_known_def returns_iff)
  then show ?thesis
    using Reconcile_ready [OF assms(1), of path target w1] assms(2-) agent_ready_applier [OF assms(7)] by simp
qed

lemma sample_fetch:
  "fetch sample_init_reconciler sample_request (sample_server_with lc kinds)
     = (Some (7, None, lc), snd (fetch sample_init_reconciler sample_request (sample_server_with lc kinds)))"
  by (simp add: fetch_def ext_call_def sample_init_reconciler_def sample_env_def sample_remote_def
      sample_request_def sample_server_with_def)

theorem ready_cluster_is_initialized_witness:
  "\<exists>w' pre. Reconcile (the_reconciler willing_env sample_factory () (sample_tr (\<lambda>c. ())) ''t'' ''root:base'')
       sample_request (sample_server_with sample_lc []) = (Ret (empty_result, None), w')
     \<and> calls w' = pre @ [CallPatch 7 sample_lc (without_initializer ''root:base'' sample_lc) None]"
proof -
  let ?r = "the_reconciler willing_env sample_factory () (sample_tr (\<lambda>c. ())) ''t'' ''root:base''"
  let ?w = "sample_server_with sample_lc []"
  obtain w0 where f: "fetch ?r sample_request ?w = (Some (7, None, sample_lc), w0)"
    by (simp add: fetch_def ext_call_def willing_env_def sample_env_def sample_remote_def
      sample_request_def sample_server_with_def)
  obtain w1 where t: "newInitTargetProvider (sample_tr (\<lambda>c. ())) ''t'' w0 = (Inr sample_init_target, w1)"
    using sample_target_read by blast
  have lc: "meta_Name (lc_ObjectMeta sample_lc) \<noteq> []" "''root:base'' \<in> set (lc_Initializers sample_lc)"
    "path_known (ae_source willing_env) sample_lc"
    by (simp_all add: path_known_def ClusterPathFromObject_Ret_iff sample_lc_def sample_cluster_def
        willing_env_def sample_env_def sample_source_env_def sample_library_def)
  show ?thesis
    by (rule ready_cluster_is_initialized [OF f lc t sample_ready])
      (use lc in \<open>simp_all add: willing_env_def sample_env_def sample_remote_def\<close>)
qed

text \<open>A cluster that does not exist, or does not carry the initializer (any more), is left alone: the
  reconciliation fetches it, returns without error or delay, and makes no other call. So the visit after
  the initializer was taken off does nothing.\<close>

theorem done_cluster_untouched:
  assumes "fetch (the_reconciler env sf mgr tr name initializer) req w = (Some (c, err, lc), w2)"
    and "IgnoreNotFound (se_tests (ae_source env)) err = None"
    and "meta_Name (lc_ObjectMeta lc) = [] \<or> initializer \<notin> set (lc_Initializers lc)"
  shows "Reconcile (the_reconciler env sf mgr tr name initializer) req w = (Ret (empty_result, None), w2)
    \<and> list_all is_read (new_calls w w2)
    \<and> initializer \<notin> set (lc_Initializers (without_initializer initializer lc'))"
proof -
  have "nothing_to_do (the_reconciler env sf mgr tr name initializer) req w"
    using assms unfolding nothing_to_do_def by simp
  from Reconcile_nothing [OF this] assms(1) show ?thesis
    using fetch_reads [of "the_reconciler env sf mgr tr name initializer" req w]
    by (auto simp: without_initializer_def new_callsI)
qed

theorem done_cluster_untouched_witness:
  "fst (Reconcile sample_init_reconciler sample_request
     (sample_server_with (without_initializer ''root:base'' sample_lc) [])) = Ret (empty_result, None)"
proof -
  let ?lc = "without_initializer ''root:base'' sample_lc"
  have e: "IgnoreNotFound (se_tests (ae_source sample_env)) None = None" by (simp add: IgnoreNotFound_def)
  have n: "meta_Name (lc_ObjectMeta ?lc) = [] \<or> ''root:base'' \<notin> set (lc_Initializers ?lc)"
    by (simp add: without_initializer_def)
  show ?thesis
    using done_cluster_untouched [OF sample_fetch [of ?lc "[]", unfolded sample_init_reconciler_def] e n]
    unfolding sample_init_reconciler_def by simp
qed

text \<open>What a successful merge patch of the status does to the stored initializers: a list that the patch
  changes is replaced as a whole.\<close>

definition merge_patches ::
  "('x, 'e, 'c) remote_manager \<Rightarrow> 'c \<Rightarrow> ('x \<Rightarrow> string list) \<Rightarrow> bool" where
  "merge_patches rm c stored \<longleftrightarrow>
     (\<forall>old new x x'. rm_PatchStatus rm c old new x = (None, x') \<longrightarrow>
        lc_Initializers new \<noteq> lc_Initializers old \<longrightarrow> stored x' = lc_Initializers new)"

text \<open>C5: several agents on one cluster. With a server that takes the patch as a merge patch, after a
  reconciliation that took its initializer off the cluster has exactly the initializers that were there when it was
  fetched, less this agent's. What others did to the list in between is lost: an initializer that was taken off by its
  agent meanwhile is back, one that was added is gone.\<close>

theorem patch_writes_fetched_initializers:
  assumes "hierarchy_sort (ae_sort env)" and "merge_patches (ae_remote env mgr) c stored"
    and "Reconcile (the_reconciler env sf mgr tr name initializer) req w = (Ret (result, None), w')"
    and "CallPatch c old new None \<in> set (new_calls w w')"
  shows "stored (ext w') = removeAll initializer (lc_Initializers old)
    \<and> (\<exists>err w0. fetch (the_reconciler env sf mgr tr name initializer) req w = (Some (c, err, old), w0))"
proof -
  obtain err w0 x where f: "fetch (the_reconciler env sf mgr tr name initializer) req w = (Some (c, err, old), w0)"
      "initializer \<in> set (lc_Initializers old)"
      "rm_PatchStatus (ae_remote env mgr) c old (without_initializer initializer old) x = (None, ext w')"
    using init_reconciler.Reconcile_patch_state [OF agent_init_reconciler_sorted [OF assms(1)] assms(3,4)] by auto
  have "removeAll initializer (lc_Initializers old) \<noteq> lc_Initializers old"
    using length_removeAll_less [OF f(2)] by (metis less_irrefl)
  with assms(2) f show ?thesis by (auto simp: merge_patches_def without_initializer_def)
qed

text \<open>The sample server, where the agent of the other initializer finishes while the objects are created.\<close>

definition busy_env :: "(sample_server, nat, nat, unit, string, document list, unit) agent_env" where
  "busy_env = sample_env\<lparr>ae_Create :=
     (\<lambda>c obj x. (None, x\<lparr>srv_cluster := without_initializer ''other'' (srv_cluster x)\<rparr>))\<rparr>"

theorem patch_writes_fetched_initializers_witness:
  "\<exists>w'. Reconcile (the_reconciler busy_env sample_factory () (sample_tr (\<lambda>c. ())) ''t'' ''root:base'')
       sample_request (sample_server_with sample_lc []) = (Ret (empty_result, None), w')
     \<and> lc_Initializers (srv_cluster (ext w')) = [''other'']"
proof -
  let ?r = "the_reconciler busy_env sample_factory () (sample_tr (\<lambda>c. ())) ''t'' ''root:base''"
  let ?w = "sample_server_with sample_lc []"
  let ?run = "Reconcile ?r sample_request ?w"
  have sorted: "hierarchy_sort (ae_sort busy_env)" using sample_sorted by (simp add: busy_env_def)
  have merge: "merge_patches (ae_remote busy_env ()) 7 (\<lambda>x. lc_Initializers (srv_cluster x))"
    by (simp add: merge_patches_def busy_env_def sample_env_def sample_remote_def)
  have run: "fst ?run = Ret (empty_result, None)" by code_simp
  then have eq: "?run = (Ret (empty_result, None), snd ?run)" by (metis prod.collapse)
  have "CallPatch 7 sample_lc (without_initializer ''root:base'' sample_lc) None \<in> set (new_calls ?w (snd ?run))"
    by code_simp
  from patch_writes_fetched_initializers [OF sorted merge eq this]
  have "lc_Initializers (srv_cluster (ext (snd ?run))) = [''other'']"
    by (simp add: sample_lc_def sample_cluster_def)
  with eq show ?thesis by blast
qed

end
